(* ===== verification/Prelude.thy ===== *)
theory Prelude
  imports Main "HOL-Library.Word" "HOL-Library.Signed_Division" "HOL-Library.Multiset"
    "HOL-Library.List_Lexorder" "HOL-Library.Char_ord"
begin

text \<open>
  What the TypeScript components share: thrown errors as values, the parts of the JavaScript
  standard library the sources use (radix conversion, \<open>BigInt(text)\<close>, string operations, stable
  sorting, hex and UTF-8 buffers, ordered maps) and their laws.

  A JavaScript string is a \<open>string\<close>; a \<open>char\<close> stands for a code unit below 256, so the model covers
  Latin-1 text.  Every identifier, amount, key and hash the program handles is of that kind.
  \<open>bigint\<close> is \<open>int\<close>, with \<open>/\<close> and \<open>%\<close> the truncating \<open>sdiv\<close> and \<open>smod\<close>.
\<close>

named_theorems js_lib \<open>laws of the modelled JavaScript library\<close>
named_theorems result_simps \<open>unfolding rules of the error monad\<close>

section \<open>Thrown errors as values\<close>

text \<open>The errors the sources throw; \<open>Status_Error\<close> carries the \<open>statusCode\<close> the API attaches.\<close>

datatype js_error =
    Js_Error string
  | Status_Error nat string
  | Range_Error string
  | Syntax_Error string
  | Type_Error string

type_synonym 'a result = "js_error + 'a"

text \<open>The text of an error in a template string: its class name, a colon and the message.\<close>

fun err_text :: "js_error \<Rightarrow> string" where
  "err_text (Js_Error m) = ''Error: '' @ m"
| "err_text (Status_Error _ m) = ''Error: '' @ m"
| "err_text (Range_Error m) = ''RangeError: '' @ m"
| "err_text (Syntax_Error m) = ''SyntaxError: '' @ m"
| "err_text (Type_Error m) = ''TypeError: '' @ m"

fun err_message :: "js_error \<Rightarrow> string" where
  "err_message (Js_Error m) = m"
| "err_message (Status_Error _ m) = m"
| "err_message (Range_Error m) = m"
| "err_message (Syntax_Error m) = m"
| "err_message (Type_Error m) = m"

definition bindR :: "'a result \<Rightarrow> ('a \<Rightarrow> 'b result) \<Rightarrow> 'b result" where
  "bindR m f = (case m of Inl e \<Rightarrow> Inl e | Inr x \<Rightarrow> f x)"

definition guardR :: "bool \<Rightarrow> js_error \<Rightarrow> unit result" where
  "guardR b e = (if b then Inr () else Inl e)"

text \<open>\<open>xs.map(f)\<close> for a callback that may throw: the first throw ends the map.\<close>

primrec mapR :: "('a \<Rightarrow> 'b result) \<Rightarrow> 'a list \<Rightarrow> 'b list result" where
  "mapR f [] = Inr []"
| "mapR f (x # xs) = bindR (f x) (\<lambda>y. bindR (mapR f xs) (\<lambda>ys. Inr (y # ys)))"

definition is_ok :: "'a result \<Rightarrow> bool" where
  "is_ok r = (case r of Inl _ \<Rightarrow> False | Inr _ \<Rightarrow> True)"

lemma bindR_simps [simp, result_simps]:
  "bindR (Inl e) f = Inl e" "bindR (Inr x) f = f x"
  by (simp_all add: bindR_def)

lemma bindR_Inr_iff [simp]: "bindR m f = Inr y \<longleftrightarrow> (\<exists>x. m = Inr x \<and> f x = Inr y)"
  by (cases m) auto

lemma bindR_Inl_iff: "bindR m f = Inl e \<longleftrightarrow> m = Inl e \<or> (\<exists>x. m = Inr x \<and> f x = Inl e)"
  by (cases m) auto

lemma bindR_split: "P (bindR m f) \<longleftrightarrow> (\<forall>e. m = Inl e \<longrightarrow> P (Inl e)) \<and> (\<forall>x. m = Inr x \<longrightarrow> P (f x))"
  by (cases m) auto

lemma bindR_cong [fundef_cong]:
  "m = m' \<Longrightarrow> (\<And>x. m' = Inr x \<Longrightarrow> f x = f' x) \<Longrightarrow> bindR m f = bindR m' f'"
  by (cases m') auto

lemma guardR_simps [simp, result_simps]:
  "guardR True e = Inr ()" "guardR False e = Inl e"
  "guardR b e = Inr u \<longleftrightarrow> b" "guardR b e = Inl e' \<longleftrightarrow> \<not> b \<and> e' = e"
  by (auto simp: guardR_def)

lemma is_ok_simps [simp]: "is_ok (Inr x)" "\<not> is_ok (Inl e)"
  by (simp_all add: is_ok_def)

lemma mapR_Inr_iff: "mapR f xs = Inr ys \<longleftrightarrow> map f xs = map Inr ys"
  by (induction xs arbitrary: ys) (auto simp: Cons_eq_map_conv)

lemma mapR_length: "mapR f xs = Inr ys \<Longrightarrow> length ys = length xs"
  by (simp add: mapR_Inr_iff) (metis length_map)

lemma mapR_nth: "mapR f xs = Inr ys \<Longrightarrow> i < length xs \<Longrightarrow> f (xs ! i) = Inr (ys ! i)"
  by (simp add: mapR_Inr_iff) (metis length_map nth_map)

lemma mapR_all_Inr: "(\<And>x. x \<in> set xs \<Longrightarrow> f x = Inr (g x)) \<Longrightarrow> mapR f xs = Inr (map g xs)"
  by (induction xs) auto

lemma mapR_Inl_first:
  "mapR f xs = Inl e \<Longrightarrow> \<exists>x \<in> set xs. f x = Inl e"
  by (induction xs) (auto simp: bindR_Inl_iff)

section \<open>Numbers as text\<close>

text \<open>\<open>n.toString(radix)\<close> and its inverse on digit strings.\<close>

function radix_digits :: "nat \<Rightarrow> nat \<Rightarrow> nat list" where
  "radix_digits b n = (if b < 2 \<or> n < b then [n] else radix_digits b (n div b) @ [n mod b])"
  by pat_completeness auto
termination
  by (relation "measure snd") auto

declare radix_digits.simps [simp del]

definition digits_value :: "nat \<Rightarrow> nat list \<Rightarrow> nat" where
  "digits_value b ds = foldl (\<lambda>acc d. acc * b + d) 0 ds"

definition digit_char :: "nat \<Rightarrow> char" where
  "digit_char d = char_of (if d < 10 then 48 + d else 87 + d)"

definition char_digit :: "nat \<Rightarrow> char \<Rightarrow> nat option" where
  "char_digit b c =
    (let k = (of_char c :: nat);
         d = (if 48 \<le> k \<and> k \<le> 57 then k - 48
              else if 97 \<le> k \<and> k \<le> 122 then k - 87
              else if 65 \<le> k \<and> k \<le> 90 then k - 55 else 99)
     in if d < b then Some d else None)"

definition nat_to_radix :: "nat \<Rightarrow> nat \<Rightarrow> string" where
  "nat_to_radix b n = map digit_char (radix_digits b n)"

primrec parse_digits :: "nat \<Rightarrow> string \<Rightarrow> nat list option" where
  "parse_digits b [] = Some []"
| "parse_digits b (c # cs) =
    (case (char_digit b c, parse_digits b cs) of
       (Some d, Some ds) \<Rightarrow> Some (d # ds) | _ \<Rightarrow> None)"

definition parse_radix :: "nat \<Rightarrow> string \<Rightarrow> nat option" where
  "parse_radix b s = (if s = [] then None else map_option (digits_value b) (parse_digits b s))"

lemma radix_digits_nonempty [simp]: "radix_digits b n \<noteq> []"
  by (subst radix_digits.simps) auto

lemma radix_digits_bound: "2 \<le> b \<Longrightarrow> d \<in> set (radix_digits b n) \<Longrightarrow> d < b"
proof (induction b n rule: radix_digits.induct)
  case (1 b n)
  then show ?case
    by (subst (asm) (2) radix_digits.simps) (auto split: if_splits)
qed

lemma digits_value_snoc [simp]: "digits_value b (ds @ [d]) = digits_value b ds * b + d"
  by (simp add: digits_value_def)

lemma digits_value_radix [js_lib]: "digits_value b (radix_digits b n) = n"
proof (induction b n rule: radix_digits.induct)
  case (1 b n)
  then show ?case
    by (cases "b < 2 \<or> n < b") (simp_all add: radix_digits.simps [of b n] digits_value_def)
qed

lemma char_digit_digit_char [simp]: "b \<le> 36 \<Longrightarrow> d < b \<Longrightarrow> char_digit b (digit_char d) = Some d"
  by (simp add: char_digit_def digit_char_def)

lemma parse_digits_map:
  "b \<le> 36 \<Longrightarrow> \<forall>d \<in> set ds. d < b \<Longrightarrow> parse_digits b (map digit_char ds) = Some ds"
  by (induction ds) auto

lemma parse_radix_nat_to_radix [simp]:
  "2 \<le> b \<Longrightarrow> b \<le> 36 \<Longrightarrow> parse_radix b (nat_to_radix b n) = Some n"
  by (simp add: parse_radix_def nat_to_radix_def parse_digits_map radix_digits_bound
      digits_value_radix)

text \<open>\<open>String.prototype.trim\<close> and the white space of \<open>BigInt\<close>'s argument (Latin-1 part).\<close>

definition js_space :: "char \<Rightarrow> bool" where
  "js_space c = (of_char c \<in> {9, 10, 11, 12, 13, 32, 160 :: nat})"

definition js_trim :: "string \<Rightarrow> string" where
  "js_trim s = rev (dropWhile js_space (rev (dropWhile js_space s)))"

text \<open>\<open>x.toString()\<close> and \<open>BigInt(text)\<close>: the empty text is 0, a sign is allowed before decimal
  digits only, and the prefixes \<open>0x\<close>, \<open>0o\<close>, \<open>0b\<close> select the radix.\<close>

definition bigint_to_string :: "int \<Rightarrow> string" where
  "bigint_to_string n =
    (if n < 0 then CHR ''-'' # nat_to_radix 10 (nat (- n)) else nat_to_radix 10 (nat n))"

definition bigint_syntax :: "string \<Rightarrow> int option" where
  "bigint_syntax s =
    (case s of
       [] \<Rightarrow> Some 0
     | c # r \<Rightarrow>
         if c = CHR ''-'' then map_option (\<lambda>n. - int n) (parse_radix 10 r)
         else if c = CHR ''+'' then map_option int (parse_radix 10 r)
         else if c = CHR ''0'' \<and> r \<noteq> [] \<and> hd r \<in> {CHR ''x'', CHR ''X''}
           then map_option int (parse_radix 16 (tl r))
         else if c = CHR ''0'' \<and> r \<noteq> [] \<and> hd r \<in> {CHR ''o'', CHR ''O''}
           then map_option int (parse_radix 8 (tl r))
         else if c = CHR ''0'' \<and> r \<noteq> [] \<and> hd r \<in> {CHR ''b'', CHR ''B''}
           then map_option int (parse_radix 2 (tl r))
         else map_option int (parse_radix 10 s))"

definition BigInt :: "string \<Rightarrow> int result" where
  "BigInt s =
    (case bigint_syntax (js_trim s) of
       Some n \<Rightarrow> Inr n
     | None \<Rightarrow> Inl (Syntax_Error (''Cannot convert '' @ s @ '' to a BigInt'')))"

definition ascii_digit :: "char \<Rightarrow> bool" where
  "ascii_digit c = (48 \<le> (of_char c :: nat) \<and> (of_char c :: nat) \<le> 57)"

lemma nat_to_radix_10_digits: "c \<in> set (nat_to_radix 10 n) \<Longrightarrow> ascii_digit c"
  by (auto simp: nat_to_radix_def ascii_digit_def digit_char_def dest: radix_digits_bound [rotated])

lemma nat_to_radix_nonempty [simp]: "nat_to_radix b n \<noteq> []"
  by (simp add: nat_to_radix_def)

lemma ascii_digit_not_space: "ascii_digit c \<Longrightarrow> \<not> js_space c"
  by (auto simp: ascii_digit_def js_space_def)

lemma dropWhile_none: "(\<And>c. c \<in> set s \<Longrightarrow> \<not> Q c) \<Longrightarrow> dropWhile Q s = s"
  by (cases s) auto

lemma js_trim_id: "(\<And>c. c \<in> set s \<Longrightarrow> \<not> js_space c) \<Longrightarrow> js_trim s = s"
  unfolding js_trim_def by (subst (1 2) dropWhile_none) auto

lemma ascii_digit_signs [simp]:
  "\<not> ascii_digit CHR ''-''" "\<not> ascii_digit CHR ''+''" "\<not> ascii_digit CHR ''x''"
  "\<not> ascii_digit CHR ''X''" "\<not> ascii_digit CHR ''o''" "\<not> ascii_digit CHR ''O''"
  "\<not> ascii_digit CHR ''b''" "\<not> ascii_digit CHR ''B''"
  by (simp_all add: ascii_digit_def)

lemma bigint_syntax_decimal:
  assumes "s \<noteq> []" and "\<And>c. c \<in> set s \<Longrightarrow> ascii_digit c"
  shows "bigint_syntax s = map_option int (parse_radix 10 s)"
proof -
  obtain c r where s: "s = c # r" using assms(1) by (cases s) auto
  have "ascii_digit c" using assms(2) s by simp
  then have c: "c \<noteq> CHR ''-''" "c \<noteq> CHR ''+''" by auto
  have "hd r \<notin> {CHR ''x'', CHR ''X''} \<and> hd r \<notin> {CHR ''o'', CHR ''O''}
    \<and> hd r \<notin> {CHR ''b'', CHR ''B''}" if "r \<noteq> []"
  proof -
    have "ascii_digit (hd r)" using assms(2) s that by simp
    then show ?thesis using ascii_digit_signs by (metis empty_iff insert_iff)
  qed
  with c show ?thesis
    by (cases "r = []") (simp_all add: s bigint_syntax_def)
qed

lemma BigInt_bigint_to_string [simp, js_lib]: "BigInt (bigint_to_string n) = Inr n"
proof (cases "n < 0")
  case True
  have "js_trim (CHR ''-'' # nat_to_radix 10 (nat (- n))) = CHR ''-'' # nat_to_radix 10 (nat (- n))"
    by (rule js_trim_id)
      (use nat_to_radix_10_digits ascii_digit_not_space in \<open>auto simp: js_space_def [of "CHR ''-''"]\<close>)
  with True show ?thesis
    by (simp add: BigInt_def bigint_to_string_def bigint_syntax_def)
next
  case False
  have "js_trim (nat_to_radix 10 (nat n)) = nat_to_radix 10 (nat n)"
    by (rule js_trim_id) (blast dest: nat_to_radix_10_digits ascii_digit_not_space)
  moreover have "bigint_syntax (nat_to_radix 10 (nat n)) = Some n"
    using False by (subst bigint_syntax_decimal) (auto dest: nat_to_radix_10_digits)
  ultimately show ?thesis
    using False by (simp add: BigInt_def bigint_to_string_def)
qed

lemma inj_bigint_to_string: "inj bigint_to_string"
  by (rule injI) (metis BigInt_bigint_to_string sum.inject(2))

section \<open>Stable sorting\<close>

text \<open>\<open>xs.sort(cmp)\<close>: a stable sort that consults only whether the comparator is negative.\<close>

primrec sort_insert :: "('a \<Rightarrow> 'a \<Rightarrow> int) \<Rightarrow> 'a \<Rightarrow> 'a list \<Rightarrow> 'a list" where
  "sort_insert cmp x [] = [x]"
| "sort_insert cmp x (y # ys) = (if cmp y x < 0 then y # sort_insert cmp x ys else x # y # ys)"

definition js_sort :: "('a \<Rightarrow> 'a \<Rightarrow> int) \<Rightarrow> 'a list \<Rightarrow> 'a list" where
  "js_sort cmp xs = foldr (sort_insert cmp) xs []"

lemma mset_sort_insert [simp]: "mset (sort_insert cmp x ys) = add_mset x (mset ys)"
  by (induction ys) auto

lemma mset_js_sort [simp, js_lib]: "mset (js_sort cmp xs) = mset xs"
  by (induction xs) (auto simp: js_sort_def)

lemma set_js_sort [simp]: "set (js_sort cmp xs) = set xs"
  by (metis mset_js_sort set_mset_mset)

lemma length_js_sort [simp]: "length (js_sort cmp xs) = length xs"
  by (metis mset_js_sort size_mset)

lemma js_sort_key:
  fixes key :: "'a \<Rightarrow> 'k :: linorder"
  assumes "\<And>x y. cmp x y < 0 \<longleftrightarrow> key x < key y"
  shows "js_sort cmp xs = sort_key key xs"
proof -
  have "sort_insert cmp x ys = insort_key key x ys" for x ys
    by (induction ys) (auto simp: assms)
  then have "sort_insert cmp = insort_key key" by blast
  then show ?thesis by (simp add: js_sort_def sort_key_def)
qed

lemma sort_key_mset_eq:
  fixes key :: "'a \<Rightarrow> 'k :: linorder"
  assumes "mset xs = mset ys" and "inj_on key (set xs)"
  shows "sort_key key xs = sort_key key ys"
  using assms by (intro sort_key_inj_key_eq) simp_all

section \<open>Buffers\<close>

type_synonym byte = "8 word"
type_synonym bytes = "8 word list"

definition byte_of :: "nat \<Rightarrow> byte" where
  "byte_of n = word_of_nat n"

text \<open>\<open>Buffer.toString("hex")\<close> and \<open>Buffer.from(text, "hex")\<close>; the latter stops at the first pair
  that is not hexadecimal and drops a trailing half.\<close>

definition byte_hex :: "byte \<Rightarrow> string" where
  "byte_hex b = [digit_char (unat b div 16), digit_char (unat b mod 16)]"

definition hex_encode :: "bytes \<Rightarrow> string" where
  "hex_encode bs = concat (map byte_hex bs)"

fun hex_decode :: "string \<Rightarrow> bytes" where
  "hex_decode (a # b # r) =
    (case (char_digit 16 a, char_digit 16 b) of
       (Some x, Some y) \<Rightarrow> byte_of (16 * x + y) # hex_decode r | _ \<Rightarrow> [])"
| "hex_decode _ = []"

lemma unat_byte_lt: "unat (b :: byte) < 256"
proof -
  have "unat b < 2 ^ LENGTH(8)" by (rule unsigned_less)
  then show ?thesis by simp
qed

lemma unat_byte_of [simp]: "n < 256 \<Longrightarrow> unat (byte_of n) = n"
  by (simp add: byte_of_def unat_of_nat)

lemma byte_of_unat [simp]: "byte_of (unat b) = b"
  by (simp add: byte_of_def)

lemma byte_nibbles: "byte_of (16 * (unat b div 16) + unat b mod 16) = b"
  by (simp only: mult_div_mod_eq byte_of_unat)

lemma hex_decode_encode [simp, js_lib]: "hex_decode (hex_encode bs) = bs"
proof (induction bs)
  case (Cons b bs)
  have "unat b div 16 < 16" using unat_byte_lt [of b] by simp
  with Cons show ?case
    using byte_nibbles [of b] by (simp add: hex_encode_def byte_hex_def)
qed (simp add: hex_encode_def)

lemma inj_hex_encode: "inj hex_encode"
  by (rule inj_on_inverseI [of _ hex_decode]) simp

lemma length_hex_encode [simp]: "length (hex_encode bs) = 2 * length bs"
  by (induction bs) (auto simp: hex_encode_def byte_hex_def)

text \<open>A buffer as the list of its hexadecimal digits.\<close>

definition nibbles :: "bytes \<Rightarrow> nat list" where
  "nibbles bs = concat (map (\<lambda>b. [unat b div 16, unat b mod 16]) bs)"

lemma hex_encode_nibbles: "hex_encode bs = map digit_char (nibbles bs)"
  by (induction bs) (simp_all add: hex_encode_def nibbles_def byte_hex_def)

lemma unat_byte_div [simp]: "unat (b :: byte) div 16 < 16"
  using unat_byte_lt [of b] by simp

lemma nibbles_bound: "d \<in> set (nibbles bs) \<Longrightarrow> d < 16"
  by (induction bs) (auto simp: nibbles_def)

lemma length_nibbles [simp]: "length (nibbles bs) = 2 * length bs"
  by (induction bs) (auto simp: nibbles_def)

lemma js_space_digit: "d < 16 \<Longrightarrow> \<not> js_space (digit_char d)"
  by (auto simp: js_space_def digit_char_def)

lemma digits_value_bound:
  "(\<And>d. d \<in> set ds \<Longrightarrow> d < b) \<Longrightarrow> digits_value b ds < b ^ length ds"
proof (induction ds rule: rev_induct)
  case (snoc d ds)
  then have "digits_value b ds + 1 \<le> b ^ length ds" "d < b" by auto
  then have "(digits_value b ds + 1) * b \<le> b ^ length ds * b" by (simp only: mult_le_mono1)
  with \<open>d < b\<close> show ?case by (simp add: mult.commute)
qed (simp add: digits_value_def)

lemma radix_inject:
  fixes b d e x y :: nat
  assumes "d < b" "e < b"
  shows "x * b + d = y * b + e \<longleftrightarrow> x = y \<and> d = e"
proof
  assume eq: "x * b + d = y * b + e"
  have "(x * b + d) div b = x" "(y * b + e) div b = y" "(x * b + d) mod b = d" "(y * b + e) mod b = e"
    using assms by simp_all
  with eq show "x = y \<and> d = e" by metis
qed simp

lemma digits_value_inject:
  "length ds = length es \<Longrightarrow> (\<And>d. d \<in> set ds \<union> set es \<Longrightarrow> d < b) \<Longrightarrow>
   digits_value b ds = digits_value b es \<longleftrightarrow> ds = es"
proof (induction ds arbitrary: es rule: rev_induct)
  case (snoc d ds)
  obtain e es' where es: "es = es' @ [e]" using snoc.prems(1) by (cases es rule: rev_cases) auto
  have "d < b" "e < b" using snoc.prems(2) es by auto
  then have "digits_value b (ds @ [d]) = digits_value b es \<longleftrightarrow>
      digits_value b ds = digits_value b es' \<and> d = e"
    unfolding es digits_value_snoc by (rule radix_inject)
  then show ?case using snoc es by auto
qed simp

text \<open>\<open>Buffer.from(text)\<close> and \<open>buffer.toString()\<close>: UTF-8, on Latin-1 text.\<close>

definition utf8_char :: "char \<Rightarrow> bytes" where
  "utf8_char c =
    (let k = (of_char c :: nat)
     in if k < 128 then [byte_of k] else [byte_of (192 + k div 64), byte_of (128 + k mod 64)])"

definition utf8_encode :: "string \<Rightarrow> bytes" where
  "utf8_encode s = concat (map utf8_char s)"

fun utf8_decode :: "bytes \<Rightarrow> string option" where
  "utf8_decode [] = Some []"
| "utf8_decode (b # bs) =
    (if unat b < 128 then map_option ((#) (char_of (unat b))) (utf8_decode bs)
     else if 194 \<le> unat b \<and> unat b < 196 then
       (case bs of
          c # cs \<Rightarrow> if 128 \<le> unat c \<and> unat c < 192
                    then map_option ((#) (char_of ((unat b - 192) * 64 + (unat c - 128)))) (utf8_decode cs)
                    else None
        | [] \<Rightarrow> None)
     else None)"

lemma of_char_lt: "of_char c < (256 :: nat)"
  by simp

lemma utf8_decode_encode [simp, js_lib]: "utf8_decode (utf8_encode s) = Some s"
proof (induction s)
  case (Cons c s)
  define k where "k = (of_char c :: nat)"
  have k: "k < 256" and c: "char_of k = c"
    by (simp_all add: k_def)
  show ?case
  proof (cases "k < 128")
    case True
    with Cons c show ?thesis
      by (simp add: utf8_encode_def utf8_char_def k_def [symmetric])
  next
    case False
    have "2 \<le> k div 64" "k div 64 < 4" using False k by auto
    moreover have "k div 64 * 64 + k mod 64 = k" by simp
    ultimately show ?thesis
      using False Cons c
      by (simp add: utf8_encode_def utf8_char_def k_def [symmetric])
  qed
qed (simp add: utf8_encode_def)

lemma inj_utf8_encode: "inj utf8_encode"
  by (rule injI) (metis option.inject utf8_decode_encode)

section \<open>Codecs\<close>

text \<open>The contract of every encoder the sources ship together with a decoder, and what it gives:
  equal encodings come from equal values, and a value is recovered from any map that contains it.\<close>

locale codec =
  fixes enc :: "'a \<Rightarrow> 'b" and dec :: "'b \<Rightarrow> 'a option"
  assumes dec_enc: "dec (enc x) = Some x"
begin

lemma enc_inject: "enc x = enc y \<longleftrightarrow> x = y"
  by (metis dec_enc option.inject)

lemma inj_enc: "inj enc"
  by (rule injI) (simp add: enc_inject)

lemma hash_binding: "inj_on h (range enc) \<Longrightarrow> h (enc x) = h (enc y) \<longleftrightarrow> x = y"
  by (auto simp: inj_on_def enc_inject)

end

interpretation hex: codec hex_encode "\<lambda>s. Some (hex_decode s)"
  by unfold_locales simp

interpretation utf8: codec utf8_encode utf8_decode
  by unfold_locales simp

interpretation decimal: codec bigint_to_string "\<lambda>s. case BigInt s of Inl _ \<Rightarrow> None | Inr n \<Rightarrow> Some n"
  by unfold_locales simp

section \<open>Lists\<close>

lemma find_snoc:
  "find Q (xs @ [x]) = (case find Q xs of None \<Rightarrow> if Q x then Some x else None | Some y \<Rightarrow> Some y)"
  by (induction xs) auto

section \<open>Strings\<close>

definition starts_with :: "string \<Rightarrow> string \<Rightarrow> bool" where
  "starts_with s p = (take (length p) s = p)"

definition pad_start :: "nat \<Rightarrow> char \<Rightarrow> string \<Rightarrow> string" where
  "pad_start n c s = replicate (n - length s) c @ s"

text \<open>\<open>s.split(c)\<close> for a one-character separator and \<open>xs.join(sep)\<close>.\<close>

fun js_split :: "char \<Rightarrow> string \<Rightarrow> string list" where
  "js_split c [] = [[]]"
| "js_split c (x # xs) =
    (if x = c then [] # js_split c xs
     else case js_split c xs of y # ys \<Rightarrow> (x # y) # ys | [] \<Rightarrow> [[x]])"

fun js_join :: "string \<Rightarrow> string list \<Rightarrow> string" where
  "js_join sep [] = []"
| "js_join sep [x] = x"
| "js_join sep (x # xs) = x @ sep @ js_join sep xs"

lemma js_split_nonempty [simp]: "js_split c s \<noteq> []"
  by (induction s) (auto split: list.splits)

lemma js_split_no_sep: "c \<notin> set s \<Longrightarrow> js_split c s = [s]"
  by (induction s) auto

lemma js_split_append: "c \<notin> set s \<Longrightarrow> js_split c (s @ c # t) = s # js_split c t"
  by (induction s) auto

lemma js_split_join:
  "xs \<noteq> [] \<Longrightarrow> (\<And>x. x \<in> set xs \<Longrightarrow> c \<notin> set x) \<Longrightarrow> js_split c (js_join [c] xs) = xs"
  by (induction "[c]" xs rule: js_join.induct) (auto simp: js_split_no_sep js_split_append)

lemma js_join_inject:
  assumes "xs \<noteq> []" "ys \<noteq> []" "\<And>x. x \<in> set xs \<union> set ys \<Longrightarrow> c \<notin> set x"
  shows "js_join [c] xs = js_join [c] ys \<longleftrightarrow> xs = ys"
  using assms by (metis UnCI js_split_join)

end
