(* ===== verification/Json.thy ===== *)
theory Json
  imports Prelude
begin

text \<open>
  \<open>JSON.stringify\<close> and \<open>JSON.parse\<close>, which the components use to frame what they encrypt, hash and
  store.  Object members keep their insertion order, numbers are the integers the program puts on
  the wire, and text is Latin-1.  The main fact is the round trip, which makes \<open>stringify\<close>
  injective: the hashes computed over it bind every member.
\<close>

datatype json =
    JNull
  | JBool bool
  | JNum int
  | JStr string
  | JArr "json list"
  | JObj "(string \<times> json) list"

section \<open>Printing\<close>

definition esc_char :: "char \<Rightarrow> string" where
  "esc_char c =
    (if c = CHR 0x22 then [CHR 0x5C, CHR 0x22]
     else if c = CHR 0x5C then [CHR 0x5C, CHR 0x5C]
     else if c = CHR 0x08 then [CHR 0x5C, CHR ''b'']
     else if c = CHR 0x09 then [CHR 0x5C, CHR ''t'']
     else if c = CHR 0x0A then [CHR 0x5C, CHR ''n'']
     else if c = CHR 0x0C then [CHR 0x5C, CHR ''f'']
     else if c = CHR 0x0D then [CHR 0x5C, CHR ''r'']
     else if (of_char c :: nat) < 32 then
       [CHR 0x5C, CHR ''u'', CHR ''0'', CHR ''0'', digit_char (of_char c div 16), digit_char (of_char c mod 16)]
     else [c])"

definition json_quote :: "string \<Rightarrow> string" where
  "json_quote s = CHR 0x22 # concat (map esc_char s) @ [CHR 0x22]"

fun stringify :: "json \<Rightarrow> string" where
  "stringify JNull = ''null''"
| "stringify (JBool b) = (if b then ''true'' else ''false'')"
| "stringify (JNum n) = bigint_to_string n"
| "stringify (JStr s) = json_quote s"
| "stringify (JArr js) = ''['' @ js_join '','' (map stringify js) @ '']''"
| "stringify (JObj ms) = ''{'' @ js_join '','' (map (\<lambda>(k, v). json_quote k @ '':'' @ stringify v) ms) @ ''}''"

section \<open>Parsing\<close>

definition json_ws :: "char \<Rightarrow> bool" where
  "json_ws c = (c \<in> {CHR 0x20, CHR 0x09, CHR 0x0A, CHR 0x0D})"

definition skip_ws :: "string \<Rightarrow> string" where
  "skip_ws s = dropWhile json_ws s"

definition simple_escape :: "char \<Rightarrow> char option" where
  "simple_escape c =
    map_of [(CHR 0x22, CHR 0x22), (CHR 0x5C, CHR 0x5C), (CHR ''/'', CHR ''/''), (CHR ''b'', CHR 0x08),
      (CHR ''t'', CHR 0x09), (CHR ''n'', CHR 0x0A), (CHR ''f'', CHR 0x0C), (CHR ''r'', CHR 0x0D)] c"

definition cons_fst :: "'a \<Rightarrow> ('a list \<times> 'b) option \<Rightarrow> ('a list \<times> 'b) option" where
  "cons_fst x r = map_option (\<lambda>(xs, y). (x # xs, y)) r"

fun parse_str :: "string \<Rightarrow> (string \<times> string) option" where
  "parse_str [] = None"
| "parse_str (c # r) =
    (if c = CHR 0x22 then Some ([], r)
     else if c = CHR 0x5C then
       (case r of
          [] \<Rightarrow> None
        | e # r' \<Rightarrow>
            if e = CHR ''u'' then
              (case r' of
                 h1 # h2 # h3 # h4 # r'' \<Rightarrow>
                   (case parse_radix 16 [h1, h2, h3, h4] of
                      Some v \<Rightarrow> if v < 256 then cons_fst (char_of v) (parse_str r'') else None
                    | None \<Rightarrow> None)
               | _ \<Rightarrow> None)
            else (case simple_escape e of Some d \<Rightarrow> cons_fst d (parse_str r') | None \<Rightarrow> None))
     else if (of_char c :: nat) < 32 then None
     else cons_fst c (parse_str r))"

definition parse_num :: "string \<Rightarrow> (json \<times> string) option" where
  "parse_num s =
    (let neg = (s \<noteq> [] \<and> hd s = CHR ''-''); t = (if neg then tl s else s);
         ds = takeWhile ascii_digit t; rest = dropWhile ascii_digit t
     in if 1 < length ds \<and> hd ds = CHR ''0'' then None
        else map_option (\<lambda>n. (JNum (if neg then - int n else int n), rest)) (parse_radix 10 ds))"

fun parse_val :: "nat \<Rightarrow> string \<Rightarrow> (json \<times> string) option"
  and parse_elems :: "nat \<Rightarrow> string \<Rightarrow> (json list \<times> string) option"
  and parse_members :: "nat \<Rightarrow> string \<Rightarrow> ((string \<times> json) list \<times> string) option" where
  "parse_val 0 s = None"
| "parse_val (Suc n) s =
    (case skip_ws s of
       [] \<Rightarrow> None
     | c # r \<Rightarrow>
         if c = CHR 0x22 then map_option (\<lambda>(t, u). (JStr t, u)) (parse_str r)
         else if c = CHR ''['' then
           (if starts_with (skip_ws r) '']'' then Some (JArr [], tl (skip_ws r))
            else map_option (\<lambda>(js, u). (JArr js, u)) (parse_elems n r))
         else if c = CHR ''{'' then
           (if starts_with (skip_ws r) ''}'' then Some (JObj [], tl (skip_ws r))
            else map_option (\<lambda>(ms, u). (JObj ms, u)) (parse_members n r))
         else if starts_with (c # r) ''null'' then Some (JNull, drop 4 (c # r))
         else if starts_with (c # r) ''true'' then Some (JBool True, drop 4 (c # r))
         else if starts_with (c # r) ''false'' then Some (JBool False, drop 5 (c # r))
         else parse_num (c # r))"
| "parse_elems 0 s = None"
| "parse_elems (Suc n) s =
    (case parse_val n s of
       None \<Rightarrow> None
     | Some (v, u) \<Rightarrow>
         (case skip_ws u of
            [] \<Rightarrow> None
          | c # w \<Rightarrow>
              if c = CHR '','' then cons_fst v (parse_elems n w)
              else if c = CHR '']'' then Some ([v], w) else None))"
| "parse_members 0 s = None"
| "parse_members (Suc n) s =
    (case skip_ws s of
       [] \<Rightarrow> None
     | q # r \<Rightarrow>
         if q \<noteq> CHR 0x22 then None
         else (case parse_str r of
                 None \<Rightarrow> None
               | Some (k, u) \<Rightarrow>
                   if \<not> starts_with (skip_ws u) '':'' then None
                   else (case parse_val n (tl (skip_ws u)) of
                           None \<Rightarrow> None
                         | Some (v, u') \<Rightarrow>
                             (case skip_ws u' of
                                [] \<Rightarrow> None
                              | c # w \<Rightarrow>
                                  if c = CHR '','' then cons_fst (k, v) (parse_members n w)
                                  else if c = CHR ''}'' then Some ([(k, v)], w) else None))))"

definition json_parse :: "string \<Rightarrow> json result" where
  "json_parse s =
    (case parse_val (2 * length s + 1) s of
       Some (j, rest) \<Rightarrow>
         if skip_ws rest = [] then Inr j else Inl (Syntax_Error ''Unexpected non-whitespace character'')
     | None \<Rightarrow> Inl (Syntax_Error ''Unexpected token''))"

text \<open>Member access \<open>o.k\<close>: the last member of that name wins; \<open>None\<close> is \<open>undefined\<close>.\<close>

definition json_get :: "string \<Rightarrow> json \<Rightarrow> json option" where
  "json_get k j = (case j of JObj ms \<Rightarrow> map_of (rev ms) k | _ \<Rightarrow> None)"

text \<open>\<open>BigInt(v)\<close> of a parsed value.\<close>

definition BigInt_json :: "json option \<Rightarrow> int result" where
  "BigInt_json v =
    (case v of
       Some (JStr s) \<Rightarrow> BigInt s
     | Some (JNum n) \<Rightarrow> Inr n
     | Some (JBool b) \<Rightarrow> Inr (if b then 1 else 0)
     | Some (JArr _) \<Rightarrow> Inl (Syntax_Error ''Cannot convert to a BigInt'')
     | Some (JObj _) \<Rightarrow> Inl (Syntax_Error ''Cannot convert to a BigInt'')
     | _ \<Rightarrow> Inl (Type_Error ''Cannot convert to a BigInt''))"

section \<open>The round trip\<close>

lemma cons_fst_Some [simp]: "cons_fst x (Some (xs, y)) = Some (x # xs, y)"
  by (simp add: cons_fst_def)

lemma nat_of_control: "(of_char c :: nat) < 32 \<Longrightarrow> digits_value 16 [0, 0, of_char c div 16, of_char c mod 16] = of_char c"
  by (simp add: digits_value_def)

lemma parse_str_esc: "parse_str (esc_char c @ r) = cons_fst c (parse_str r)"
proof -
  have d: "char_digit 16 CHR ''0'' = Some 0" by code_simp
  have "parse_radix 16 [CHR ''0'', CHR ''0'', digit_char (of_char c div 16), digit_char (of_char c mod 16)]
      = Some (of_char c)" if "(of_char c :: nat) < 32"
    using that nat_of_control [OF that] by (simp add: parse_radix_def d)
  then show ?thesis
    by (auto simp: esc_char_def simple_escape_def)
qed

lemma parse_str_quote: "parse_str (concat (map esc_char s) @ CHR 0x22 # r) = Some (s, r)"
  by (induction s) (auto simp: parse_str_esc simp del: parse_str.simps(2), simp)

definition value_end :: "string \<Rightarrow> bool" where
  "value_end r = (r = [] \<or> \<not> ascii_digit (hd r))"

lemma value_end_simps [simp]:
  "value_end []" "value_end (CHR '','' # r)" "value_end (CHR '']'' # r)" "value_end (CHR ''}'' # r)"
  by (auto simp: value_end_def ascii_digit_def)

lemma takeWhile_digits:
  "\<forall>c \<in> set ds. ascii_digit c \<Longrightarrow> value_end r \<Longrightarrow>
   takeWhile ascii_digit (ds @ r) = ds \<and> dropWhile ascii_digit (ds @ r) = r"
  by (cases r) (auto simp: value_end_def)

lemma radix_digits_head: "2 \<le> b \<Longrightarrow> hd (radix_digits b n) = 0 \<Longrightarrow> n = 0"
proof (induction b n rule: radix_digits.induct)
  case (1 b n)
  show ?case
  proof (cases "n < b")
    case True
    then show ?thesis using 1(3) by (simp add: radix_digits.simps [of b n])
  next
    case False
    have "hd (radix_digits b (n div b)) = 0"
      using 1(2,3) False by (simp add: radix_digits.simps [of b n])
    then have "n div b = 0" using 1(1,2) False by simp
    then show ?thesis using False 1(2) by (simp add: div_eq_0_iff)
  qed
qed

lemma nat_to_radix_no_leading_zero: "1 < length (nat_to_radix 10 n) \<Longrightarrow> hd (nat_to_radix 10 n) \<noteq> CHR ''0''"
proof
  assume len: "1 < length (nat_to_radix 10 n)" and zero: "hd (nat_to_radix 10 n) = CHR ''0''"
  have lt: "hd (radix_digits 10 n) < 10" by (rule radix_digits_bound [of 10 _ n]) auto
  have "digit_char 0 = CHR ''0''" by code_simp
  then have "digit_char (hd (radix_digits 10 n)) = digit_char 0"
    using zero by (simp add: nat_to_radix_def hd_map)
  then have "char_digit 10 (digit_char (hd (radix_digits 10 n))) = char_digit 10 (digit_char 0)" by simp
  with lt have "hd (radix_digits 10 n) = 0" by (subst (asm) (1 2) char_digit_digit_char) auto
  then have "n = 0" using radix_digits_head [of 10 n] by simp
  with len show False by (simp add: nat_to_radix_def radix_digits.simps)
qed

lemma parse_num_print:
  assumes "value_end r"
  shows "parse_num (bigint_to_string n @ r) = Some (JNum n, r)"
proof -
  let ?ds = "\<lambda>m. nat_to_radix 10 m"
  have t: "takeWhile ascii_digit (?ds m @ r) = ?ds m" "dropWhile ascii_digit (?ds m @ r) = r" for m
    using takeWhile_digits [of "?ds m" r] assms nat_to_radix_10_digits by auto
  have h: "hd (?ds m) \<noteq> CHR ''-''" for m
    using nat_to_radix_10_digits [of "hd (?ds m)" m] by auto
  have z: "\<not> (1 < length (?ds m) \<and> hd (?ds m) = CHR ''0'')" for m
    using nat_to_radix_no_leading_zero by blast
  show ?thesis
    by (cases "n < 0") (use z in \<open>auto simp: parse_num_def bigint_to_string_def Let_def t h\<close>)
qed

lemma bigint_to_string_head:
  obtains c r where "bigint_to_string n = c # r" "c = CHR ''-'' \<or> ascii_digit c"
proof (cases "n < 0")
  case True
  then show thesis using that by (simp add: bigint_to_string_def)
next
  case False
  obtain c r where cr: "nat_to_radix 10 (nat n) = c # r" by (cases "nat_to_radix 10 (nat n)") auto
  then have "ascii_digit c" using nat_to_radix_10_digits [of c "nat n"] by simp
  with that cr False show thesis by (simp add: bigint_to_string_def)
qed

lemma parse_val_num:
  assumes "value_end r"
  shows "parse_val (Suc k) (bigint_to_string n @ r) = Some (JNum n, r)"
proof -
  obtain c t where ct: "bigint_to_string n = c # t" "c = CHR ''-'' \<or> ascii_digit c"
    by (rule bigint_to_string_head)
  have c: "\<not> json_ws c" "c \<noteq> CHR 0x22" "c \<noteq> CHR ''[''" "c \<noteq> CHR ''{''" "c \<noteq> CHR ''n''"
    "c \<noteq> CHR ''t''" "c \<noteq> CHR ''f''"
    using ct(2) by (auto simp: json_ws_def ascii_digit_def)
  have "parse_val (Suc k) (bigint_to_string n @ r) = parse_num (bigint_to_string n @ r)"
    using c by (simp add: ct(1) skip_ws_def starts_with_def)
  with parse_num_print [OF assms] show ?thesis by simp
qed

lemma stringify_head:
  obtains c t where "stringify j = c # t" "\<not> json_ws c" "c \<noteq> CHR '']''" "c \<noteq> CHR ''}''"
proof (cases j)
  case (JNum n)
  obtain c t where ct: "bigint_to_string n = c # t" "c = CHR ''-'' \<or> ascii_digit c"
    by (rule bigint_to_string_head)
  then have "\<not> json_ws c" "c \<noteq> CHR '']''" "c \<noteq> CHR ''}''" by (auto simp: json_ws_def ascii_digit_def)
  with JNum ct show thesis using that by simp
next
  case (JBool b)
  then show thesis using that by (cases b) (auto simp: json_ws_def)
qed (use that in \<open>auto simp: json_quote_def json_ws_def split: if_splits\<close>)

lemma skip_ws_id [simp]: "\<not> json_ws c \<Longrightarrow> skip_ws (c # t) = c # t"
  by (simp add: skip_ws_def)

lemma json_ws_marks [simp]:
  "\<not> json_ws CHR '',''" "\<not> json_ws CHR '':''" "\<not> json_ws CHR ''[''" "\<not> json_ws CHR '']''"
  "\<not> json_ws CHR ''{''" "\<not> json_ws CHR ''}''" "\<not> json_ws CHR 0x22" "\<not> json_ws CHR ''n''"
  "\<not> json_ws CHR ''t''" "\<not> json_ws CHR ''f''"
  by (simp_all add: json_ws_def)

definition parses :: "json \<Rightarrow> bool" where
  "parses j \<longleftrightarrow> (\<forall>n r. 2 * length (stringify j) \<le> n \<and> value_end r \<longrightarrow> parse_val n (stringify j @ r) = Some (j, r))"

lemma parsesD:
  "parses j \<Longrightarrow> 2 * length (stringify j) \<le> n \<Longrightarrow> value_end r \<Longrightarrow> parse_val n (stringify j @ r) = Some (j, r)"
  by (simp add: parses_def)

lemma parse_elems_print:
  "js \<noteq> [] \<Longrightarrow> \<forall>j \<in> set js. parses j \<Longrightarrow> 2 * length (js_join '','' (map stringify js)) + 1 \<le> n \<Longrightarrow>
   parse_elems n (js_join '','' (map stringify js) @ CHR '']'' # r) = Some (js, r)"
proof (induction js arbitrary: n)
  case (Cons j js)
  obtain m where n: "n = Suc m" using Cons.prems(3) by (cases n) auto
  show ?case
  proof (cases js)
    case Nil
    with Cons.prems n parsesD [of j m "CHR '']'' # r"] show ?thesis by simp
  next
    case (Cons j' js')
    let ?rest = "js_join '','' (map stringify js) @ CHR '']'' # r"
    have "parse_val m (stringify j @ CHR '','' # ?rest) = Some (j, CHR '','' # ?rest)"
      using Cons.prems n Cons by (intro parsesD) auto
    moreover have "parse_elems m ?rest = Some (js, r)"
      using Cons.prems n Cons by (intro Cons.IH) auto
    ultimately show ?thesis using Cons n by simp
  qed
qed simp

abbreviation print_member :: "string \<times> json \<Rightarrow> string" where
  "print_member \<equiv> \<lambda>(k, v). json_quote k @ '':'' @ stringify v"

lemma parse_members_print:
  "ms \<noteq> [] \<Longrightarrow> \<forall>m \<in> set ms. parses (snd m) \<Longrightarrow> 2 * length (js_join '','' (map print_member ms)) + 1 \<le> n \<Longrightarrow>
   parse_members n (js_join '','' (map print_member ms) @ CHR ''}'' # r) = Some (ms, r)"
proof (induction ms arbitrary: n)
  case (Cons m ms)
  obtain k v where m: "m = (k, v)" by (cases m)
  obtain n' where n: "n = Suc n'" using Cons.prems(3) by (cases n) auto
  have v: "parses v" using Cons.prems(2) m by simp
  show ?case
  proof (cases ms)
    case Nil
    with v Cons.prems(3) n m parsesD [of v n' "CHR ''}'' # r"] show ?thesis
      by (simp add: json_quote_def parse_str_quote starts_with_def del: parse_str.simps)
  next
    case (Cons m' ms')
    let ?rest = "js_join '','' (map print_member ms) @ CHR ''}'' # r"
    have "parse_val n' (stringify v @ CHR '','' # ?rest) = Some (v, CHR '','' # ?rest)"
      using v Cons.prems(3) n m Cons by (intro parsesD) auto
    moreover have "parse_members n' ?rest = Some (ms, r)"
      using Cons.prems n m Cons by (intro Cons.IH) auto
    ultimately show ?thesis
      using Cons n m by (simp add: json_quote_def parse_str_quote starts_with_def del: parse_str.simps)
  qed
qed simp

lemma stringify_nonempty: "1 \<le> length (stringify j)"
  by (metis One_nat_def Suc_leI length_greater_0_conv list.distinct(1) stringify_head)

lemma js_join_head: "xs \<noteq> [] \<Longrightarrow> hd xs = c # t \<Longrightarrow> \<exists>u. js_join '','' xs = c # u"
  by (induction "'',''" xs rule: js_join.induct) auto

lemma parses_all: "parses j"
proof (induction j)
  case (JNum n)
  show ?case unfolding parses_def
  proof clarify
    fix k r assume "2 * length (stringify (JNum n)) \<le> k" "value_end r"
    then show "parse_val k (stringify (JNum n) @ r) = Some (JNum n, r)"
      using stringify_nonempty [of "JNum n"] by (cases k) (auto simp: parse_val_num simp del: parse_val.simps)
  qed
next
  case (JStr s)
  show ?case unfolding parses_def
  proof clarify
    fix n r assume "2 * length (stringify (JStr s)) \<le> n"
    then obtain m where "n = Suc m" by (cases n) (auto simp: json_quote_def)
    then show "parse_val n (stringify (JStr s) @ r) = Some (JStr s, r)"
      by (simp add: json_quote_def parse_str_quote del: parse_str.simps)
  qed
next
  case (JArr js)
  show ?case unfolding parses_def
  proof clarify
    fix n r assume n: "2 * length (stringify (JArr js)) \<le> n" and r: "value_end r"
    then obtain m where m: "n = Suc m" by (cases n) auto
    show "parse_val n (stringify (JArr js) @ r) = Some (JArr js, r)"
    proof (cases "js = []")
      case False
      obtain c t where ct: "stringify (hd js) = c # t" "\<not> json_ws c" "c \<noteq> CHR '']''"
        by (rule stringify_head)
      obtain u where u: "js_join '','' (map stringify js) = c # u"
        using js_join_head [of "map stringify js" c t] ct(1) False by (auto simp: hd_map)
      have "parse_elems m (js_join '','' (map stringify js) @ CHR '']'' # r) = Some (js, r)"
        using False JArr n m by (intro parse_elems_print) auto
      with m u ct show ?thesis by (simp add: starts_with_def)
    qed (simp add: m starts_with_def)
  qed
next
  case (JObj ms)
  have vs: "parses (snd m)" if "m \<in> set ms" for m
    using JObj that by (cases m) auto
  show ?case unfolding parses_def
  proof clarify
    fix n r assume n: "2 * length (stringify (JObj ms)) \<le> n" and r: "value_end r"
    then obtain m where m: "n = Suc m" by (cases n) auto
    show "parse_val n (stringify (JObj ms) @ r) = Some (JObj ms, r)"
    proof (cases "ms = []")
      case False
      obtain t where t: "hd (map print_member ms) = CHR 0x22 # t"
        using False by (cases ms) (auto simp: json_quote_def)
      obtain u where u: "js_join '','' (map print_member ms) = CHR 0x22 # u"
        using js_join_head [OF _ t] False by auto
      have "parse_members m (js_join '','' (map print_member ms) @ CHR ''}'' # r) = Some (ms, r)"
        using False vs n m by (intro parse_members_print) auto
      with m u show ?thesis by (simp add: starts_with_def)
    qed (simp add: m starts_with_def)
  qed
qed (auto simp: parses_def starts_with_def numeral_2_eq_2 dest!: Suc_le_D split: if_splits)

lemma json_parse_stringify [simp]: "json_parse (stringify j) = Inr j"
  using parsesD [OF parses_all, of j "2 * length (stringify j) + 1" "[]"]
  by (simp add: json_parse_def skip_ws_def)

interpretation json_codec: codec stringify "\<lambda>s. case json_parse s of Inl _ \<Rightarrow> None | Inr j \<Rightarrow> Some j"
  by unfold_locales simp

end
