(* ===== verification/Shamir.thy ===== *)
theory Shamir
  imports Json
begin

text \<open>
  \<open>packages/mpc-crypto/src/shamir.ts\<close>: secret sharing over the BN254 scalar field.  The operations
  are translated on \<open>int\<close> with the truncating \<open>/\<close> and \<open>%\<close> of \<open>bigint\<close>; \<open>randomBytes\<close> is the list of
  the 32-byte draws it returns, so that \<open>None\<close> is a rejection loop that has used all its draws.
\<close>

record Share =
  share_x :: int
  share_y :: int

definition P :: int where
  "P = 21888242871839275222246405745257275088548364400416034343698204186575808495617"

definition modp :: "int \<Rightarrow> int" where
  "modp x = ((x smod P) + P) smod P"

lemma abs_smod_less: "r \<noteq> 0 \<Longrightarrow> \<bar>a - (a sdiv r) * r\<bar> < \<bar>r :: int\<bar>"
proof -
  assume r: "r \<noteq> 0"
  have "a - (a sdiv r) * r = a smod r"
    using sdiv_mult_smod_eq [of a r] by linarith
  then show ?thesis
    using smod_int_range [of r a] r by auto
qed

function modinv_loop :: "int \<Rightarrow> int \<Rightarrow> int \<Rightarrow> int \<Rightarrow> int" where
  "modinv_loop old_r r old_s s =
    (if r = 0 then old_s
     else let q = old_r sdiv r
          in modinv_loop r (old_r - q * r) s (old_s - q * s))"
  by pat_completeness auto
termination
  by (relation "measure (\<lambda>(old_r, r, old_s, s). nat \<bar>r\<bar>)") (auto simp: abs_smod_less)

declare modinv_loop.simps [simp del]

definition modinv :: "int \<Rightarrow> int" where
  "modinv a = modp (modinv_loop (modp a) P 1 0)"

definition REJECTION_LIMIT :: int where
  "REJECTION_LIMIT = (2 ^ 256 sdiv P) * P"

text \<open>\<open>BigInt("0x" + buf.toString("hex"))\<close>; a 32-byte buffer always parses.\<close>

definition raw_draw :: "bytes \<Rightarrow> int" where
  "raw_draw buf = (case BigInt (''0x'' @ hex_encode buf) of Inl _ \<Rightarrow> 0 | Inr n \<Rightarrow> n)"

fun randomFieldElement :: "bytes list \<Rightarrow> (int \<times> bytes list) option" where
  "randomFieldElement [] = None"
| "randomFieldElement (buf # draws) =
    (let raw = raw_draw buf
     in if raw \<ge> REJECTION_LIMIT then randomFieldElement draws else Some (raw smod P, draws))"

primrec randomFieldElements :: "nat \<Rightarrow> bytes list \<Rightarrow> (int list \<times> bytes list) option" where
  "randomFieldElements 0 draws = Some ([], draws)"
| "randomFieldElements (Suc k) draws =
    (case randomFieldElement draws of
       None \<Rightarrow> None
     | Some (c, draws') \<Rightarrow>
         (case randomFieldElements k draws' of
            None \<Rightarrow> None
          | Some (cs, draws'') \<Rightarrow> Some (c # cs, draws'')))"

text \<open>The inner loop of \<open>shamirSplit\<close>: Horner's rule from the last coefficient down.\<close>

definition evalShare :: "int list \<Rightarrow> int \<Rightarrow> int" where
  "evalShare coeffs x = foldr (\<lambda>c y. modp (y * x + c)) coeffs 0"

definition sharesOf :: "int list \<Rightarrow> nat \<Rightarrow> Share list" where
  "sharesOf coeffs n_total =
    map (\<lambda>i. \<lparr>share_x = int i + 1, share_y = evalShare coeffs (int i + 1)\<rparr>) [0..<n_total]"

definition shamirSplit ::
  "int \<Rightarrow> int \<Rightarrow> nat \<Rightarrow> bytes list \<Rightarrow> (Share list \<times> bytes list) result option" where
  "shamirSplit secret threshold n_total draws =
    (if threshold < 2 \<or> threshold > int n_total then Some (Inl (Js_Error ''invalid threshold''))
     else case randomFieldElements (nat threshold - 1) draws of
            None \<Rightarrow> None
          | Some (cs, draws') \<Rightarrow> Some (Inr (sharesOf (modp secret # cs) n_total, draws')))"

text \<open>The two nested loops of \<open>shamirReconstruct\<close>: the inner one runs over every other index.\<close>

definition lagrange_term :: "Share list \<Rightarrow> nat \<Rightarrow> int \<times> int" where
  "lagrange_term shares i =
    fold (\<lambda>j (num, den).
        if i = j then (num, den)
        else (modp (num * modp (- share_x (shares ! j))),
              modp (den * (share_x (shares ! i) - share_x (shares ! j)))))
      [0..<length shares] (1, 1)"

definition shamirReconstruct :: "Share list \<Rightarrow> int" where
  "shamirReconstruct shares =
    fold (\<lambda>i secret.
        case lagrange_term shares i of
          (num, den) \<Rightarrow> modp (secret + modp (share_y (shares ! i) * modp (num * modinv den))))
      [0..<length shares] 0"

text \<open>An encoded share is the plain object \<open>{ x, y }\<close> of two decimal strings.  Since it comes back from
  \<open>JSON.parse\<close> behind a type assertion only, \<open>decodeShare\<close> is given any JSON value.\<close>

type_synonym EncodedShare = json

definition encodeShare :: "Share \<Rightarrow> EncodedShare" where
  "encodeShare s =
    JObj [(''x'', JStr (bigint_to_string (share_x s))), (''y'', JStr (bigint_to_string (share_y s)))]"

definition decodeShare :: "EncodedShare \<Rightarrow> Share result" where
  "decodeShare e =
    bindR (BigInt_json (json_get ''x'' e)) (\<lambda>x.
    bindR (BigInt_json (json_get ''y'' e)) (\<lambda>y.
    Inr \<lparr>share_x = x, share_y = y\<rparr>))"

section \<open>Arithmetic modulo the field prime\<close>

lemma P_pos [simp]: "0 < P" "P \<noteq> 0" "1 < P" "0 \<le> P" "\<bar>P\<bar> = P"
  by (simp_all add: P_def)

lemma modp_mod [simp]: "modp x = x mod P"
proof -
  have "x smod P > - P" "x smod P < P"
    using smod_int_range [of P x] by auto
  then have pos: "0 \<le> x smod P + P" by linarith
  have "modp x = (x smod P + P) mod P"
    unfolding modp_def using pos by (simp add: smod_mod_positive)
  also have "\<dots> = x smod P mod P" by simp
  also have "\<dots> = x mod P"
  proof -
    have "x smod P = x - (x sdiv P) * P"
      using sdiv_mult_smod_eq [of x P] by linarith
    then show ?thesis by (simp add: mod_diff_right_eq [symmetric])
  qed
  finally show ?thesis .
qed

lemma modinv_loop_correct:
  assumes "P dvd old_s * a - old_r" "P dvd s * a - r" "0 \<le> old_r" "0 \<le> r"
  shows "P dvd modinv_loop old_r r old_s s * a - gcd old_r r"
  using assms
proof (induction old_r r old_s s rule: modinv_loop.induct)
  case (1 old_r r old_s s)
  show ?case
  proof (cases "r = 0")
    case True
    with 1(2,4) show ?thesis by (subst modinv_loop.simps) simp
  next
    case False
    define q where "q = old_r sdiv r"
    have qr: "old_r - q * r = old_r mod r"
      using False 1 sdiv_mult_smod_eq [of old_r r] unfolding q_def
      by (simp add: smod_mod_positive algebra_simps)
    have "P dvd (old_s - q * s) * a - (old_r - q * r)"
    proof -
      have "(old_s - q * s) * a - (old_r - q * r) = (old_s * a - old_r) - q * (s * a - r)"
        by (simp add: algebra_simps)
      then show ?thesis
        using dvd_diff [OF 1(2) dvd_mult [OF 1(3), of q]] by (simp only:)
    qed
    moreover have "0 \<le> old_r - q * r" using qr False 1 by simp
    ultimately have "P dvd modinv_loop r (old_r - q * r) s (old_s - q * s) * a - gcd r (old_r - q * r)"
      using 1 False q_def by blast
    moreover have "gcd r (old_r - q * r) = gcd old_r r"
      unfolding qr by (metis gcd.commute gcd_red_int)
    ultimately show ?thesis
      using False by (subst modinv_loop.simps) (simp add: q_def Let_def)
  qed
qed

lemma modinv_bezout: "(modinv a * a) mod P = gcd a P mod P"
proof -
  have "P dvd modinv_loop (modp a) P 1 0 * modp a - gcd (modp a) P"
    by (rule modinv_loop_correct) auto
  moreover have "gcd (modp a) P = gcd a P" by (metis modp_mod gcd.commute gcd_red_int)
  ultimately have "(modinv_loop (modp a) P 1 0 * modp a) mod P = gcd a P mod P"
    by (simp add: mod_eq_dvd_iff)
  then show ?thesis by (simp add: modinv_def mod_mult_left_eq mod_mult_right_eq)
qed


text \<open>Every non-zero difference of two share indices is a unit: \<open>P\<close> has no divisor below 256.\<close>

definition small_primes :: "int list" where
  "small_primes =
    [2, 3, 5, 7, 11, 13, 17, 19, 23, 29, 31, 37, 41, 43, 47, 53, 59, 61, 67, 71, 73, 79, 83, 89,
     97, 101, 103, 107, 109, 113, 127, 131, 137, 139, 149, 151, 157, 163, 167, 173, 179, 181, 191,
     193, 197, 199, 211, 223, 227, 229, 233, 239, 241, 251]"

lemma P_no_small_prime: "list_all (\<lambda>q. P mod q \<noteq> 0) small_primes"
  by code_simp

lemma small_number_factor:
  "list_all (\<lambda>m. m mod 2 = 0 \<or> m mod 3 = 0 \<or> m mod 5 = 0 \<or> m mod 7 = 0 \<or> m mod 11 = 0 \<or> m mod 13 = 0
      \<or> List.member small_primes m) [2..255 :: int]"
  by code_simp

lemma P_no_small_factor:
  assumes "2 \<le> m" "m < 256"
  shows "\<not> m dvd P"
proof
  assume m: "m dvd P"
  have P: "P mod q \<noteq> 0" if "q \<in> set small_primes" for q
    using P_no_small_prime that by (simp add: list_all_iff)
  have "\<not> q dvd m" if "q \<in> set small_primes" for q
    using m P [OF that] by (metis dvd_trans dvd_imp_mod_0)
  then have no: "m mod q \<noteq> 0" if "q \<in> set small_primes" for q
    using that by (simp add: dvd_eq_mod_eq_0)
  have "m \<in> set [2..255]" using assms unfolding set_upto atLeastAtMost_iff by presburger
  with small_number_factor have "m mod 2 = 0 \<or> m mod 3 = 0 \<or> m mod 5 = 0 \<or> m mod 7 = 0
      \<or> m mod 11 = 0 \<or> m mod 13 = 0 \<or> m \<in> set small_primes"
    unfolding list_all_iff List.member_iff by blast
  moreover have "m mod 2 \<noteq> 0" "m mod 3 \<noteq> 0" "m mod 5 \<noteq> 0" "m mod 7 \<noteq> 0" "m mod 11 \<noteq> 0" "m mod 13 \<noteq> 0"
    by (rule no; simp add: small_primes_def)+
  ultimately have "m \<in> set small_primes" by blast
  then show False using P [of m] m by simp
qed

lemma coprime_small:
  assumes "d \<noteq> 0" "\<bar>d\<bar> < 256"
  shows "coprime d P"
proof -
  have "gcd d P \<le> \<bar>d\<bar>" using assms by (metis abs_gcd_int dvd_imp_le_int gcd_dvd1)
  moreover have "gcd d P dvd P" by simp
  ultimately have "\<not> 2 \<le> gcd d P" using P_no_small_factor assms by fastforce
  moreover have "0 < gcd d P" using assms by simp
  ultimately have "gcd d P = 1" by linarith
  then show ?thesis by (simp only: coprime_iff_gcd_eq_1)
qed

lemma modinv_inverse: "coprime a P \<Longrightarrow> (modinv a * a) mod P = 1"
  by (simp add: modinv_bezout)

section \<open>Polynomials as coefficient lists\<close>

definition peval :: "int list \<Rightarrow> int \<Rightarrow> int" where
  "peval cs x = foldr (\<lambda>c y. y * x + c) cs 0"

lemma peval_simps [simp]: "peval [] x = 0" "peval (c # cs) x = peval cs x * x + c"
  by (simp_all add: peval_def)

lemma evalShare_peval: "evalShare cs x = peval cs x mod P"
proof (induction cs)
  case (Cons c cs)
  have "(peval cs x mod P * x + c) mod P = (peval cs x * x + c) mod P"
    by (metis mod_add_left_eq mod_mult_left_eq)
  with Cons show ?case by (simp add: evalShare_def)
qed (simp add: evalShare_def)

text \<open>Synthetic division by \<open>X - a\<close>.\<close>

primrec syn_div :: "int \<Rightarrow> int list \<Rightarrow> int list" where
  "syn_div a [] = []"
| "syn_div a (c # cs) = (if cs = [] then [] else peval cs a # syn_div a cs)"

lemma length_syn_div [simp]: "length (syn_div a cs) = length cs - 1"
  by (induction cs) auto

lemma peval_syn_div: "peval cs x = peval cs a + (x - a) * peval (syn_div a cs) x"
proof (induction cs)
  case (Cons c cs)
  show ?case unfolding peval_simps(2) [of c cs x] Cons.IH
    by (simp add: algebra_simps)
qed simp

lemma syn_div_coeffs:
  "P dvd peval cs a \<Longrightarrow> \<forall>c \<in> set (syn_div a cs). P dvd c \<Longrightarrow> \<forall>c \<in> set cs. P dvd c"
proof (induction cs)
  case (Cons c cs)
  show ?case
  proof (cases "cs = []")
    case False
    with Cons.prems have cs: "P dvd peval cs a" and q: "\<forall>c \<in> set (syn_div a cs). P dvd c" by auto
    have "P dvd c" using Cons.prems(1) cs by (simp add: dvd_add_right_iff)
    with Cons.IH [OF cs q] show ?thesis by simp
  qed (use Cons.prems in simp)
qed simp

text \<open>Points whose pairwise differences are units, and the fact that a polynomial with fewer
  coefficients than roots is zero modulo \<open>P\<close>.\<close>

definition unit_points :: "int list \<Rightarrow> bool" where
  "unit_points xs = sorted_wrt (\<lambda>a b. coprime (b - a) P) xs"

lemma poly_roots_coeffs:
  "length cs \<le> length xs \<Longrightarrow> unit_points xs \<Longrightarrow> \<forall>x \<in> set xs. P dvd peval cs x \<Longrightarrow> \<forall>c \<in> set cs. P dvd c"
proof (induction xs arbitrary: cs)
  case (Cons a xs)
  have "P dvd peval (syn_div a cs) x" if x: "x \<in> set xs" for x
  proof -
    have "P dvd peval cs x" "P dvd peval cs a" using Cons.prems(3) x by simp_all
    then have "P dvd (x - a) * peval (syn_div a cs) x"
      unfolding peval_syn_div [of cs x a] by (simp add: dvd_add_right_iff)
    moreover have "coprime (x - a) P" using Cons.prems(2) x by (simp add: unit_points_def)
    ultimately show ?thesis
      by (simp add: coprime_commute coprime_dvd_mult_right_iff)
  qed
  then have "\<forall>c \<in> set (syn_div a cs). P dvd c"
    using Cons.prems by (intro Cons.IH) (auto simp: unit_points_def)
  then show ?case using Cons.prems(3) by (intro syn_div_coeffs [of cs a]) auto
qed simp

lemma peval_dvd: "\<forall>c \<in> set cs. P dvd c \<Longrightarrow> P dvd peval cs x"
  by (induction cs) auto

text \<open>Functions given by at most \<open>k\<close> coefficients, closed under what interpolation needs.\<close>

definition is_poly :: "nat \<Rightarrow> (int \<Rightarrow> int) \<Rightarrow> bool" where
  "is_poly k f \<longleftrightarrow> (\<exists>cs. length cs \<le> k \<and> (\<forall>x. f x = peval cs x))"

fun padd :: "int list \<Rightarrow> int list \<Rightarrow> int list" where
  "padd (a # as) (b # bs) = (a + b) # padd as bs"
| "padd [] bs = bs"
| "padd as [] = as"

lemma padd_peval [simp]: "peval (padd as bs) x = peval as x + peval bs x"
  by (induction as bs rule: padd.induct) (auto simp: algebra_simps)

lemma length_padd [simp]: "length (padd as bs) = max (length as) (length bs)"
  by (induction as bs rule: padd.induct) auto

lemma peval_scale [simp]: "peval (map ((*) k) cs) x = k * peval cs x"
  by (induction cs) (auto simp: algebra_simps)

lemma is_polyI: "length cs \<le> k \<Longrightarrow> is_poly k (peval cs)"
  by (auto simp: is_poly_def)

lemma is_poly_add: "is_poly k f \<Longrightarrow> is_poly k g \<Longrightarrow> is_poly k (\<lambda>x. f x + g x)"
proof -
  assume "is_poly k f" "is_poly k g"
  then obtain as bs where "length as \<le> k" "length bs \<le> k"
    and fg: "f = peval as" "g = peval bs" by (auto simp: is_poly_def fun_eq_iff)
  then show ?thesis unfolding is_poly_def fg
    by (intro exI [of _ "padd as bs"]) simp
qed

lemma is_poly_scale: "is_poly k f \<Longrightarrow> is_poly k (\<lambda>x. c * f x)"
proof -
  assume "is_poly k f"
  then obtain as where "length as \<le> k" and f: "f = peval as" by (auto simp: is_poly_def fun_eq_iff)
  then show ?thesis unfolding is_poly_def f
    by (intro exI [of _ "map ((*) c) as"]) simp
qed

lemma is_poly_linear_factor: "is_poly k f \<Longrightarrow> is_poly (Suc k) (\<lambda>x. (x - a) * f x)"
proof -
  assume "is_poly k f"
  then obtain as where "length as \<le> k" and f: "f = peval as" by (auto simp: is_poly_def fun_eq_iff)
  then show ?thesis unfolding is_poly_def f
    by (intro exI [of _ "padd (0 # as) (map ((*) (- a)) as)"]) (simp add: algebra_simps)
qed

lemma is_poly_sum: "(\<And>i. i \<in> I \<Longrightarrow> is_poly k (f i)) \<Longrightarrow> is_poly k (\<lambda>x. \<Sum>i\<in>I. f i x)"
proof (induction I rule: infinite_finite_induct)
  case (insert i I)
  then show ?case by (simp add: is_poly_add)
qed (auto simp: is_poly_def intro: exI [of _ "[]"])

lemma is_poly_prod: "finite J \<Longrightarrow> is_poly (Suc (card J)) (\<lambda>x. \<Prod>j\<in>J. x - u j)"
proof (induction J rule: finite_induct)
  case empty
  show ?case by (auto simp: is_poly_def intro!: exI [of _ "[1]"])
next
  case (insert j J)
  then show ?case using is_poly_linear_factor [of "Suc (card J)" _ "u j"] by simp
qed

lemma is_poly_roots:
  assumes "is_poly (length xs) f" "unit_points xs" "\<forall>x \<in> set xs. P dvd f x"
  shows "P dvd f y"
proof -
  obtain cs where "length cs \<le> length xs" and f: "f = peval cs"
    using assms(1) by (auto simp: is_poly_def fun_eq_iff)
  with assms show ?thesis by (metis peval_dvd poly_roots_coeffs)
qed

section \<open>Interpolation\<close>

definition basis :: "int list \<Rightarrow> nat \<Rightarrow> int \<Rightarrow> int" where
  "basis xs i x = (\<Prod>j \<in> {..<length xs} - {i}. x - xs ! j)"

lemma unit_points_coprime:
  assumes "unit_points xs" "i < length xs" "j < length xs" "i \<noteq> j"
  shows "coprime (xs ! i - xs ! j) P"
proof (cases "i < j")
  case True
  then have "coprime (xs ! j - xs ! i) P"
    using assms sorted_wrt_nth_less unfolding unit_points_def by fastforce
  then show ?thesis by (metis coprime_minus_left_iff minus_diff_eq)
next
  case False
  then show ?thesis
    using assms sorted_wrt_nth_less unfolding unit_points_def by fastforce
qed

lemma basis_unit: "unit_points xs \<Longrightarrow> i < length xs \<Longrightarrow> coprime (basis xs i (xs ! i)) P"
  unfolding basis_def by (rule prod_coprime_left) (auto intro: unit_points_coprime)

lemma basis_other: "i < length xs \<Longrightarrow> j < length xs \<Longrightarrow> i \<noteq> j \<Longrightarrow> basis xs i (xs ! j) = 0"
  unfolding basis_def by (rule prod_zero) auto

lemma is_poly_basis: "i < length xs \<Longrightarrow> is_poly (length xs) (basis xs i)"
  using is_poly_prod [of "{..<length xs} - {i}" "\<lambda>j. xs ! j"]
  by (cases "length xs") (simp_all add: basis_def [abs_def])

lemma interpolation:
  assumes xs: "unit_points xs" and f: "is_poly (length xs) f"
    and inv: "\<And>i. i < length xs \<Longrightarrow> (w i * basis xs i (xs ! i)) mod P = 1"
  shows "(\<Sum>i<length xs. f (xs ! i) * (basis xs i y * w i)) mod P = f y mod P"
proof -
  define g where "g x = (\<Sum>i<length xs. f (xs ! i) * w i * basis xs i x) + (-1) * f x" for x
  have "is_poly (length xs) g"
    unfolding g_def by (intro is_poly_add is_poly_sum is_poly_scale f is_poly_basis) auto
  moreover have "P dvd g (xs ! m)" if m: "m < length xs" for m
  proof -
    have "(\<Sum>i<length xs. f (xs ! i) * w i * basis xs i (xs ! m))
        = f (xs ! m) * w m * basis xs m (xs ! m)"
      using m by (subst sum.remove [of _ m]) (auto simp: basis_other intro!: sum.neutral)
    then have "g (xs ! m) = f (xs ! m) * (w m * basis xs m (xs ! m) - 1)"
      by (simp add: g_def algebra_simps)
    moreover have "P dvd w m * basis xs m (xs ! m) - 1"
      using inv [OF m] by (metis mod_eq_dvd_iff P_pos(3) mod_pos_pos_trivial zero_le_one)
    ultimately show ?thesis by simp
  qed
  ultimately have "P dvd g y"
    using xs by (metis in_set_conv_nth is_poly_roots)
  then show ?thesis
    by (simp add: g_def mod_eq_dvd_iff algebra_simps)
qed

section \<open>What the loops compute\<close>

lemma modp_prod_fold:
  "distinct js \<Longrightarrow> finite A \<Longrightarrow> set js \<inter> A = {} \<Longrightarrow>
   fold (\<lambda>j (num, den). if i = j then (num, den)
      else (modp (num * modp (u j)), modp (den * v j))) js
     ((\<Prod>j \<in> A - {i}. u j) mod P, (\<Prod>j \<in> A - {i}. v j) mod P)
   = ((\<Prod>j \<in> set js \<union> A - {i}. u j) mod P, (\<Prod>j \<in> set js \<union> A - {i}. v j) mod P)"
proof (induction js arbitrary: A)
  case (Cons j js)
  let ?A = "insert j A"
  have step: "((\<Prod>j \<in> A - {i}. w j) mod P * (w j mod P)) mod P = (\<Prod>j \<in> ?A - {i}. w j) mod P"
    if "i \<noteq> j" for w :: "'a \<Rightarrow> int"
    using that Cons.prems by (simp add: insert_Diff_if mod_mult_eq mult.commute)
  have step': "((\<Prod>j \<in> A - {i}. w j) mod P * w j) mod P = (\<Prod>j \<in> ?A - {i}. w j) mod P"
    if "i \<noteq> j" for w :: "'a \<Rightarrow> int"
    using step [OF that] by (metis mod_mult_right_eq)
  have same: "?A - {i} = A - {i}" if "i = j" using that by auto
  have "set js \<union> ?A = set (j # js) \<union> A" by auto
  moreover have "set js \<inter> ?A = {}" using Cons.prems by auto
  ultimately show ?case
    using Cons.IH [of ?A] Cons.prems step step' same by (cases "i = j") auto
qed simp

lemma lagrange_term_basis:
  assumes "i < length shares"
  shows "lagrange_term shares i =
    (basis (map share_x shares) i 0 mod P,
     basis (map share_x shares) i (map share_x shares ! i) mod P)"
proof -
  have "(\<Prod>j \<in> {..<length shares} - {i}. - share_x (shares ! j))
      = (\<Prod>j \<in> {..<length shares} - {i}. - (map share_x shares ! j))"
    by (rule prod.cong) auto
  moreover have "(\<Prod>j \<in> {..<length shares} - {i}. share_x (shares ! i) - share_x (shares ! j))
      = (\<Prod>j \<in> {..<length shares} - {i}. map share_x shares ! i - map share_x shares ! j)"
    using assms by (intro prod.cong) auto
  ultimately show ?thesis
    using modp_prod_fold [of "[0..<length shares]" "{}" i "\<lambda>j. - share_x (shares ! j)"
        "\<lambda>j. share_x (shares ! i) - share_x (shares ! j)"]
    by (simp add: lagrange_term_def basis_def lessThan_atLeast0)
qed

lemma modp_sum_fold:
  "fold (\<lambda>i acc. modp (acc + modp (u i))) is (a mod P) = (a + sum_list (map u is)) mod P"
proof (induction "is" arbitrary: a)
  case (Cons i "is")
  have "(a mod P + u i mod P) mod P = (a + u i) mod P" by (simp add: mod_add_eq)
  with Cons [of "a + u i"] show ?case by (simp add: mod_simps add.assoc)
qed simp

lemma fold_cong_set: "(\<And>i a. i \<in> set is \<Longrightarrow> f i a = g i a) \<Longrightarrow> fold f is a = fold g is a"
  by (rule fold_cong) auto

lemma modinv_modp [simp]: "modinv (a mod P) = modinv a"
  by (simp add: modinv_def)

lemma shamirReconstruct_sum:
  fixes shares defines "xs \<equiv> map share_x shares"
  shows "shamirReconstruct shares =
    (\<Sum>i<length xs. share_y (shares ! i) * (basis xs i 0 * modinv (basis xs i (xs ! i)))) mod P"
proof -
  define u where "u i = share_y (shares ! i) *
      modp (basis xs i 0 mod P * modinv (basis xs i (xs ! i)))" for i
  have "shamirReconstruct shares = fold (\<lambda>i acc. modp (acc + modp (u i))) [0..<length shares] (0 mod P)"
    unfolding shamirReconstruct_def
    by (simp, rule fold_cong_set) (simp add: lagrange_term_basis u_def xs_def)
  also have "\<dots> = (\<Sum>i<length xs. u i) mod P"
    unfolding modp_sum_fold
    by (simp add: xs_def interv_sum_list_conv_sum_set_nat lessThan_atLeast0)
  also have "\<dots> = (\<Sum>i<length xs. share_y (shares ! i) * (basis xs i 0 * modinv (basis xs i (xs ! i)))) mod P"
  proof -
    have "u i mod P = (share_y (shares ! i) * (basis xs i 0 * modinv (basis xs i (xs ! i)))) mod P" for i
      unfolding u_def modp_mod by (metis mod_mult_left_eq mod_mult_right_eq)
    then show ?thesis by (metis (mono_tags, lifting) mod_sum_eq sum.cong)
  qed
  finally show ?thesis .
qed

section \<open>Shares of a split secret\<close>

lemma hex_literal_not_space: "c \<in> set (''0x'' @ hex_encode buf) \<Longrightarrow> \<not> js_space c"
proof -
  have "\<not> js_space CHR ''0''" "\<not> js_space CHR ''x''" by (simp_all add: js_space_def)
  moreover have "\<not> js_space c" if "c \<in> set (hex_encode buf)"
    using that js_space_digit nibbles_bound by (auto simp: hex_encode_nibbles)
  moreover assume "c \<in> set (''0x'' @ hex_encode buf)"
  ultimately show ?thesis by auto
qed

lemma parse_radix_hex:
  "parse_radix 16 (hex_encode buf) = (if buf = [] then None else Some (digits_value 16 (nibbles buf)))"
proof (cases buf)
  case (Cons b bs)
  then have "nibbles buf \<noteq> []" by (simp add: nibbles_def)
  with Cons show ?thesis
    by (simp add: parse_radix_def hex_encode_nibbles parse_digits_map nibbles_bound)
qed (simp add: parse_radix_def hex_encode_def)

lemma raw_draw_value: "raw_draw buf = int (digits_value 16 (nibbles buf))"
proof -
  have "bigint_syntax (''0x'' @ hex_encode buf) = map_option int (parse_radix 16 (hex_encode buf))"
    by (simp add: bigint_syntax_def)
  moreover have "js_trim (''0x'' @ hex_encode buf) = ''0x'' @ hex_encode buf"
    by (rule js_trim_id) (rule hex_literal_not_space)
  ultimately show ?thesis
    by (simp add: raw_draw_def BigInt_def parse_radix_hex nibbles_def digits_value_def)
qed

lemma raw_draw_nonneg: "0 \<le> raw_draw buf"
  by (simp add: raw_draw_value)

lemma randomFieldElement_range: "randomFieldElement draws = Some (c, rest) \<Longrightarrow> 0 \<le> c \<and> c < P"
  by (induction draws rule: randomFieldElement.induct)
    (auto simp: Let_def smod_mod_positive raw_draw_nonneg split: if_splits)

lemma randomFieldElements_range:
  "randomFieldElements k draws = Some (cs, rest) \<Longrightarrow> length cs = k \<and> set cs \<subseteq> {0..<P}"
  by (induction k arbitrary: draws cs rest)
    (fastforce split: option.splits prod.splits dest: randomFieldElement_range)+

lemma randomFieldElement_accepts:
  "filter (\<lambda>b. raw_draw b < REJECTION_LIMIT) draws \<noteq> [] \<Longrightarrow>
   \<exists>c rest. randomFieldElement draws = Some (c, rest) \<and>
     filter (\<lambda>b. raw_draw b < REJECTION_LIMIT) rest = tl (filter (\<lambda>b. raw_draw b < REJECTION_LIMIT) draws)"
  by (induction draws rule: randomFieldElement.induct) (auto simp: Let_def)

lemma randomFieldElements_accepts:
  "k \<le> length (filter (\<lambda>b. raw_draw b < REJECTION_LIMIT) draws) \<Longrightarrow>
   \<exists>cs rest. randomFieldElements k draws = Some (cs, rest)"
proof (induction k arbitrary: draws)
  case (Suc k)
  have "filter (\<lambda>b. raw_draw b < REJECTION_LIMIT) draws \<noteq> []" using Suc.prems by auto
  then obtain c rest where "randomFieldElement draws = Some (c, rest)"
    "filter (\<lambda>b. raw_draw b < REJECTION_LIMIT) rest
      = tl (filter (\<lambda>b. raw_draw b < REJECTION_LIMIT) draws)"
    using randomFieldElement_accepts by blast
  moreover have "k \<le> length (filter (\<lambda>b. raw_draw b < REJECTION_LIMIT) rest)"
    using calculation(2) Suc.prems by simp
  then obtain cs rest' where "randomFieldElements k rest = Some (cs, rest')"
    using Suc.IH by blast
  ultimately show ?case by simp
qed simp

lemma length_sharesOf [simp]: "length (sharesOf cs n) = n"
  by (simp add: sharesOf_def)

lemma sharesOf_nth [simp]:
  "i < n \<Longrightarrow> sharesOf cs n ! i = \<lparr>share_x = int i + 1, share_y = evalShare cs (int i + 1)\<rparr>"
  by (simp add: sharesOf_def)

lemma set_sharesOf:
  "s \<in> set (sharesOf cs n) \<longleftrightarrow>
    1 \<le> share_x s \<and> share_x s \<le> int n \<and> s = \<lparr>share_x = share_x s, share_y = evalShare cs (share_x s)\<rparr>"
proof
  assume "s \<in> set (sharesOf cs n)"
  then show "1 \<le> share_x s \<and> share_x s \<le> int n
      \<and> s = \<lparr>share_x = share_x s, share_y = evalShare cs (share_x s)\<rparr>"
    by (auto simp: sharesOf_def)
next
  assume *: "1 \<le> share_x s \<and> share_x s \<le> int n
      \<and> s = \<lparr>share_x = share_x s, share_y = evalShare cs (share_x s)\<rparr>"
  then have "s = sharesOf cs n ! nat (share_x s - 1)" "nat (share_x s - 1) < n" by auto
  then show "s \<in> set (sharesOf cs n)" by (metis length_sharesOf nth_mem)
qed

lemma unit_points_small:
  "distinct xs \<Longrightarrow> (\<And>x. x \<in> set xs \<Longrightarrow> 1 \<le> x \<and> x \<le> 255) \<Longrightarrow> unit_points xs"
proof (induction xs)
  case (Cons a xs)
  have "coprime (x - a) P" if "x \<in> set xs" for x
  proof (rule coprime_small)
    show "x - a \<noteq> 0" using that Cons.prems(1) by auto
    show "\<bar>x - a\<bar> < 256" using that Cons.prems(2) [of x] Cons.prems(2) [of a] by auto
  qed
  with Cons show ?case by (simp add: unit_points_def)
qed (simp add: unit_points_def)

lemma reconstruct_sharesOf:
  assumes "n \<le> 255" "distinct sub" "set sub \<subseteq> set (sharesOf cs n)" "length cs \<le> length sub"
  shows "shamirReconstruct sub = evalShare cs 0"
proof -
  define xs where "xs = map share_x sub"
  have mem: "1 \<le> share_x s" "share_x s \<le> 255" "share_y s = evalShare cs (share_x s)"
    if "s \<in> set sub" for s
    using that assms(1,3) by (auto simp: set_sharesOf subset_iff dest!: bspec)
      (metis Share.select_convs(2))
  have "inj_on share_x (set sub)"
    using assms(3) unfolding inj_on_def subset_iff set_sharesOf by metis
  then have xs: "unit_points xs"
    using assms(2) mem by (intro unit_points_small) (auto simp: xs_def distinct_map)
  have "share_y (sub ! i) = peval cs (xs ! i) mod P" if "i < length xs" for i
    using that mem(3) [of "sub ! i"] by (simp add: xs_def evalShare_peval)
  then have "shamirReconstruct sub =
      (\<Sum>i<length xs. peval cs (xs ! i) mod P * (basis xs i 0 * modinv (basis xs i (xs ! i)))) mod P"
    unfolding shamirReconstruct_sum xs_def [symmetric] by simp
  also have "\<dots> = (\<Sum>i<length xs. peval cs (xs ! i) * (basis xs i 0 * modinv (basis xs i (xs ! i)))) mod P"
    by (metis (mono_tags, lifting) mod_mult_left_eq mod_sum_eq sum.cong)
  also have "\<dots> = peval cs 0 mod P"
    using xs assms(4) by (intro interpolation is_polyI modinv_inverse basis_unit) (auto simp: xs_def)
  finally show ?thesis by (simp add: evalShare_peval)
qed

text \<open>The shares of fewer holders than the threshold fix nothing: as many coefficient lists explain
  them under one secret as under any other.\<close>

lemma hiding_inj:
  assumes "unit_points xs" "\<And>x. x \<in> set xs \<Longrightarrow> coprime x P" "length xs = length cs" "length cs' = length cs"
    "set cs \<subseteq> {0..<P}" "set cs' \<subseteq> {0..<P}"
    "map (evalShare (s # cs)) xs = map (evalShare (s # cs')) xs"
  shows "cs = cs'"
proof -
  define ds where "ds = padd cs (map ((*) (-1)) cs')"
  have "P dvd peval ds x" if x: "x \<in> set xs" for x
  proof -
    have "(peval cs x * x + s) mod P = (peval cs' x * x + s) mod P"
      using assms(7) x by (simp add: evalShare_peval)
    then have "P dvd (peval cs x - peval cs' x) * x"
      by (simp add: mod_eq_dvd_iff algebra_simps)
    then have "P dvd peval cs x - peval cs' x"
      using assms(2) [OF x] by (simp add: coprime_commute coprime_dvd_mult_left_iff)
    then show ?thesis by (simp add: ds_def)
  qed
  then have ds: "\<forall>d \<in> set ds. P dvd d"
    using assms(1,3,4) by (intro poly_roots_coeffs [of ds xs]) (auto simp: ds_def)
  have "length as = length bs \<Longrightarrow> set as \<subseteq> {0..<P} \<Longrightarrow> set bs \<subseteq> {0..<P} \<Longrightarrow>
      \<forall>d \<in> set (padd as (map ((*) (-1)) bs)). P dvd d \<Longrightarrow> as = bs" for as bs
  proof (induction as bs rule: list_induct2)
    case (Cons a as b bs)
    then have "P dvd a - b" by simp
    then have "a mod P = b mod P" by (simp only: mod_eq_dvd_iff)
    moreover have "a mod P = a" "b mod P = b" using Cons.prems by simp_all
    ultimately have "a = b" by simp
    with Cons show ?case by simp
  qed simp
  then show ?thesis using assms ds unfolding ds_def by simp
qed

lemma hiding:
  assumes "unit_points xs" "\<And>x. x \<in> set xs \<Longrightarrow> coprime x P" "length xs = k"
    "length ys = k" "set ys \<subseteq> {0..<P}"
  shows "\<exists>!cs. length cs = k \<and> set cs \<subseteq> {0..<P} \<and> map (evalShare (s # cs)) xs = ys"
proof -
  define A where "A = {cs :: int list. set cs \<subseteq> {0..<P} \<and> length cs = k}"
  define F where "F cs = map (evalShare (s # cs)) xs" for cs
  have fin: "finite A" unfolding A_def by (rule finite_lists_length_eq) simp
  have "F ` A \<subseteq> A" using assms(3) by (auto simp: A_def F_def evalShare_peval)
  moreover have inj: "inj_on F A"
    using assms(1-3) unfolding inj_on_def F_def A_def
    by (metis (mono_tags, lifting) hiding_inj mem_Collect_eq)
  ultimately have "F ` A = A" using fin by (metis endo_inj_surj)
  moreover have "ys \<in> A" using assms(4,5) by (simp add: A_def)
  ultimately obtain cs where "cs \<in> A" "F cs = ys" by (metis imageE)
  then show ?thesis
    using inj unfolding inj_on_def F_def A_def by (intro ex1I [of _ cs]) auto
qed

section \<open>The draws are uniform\<close>

lemma REJECTION_LIMIT_eq: "REJECTION_LIMIT = 5 * P"
  by (simp add: REJECTION_LIMIT_def P_def)

lemma raw_draw_inj: "inj_on raw_draw {buf. length buf = 32}"
proof (rule inj_onI)
  fix as bs assume "as \<in> {buf. length buf = 32}" "bs \<in> {buf. length buf = 32}" "raw_draw as = raw_draw bs"
  then have "digits_value 16 (nibbles as) = digits_value 16 (nibbles bs)"
    "length (nibbles as) = length (nibbles bs)" by (simp_all add: raw_draw_value)
  then have "nibbles as = nibbles bs" using nibbles_bound by (subst (asm) digits_value_inject) auto
  then show "as = bs" by (metis hex_encode_nibbles hex_decode_encode)
qed

lemma raw_draw_bij: "bij_betw raw_draw {buf. length buf = 32} {0..<2 ^ 256}"
proof -
  have sub: "raw_draw ` {buf. length buf = 32} \<subseteq> {0..<2 ^ 256}"
  proof clarify
    fix buf :: bytes assume "length buf = 32"
    then have "digits_value 16 (nibbles buf) < 16 ^ 64"
      using digits_value_bound [of "nibbles buf" 16] nibbles_bound by simp
    then have "int (digits_value 16 (nibbles buf)) < int (16 ^ 64)" by (simp only: of_nat_less_iff)
    then show "raw_draw buf \<in> {0..<2 ^ 256}" by (simp add: raw_draw_value)
  qed
  have "card {buf :: bytes. length buf = 32} = (2 ^ 8) ^ 32"
    using card_lists_length_eq [of "UNIV :: byte set" 32] by (simp add: card_word)
  then have "card (raw_draw ` {buf. length buf = 32}) = card {0..<2 ^ 256 :: int}"
    using raw_draw_inj by (simp add: card_image)
  then have "raw_draw ` {buf. length buf = 32} = {0..<2 ^ 256}"
    using sub by (intro card_subset_eq) auto
  with raw_draw_inj show ?thesis by (simp add: bij_betw_def)
qed

lemma card_raw_draw:
  assumes "S \<subseteq> {0..<2 ^ 256}"
  shows "card {buf. length buf = 32 \<and> raw_draw buf \<in> S} = card S"
proof -
  have "bij_betw raw_draw {buf. length buf = 32 \<and> raw_draw buf \<in> S} S"
    unfolding bij_betw_def
  proof
    show "inj_on raw_draw {buf. length buf = 32 \<and> raw_draw buf \<in> S}"
      by (rule inj_on_subset [OF raw_draw_inj]) auto
    show "raw_draw ` {buf. length buf = 32 \<and> raw_draw buf \<in> S} = S"
    proof
      show "S \<subseteq> raw_draw ` {buf. length buf = 32 \<and> raw_draw buf \<in> S}"
      proof
        fix v assume v: "v \<in> S"
        then have "v \<in> raw_draw ` {buf. length buf = 32}"
          using assms raw_draw_bij by (auto simp: bij_betw_def)
        with v show "v \<in> raw_draw ` {buf. length buf = 32 \<and> raw_draw buf \<in> S}" by auto
      qed
    qed auto
  qed
  then show ?thesis by (rule bij_betw_same_card)
qed

lemma accepted_draws:
  assumes "0 \<le> r" "r < P"
  shows "randomFieldElement [buf] = Some (r, []) \<longleftrightarrow> raw_draw buf \<in> (\<lambda>k. r + k * P) ` {0..<5}"
proof -
  have "raw_draw buf < 5 * P \<and> raw_draw buf mod P = r \<longleftrightarrow> raw_draw buf \<in> (\<lambda>k. r + k * P) ` {0..<5}"
  proof
    assume a: "raw_draw buf < 5 * P \<and> raw_draw buf mod P = r"
    have raw: "raw_draw buf = r + (raw_draw buf div P) * P"
      using a by (metis add.commute div_mult_mod_eq)
    moreover have "\<not> 5 \<le> raw_draw buf div P"
    proof
      assume "5 \<le> raw_draw buf div P"
      then have "5 * P \<le> raw_draw buf div P * P" by (intro mult_right_mono) auto
      with raw a assms show False by linarith
    qed
    moreover have "0 \<le> raw_draw buf div P"
      using raw_draw_nonneg [of buf] by (simp add: pos_imp_zdiv_nonneg_iff)
    ultimately show "raw_draw buf \<in> (\<lambda>k. r + k * P) ` {0..<5}"
      by (intro image_eqI [of _ _ "raw_draw buf div P"]) auto
  next
    assume "raw_draw buf \<in> (\<lambda>k. r + k * P) ` {0..<5}"
    then obtain k where k: "k \<in> {0..<5}" and raw: "raw_draw buf = r + k * P" by blast
    have "k * P \<le> 4 * P" using k by (intro mult_right_mono) auto
    then have "raw_draw buf < 5 * P" using raw assms by linarith
    moreover have "raw_draw buf mod P = r" using raw assms by simp
    ultimately show "raw_draw buf < 5 * P \<and> raw_draw buf mod P = r" ..
  qed
  then show ?thesis
    by (auto simp: Let_def REJECTION_LIMIT_eq smod_mod_positive raw_draw_nonneg)
qed

lemma decodeShare_encodeShare [simp]: "decodeShare (encodeShare s) = Inr s"
  by (simp add: decodeShare_def encodeShare_def json_get_def BigInt_json_def)

lemma shamirSplit_returns:
  assumes "2 \<le> threshold" "threshold \<le> int n" "n \<le> 255"
    and "nat threshold - 1 \<le> length (filter (\<lambda>b. raw_draw b < REJECTION_LIMIT) draws)"
  shows "\<exists>shares rest. shamirSplit secret threshold n draws = Some (Inr (shares, rest)) \<and>
    length shares = n \<and>
    (\<forall>sub. distinct sub \<and> set sub \<subseteq> set shares \<and> nat threshold \<le> length sub \<longrightarrow>
      shamirReconstruct sub = secret mod P) \<and>
    (\<exists>cs. shares = sharesOf cs n)"
proof -
  obtain cs rest where cs: "randomFieldElements (nat threshold - 1) draws = Some (cs, rest)"
    using randomFieldElements_accepts assms(4) by blast
  then have len: "length (modp secret # cs) = nat threshold"
    using randomFieldElements_range [OF cs] assms(1) by simp
  have "shamirReconstruct sub = secret mod P"
    if "distinct sub" "set sub \<subseteq> set (sharesOf (modp secret # cs) n)" "nat threshold \<le> length sub" for sub
    using reconstruct_sharesOf [of n sub "modp secret # cs"] that assms(3) len
    by (simp add: evalShare_peval)
  then show ?thesis using cs assms(1,2) by (auto simp: shamirSplit_def)
qed

section \<open>Properties\<close>

text \<open>C1.  Any \<open>threshold\<close> or more distinct shares of a split secret, in any order, reconstruct exactly
  that secret modulo the field prime.  Committees of up to 255 nodes are covered, and the split
  returns as soon as \<open>randomBytes\<close> has produced \<open>threshold - 1\<close> accepted draws.\<close>

theorem shamir_split_reconstruct:
  assumes "2 \<le> threshold" "threshold \<le> int n" "n \<le> 255"
    and "nat threshold - 1 \<le> length (filter (\<lambda>b. raw_draw b < REJECTION_LIMIT) draws)"
  shows "\<exists>shares rest. shamirSplit secret threshold n draws = Some (Inr (shares, rest)) \<and>
    length shares = n \<and>
    (\<forall>sub. distinct sub \<and> set sub \<subseteq> set shares \<and> nat threshold \<le> length sub \<longrightarrow>
      shamirReconstruct sub = secret mod P)"
  using shamirSplit_returns [OF assms] by blast

lemma replicate_32: "replicate 32 x =
    [x, x, x, x, x, x, x, x, x, x, x, x, x, x, x, x, x, x, x, x, x, x, x, x, x, x, x, x, x, x, x, x]"
  by (simp add: numeral_eq_Suc)

lemma draw_7_accepted: "raw_draw (replicate 32 7) < REJECTION_LIMIT"
  unfolding replicate_32 by (simp add: raw_draw_value REJECTION_LIMIT_eq P_def nibbles_def digits_value_def)

theorem shamir_split_reconstruct_witness:
  "(2 :: int) \<le> 2 \<and> \<not> raw_draw (replicate 32 7) \<ge> REJECTION_LIMIT \<and>
   (\<exists>shares rest. shamirSplit 1000 2 3 [replicate 32 7] = Some (Inr (shares, rest)) \<and>
    length shares = 3 \<and>
    (\<forall>sub. distinct sub \<and> set sub \<subseteq> set shares \<and> nat 2 \<le> length sub \<longrightarrow>
      shamirReconstruct sub = 1000 mod P))"
  using shamir_split_reconstruct [of 2 3 "[replicate 32 7]" 1000] draw_7_accepted by simp

text \<open>C2.  Perfect hiding: whatever \<open>threshold - 1\<close> distinct holders see, every candidate secret
  explains it with exactly one list of the \<open>threshold - 1\<close> random coefficients.  With uniform draws
  (C3) the shares below the threshold are independent of the secret.\<close>

theorem shamir_hiding:
  assumes "n \<le> 255" "distinct idx" "set idx \<subseteq> {..<n}" "length idx = length cs"
  shows "\<exists>!cs'. length cs' = length cs \<and> set cs' \<subseteq> {0..<P} \<and>
    map ((!) (sharesOf (secret' # cs') n)) idx = map ((!) (sharesOf (secret # cs) n)) idx"
proof -
  define xs where "xs = map (\<lambda>i. int i + 1) idx"
  have range: "1 \<le> x \<and> x \<le> 255" if "x \<in> set xs" for x
    using that assms(1,3) by (auto simp: xs_def)
  have "distinct xs" using assms(2) by (simp add: xs_def distinct_map inj_on_def)
  then have points: "unit_points xs" using range by (intro unit_points_small) auto
  have units: "coprime x P" if "x \<in> set xs" for x
    using range [OF that] by (intro coprime_small) auto
  have view: "map ((!) (sharesOf (a # as) n)) idx = map ((!) (sharesOf (b # bs) n)) idx \<longleftrightarrow>
      map (evalShare (a # as)) xs = map (evalShare (b # bs)) xs" for a as b bs
  proof -
    have "i < n" if "i \<in> set idx" for i using that assms(3) by auto
    then show ?thesis by (simp add: xs_def)
  qed
  show ?thesis
    unfolding view by (rule hiding [OF points units]) (auto simp: xs_def assms(4) evalShare_peval)
qed

theorem shamir_hiding_witness:
  "distinct [0 :: nat] \<and>
   (\<exists>!cs'. length cs' = length [7 :: int] \<and> set cs' \<subseteq> {0..<P} \<and>
     map ((!) (sharesOf (5 # cs') 3)) [0] = map ((!) (sharesOf (1000 # [7]) 3)) [0])"
  using shamir_hiding [of 3 "[0]" "[7]" 5 1000] by simp

text \<open>C8.  Exact uniformity of \<open>randomFieldElement\<close>: every field element is the result of exactly five
  of the accepted 32-byte draws.\<close>

theorem randomFieldElement_uniform:
  assumes "0 \<le> r" "r < P"
  shows "card {buf. length buf = 32 \<and> randomFieldElement [buf] = Some (r, [])} = 5"
proof -
  have "r + k * P < 2 ^ 256" if "k < 5" for k
  proof -
    have "k * P \<le> 4 * P" using that by (intro mult_right_mono) auto
    then have "r + k * P < 5 * P" using assms by linarith
    also have "\<dots> \<le> 2 ^ 256" by (simp add: P_def)
    finally show ?thesis .
  qed
  then have "(\<lambda>k. r + k * P) ` {0..<5} \<subseteq> {0..<2 ^ 256}" using assms by auto
  moreover have "card ((\<lambda>k. r + k * P) ` {0..<5}) = 5"
    by (subst card_image) (auto simp: inj_on_def)
  ultimately show ?thesis
    unfolding accepted_draws [OF assms] by (simp add: card_raw_draw)
qed

theorem randomFieldElement_uniform_witness:
  "0 \<le> (42 :: int) \<and> 42 < P \<and>
   card {buf. length buf = 32 \<and> randomFieldElement [buf] = Some (42, [])} = 5"
  using randomFieldElement_uniform [of 42] by (simp add: P_def)

text \<open>Shares survive their transport encoding.\<close>

theorem decode_encode_share: "decodeShare (encodeShare s) = Inr s"
  by (rule decodeShare_encodeShare)

interpretation share_codec: codec encodeShare "\<lambda>e. case decodeShare e of Inl _ \<Rightarrow> None | Inr s \<Rightarrow> Some s"
  by unfold_locales simp

end
