(* ===== verification/Committee.thy ===== *)
theory Committee
  imports Shamir
begin

text \<open>
  \<open>packages/mpc-crypto/src/{types,committee}.ts\<close>: the user side of share encryption, the node side of
  decryption, and the signing and verification of match batches.  The functions of \<open>tweetnacl\<close> and
  the SHA-256 of \<open>node:crypto\<close> are the fields of \<open>Nacl\<close>; what the code relies on is stated as
  \<open>box_correct\<close> and \<open>sign_correct\<close> where a theorem uses it.  Key pairs and nonces that the library
  draws at random are arguments.
\<close>

section \<open>Data\<close>

record CommitteeNodeInfo =
  ni_nodeId :: string
  ni_encryptionPubkey :: string
  ni_signingPubkey :: string

record EncryptedShare =
  es_nodeId :: string
  es_ciphertext :: string
  es_nonce :: string
  es_senderPubkey :: string

record MpcIntent =
  mi_intentId :: string
  mi_userId :: string
  mi_inputAsset :: string
  mi_outputAsset :: string
  mi_expiryLedger :: int
  mi_policyId :: string
  mi_noteNullifier :: string
  mi_noteCommitment :: string
  mi_recipientCommitment :: string
  mi_encryptedShares :: "EncryptedShare list"
  mi_submittedAt :: int

text \<open>\<open>MatchResult\<close> with the optional members \<open>computeBatchHash\<close> reads from cross-asset matches.\<close>

record MatchResult =
  mr_intentAId :: string
  mr_intentBId :: string
  mr_matchedAmount7dp :: string
  mr_inputAsset :: string
  mr_outputAsset :: string
  mr_priceScaled :: "string option"
  mr_assetIn :: "string option"
  mr_assetOut :: "string option"

record NodeSignature =
  ns_nodeId :: string
  ns_signingPubkey :: string
  ns_signature :: string

record SignedMatchBatch =
  sb_batchId :: string
  sb_sessionId :: string
  sb_matches :: "MatchResult list"
  sb_batchHash :: string
  sb_signatures :: "NodeSignature list"

record KeyPair =
  kp_publicKey :: bytes
  kp_secretKey :: bytes

record CommitteeNodeKeyPair =
  ck_nodeId :: string
  ck_encryptionKeyPair :: KeyPair
  ck_signingKeyPair :: KeyPair

text \<open>The cryptographic library.  \<open>box\<close>, \<open>sign.detached\<close> and their inverses throw on inputs of the wrong
  size; \<open>box.open\<close> returns \<open>null\<close> when authentication fails.\<close>

record Nacl =
  nacl_box :: "bytes \<Rightarrow> bytes \<Rightarrow> bytes \<Rightarrow> bytes \<Rightarrow> bytes result"
  nacl_box_open :: "bytes \<Rightarrow> bytes \<Rightarrow> bytes \<Rightarrow> bytes \<Rightarrow> bytes option result"
  nacl_sign_detached :: "bytes \<Rightarrow> bytes \<Rightarrow> bytes result"
  nacl_sign_verify :: "bytes \<Rightarrow> bytes \<Rightarrow> bytes \<Rightarrow> bool result"
  nacl_sha256 :: "bytes \<Rightarrow> bytes"

text \<open>Documented behaviour: a box opened with the matching keys and nonce gives back the message, and
  a detached signature verifies under the signer's public key.\<close>

definition box_correct :: "Nacl \<Rightarrow> KeyPair \<Rightarrow> KeyPair \<Rightarrow> bytes \<Rightarrow> bool" where
  "box_correct N sender recipient nonce \<longleftrightarrow>
    (\<forall>m. \<exists>c. nacl_box N m nonce (kp_publicKey recipient) (kp_secretKey sender) = Inr c \<and>
      nacl_box_open N c nonce (kp_publicKey sender) (kp_secretKey recipient) = Inr (Some m))"

definition sign_correct :: "Nacl \<Rightarrow> KeyPair \<Rightarrow> bool" where
  "sign_correct N kp \<longleftrightarrow>
    (\<forall>m. \<exists>s. nacl_sign_detached N m (kp_secretKey kp) = Inr s \<and>
      nacl_sign_verify N m s (kp_publicKey kp) = Inr True)"

section \<open>Keys and shares\<close>

definition generateNodeKeyPair :: "string \<Rightarrow> KeyPair \<Rightarrow> KeyPair \<Rightarrow> CommitteeNodeKeyPair" where
  "generateNodeKeyPair nodeId boxKp signKp =
    \<lparr>ck_nodeId = nodeId, ck_encryptionKeyPair = boxKp, ck_signingKeyPair = signKp\<rparr>"

definition nodePublicInfo :: "CommitteeNodeKeyPair \<Rightarrow> CommitteeNodeInfo" where
  "nodePublicInfo kp =
    \<lparr>ni_nodeId = ck_nodeId kp,
     ni_encryptionPubkey = hex_encode (kp_publicKey (ck_encryptionKeyPair kp)),
     ni_signingPubkey = hex_encode (kp_publicKey (ck_signingKeyPair kp))\<rparr>"

definition encryptShareForNode ::
  "Nacl \<Rightarrow> KeyPair \<Rightarrow> bytes \<Rightarrow> EncodedShare \<Rightarrow> string \<Rightarrow> string \<Rightarrow> EncryptedShare result" where
  "encryptShareForNode N ephemeralKp nonce share recipientPubkeyHex nodeId =
    (let recipientPk = hex_decode recipientPubkeyHex;
         plaintext = utf8_encode (stringify share)
     in bindR (nacl_box N plaintext nonce recipientPk (kp_secretKey ephemeralKp)) (\<lambda>ciphertext.
        Inr \<lparr>es_nodeId = nodeId, es_ciphertext = hex_encode ciphertext, es_nonce = hex_encode nonce,
             es_senderPubkey = hex_encode (kp_publicKey ephemeralKp)\<rparr>))"

text \<open>\<open>splitAmountForCommittee\<close>: \<open>draws\<close> feed the polynomial, \<open>ephs\<close> are the fresh key pairs and
  nonces of the shares, one per node.  The outer \<open>None\<close> is a rejection loop without enough draws.\<close>

definition splitAmountForCommittee ::
  "Nacl \<Rightarrow> bytes list \<Rightarrow> (KeyPair \<times> bytes) list \<Rightarrow> string \<Rightarrow> CommitteeNodeInfo list \<Rightarrow> int \<Rightarrow>
   EncryptedShare list result option" where
  "splitAmountForCommittee N draws ephs amount7dpStr nodes threshold =
    (case BigInt amount7dpStr of
       Inl e \<Rightarrow> Some (Inl e)
     | Inr amount \<Rightarrow>
         (case shamirSplit amount threshold (length nodes) draws of
            None \<Rightarrow> None
          | Some (Inl e) \<Rightarrow> Some (Inl e)
          | Some (Inr (rawShares, _)) \<Rightarrow>
              Some (mapR (\<lambda>(node, share, eph).
                  encryptShareForNode N (fst eph) (snd eph) (encodeShare share)
                    (ni_encryptionPubkey node) (ni_nodeId node))
                (zip nodes (zip rawShares ephs)))))"

definition parse_utf8_json :: "bytes \<Rightarrow> json result" where
  "parse_utf8_json bs =
    (case utf8_decode bs of None \<Rightarrow> Inl (Syntax_Error ''Unexpected token'') | Some s \<Rightarrow> json_parse s)"

definition decryptShare :: "Nacl \<Rightarrow> EncryptedShare \<Rightarrow> bytes \<Rightarrow> EncodedShare result" where
  "decryptShare N encrypted nodeEncryptionSecretKey =
    (let ciphertext = hex_decode (es_ciphertext encrypted);
         nonce = hex_decode (es_nonce encrypted);
         senderPk = hex_decode (es_senderPubkey encrypted)
     in bindR (nacl_box_open N ciphertext nonce senderPk nodeEncryptionSecretKey) (\<lambda>plaintext.
        case plaintext of
          None \<Rightarrow> Inl (Js_Error ''decryptShare: authentication failed - tampered ciphertext'')
        | Some p \<Rightarrow> parse_utf8_json p))"

definition reconstructAmount :: "EncodedShare list \<Rightarrow> int result" where
  "reconstructAmount decryptedShares =
    bindR (mapR decodeShare decryptedShares) (\<lambda>shares. Inr (shamirReconstruct shares))"

section \<open>Batches\<close>

record BatchRow =
  row_a :: string
  row_b :: string
  row_amt :: string
  row_in :: string
  row_out :: string
  row_price :: string
  row_assetIn :: string
  row_assetOut :: string

definition or_empty :: "string option \<Rightarrow> string" where
  "or_empty s = (case s of None \<Rightarrow> '''' | Some t \<Rightarrow> t)"

definition batch_row :: "MatchResult \<Rightarrow> BatchRow" where
  "batch_row m =
    \<lparr>row_a = mr_intentAId m, row_b = mr_intentBId m, row_amt = mr_matchedAmount7dp m,
     row_in = mr_inputAsset m, row_out = mr_outputAsset m,
     row_price = or_empty (mr_priceScaled m), row_assetIn = or_empty (mr_assetIn m),
     row_assetOut = or_empty (mr_assetOut m)\<rparr>"

definition row_fields :: "BatchRow \<Rightarrow> string list" where
  "row_fields r =
    [row_a r, row_b r, row_amt r, row_in r, row_out r, row_price r, row_assetIn r, row_assetOut r]"

definition row_key :: "BatchRow \<Rightarrow> string" where
  "row_key r = js_join '' '' (row_fields r)"

definition row_cmp :: "BatchRow \<Rightarrow> BatchRow \<Rightarrow> int" where
  "row_cmp x y =
    (let kx = row_key x; ky = row_key y in if kx < ky then -1 else if kx > ky then 1 else 0)"

definition row_json :: "BatchRow \<Rightarrow> json" where
  "row_json r =
    JObj [(''a'', JStr (row_a r)), (''b'', JStr (row_b r)), (''amt'', JStr (row_amt r)),
      (''in'', JStr (row_in r)), (''out'', JStr (row_out r)), (''price'', JStr (row_price r)),
      (''assetIn'', JStr (row_assetIn r)), (''assetOut'', JStr (row_assetOut r))]"

definition batch_canonical :: "string \<Rightarrow> MatchResult list \<Rightarrow> string" where
  "batch_canonical batchId matches =
    stringify (JObj [(''batchId'', JStr batchId),
      (''matches'', JArr (map row_json (js_sort row_cmp (map batch_row matches))))])"

definition computeBatchHash :: "Nacl \<Rightarrow> string \<Rightarrow> MatchResult list \<Rightarrow> string" where
  "computeBatchHash N batchId matches =
    hex_encode (nacl_sha256 N (utf8_encode (batch_canonical batchId matches)))"

definition signBatch ::
  "Nacl \<Rightarrow> string \<Rightarrow> MatchResult list \<Rightarrow> CommitteeNodeKeyPair \<Rightarrow> NodeSignature result" where
  "signBatch N batchId matches nodeKeyPair =
    (let msg = hex_decode (computeBatchHash N batchId matches)
     in bindR (nacl_sign_detached N msg (kp_secretKey (ck_signingKeyPair nodeKeyPair))) (\<lambda>sig.
        Inr \<lparr>ns_nodeId = ck_nodeId nodeKeyPair,
             ns_signingPubkey = hex_encode (kp_publicKey (ck_signingKeyPair nodeKeyPair)),
             ns_signature = hex_encode sig\<rparr>))"

definition verifyNodeSignature ::
  "Nacl \<Rightarrow> string \<Rightarrow> MatchResult list \<Rightarrow> NodeSignature \<Rightarrow> bool result" where
  "verifyNodeSignature N batchId matches sig =
    (let msg = hex_decode (computeBatchHash N batchId matches)
     in nacl_sign_verify N msg (hex_decode (ns_signature sig)) (hex_decode (ns_signingPubkey sig)))"

text \<open>The loop of \<open>verifySignedBatch\<close>: \<open>Inr (Some seen)\<close> when it runs to the end, \<open>Inr None\<close> for an
  early \<open>return false\<close>.\<close>

fun verify_signers ::
  "(NodeSignature \<Rightarrow> bool result) \<Rightarrow> string set \<Rightarrow> string list \<Rightarrow> NodeSignature list \<Rightarrow> string list option result" where
  "verify_signers ok expected seen [] = Inr (Some seen)"
| "verify_signers ok expected seen (sig # sigs) =
    (if ns_signingPubkey sig \<notin> expected then Inr None
     else if ns_signingPubkey sig \<in> set seen then Inr None
     else bindR (ok sig) (\<lambda>v.
       if \<not> v then Inr None else verify_signers ok expected (ns_signingPubkey sig # seen) sigs))"

text \<open>\<open>Math.ceil(n * 2 / 3)\<close>.\<close>

definition quorum :: "nat \<Rightarrow> nat" where
  "quorum n = (2 * n + 2) div 3"

definition verifySignedBatch :: "Nacl \<Rightarrow> SignedMatchBatch \<Rightarrow> CommitteeNodeInfo list \<Rightarrow> bool result" where
  "verifySignedBatch N batch committee =
    bindR (verify_signers (verifyNodeSignature N (sb_batchId batch) (sb_matches batch))
        (set (map ni_signingPubkey committee)) [] (sb_signatures batch))
      (\<lambda>seen. case seen of
          None \<Rightarrow> Inr False
        | Some signers \<Rightarrow> Inr (length signers \<ge> quorum (length committee)))"

section \<open>Shares reach their nodes\<close>

lemma parse_utf8_json_print [simp]: "parse_utf8_json (utf8_encode (stringify j)) = Inr j"
  by (simp add: parse_utf8_json_def)

lemma decrypt_encrypt_share:
  assumes "box_correct N eph nodeKp nonce"
  shows "\<exists>e. encryptShareForNode N eph nonce share (hex_encode (kp_publicKey nodeKp)) nodeId = Inr e \<and>
    es_nodeId e = nodeId \<and> decryptShare N e (kp_secretKey nodeKp) = Inr share"
proof -
  obtain c where "nacl_box N (utf8_encode (stringify share)) nonce (kp_publicKey nodeKp) (kp_secretKey eph) = Inr c"
    "nacl_box_open N c nonce (kp_publicKey eph) (kp_secretKey nodeKp) = Inr (Some (utf8_encode (stringify share)))"
    using assms unfolding box_correct_def by blast
  then show ?thesis by (simp add: encryptShareForNode_def decryptShare_def)
qed

lemma reconstructAmount_encoded [simp]:
  "reconstructAmount (map encodeShare shares) = Inr (shamirReconstruct shares)"
proof -
  have "mapR decodeShare (map encodeShare shares) = Inr shares"
    by (simp add: mapR_Inr_iff)
  then show ?thesis by (simp add: reconstructAmount_def)
qed

section \<open>Verification of a batch\<close>

lemma verify_signers_iff:
  "verify_signers ok expected seen sigs = Inr (Some out) \<longleftrightarrow>
    (\<forall>s \<in> set sigs. ns_signingPubkey s \<in> expected \<and> ok s = Inr True) \<and>
    distinct (map ns_signingPubkey sigs) \<and> set (map ns_signingPubkey sigs) \<inter> set seen = {} \<and>
    out = rev (map ns_signingPubkey sigs) @ seen"
  by (induction sigs arbitrary: seen) auto

lemma verifySignedBatch_iff:
  "verifySignedBatch N batch committee = Inr True \<longleftrightarrow>
    (\<forall>s \<in> set (sb_signatures batch). ns_signingPubkey s \<in> set (map ni_signingPubkey committee) \<and>
      verifyNodeSignature N (sb_batchId batch) (sb_matches batch) s = Inr True) \<and>
    distinct (map ns_signingPubkey (sb_signatures batch)) \<and>
    quorum (length committee) \<le> length (sb_signatures batch)"
  by (auto simp: verifySignedBatch_def verify_signers_iff split: option.splits)

lemma quorum_two_thirds: "3 * quorum n \<ge> 2 * n" "quorum n \<le> n \<or> n = 0"
  by (auto simp: quorum_def)

lemma signBatch_verifies:
  assumes "sign_correct N (ck_signingKeyPair kp)"
  shows "\<exists>s. signBatch N batchId matches kp = Inr s \<and>
    ns_signingPubkey s = ni_signingPubkey (nodePublicInfo kp) \<and>
    verifyNodeSignature N batchId matches s = Inr True"
proof -
  let ?msg = "hex_decode (computeBatchHash N batchId matches)"
  obtain s where "nacl_sign_detached N ?msg (kp_secretKey (ck_signingKeyPair kp)) = Inr s"
    "nacl_sign_verify N ?msg s (kp_publicKey (ck_signingKeyPair kp)) = Inr True"
    using assms unfolding sign_correct_def by blast
  then show ?thesis by (simp add: signBatch_def verifyNodeSignature_def nodePublicInfo_def)
qed

lemma honest_batch:
  assumes "distinct (map (\<lambda>kp. ni_signingPubkey (nodePublicInfo kp)) signers)"
    and "set signers \<subseteq> set kps" "quorum (length kps) \<le> length signers"
    and "\<And>kp. kp \<in> set signers \<Longrightarrow> sign_correct N (ck_signingKeyPair kp)"
  shows "\<exists>sigs. mapR (signBatch N batchId ms) signers = Inr sigs \<and>
    verifySignedBatch N \<lparr>sb_batchId = batchId, sb_sessionId = sid, sb_matches = ms, sb_batchHash = h,
      sb_signatures = sigs\<rparr> (map nodePublicInfo kps) = Inr True"
proof -
  define f where "f kp = projr (signBatch N batchId ms kp)" for kp
  have f: "signBatch N batchId ms kp = Inr (f kp) \<and>
      ns_signingPubkey (f kp) = ni_signingPubkey (nodePublicInfo kp) \<and>
      verifyNodeSignature N batchId ms (f kp) = Inr True" if "kp \<in> set signers" for kp
    using signBatch_verifies [OF assms(4) [OF that], of batchId ms] unfolding f_def by auto
  have "mapR (signBatch N batchId ms) signers = Inr (map f signers)"
    by (rule mapR_all_Inr) (simp add: f)
  moreover have "map ns_signingPubkey (map f signers) = map (\<lambda>kp. ni_signingPubkey (nodePublicInfo kp)) signers"
    by (simp add: f)
  moreover have "ns_signingPubkey s \<in> set (map ni_signingPubkey (map nodePublicInfo kps)) \<and>
      verifyNodeSignature N batchId ms s = Inr True" if "s \<in> set (map f signers)" for s
    using that f assms(2) by auto
  ultimately show ?thesis
    using assms(1,3) unfolding verifySignedBatch_iff
    by (intro exI [of _ "map f signers"]) (simp del: map_map set_map)
qed

section \<open>The batch hash\<close>

lemma row_fields_inject [simp]: "row_fields r = row_fields r' \<longleftrightarrow> r = r'"
  by (cases r; cases r') (simp add: row_fields_def)

lemma row_cmp_key: "row_cmp x y < 0 \<longleftrightarrow> row_key x < row_key y"
  by (simp add: row_cmp_def Let_def)

lemma js_sort_row_cmp: "js_sort row_cmp rows = sort_key row_key rows"
  by (rule js_sort_key) (rule row_cmp_key)

definition space_free :: "MatchResult \<Rightarrow> bool" where
  "space_free m = list_all (\<lambda>f. CHR '' '' \<notin> set f) (row_fields (batch_row m))"

lemma row_key_inj: "list_all space_free ms \<Longrightarrow> inj_on row_key (set (map batch_row ms))"
proof (rule inj_onI)
  fix r r' assume free: "list_all space_free ms" and r: "r \<in> set (map batch_row ms)" "r' \<in> set (map batch_row ms)"
    and eq: "row_key r = row_key r'"
  have "CHR '' '' \<notin> set f" if "f \<in> set (row_fields r) \<union> set (row_fields r')" for f
    using that r free by (auto simp: list_all_iff space_free_def)
  then have "row_fields r = row_fields r'"
    using eq unfolding row_key_def by (subst (asm) js_join_inject) (auto simp: row_fields_def)
  then show "r = r'" by simp
qed

lemma row_json_inject [simp]: "row_json r = row_json r' \<longleftrightarrow> r = r'"
  by (cases r; cases r') (simp add: row_json_def)

lemma inj_row_json: "inj row_json"
  by (rule injI) simp

lemma batch_canonical_inject:
  "batch_canonical b ms = batch_canonical b' ms' \<longleftrightarrow>
    b = b' \<and> sort_key row_key (map batch_row ms) = sort_key row_key (map batch_row ms')"
  unfolding batch_canonical_def json_codec.enc_inject js_sort_row_cmp
  by (simp add: inj_map_eq_map [OF inj_row_json])

lemma batch_canonical_binds:
  "batch_canonical b ms = batch_canonical b' ms' \<Longrightarrow>
    b = b' \<and> image_mset batch_row (mset ms) = image_mset batch_row (mset ms')"
  unfolding batch_canonical_inject by (metis mset_map mset_sort)

section \<open>End to end: a split amount\<close>

lemma encrypt_all_shares:
  assumes "length ephs = length kps" "length raw = length kps"
    "\<And>i. i < length kps \<Longrightarrow> box_correct N (fst (ephs ! i)) (ck_encryptionKeyPair (kps ! i)) (snd (ephs ! i))"
  shows "\<exists>shares. mapR (\<lambda>(node, share, eph). encryptShareForNode N (fst eph) (snd eph) (encodeShare share) (ni_encryptionPubkey node) (ni_nodeId node))
      (zip (map nodePublicInfo kps) (zip raw ephs)) = Inr shares \<and> length shares = length kps \<and>
    (\<forall>i < length kps. es_nodeId (shares ! i) = ck_nodeId (kps ! i) \<and>
      decryptShare N (shares ! i) (kp_secretKey (ck_encryptionKeyPair (kps ! i))) = Inr (encodeShare (raw ! i)))"
proof -
  let ?enc = "\<lambda>(node, share, eph). encryptShareForNode N (fst eph) (snd eph) (encodeShare share)
                    (ni_encryptionPubkey node) (ni_nodeId node)"
  let ?in = "zip (map nodePublicInfo kps) (zip raw ephs)"
  have len: "length ?in = length kps" using assms(1,2) by simp
  have each: "\<exists>e. ?enc (?in ! i) = Inr e \<and> es_nodeId e = ck_nodeId (kps ! i) \<and>
      decryptShare N e (kp_secretKey (ck_encryptionKeyPair (kps ! i))) = Inr (encodeShare (raw ! i))"
    if "i < length kps" for i
    using decrypt_encrypt_share [OF assms(3) [OF that], of "encodeShare (raw ! i)" "ck_nodeId (kps ! i)"]
      that assms(1,2) by (simp add: nodePublicInfo_def)
  define shares where "shares = map (\<lambda>x. projr (?enc x)) ?in"
  have "?enc x = Inr (projr (?enc x))" if x: "x \<in> set ?in" for x
  proof -
    obtain i where i: "i < length kps" "x = ?in ! i"
      using x [unfolded in_set_conv_nth] unfolding len by metis
    obtain e where "?enc x = Inr e" using each [OF i(1)] i(2) by blast
    then show ?thesis by (simp only: sum.sel)
  qed
  then have "mapR ?enc ?in = Inr shares" unfolding shares_def by (rule mapR_all_Inr)
  moreover have "shares ! i = projr (?enc (?in ! i))" if "i < length kps" for i
    using that len unfolding shares_def by simp
  moreover have "length shares = length kps" using len by (simp add: shares_def)
  ultimately show ?thesis using each by fastforce
qed

lemma splitAmount_shares:
  assumes "BigInt amountStr = Inr amount" "length ephs = length kps"
    "shamirSplit amount threshold (length kps) draws = Some (Inr (raw, rest))" "length raw = length kps"
    "\<And>i. i < length kps \<Longrightarrow> box_correct N (fst (ephs ! i)) (ck_encryptionKeyPair (kps ! i)) (snd (ephs ! i))"
  shows "\<exists>shares. splitAmountForCommittee N draws ephs amountStr (map nodePublicInfo kps) threshold = Some (Inr shares) \<and>
    length shares = length kps \<and>
    (\<forall>i < length kps. es_nodeId (shares ! i) = ck_nodeId (kps ! i) \<and>
      decryptShare N (shares ! i) (kp_secretKey (ck_encryptionKeyPair (kps ! i))) = Inr (encodeShare (raw ! i)))"
  using encrypt_all_shares [OF assms(2,4,5)] assms(1,3) by (simp add: splitAmountForCommittee_def)

text \<open>Nodes that decrypt their own shares of a polynomial and reconstruct get its value at zero.\<close>

lemma decrypt_reconstruct:
  assumes "n \<le> 255" "raw = sharesOf cs n" "distinct idx" "set idx \<subseteq> {..<n}" "length cs \<le> length idx"
    and "\<And>i. i < n \<Longrightarrow> dec i = Inr (encodeShare (raw ! i))"
  shows "bindR (mapR dec idx) reconstructAmount = Inr (evalShare cs 0)"
proof -
  have "mapR dec idx = Inr (map (\<lambda>i. encodeShare (raw ! i)) idx)" using assms(4,6) by (intro mapR_all_Inr) auto
  moreover have "distinct (map ((!) raw) idx)" using assms(2-4) by (auto simp: distinct_map inj_on_def subset_iff)
  moreover have "set (map ((!) raw) idx) \<subseteq> set raw"
    using assms(2,4) nth_mem [of _ "sharesOf cs n"] by (auto simp del: sharesOf_nth)
  ultimately show ?thesis
    using reconstruct_sharesOf [of n "map ((!) raw) idx" cs] reconstructAmount_encoded [of "map ((!) raw) idx"] assms(1,2,5) by (simp add: comp_def)
qed

section \<open>Properties\<close>

text \<open>C3.  End to end: an amount split for a committee of up to 255 nodes gives every node its share,
  and any \<open>threshold\<close> nodes that decrypt their own shares reconstruct exactly the submitted amount
  (modulo the field prime), whatever the order of the nodes.\<close>

theorem split_decrypt_reconstruct:
  assumes "2 \<le> threshold" "threshold \<le> int (length kps)" "length kps \<le> 255"
    and "nat threshold - 1 \<le> length (filter (\<lambda>b. raw_draw b < REJECTION_LIMIT) draws)"
    and "BigInt amountStr = Inr amount" "length ephs = length kps"
    and "\<And>i. i < length kps \<Longrightarrow> box_correct N (fst (ephs ! i)) (ck_encryptionKeyPair (kps ! i)) (snd (ephs ! i))"
  shows "\<exists>shares. splitAmountForCommittee N draws ephs amountStr (map nodePublicInfo kps) threshold = Some (Inr shares) \<and>
    (\<forall>idx. distinct idx \<and> set idx \<subseteq> {..<length kps} \<and> nat threshold \<le> length idx \<longrightarrow>
      bindR (mapR (\<lambda>i. decryptShare N (shares ! i) (kp_secretKey (ck_encryptionKeyPair (kps ! i)))) idx)
        reconstructAmount = Inr (amount mod P))"
proof -
  obtain raw rest cs where raw: "shamirSplit amount threshold (length kps) draws = Some (Inr (raw, rest))"
      "length raw = length kps" "raw = sharesOf cs (length kps)"
    and rec: "\<And>sub. distinct sub \<Longrightarrow> set sub \<subseteq> set raw \<Longrightarrow> nat threshold \<le> length sub \<Longrightarrow>
      shamirReconstruct sub = amount mod P"
    using shamirSplit_returns [OF assms(1-4), of amount] by blast
  obtain shares where shares: "splitAmountForCommittee N draws ephs amountStr (map nodePublicInfo kps) threshold
      = Some (Inr shares)"
    and dec: "\<And>i. i < length kps \<Longrightarrow>
      decryptShare N (shares ! i) (kp_secretKey (ck_encryptionKeyPair (kps ! i))) = Inr (encodeShare (raw ! i))"
    using splitAmount_shares [OF assms(5,6) raw(1,2) assms(7)] by blast
  have "bindR (mapR (\<lambda>i. decryptShare N (shares ! i) (kp_secretKey (ck_encryptionKeyPair (kps ! i)))) idx)
        reconstructAmount = Inr (amount mod P)"
    if idx: "distinct idx" "set idx \<subseteq> {..<length kps}" "nat threshold \<le> length idx" for idx
  proof -
    have "mapR (\<lambda>i. decryptShare N (shares ! i) (kp_secretKey (ck_encryptionKeyPair (kps ! i)))) idx
        = Inr (map (\<lambda>i. encodeShare (raw ! i)) idx)"
      using idx(2) dec by (intro mapR_all_Inr) auto
    moreover have "distinct (map ((!) raw) idx)"
      using idx(1,2) raw(3) by (auto simp: distinct_map inj_on_def subset_iff)
    moreover have "set (map ((!) raw) idx) \<subseteq> set raw" using idx(2) raw(2) by auto
    ultimately show ?thesis
      using rec [of "map ((!) raw) idx"] idx(3) reconstructAmount_encoded [of "map ((!) raw) idx"]
      by (simp add: comp_def)
  qed
  with shares show ?thesis by blast
qed

text \<open>A concrete library for the witnesses: boxes in the clear, a constant signature, an identity hash.\<close>

definition plain_nacl :: Nacl where
  "plain_nacl =
    \<lparr>nacl_box = (\<lambda>m _ _ _. Inr m), nacl_box_open = (\<lambda>c _ _ _. Inr (Some c)),
     nacl_sign_detached = (\<lambda>m sk. Inr sk), nacl_sign_verify = (\<lambda>m s pk. Inr (s = pk)),
     nacl_sha256 = (\<lambda>b. b)\<rparr>"

definition plain_kp :: "nat \<Rightarrow> CommitteeNodeKeyPair" where
  "plain_kp i =
    generateNodeKeyPair (''node-'' @ nat_to_radix 10 i)
      \<lparr>kp_publicKey = [byte_of i], kp_secretKey = [byte_of i]\<rparr>
      \<lparr>kp_publicKey = [byte_of i], kp_secretKey = [byte_of i]\<rparr>"

lemma plain_nacl_correct [simp]:
  "box_correct plain_nacl a b nonce" "sign_correct plain_nacl (ck_signingKeyPair (plain_kp i))"
  by (simp_all add: box_correct_def sign_correct_def plain_nacl_def plain_kp_def generateNodeKeyPair_def)

theorem split_decrypt_reconstruct_witness:
  "BigInt ''1000'' = Inr 1000 \<and>
   (\<exists>shares. splitAmountForCommittee plain_nacl [replicate 32 7]
      (replicate 3 (\<lparr>kp_publicKey = [1], kp_secretKey = [1]\<rparr>, [])) ''1000''
      (map nodePublicInfo (map plain_kp [0, 1, 2])) 2 = Some (Inr shares) \<and>
    (\<forall>idx. distinct idx \<and> set idx \<subseteq> {..<length (map plain_kp [0, 1, 2])} \<and> nat 2 \<le> length idx \<longrightarrow>
      bindR (mapR (\<lambda>i. decryptShare plain_nacl (shares ! i)
          (kp_secretKey (ck_encryptionKeyPair (map plain_kp [0, 1, 2] ! i)))) idx)
        reconstructAmount = Inr (1000 mod P)))"
proof
  show amount: "BigInt ''1000'' = Inr 1000" by code_simp
  show "\<exists>shares. splitAmountForCommittee plain_nacl [replicate 32 7]
      (replicate 3 (\<lparr>kp_publicKey = [1], kp_secretKey = [1]\<rparr>, [])) ''1000''
      (map nodePublicInfo (map plain_kp [0, 1, 2])) 2 = Some (Inr shares) \<and>
    (\<forall>idx. distinct idx \<and> set idx \<subseteq> {..<length (map plain_kp [0, 1, 2])} \<and> nat 2 \<le> length idx \<longrightarrow>
      bindR (mapR (\<lambda>i. decryptShare plain_nacl (shares ! i)
          (kp_secretKey (ck_encryptionKeyPair (map plain_kp [0, 1, 2] ! i)))) idx)
        reconstructAmount = Inr (1000 mod P))"
    by (rule split_decrypt_reconstruct [OF _ _ _ _ amount])
      (simp_all add: draw_7_accepted del: list.map)
qed

text \<open>C4.  What \<open>verifySignedBatch\<close> accepts, exactly: every signature is by a committee key and valid for
  the batch's id and matches, no key signs twice, and the signers number at least two thirds of the
  committee.\<close>

theorem verifySignedBatch_exact:
  "verifySignedBatch N batch committee = Inr True \<longleftrightarrow>
    (\<forall>s \<in> set (sb_signatures batch). ns_signingPubkey s \<in> set (map ni_signingPubkey committee) \<and>
      nacl_sign_verify N (nacl_sha256 N (utf8_encode (batch_canonical (sb_batchId batch) (sb_matches batch))))
        (hex_decode (ns_signature s)) (hex_decode (ns_signingPubkey s)) = Inr True) \<and>
    distinct (map ns_signingPubkey (sb_signatures batch)) \<and>
    2 * length committee \<le> 3 * length (sb_signatures batch)"
proof -
  have "quorum n \<le> k \<longleftrightarrow> 2 * n \<le> 3 * k" for n k by (auto simp: quorum_def)
  then show ?thesis
    by (simp add: verifySignedBatch_iff verifyNodeSignature_def computeBatchHash_def)
qed

definition plain_batch :: SignedMatchBatch where
  "plain_batch =
    \<lparr>sb_batchId = ''b'', sb_sessionId = ''s'', sb_matches = [], sb_batchHash = '''',
     sb_signatures = map (\<lambda>i. \<lparr>ns_nodeId = ''n'', ns_signingPubkey = hex_encode [byte_of i],
       ns_signature = hex_encode [byte_of i]\<rparr>) [0, 1]\<rparr>"

theorem verifySignedBatch_exact_witness:
  "verifySignedBatch plain_nacl plain_batch (map nodePublicInfo (map plain_kp [0, 1, 2])) = Inr True"
  unfolding verifySignedBatch_exact
  by (simp add: plain_batch_def plain_nacl_def plain_kp_def generateNodeKeyPair_def nodePublicInfo_def inj_hex_encode [THEN inj_eq] byte_of_def)

text \<open>C5.  Quorum intersection: if two batches both verify for the same committee, at least a third of
  the committee's keys signed both, so conflicting batches need that many double signers.\<close>

theorem quorum_intersection:
  assumes "verifySignedBatch N b1 committee = Inr True" "verifySignedBatch N b2 committee = Inr True"
  shows "length committee \<le> 3 * card (ns_signingPubkey ` set (sb_signatures b1) \<inter> ns_signingPubkey ` set (sb_signatures b2))"
proof -
  let ?A = "ns_signingPubkey ` set (sb_signatures b1)" and ?B = "ns_signingPubkey ` set (sb_signatures b2)"
  let ?C = "set (map ni_signingPubkey committee)"
  have A: "?A \<subseteq> ?C" "quorum (length committee) \<le> card ?A"
    using assms(1) distinct_card [of "map ns_signingPubkey (sb_signatures b1)"]
    unfolding verifySignedBatch_iff by auto
  have B: "?B \<subseteq> ?C" "quorum (length committee) \<le> card ?B"
    using assms(2) distinct_card [of "map ns_signingPubkey (sb_signatures b2)"]
    unfolding verifySignedBatch_iff by auto
  have "card (?A \<union> ?B) \<le> card ?C" using A(1) B(1) by (intro card_mono) auto
  also have "\<dots> \<le> length committee" by (metis card_length length_map)
  finally have "card (?A \<union> ?B) \<le> length committee" .
  moreover have "card ?A + card ?B = card (?A \<union> ?B) + card (?A \<inter> ?B)"
    by (rule card_Un_Int) auto
  ultimately show ?thesis
    using A(2) B(2) quorum_two_thirds(1) [of "length committee"] by linarith
qed

lemma plain_batch_verifies: "verifySignedBatch plain_nacl plain_batch (map nodePublicInfo (map plain_kp [0, 1, 2])) = Inr True"
  by code_simp

theorem quorum_intersection_witness:
  "verifySignedBatch plain_nacl plain_batch (map nodePublicInfo (map plain_kp [0, 1, 2])) = Inr True \<and>
   length (map nodePublicInfo (map plain_kp [0, 1, 2]))
     \<le> 3 * card (ns_signingPubkey ` set (sb_signatures plain_batch) \<inter> ns_signingPubkey ` set (sb_signatures plain_batch))"
  using quorum_intersection [OF plain_batch_verifies plain_batch_verifies] plain_batch_verifies by (rule conjI [rotated])

text \<open>The batch hash does not depend on the order in which the matches are listed, provided no
  signed field contains a space.\<close>

theorem computeBatchHash_order_independent:
  assumes "mset ms = mset ms'" "list_all space_free ms"
  shows "computeBatchHash N batchId ms = computeBatchHash N batchId ms'"
proof -
  have "mset (map batch_row ms) = mset (map batch_row ms')" using assms(1) by simp
  then have "sort_key row_key (map batch_row ms) = sort_key row_key (map batch_row ms')"
    by (rule sort_key_mset_eq) (rule row_key_inj [OF assms(2)])
  then have "batch_canonical batchId ms = batch_canonical batchId ms'"
    by (simp add: batch_canonical_inject)
  then show ?thesis by (simp add: computeBatchHash_def)
qed

definition plain_match :: "string \<Rightarrow> string \<Rightarrow> MatchResult" where
  "plain_match a b =
    \<lparr>mr_intentAId = a, mr_intentBId = b, mr_matchedAmount7dp = ''5'', mr_inputAsset = ''USDC'',
     mr_outputAsset = ''EURC'', mr_priceScaled = None, mr_assetIn = None, mr_assetOut = None\<rparr>"

theorem computeBatchHash_order_independent_witness:
  "list_all space_free [plain_match ''i1'' ''i2'', plain_match ''i3'' ''i4''] \<and>
   computeBatchHash plain_nacl ''b'' [plain_match ''i1'' ''i2'', plain_match ''i3'' ''i4''] =
   computeBatchHash plain_nacl ''b'' [plain_match ''i3'' ''i4'', plain_match ''i1'' ''i2'']"
proof
  show free: "list_all space_free [plain_match ''i1'' ''i2'', plain_match ''i3'' ''i4'']" by code_simp
  show "computeBatchHash plain_nacl ''b'' [plain_match ''i1'' ''i2'', plain_match ''i3'' ''i4''] =
   computeBatchHash plain_nacl ''b'' [plain_match ''i3'' ''i4'', plain_match ''i1'' ''i2'']"
    by (rule computeBatchHash_order_independent [OF _ free]) simp
qed

text \<open>C7.  The batch hash binds everything that is signed: unless SHA-256 collides on the two canonical
  texts, equal hashes mean the same batch id and the same rows with the same multiplicities.\<close>

theorem computeBatchHash_binding:
  assumes "computeBatchHash N b ms = computeBatchHash N b' ms'"
    and "inj_on (nacl_sha256 N) {utf8_encode (batch_canonical b ms), utf8_encode (batch_canonical b' ms')}"
  shows "b = b' \<and> image_mset batch_row (mset ms) = image_mset batch_row (mset ms')"
proof (rule batch_canonical_binds)
  have "nacl_sha256 N (utf8_encode (batch_canonical b ms)) = nacl_sha256 N (utf8_encode (batch_canonical b' ms'))"
    using assms(1) by (simp add: computeBatchHash_def hex.enc_inject)
  then have "utf8_encode (batch_canonical b ms) = utf8_encode (batch_canonical b' ms')"
    by (rule inj_onD [OF assms(2)]) simp_all
  then show "batch_canonical b ms = batch_canonical b' ms'"
    by (simp only: utf8.enc_inject)
qed

theorem computeBatchHash_binding_witness:
  "inj_on (nacl_sha256 plain_nacl) {utf8_encode (batch_canonical ''b'' [plain_match ''i1'' ''i2'']),
      utf8_encode (batch_canonical ''b'' [plain_match ''i1'' ''i2''])} \<and>
   image_mset batch_row (mset [plain_match ''i1'' ''i2'']) = image_mset batch_row (mset [plain_match ''i1'' ''i2''])"
  using computeBatchHash_binding [of plain_nacl "''b''" "[plain_match ''i1'' ''i2'']" "''b''" "[plain_match ''i1'' ''i2'']"]
  by simp

text \<open>Without that proviso the order does matter: two rows whose space-joined keys coincide keep
  their input order, so two listings of the same matches are hashed from different texts.\<close>

theorem batch_canonical_order_dependent:
  "mset [plain_match ''x y'' ''z'', plain_match ''x'' ''y z''] = mset [plain_match ''x'' ''y z'', plain_match ''x y'' ''z''] \<and>
   batch_canonical b [plain_match ''x y'' ''z'', plain_match ''x'' ''y z'']
     \<noteq> batch_canonical b [plain_match ''x'' ''y z'', plain_match ''x y'' ''z'']"
proof
  have key: "row_key (batch_row (plain_match ''x y'' ''z'')) = row_key (batch_row (plain_match ''x'' ''y z''))"
    by code_simp
  have "batch_row (plain_match ''x y'' ''z'') \<noteq> batch_row (plain_match ''x'' ''y z'')"
    by (simp add: plain_match_def batch_row_def)
  then show "batch_canonical b [plain_match ''x y'' ''z'', plain_match ''x'' ''y z'']
     \<noteq> batch_canonical b [plain_match ''x'' ''y z'', plain_match ''x y'' ''z'']"
    by (simp add: batch_canonical_inject key sort_key_def)
qed simp

text \<open>An honest committee is not refused: when distinct members making up a quorum sign the same
  batch, the assembled batch verifies.\<close>

theorem honest_batch_verifies:
  assumes "distinct (map (\<lambda>kp. ni_signingPubkey (nodePublicInfo kp)) signers)"
    and "set signers \<subseteq> set kps" "quorum (length kps) \<le> length signers"
    and "\<And>kp. kp \<in> set signers \<Longrightarrow> sign_correct N (ck_signingKeyPair kp)"
  shows "\<exists>sigs. mapR (signBatch N batchId ms) signers = Inr sigs \<and>
    verifySignedBatch N \<lparr>sb_batchId = batchId, sb_sessionId = sid, sb_matches = ms, sb_batchHash = h,
      sb_signatures = sigs\<rparr> (map nodePublicInfo kps) = Inr True"
  using assms by (rule honest_batch)

theorem honest_batch_verifies_witness:
  "distinct (map (\<lambda>kp. ni_signingPubkey (nodePublicInfo kp)) (map plain_kp [0, 1])) \<and>
   (\<exists>sigs. mapR (signBatch plain_nacl ''b'' []) (map plain_kp [0, 1]) = Inr sigs \<and>
    verifySignedBatch plain_nacl \<lparr>sb_batchId = ''b'', sb_sessionId = ''s'', sb_matches = [], sb_batchHash = ''h'',
      sb_signatures = sigs\<rparr> (map nodePublicInfo (map plain_kp [0, 1, 2])) = Inr True)"
proof
  show d: "distinct (map (\<lambda>kp. ni_signingPubkey (nodePublicInfo kp)) (map plain_kp [0, 1]))" by code_simp
  show "\<exists>sigs. mapR (signBatch plain_nacl ''b'' []) (map plain_kp [0, 1]) = Inr sigs \<and>
    verifySignedBatch plain_nacl \<lparr>sb_batchId = ''b'', sb_sessionId = ''s'', sb_matches = [], sb_batchHash = ''h'',
      sb_signatures = sigs\<rparr> (map nodePublicInfo (map plain_kp [0, 1, 2])) = Inr True"
    by (rule honest_batch_verifies [OF d]) (auto simp: quorum_def)
qed

end
