(* ===== verification/Matching.thy ===== *)
theory Matching
  imports Committee "HOL-Library.AList"
begin

text \<open>
  The matching algorithms of \<open>apps/mpc-committee/src/coordinator.ts\<close>: netting of complementary
  intents (\<open>matchIntents\<close>) and priced cross-asset matching (\<open>matchPricedPair\<close>,
  \<open>matchPricedIntents\<close>).  A JavaScript \<open>Map\<close> is an association list in insertion order, updated in
  place by \<open>AList.update\<close>.
\<close>

section \<open>Netting\<close>

record ReconIntent =
  rc_intentId :: string
  rc_amount7dp :: int
  rc_inputAsset :: string
  rc_outputAsset :: string

definition pair_key :: "ReconIntent \<Rightarrow> string" where
  "pair_key i = rc_inputAsset i @ ''|'' @ rc_outputAsset i"

definition add_to_group :: "(string \<times> ReconIntent list) list \<Rightarrow> ReconIntent \<Rightarrow> (string \<times> ReconIntent list) list" where
  "add_to_group groups i =
    (let key = pair_key i; g = (case map_of groups key of None \<Rightarrow> [] | Some xs \<Rightarrow> xs)
     in AList.update key (g @ [i]) groups)"

definition group_intents :: "ReconIntent list \<Rightarrow> (string \<times> ReconIntent list) list" where
  "group_intents intents = foldl add_to_group [] intents"

definition by_amount :: "ReconIntent \<Rightarrow> ReconIntent \<Rightarrow> int" where
  "by_amount a b = (if rc_amount7dp a < rc_amount7dp b then -1 else 1)"

definition mk_match :: "string \<Rightarrow> string \<Rightarrow> ReconIntent \<Rightarrow> ReconIntent \<Rightarrow> MatchResult" where
  "mk_match inAsset outAsset a b =
    (let matchAmt = (if rc_amount7dp a < rc_amount7dp b then rc_amount7dp a else rc_amount7dp b)
     in \<lparr>mr_intentAId = rc_intentId a, mr_intentBId = rc_intentId b,
         mr_matchedAmount7dp = bigint_to_string matchAmt,
         mr_inputAsset = inAsset, mr_outputAsset = outAsset,
         mr_priceScaled = None, mr_assetIn = None, mr_assetOut = None\<rparr>)"

text \<open>The two-pointer loop over the sorted group and the sorted reverse group; the two lists are what
  is left from \<open>ai\<close> and from \<open>bi\<close> on.\<close>

fun match_loop :: "string \<Rightarrow> string \<Rightarrow> string list \<Rightarrow> ReconIntent list \<Rightarrow> ReconIntent list \<Rightarrow> MatchResult list \<times> string list" where
  "match_loop inA outA used (a # as) (b # bs) =
    (if rc_intentId a \<in> set used then match_loop inA outA used as (b # bs)
     else if rc_intentId b \<in> set used \<or> rc_intentId a = rc_intentId b then match_loop inA outA used (a # as) bs
     else case match_loop inA outA (rc_intentId b # rc_intentId a # used) as bs of
            (ms, used') \<Rightarrow> (mk_match inA outA a b # ms, used'))"
| "match_loop inA outA used [] bs = ([], used)"
| "match_loop inA outA used as [] = ([], used)"

definition match_group ::
  "(string \<times> ReconIntent list) list \<Rightarrow> MatchResult list \<times> string list \<Rightarrow> string \<times> ReconIntent list \<Rightarrow> MatchResult list \<times> string list" where
  "match_group groups acc entry =
    (let parts = js_split CHR ''|'' (fst entry); inAsset = parts ! 0; outAsset = parts ! 1
     in case map_of groups (outAsset @ ''|'' @ inAsset) of
          None \<Rightarrow> acc
        | Some reverseGroup \<Rightarrow>
            (case match_loop inAsset outAsset (snd acc) (js_sort by_amount (snd entry)) (js_sort by_amount reverseGroup) of
               (ms, used') \<Rightarrow> (fst acc @ ms, used')))"

definition matchIntents :: "ReconIntent list \<Rightarrow> MatchResult list" where
  "matchIntents intents =
    (let groups = group_intents intents in fst (foldl (match_group groups) ([], []) groups))"

section \<open>Priced matching\<close>

record PricedIntent =
  pi_intentId :: string
  pi_inputAsset :: string
  pi_outputAsset :: string
  pi_amount :: int
  pi_minOutput :: int
  pi_limitPriceScaled :: int

record PricedMatch =
  pm_intentAId :: string
  pm_intentBId :: string
  pm_inputAssetA :: string
  pm_outputAssetA :: string
  pm_inputAssetB :: string
  pm_outputAssetB :: string
  pm_matchedAmountA :: string
  pm_matchedAmountB :: string
  pm_priceScaled :: string
  pm_minOutputA :: string
  pm_minOutputB :: string

definition PRICE_SCALE :: int where
  "PRICE_SCALE = 1000000000"

definition matchPricedPair :: "PricedIntent \<Rightarrow> PricedIntent \<Rightarrow> PricedMatch option result" where
  "matchPricedPair a b =
    (if pi_inputAsset a \<noteq> pi_outputAsset b then Inr None
     else if pi_outputAsset a \<noteq> pi_inputAsset b then Inr None
     else if pi_inputAsset a = pi_outputAsset a then Inr None
     else let priceScaled = pi_limitPriceScaled a;
              outputForA = (pi_amount a * priceScaled) sdiv PRICE_SCALE;
              outputForB = pi_amount a
          in if pi_amount b \<noteq> outputForA then Inr None
             else if outputForA < pi_minOutput a then Inr None
             else if outputForB < pi_minOutput b then Inr None
             else if pi_amount b = 0 then Inl (Range_Error ''Division by zero'')
             else let rateForB = (outputForB * PRICE_SCALE) sdiv pi_amount b
                  in if rateForB < pi_limitPriceScaled b then Inr None
                     else Inr (Some
                       \<lparr>pm_intentAId = pi_intentId a, pm_intentBId = pi_intentId b,
                        pm_inputAssetA = pi_inputAsset a, pm_outputAssetA = pi_outputAsset a,
                        pm_inputAssetB = pi_inputAsset b, pm_outputAssetB = pi_outputAsset b,
                        pm_matchedAmountA = bigint_to_string (pi_amount a),
                        pm_matchedAmountB = bigint_to_string outputForA,
                        pm_priceScaled = bigint_to_string priceScaled,
                        pm_minOutputA = bigint_to_string (pi_minOutput a),
                        pm_minOutputB = bigint_to_string (pi_minOutput b)\<rparr>))"

text \<open>The inner loop: the first \<open>j\<close> that matches intent \<open>i\<close>.\<close>

fun priced_find :: "nat \<Rightarrow> PricedIntent \<Rightarrow> string list \<Rightarrow> (nat \<times> PricedIntent) list \<Rightarrow> (PricedIntent \<times> PricedMatch) option result" where
  "priced_find i a used [] = Inr None"
| "priced_find i a used ((j, b) # rest) =
    (if i = j \<or> pi_intentId b \<in> set used \<or> pi_intentId a \<in> set used then priced_find i a used rest
     else bindR (matchPricedPair a b) (\<lambda>m.
       case m of Some pm \<Rightarrow> Inr (Some (b, pm)) | None \<Rightarrow> priced_find i a used rest))"

fun priced_loop :: "(nat \<times> PricedIntent) list \<Rightarrow> string list \<Rightarrow> (nat \<times> PricedIntent) list \<Rightarrow> PricedMatch list result" where
  "priced_loop all used [] = Inr []"
| "priced_loop all used ((i, a) # rest) =
    (if pi_intentId a \<in> set used then priced_loop all used rest
     else bindR (priced_find i a used all) (\<lambda>r.
       case r of
         None \<Rightarrow> priced_loop all used rest
       | Some (b, pm) \<Rightarrow>
           bindR (priced_loop all (pi_intentId b # pi_intentId a # used) rest) (\<lambda>pms. Inr (pm # pms))))"

definition matchPricedIntents :: "PricedIntent list \<Rightarrow> PricedMatch list result" where
  "matchPricedIntents intents =
    priced_loop (enumerate 0 intents) [] (enumerate 0 intents)"

section \<open>Grouping\<close>

lemma group_intents_snoc: "group_intents (is @ [i]) = add_to_group (group_intents is) i"
  by (simp add: group_intents_def)

lemma group_intents_map:
  "map_of (group_intents is) k =
    (if \<exists>i \<in> set is. pair_key i = k then Some (filter (\<lambda>i. pair_key i = k) is) else None)"
proof (induction "is" rule: rev_induct)
  case (snoc i "is")
  have none: "filter (\<lambda>x. pair_key x = pair_key i) is = []" if "\<not> (\<exists>x \<in> set is. pair_key x = pair_key i)"
    using that by auto
  show ?case
    unfolding group_intents_snoc add_to_group_def Let_def AList.update_conv'
    using snoc none by (auto simp: fun_upd_def split: option.splits if_splits)
qed (simp add: group_intents_def)

lemma distinct_group_keys: "distinct (map fst (group_intents is))"
  by (induction "is" rule: rev_induct)
    (auto simp: group_intents_snoc add_to_group_def Let_def distinct_update, simp add: group_intents_def)

lemma group_entry:
  assumes "(k, g) \<in> set (group_intents is)"
  shows "g = filter (\<lambda>i. pair_key i = k) is \<and> (\<exists>i \<in> set is. pair_key i = k)"
proof -
  have "map_of (group_intents is) k = Some g" using assms distinct_group_keys by simp
  then show ?thesis by (auto simp: group_intents_map split: if_splits)
qed

lemma group_mem: "i \<in> set is \<Longrightarrow> (pair_key i, filter (\<lambda>j. pair_key j = pair_key i) is) \<in> set (group_intents is)"
  by (rule map_of_SomeD) (auto simp: group_intents_map)

section \<open>The loop\<close>

definition match_ids :: "MatchResult list \<Rightarrow> string list" where
  "match_ids ms = concat (map (\<lambda>m. [mr_intentAId m, mr_intentBId m]) ms)"

lemma match_ids_simps [simp]:
  "match_ids [] = []" "match_ids (m # ms) = mr_intentAId m # mr_intentBId m # match_ids ms"
  "match_ids (ms @ ms') = match_ids ms @ match_ids ms'"
  by (simp_all add: match_ids_def)

lemma mk_match_ids [simp]:
  "mr_intentAId (mk_match x y a b) = rc_intentId a" "mr_intentBId (mk_match x y a b) = rc_intentId b"
  by (simp_all add: mk_match_def Let_def)

lemma match_loop_consE:
  assumes "match_loop x y used (a # as) (b # bs) = (ms, used')"
  obtains
    (skip_a) "rc_intentId a \<in> set used" "match_loop x y used as (b # bs) = (ms, used')"
  | (skip_b) "rc_intentId a \<notin> set used" "rc_intentId b \<in> set used \<or> rc_intentId a = rc_intentId b"
      "match_loop x y used (a # as) bs = (ms, used')"
  | (pair) ms' where "rc_intentId a \<notin> set used" "rc_intentId b \<notin> set used" "rc_intentId a \<noteq> rc_intentId b"
      "match_loop x y (rc_intentId b # rc_intentId a # used) as bs = (ms', used')"
      "ms = mk_match x y a b # ms'"
  using assms by (auto split: if_splits prod.splits)

lemma match_loop_used:
  "match_loop x y used as bs = (ms, used') \<Longrightarrow> set used' = set used \<union> set (match_ids ms)"
proof (induction x y used as bs arbitrary: ms used' rule: match_loop.induct)
  case (1 x y used a as b bs)
  from 1(4) show ?case
  proof (cases rule: match_loop_consE)
    case (pair ms')
    with 1(3) [OF pair(1) _ pair(4)] show ?thesis by auto
  next
    case skip_a
    show ?thesis using 1(1) [OF skip_a] .
  next
    case skip_b
    show ?thesis using 1(2) [OF skip_b] .
  qed
qed auto

lemma match_loop_distinct:
  "match_loop x y used as bs = (ms, used') \<Longrightarrow> distinct (match_ids ms) \<and> set (match_ids ms) \<inter> set used = {}"
proof (induction x y used as bs arbitrary: ms used' rule: match_loop.induct)
  case (1 x y used a as b bs)
  from 1(4) show ?case
  proof (cases rule: match_loop_consE)
    case (pair ms')
    with 1(3) [OF pair(1) _ pair(4)] show ?thesis by auto
  next
    case skip_a
    show ?thesis using 1(1) [OF skip_a] .
  next
    case skip_b
    show ?thesis using 1(2) [OF skip_b] .
  qed
qed auto

lemma match_loop_from:
  "match_loop x y used as bs = (ms, used') \<Longrightarrow> m \<in> set ms \<Longrightarrow>
   \<exists>a \<in> set as. \<exists>b \<in> set bs. m = mk_match x y a b \<and> rc_intentId a \<noteq> rc_intentId b"
proof (induction x y used as bs arbitrary: ms used' rule: match_loop.induct)
  case (1 x y used a as b bs)
  from 1(4) show ?case
  proof (cases rule: match_loop_consE)
    case (pair ms')
    with 1(3) [OF pair(1) _ pair(4)] 1(5) show ?thesis by auto
  next
    case skip_a
    from 1(1) [OF skip_a 1(5)] show ?thesis by auto
  next
    case skip_b
    from 1(2) [OF skip_b 1(5)] show ?thesis by auto
  qed
qed auto

text \<open>When the loop ends, one of the two sides has been used up, unless the loop skipped an intent
  because it met itself.\<close>

lemma match_loop_exhausts:
  "match_loop x y used as bs = (ms, used') \<Longrightarrow> rc_intentId ` set as \<inter> rc_intentId ` set bs = {} \<Longrightarrow>
   rc_intentId ` set as \<subseteq> set used' \<or> rc_intentId ` set bs \<subseteq> set used'"
proof (induction x y used as bs arbitrary: ms used' rule: match_loop.induct)
  case (1 x y used a as b bs)
  have sub: "set used \<subseteq> set used'" using match_loop_used [OF 1(4)] by auto
  from 1(4) show ?case
  proof (cases rule: match_loop_consE)
    case skip_a
    with 1(1) [OF skip_a] 1(5) sub show ?thesis by auto
  next
    case skip_b
    with 1(2) [OF skip_b] 1(5) sub show ?thesis by auto
  next
    case (pair ms')
    have "rc_intentId ` set as \<subseteq> set used' \<or> rc_intentId ` set bs \<subseteq> set used'"
      using 1(3) [OF pair(1) _ pair(4)] pair 1(5) by auto
    moreover have "rc_intentId a \<in> set used'" "rc_intentId b \<in> set used'"
      using match_loop_used [OF pair(4)] by auto
    ultimately show ?thesis by auto
  qed
qed auto

section \<open>The fold over the groups\<close>

abbreviation in_of :: "string \<Rightarrow> string" where
  "in_of k \<equiv> js_split CHR ''|'' k ! 0"

abbreviation out_of :: "string \<Rightarrow> string" where
  "out_of k \<equiv> js_split CHR ''|'' k ! 1"

definition acc_ok :: "MatchResult list \<times> string list \<Rightarrow> bool" where
  "acc_ok acc \<longleftrightarrow> set (snd acc) = set (match_ids (fst acc)) \<and> distinct (match_ids (fst acc))"

lemma match_groupE:
  obtains (none) "map_of groups (out_of (fst e) @ ''|'' @ in_of (fst e)) = None" "match_group groups acc e = acc"
  | (some) rev_group ms used' where "map_of groups (out_of (fst e) @ ''|'' @ in_of (fst e)) = Some rev_group"
      "match_loop (in_of (fst e)) (out_of (fst e)) (snd acc) (js_sort by_amount (snd e)) (js_sort by_amount rev_group) = (ms, used')"
      "match_group groups acc e = (fst acc @ ms, used')"
proof (cases "map_of groups (out_of (fst e) @ ''|'' @ in_of (fst e))")
  case None
  then show thesis using none by (simp add: match_group_def)
next
  case (Some rev_group)
  obtain ms used' where "match_loop (in_of (fst e)) (out_of (fst e)) (snd acc)
      (js_sort by_amount (snd e)) (js_sort by_amount rev_group) = (ms, used')" by fastforce
  with Some show thesis using some by (simp add: match_group_def)
qed

lemma match_group_acc_ok: "acc_ok acc \<Longrightarrow> acc_ok (match_group groups acc e)"
proof (cases rule: match_groupE [of groups e acc])
  case (some rev_group ms used')
  assume "acc_ok acc"
  with match_loop_used [OF some(2)] match_loop_distinct [OF some(2)] some(3) show ?thesis
    by (auto simp: acc_ok_def)
qed simp

lemma foldl_acc_ok: "acc_ok acc \<Longrightarrow> acc_ok (foldl (match_group groups) acc es)"
proof (induction es arbitrary: acc)
  case (Cons e es)
  from Cons.IH [OF match_group_acc_ok [OF Cons.prems]] show ?case by simp
qed simp

lemma match_group_mono: "set (snd acc) \<subseteq> set (snd (match_group groups acc e))"
proof (cases rule: match_groupE [of groups e acc])
  case (some rev_group ms used')
  with match_loop_used [OF some(2)] show ?thesis by auto
qed simp

lemma foldl_mono: "set (snd acc) \<subseteq> set (snd (foldl (match_group groups) acc es))"
proof (induction es arbitrary: acc)
  case (Cons e es)
  have "set (snd acc) \<subseteq> set (snd (match_group groups acc e))" by (rule match_group_mono)
  also have "\<dots> \<subseteq> set (snd (foldl (match_group groups) acc (e # es)))" using Cons by simp
  finally show ?case .
qed simp

lemma foldl_from:
  "m \<in> set (fst (foldl (match_group groups) acc es)) \<Longrightarrow> m \<in> set (fst acc) \<or>
   (\<exists>e \<in> set es. \<exists>rev_group. map_of groups (out_of (fst e) @ ''|'' @ in_of (fst e)) = Some rev_group \<and>
     (\<exists>a \<in> set (snd e). \<exists>b \<in> set rev_group.
        m = mk_match (in_of (fst e)) (out_of (fst e)) a b \<and> rc_intentId a \<noteq> rc_intentId b))"
proof (induction es arbitrary: acc)
  case (Cons e es)
  from Cons.prems have "m \<in> set (fst (foldl (match_group groups) (match_group groups acc e) es))" by simp
  note rest = Cons.IH [OF this]
  show ?case
  proof (cases rule: match_groupE [of groups e acc])
    case none
    with rest show ?thesis by auto
  next
    case (some rev_group ms used')
    show ?thesis
    proof (cases "m \<in> set ms")
      case True
      from match_loop_from [OF some(2) True] some(1) show ?thesis by auto
    next
      case False
      with rest some(3) show ?thesis by auto
    qed
  qed
qed simp

lemma foldl_exhausts:
  assumes "e \<in> set es" "map_of groups (out_of (fst e) @ ''|'' @ in_of (fst e)) = Some rev_group"
    "rc_intentId ` set (snd e) \<inter> rc_intentId ` set rev_group = {}"
  shows "rc_intentId ` set (snd e) \<subseteq> set (snd (foldl (match_group groups) acc es)) \<or>
    rc_intentId ` set rev_group \<subseteq> set (snd (foldl (match_group groups) acc es))"
  using assms(1)
proof (induction es arbitrary: acc)
  case (Cons e' es)
  show ?case
  proof (cases "e = e'")
    case True
    show ?thesis
    proof (cases rule: match_groupE [of groups e acc])
      case none
      with assms(2) show ?thesis by simp
    next
      case (some rg ms used')
      have "rc_intentId ` set (snd e) \<subseteq> set used' \<or> rc_intentId ` set rev_group \<subseteq> set used'"
        using match_loop_exhausts [OF some(2)] some(1) assms(2,3) by simp
      moreover have "set used' \<subseteq> set (snd (foldl (match_group groups) acc (e' # es)))"
        using foldl_mono [of "match_group groups acc e" groups es] some(3) True by simp
      ultimately show ?thesis by blast
    qed
  next
    case False
    with Cons show ?thesis by simp
  qed
qed simp

definition bar_free :: "ReconIntent \<Rightarrow> bool" where
  "bar_free i \<longleftrightarrow> CHR ''|'' \<notin> set (rc_inputAsset i) \<and> CHR ''|'' \<notin> set (rc_outputAsset i)"

lemma split_pair_key:
  "bar_free i \<Longrightarrow> in_of (pair_key i) = rc_inputAsset i \<and> out_of (pair_key i) = rc_outputAsset i"
  by (simp add: bar_free_def pair_key_def js_split_append js_split_no_sep)

lemma pair_key_inject:
  "bar_free i \<Longrightarrow> CHR ''|'' \<notin> set x \<Longrightarrow> CHR ''|'' \<notin> set y \<Longrightarrow>
   pair_key i = x @ ''|'' @ y \<longleftrightarrow> rc_inputAsset i = x \<and> rc_outputAsset i = y"
proof
  assume "bar_free i" "CHR ''|'' \<notin> set x" "CHR ''|'' \<notin> set y" and eq: "pair_key i = x @ ''|'' @ y"
  then have "js_split CHR ''|'' (pair_key i) = [x, y]" by (simp add: js_split_append js_split_no_sep)
  with split_pair_key [OF \<open>bar_free i\<close>] show "rc_inputAsset i = x \<and> rc_outputAsset i = y" by simp
qed (simp add: pair_key_def)

section \<open>Properties\<close>

text \<open>C9.  No intent is spent twice: over the whole batch every intent id occurs at most once, so no
  intent is in two matches and none is matched with itself.\<close>

theorem matchIntents_no_reuse: "distinct (match_ids (matchIntents intents))"
proof -
  have "acc_ok (foldl (match_group (group_intents intents)) ([], []) (group_intents intents))"
    by (rule foldl_acc_ok) (simp add: acc_ok_def)
  then show ?thesis by (simp add: acc_ok_def matchIntents_def Let_def)
qed



text \<open>The proviso on asset names is needed: the group key is taken apart at every bar, so an
  intent selling asset \<open>A|B\<close> for \<open>C\<close> is matched with one selling \<open>B\<close> for \<open>A\<close>.\<close>

theorem matchIntents_bar_mismatch:
  "matchIntents
     [\<lparr>rc_intentId = ''i1'', rc_amount7dp = 10, rc_inputAsset = ''A|B'', rc_outputAsset = ''C''\<rparr>,
      \<lparr>rc_intentId = ''i2'', rc_amount7dp = 7, rc_inputAsset = ''B'', rc_outputAsset = ''A''\<rparr>]
   = [\<lparr>mr_intentAId = ''i1'', mr_intentBId = ''i2'', mr_matchedAmount7dp = ''7'', mr_inputAsset = ''A'',
       mr_outputAsset = ''B'', mr_priceScaled = None, mr_assetIn = None, mr_assetOut = None\<rparr>]"
  by code_simp

definition demo_intents :: "ReconIntent list" where
  "demo_intents =
     [\<lparr>rc_intentId = ''i1'', rc_amount7dp = 10, rc_inputAsset = ''USDC'', rc_outputAsset = ''EURC''\<rparr>,
      \<lparr>rc_intentId = ''i2'', rc_amount7dp = 7, rc_inputAsset = ''EURC'', rc_outputAsset = ''USDC''\<rparr>]"

lemma demo_intents_ok:
  "list_all bar_free demo_intents" "distinct (map rc_intentId demo_intents)"
  "matchIntents demo_intents = [mk_match ''USDC'' ''EURC'' (demo_intents ! 0) (demo_intents ! 1)]"
  by code_simp+



section \<open>Priced matching\<close>

definition priced_ok :: "PricedIntent \<Rightarrow> PricedIntent \<Rightarrow> PricedMatch \<Rightarrow> bool" where
  "priced_ok a b m \<longleftrightarrow>
    pm_intentAId m = pi_intentId a \<and> pm_intentBId m = pi_intentId b \<and>
    pi_inputAsset a = pi_outputAsset b \<and> pi_outputAsset a = pi_inputAsset b \<and> pi_inputAsset a \<noteq> pi_outputAsset a \<and>
    pm_matchedAmountA m = bigint_to_string (pi_amount a) \<and> pm_matchedAmountB m = bigint_to_string (pi_amount b) \<and>
    pm_priceScaled m = bigint_to_string (pi_limitPriceScaled a) \<and>
    pi_amount b = (pi_amount a * pi_limitPriceScaled a) sdiv PRICE_SCALE \<and>
    pi_minOutput a \<le> pi_amount b \<and> pi_minOutput b \<le> pi_amount a \<and>
    pi_limitPriceScaled b \<le> (pi_amount a * PRICE_SCALE) sdiv pi_amount b"

lemma matchPricedPair_ok: "matchPricedPair a b = Inr (Some m) \<Longrightarrow> priced_ok a b m"
  by (auto simp: matchPricedPair_def priced_ok_def Let_def split: if_splits)

lemma priced_find_ok:
  "priced_find i a used js = Inr (Some (b, m)) \<Longrightarrow>
   (\<exists>j. (j, b) \<in> set js \<and> j \<noteq> i) \<and> pi_intentId b \<notin> set used \<and> pi_intentId a \<notin> set used \<and> priced_ok a b m"
proof (induction i a used js rule: priced_find.induct)
  case (2 i a used j b' rest)
  show ?case
  proof (cases "i = j \<or> pi_intentId b' \<in> set used \<or> pi_intentId a \<in> set used")
    case True
    with 2(1) [OF True] 2(3) show ?thesis by auto
  next
    case go: False
    with 2(3) obtain r where r: "matchPricedPair a b' = Inr r" by auto
    show ?thesis
    proof (cases r)
      case None
      with 2(2) [OF go r None] 2(3) go r show ?thesis by auto
    next
      case (Some pm)
      with 2(3) go r show ?thesis by (auto dest: matchPricedPair_ok)
    qed
  qed
qed simp

lemma sdiv_nonneg: "0 \<le> a \<Longrightarrow> 0 < b \<Longrightarrow> (a :: int) sdiv b = a div b"
  by (simp add: signed_divide_int_def sgn_if)

definition priced_ids :: "PricedMatch list \<Rightarrow> string list" where
  "priced_ids ms = concat (map (\<lambda>m. [pm_intentAId m, pm_intentBId m]) ms)"

lemma priced_loop_ids:
  "priced_loop all used is = Inr ms \<Longrightarrow> set is \<subseteq> set all \<Longrightarrow> distinct (map (pi_intentId \<circ> snd) all) \<Longrightarrow>
    distinct (priced_ids ms) \<and> set (priced_ids ms) \<inter> set used = {}"
proof (induction all used "is" arbitrary: ms rule: priced_loop.induct)
  case (2 all used i a rest)
  show ?case
  proof (cases "pi_intentId a \<in> set used")
    case True
    with 2 show ?thesis by simp
  next
    case a: False
    with 2(4) obtain r where r: "priced_find i a used all = Inr r" by auto
    show ?thesis
    proof (cases r)
      case None
      with 2 a r show ?thesis by simp
    next
      case (Some p)
      obtain b m where p: "p = (b, m)" by (cases p)
      obtain ms' where ms': "priced_loop all (pi_intentId b # pi_intentId a # used) rest = Inr ms'" "ms = m # ms'"
        using 2(4) a r Some p by auto
      obtain j where j: "(j, b) \<in> set all" "j \<noteq> i" and b: "pi_intentId b \<notin> set used" and ok: "priced_ok a b m"
        using priced_find_ok r Some p by blast
      have "(i, a) \<in> set all" using 2(5) by simp
      then have "pi_intentId a \<noteq> pi_intentId b"
        using inj_onD [of "pi_intentId \<circ> snd" "set all" "(i, a)" "(j, b)"] 2(6) j by (auto simp: distinct_map comp_def)
      moreover have "distinct (priced_ids ms') \<and> set (priced_ids ms') \<inter> set (pi_intentId b # pi_intentId a # used) = {}"
        using 2(3) [OF a r Some p [symmetric] ms'(1)] 2(5,6) by simp
      ultimately show ?thesis
        using ms'(2) ok a b by (auto simp: priced_ids_def priced_ok_def)
    qed
  qed
qed (simp add: priced_ids_def)

lemma priced_loop_from:
  "priced_loop all used is = Inr ms \<Longrightarrow> m \<in> set ms \<Longrightarrow>
   \<exists>i a j b. (i, a) \<in> set is \<and> (j, b) \<in> set all \<and> i \<noteq> j \<and> priced_ok a b m"
proof (induction all used "is" arbitrary: ms rule: priced_loop.induct)
  case (2 all used i a rest)
  show ?case
  proof (cases "pi_intentId a \<in> set used")
    case True
    with 2(1) [OF True] 2(4,5) show ?thesis by fastforce
  next
    case a: False
    with 2(4) obtain r where r: "priced_find i a used all = Inr r" by auto
    show ?thesis
    proof (cases r)
      case None
      with 2(2) [OF a r None] 2(4,5) a r show ?thesis by fastforce
    next
      case (Some p)
      obtain b m' where p: "p = (b, m')" by (cases p)
      obtain ms' where ms': "priced_loop all (pi_intentId b # pi_intentId a # used) rest = Inr ms'" "ms = m' # ms'"
        using 2(4) a r Some p by auto
      obtain j where "(j, b) \<in> set all" "j \<noteq> i" "priced_ok a b m'"
        using priced_find_ok r Some p by blast
      with 2(3) [OF a r Some p [symmetric] ms'(1)] 2(5) ms'(2) show ?thesis by fastforce
    qed
  qed
qed simp

text \<open>C12.  A priced round never spends an intent twice, and every priced match pairs two different
  submitted intents at one price: the second party spends exactly the floor of amount times price,
  both minimum outputs hold, and the second party's limit accepts the rate.\<close>

theorem matchPricedIntents_sound:
  assumes "distinct (map pi_intentId intents)" "matchPricedIntents intents = Inr ms"
  shows "distinct (priced_ids ms) \<and>
    (\<forall>m \<in> set ms. \<exists>i < length intents. \<exists>j < length intents. i \<noteq> j \<and> priced_ok (intents ! i) (intents ! j) m)"
proof
  have "map (pi_intentId \<circ> snd) (enumerate 0 intents) = map pi_intentId intents"
    by (simp add: map_map [symmetric] del: map_map)
  then show "distinct (priced_ids ms)"
    using priced_loop_ids [of "enumerate 0 intents"] assms unfolding matchPricedIntents_def by simp
  show "\<forall>m \<in> set ms. \<exists>i < length intents. \<exists>j < length intents. i \<noteq> j \<and> priced_ok (intents ! i) (intents ! j) m"
    using priced_loop_from [of "enumerate 0 intents" "[]" "enumerate 0 intents" ms] assms(2)
    unfolding matchPricedIntents_def by (fastforce simp: in_set_enumerate_eq)
qed

definition demo_priced :: "PricedIntent list" where
  "demo_priced =
     [\<lparr>pi_intentId = ''p1'', pi_inputAsset = ''USDC'', pi_outputAsset = ''EURC'', pi_amount = 100,
       pi_minOutput = 90, pi_limitPriceScaled = 900000000\<rparr>,
      \<lparr>pi_intentId = ''p2'', pi_inputAsset = ''EURC'', pi_outputAsset = ''USDC'', pi_amount = 90,
       pi_minOutput = 100, pi_limitPriceScaled = 1000000000\<rparr>]"

definition demo_priced_match :: PricedMatch where
  "demo_priced_match =
     \<lparr>pm_intentAId = ''p1'', pm_intentBId = ''p2'', pm_inputAssetA = ''USDC'', pm_outputAssetA = ''EURC'',
      pm_inputAssetB = ''EURC'', pm_outputAssetB = ''USDC'', pm_matchedAmountA = bigint_to_string 100,
      pm_matchedAmountB = bigint_to_string 90, pm_priceScaled = bigint_to_string 900000000,
      pm_minOutputA = bigint_to_string 90, pm_minOutputB = bigint_to_string 100\<rparr>"

lemma demo_priced_run: "matchPricedIntents demo_priced = Inr [demo_priced_match]"
  by (simp add: matchPricedIntents_def demo_priced_def matchPricedPair_def PRICE_SCALE_def demo_priced_match_def Let_def)

theorem matchPricedIntents_sound_witness:
  "distinct (map pi_intentId demo_priced) \<and> distinct (priced_ids [demo_priced_match]) \<and>
   (\<exists>i < length demo_priced. \<exists>j < length demo_priced. i \<noteq> j \<and> priced_ok (demo_priced ! i) (demo_priced ! j) demo_priced_match)"
proof -
  have "distinct (map pi_intentId demo_priced)" by code_simp
  then show ?thesis using matchPricedIntents_sound [OF _ demo_priced_run] by simp
qed

text \<open>The one way a priced pair throws: the counterparty spends nothing and all the other checks
  pass, and then the rate is a division by zero.\<close>

theorem matchPricedPair_throws_iff:
  "matchPricedPair a b = Inl e \<longleftrightarrow>
    e = Range_Error ''Division by zero'' \<and> pi_amount b = 0 \<and>
    pi_inputAsset a = pi_outputAsset b \<and> pi_outputAsset a = pi_inputAsset b \<and> pi_inputAsset a \<noteq> pi_outputAsset a \<and>
    (pi_amount a * pi_limitPriceScaled a) sdiv PRICE_SCALE = 0 \<and>
    pi_minOutput a \<le> 0 \<and> pi_minOutput b \<le> pi_amount a"
  by (auto simp: matchPricedPair_def Let_def)

end
