(* ===== verification/Mpc_Session.thy ===== *)
theory Mpc_Session
  imports Matching
begin

text \<open>
  \<open>apps/mpc-committee\<close>: the sessions of \<open>state.ts\<close>, the matching rounds of \<open>coordinator.ts\<close> (nodes in
  this process) and \<open>remote-coordinator.ts\<close> (nodes behind HTTP), the node of \<open>node-server.ts\<close>, and the
  request handlers of \<open>server.ts\<close> and \<open>coordinator-server.ts\<close>.  The two rounds implement one contract,
  the locale \<open>matching_round\<close>.  \<open>uuidv4()\<close> and \<open>Date.now()\<close> are arguments; what a node answers over HTTP
  is a function argument, \<open>None\<close> standing for a timeout, an error status or an unreachable node.
\<close>

section \<open>State\<close>

datatype session_status = Sess_open | Sess_matching | Sess_signed | Sess_failed

fun status_text :: "session_status \<Rightarrow> string" where
  "status_text Sess_open = ''open''"
| "status_text Sess_matching = ''matching''"
| "status_text Sess_signed = ''signed''"
| "status_text Sess_failed = ''failed''"

record NodeShareEntry =
  nse_intentId :: string
  nse_nodeId :: string
  nse_ciphertext :: string
  nse_nonce :: string
  nse_senderPubkey :: string
  nse_decryptedShare :: json

record SessionState =
  ss_sessionId :: string
  ss_startedAt :: int
  ss_status :: session_status
  ss_intents :: "(string \<times> MpcIntent) list"
  ss_shares :: "(string \<times> (string \<times> NodeShareEntry) list) list"
  ss_signedBatch :: "SignedMatchBatch option"

record CommitteeState =
  cs_sessions :: "(string \<times> SessionState) list"
  cs_intentToSession :: "(string \<times> string) list"

definition new_session :: "string \<Rightarrow> int \<Rightarrow> SessionState" where
  "new_session sessionId now =
    \<lparr>ss_sessionId = sessionId, ss_startedAt = now, ss_status = Sess_open, ss_intents = [], ss_shares = [],
     ss_signedBatch = None\<rparr>"

definition createSession :: "string \<Rightarrow> int \<Rightarrow> CommitteeState \<Rightarrow> SessionState \<times> CommitteeState" where
  "createSession sessionId now st =
    (let s = new_session sessionId now
     in (s, st\<lparr>cs_sessions := AList.update sessionId s (cs_sessions st)\<rparr>))"

definition getOrCreateOpenSession :: "int \<Rightarrow> CommitteeState \<Rightarrow> SessionState \<times> CommitteeState" where
  "getOrCreateOpenSession now st =
    (case find (\<lambda>(k, s). ss_status s = Sess_open) (cs_sessions st) of
       Some (k, s) \<Rightarrow> (s, st)
     | None \<Rightarrow> createSession (''session-'' @ bigint_to_string now) now st)"

definition share_entry :: "string \<Rightarrow> EncryptedShare \<Rightarrow> NodeShareEntry" where
  "share_entry intentId e =
    \<lparr>nse_intentId = intentId, nse_nodeId = es_nodeId e, nse_ciphertext = es_ciphertext e,
     nse_nonce = es_nonce e, nse_senderPubkey = es_senderPubkey e, nse_decryptedShare = JNull\<rparr>"

definition store_share ::
  "string \<Rightarrow> (string \<times> (string \<times> NodeShareEntry) list) list \<Rightarrow> EncryptedShare \<Rightarrow>
   (string \<times> (string \<times> NodeShareEntry) list) list" where
  "store_share intentId shares e =
    (let m = (case map_of shares (es_nodeId e) of None \<Rightarrow> [] | Some m \<Rightarrow> m)
     in AList.update (es_nodeId e) (AList.update intentId (share_entry intentId e) m) shares)"

definition session_add :: "MpcIntent \<Rightarrow> SessionState \<Rightarrow> SessionState" where
  "session_add intent s =
    s\<lparr>ss_intents := AList.update (mi_intentId intent) intent (ss_intents s),
      ss_shares := foldl (store_share (mi_intentId intent)) (ss_shares s) (mi_encryptedShares intent)\<rparr>"

definition put_session :: "SessionState \<Rightarrow> CommitteeState \<Rightarrow> CommitteeState" where
  "put_session s st = st\<lparr>cs_sessions := AList.update (ss_sessionId s) s (cs_sessions st)\<rparr>"

definition addIntent :: "int \<Rightarrow> MpcIntent \<Rightarrow> CommitteeState \<Rightarrow> string \<times> CommitteeState" where
  "addIntent now intent st =
    (case getOrCreateOpenSession now st of
       (session, st') \<Rightarrow>
         (ss_sessionId session,
          (put_session (session_add intent session) st')
            \<lparr>cs_intentToSession := AList.update (mi_intentId intent) (ss_sessionId session) (cs_intentToSession st')\<rparr>))"

definition getSession :: "string \<Rightarrow> CommitteeState \<Rightarrow> SessionState option" where
  "getSession sessionId st = map_of (cs_sessions st) sessionId"

definition getSessionForIntent :: "string \<Rightarrow> CommitteeState \<Rightarrow> SessionState option" where
  "getSessionForIntent intentId st =
    (case map_of (cs_intentToSession st) intentId of
       None \<Rightarrow> None
     | Some sid \<Rightarrow> if sid = [] then None else map_of (cs_sessions st) sid)"

definition getOpenSessions :: "CommitteeState \<Rightarrow> SessionState list" where
  "getOpenSessions st = filter (\<lambda>s. ss_status s = Sess_open) (map snd (cs_sessions st))"

definition allSessions :: "CommitteeState \<Rightarrow> SessionState list" where
  "allSessions st = map snd (cs_sessions st)"

section \<open>What the two rounds share\<close>

datatype CoordinatorResult = Round_Ok SignedMatchBatch | Round_Failed string

fun truthy :: "json \<Rightarrow> bool" where
  "truthy JNull = False"
| "truthy (JBool b) = b"
| "truthy (JNum n) = (n \<noteq> 0)"
| "truthy (JStr s) = (s \<noteq> [])"
| "truthy (JArr _) = True"
| "truthy (JObj _) = True"

text \<open>\<open>session.shares.get(nodeId)?.get(intentId)?.decryptedShare\<close>\<close>

definition decrypted :: "SessionState \<Rightarrow> string \<Rightarrow> string \<Rightarrow> json" where
  "decrypted s nodeId intentId =
    (case map_of (ss_shares s) nodeId of
       None \<Rightarrow> JNull
     | Some es \<Rightarrow> (case map_of es intentId of None \<Rightarrow> JNull | Some e \<Rightarrow> nse_decryptedShare e))"

fun collect_shares :: "SessionState \<Rightarrow> string \<Rightarrow> json list \<Rightarrow> string list \<Rightarrow> json list" where
  "collect_shares s intentId acc [] = acc"
| "collect_shares s intentId acc (n # ns) =
    (let share = decrypted s n intentId; acc' = (if truthy share then acc @ [share] else acc)
     in if 2 \<le> length acc' then acc' else collect_shares s intentId acc' ns)"

text \<open>The reconstruction loop: a thrown error, a failure reason, or the plaintext intents.\<close>

fun reconstruct_intents ::
  "SessionState \<Rightarrow> string list \<Rightarrow> (string \<times> MpcIntent) list \<Rightarrow> (string + ReconIntent list) result" where
  "reconstruct_intents s nodeIds [] = Inr (Inr [])"
| "reconstruct_intents s nodeIds ((intentId, intent) # rest) =
    (let available = collect_shares s intentId [] nodeIds
     in if length available < 2 then Inr (Inl (''not enough shares for intent '' @ intentId))
        else bindR (reconstructAmount available) (\<lambda>amount.
             bindR (reconstruct_intents s nodeIds rest) (\<lambda>r.
             case r of
               Inl reason \<Rightarrow> Inr (Inl reason)
             | Inr recs \<Rightarrow>
                 Inr (Inr (\<lparr>rc_intentId = intentId, rc_amount7dp = amount, rc_inputAsset = mi_inputAsset intent,
                            rc_outputAsset = mi_outputAsset intent\<rparr> # recs)))))"

definition clear_entries :: "(string \<times> NodeShareEntry) list \<Rightarrow> (string \<times> NodeShareEntry) list" where
  "clear_entries es = map (\<lambda>(k, e). (k, e\<lparr>nse_decryptedShare := JNull\<rparr>)) es"

definition clear_shares :: "string list \<Rightarrow> SessionState \<Rightarrow> SessionState" where
  "clear_shares nodeIds s =
    s\<lparr>ss_shares := map (\<lambda>(n, es). (n, if n \<in> set nodeIds then clear_entries es else es)) (ss_shares s)\<rparr>"

section \<open>The round in one process\<close>

definition entry_share :: "string \<Rightarrow> NodeShareEntry \<Rightarrow> EncryptedShare" where
  "entry_share nodeId e =
    \<lparr>es_nodeId = nodeId, es_ciphertext = nse_ciphertext e, es_nonce = nse_nonce e,
     es_senderPubkey = nse_senderPubkey e\<rparr>"

fun decrypt_entries ::
  "Nacl \<Rightarrow> CommitteeNodeKeyPair \<Rightarrow> (string \<times> NodeShareEntry) list \<Rightarrow> (string \<times> NodeShareEntry) list \<times> string option" where
  "decrypt_entries N node [] = ([], None)"
| "decrypt_entries N node ((k, e) # es) =
    (case decryptShare N (entry_share (ck_nodeId node) e) (kp_secretKey (ck_encryptionKeyPair node)) of
       Inl err \<Rightarrow>
         ((k, e) # es, Some (''node '' @ ck_nodeId node @ '' failed to decrypt share for '' @ nse_intentId e
            @ '': '' @ err_text err))
     | Inr share \<Rightarrow>
         (case decrypt_entries N node es of
            (es', r) \<Rightarrow> ((k, e\<lparr>nse_decryptedShare := share\<rparr>) # es', r)))"

fun decrypt_nodes :: "Nacl \<Rightarrow> CommitteeNodeKeyPair list \<Rightarrow> SessionState \<Rightarrow> SessionState \<times> string option" where
  "decrypt_nodes N [] s = (s, None)"
| "decrypt_nodes N (node # nodes) s =
    (case map_of (ss_shares s) (ck_nodeId node) of
       None \<Rightarrow> decrypt_nodes N nodes s
     | Some es \<Rightarrow>
         (case decrypt_entries N node es of
            (es', r) \<Rightarrow>
              let s' = s\<lparr>ss_shares := AList.update (ck_nodeId node) es' (ss_shares s)\<rparr>
              in (case r of Some reason \<Rightarrow> (s', Some reason) | None \<Rightarrow> decrypt_nodes N nodes s')))"

definition runMatchingRound ::
  "Nacl \<Rightarrow> string \<Rightarrow> CommitteeNodeKeyPair list \<Rightarrow> SessionState \<Rightarrow> CoordinatorResult result \<times> SessionState" where
  "runMatchingRound N batchId nodes s0 =
    (if length (ss_intents s0) < 2 then (Inr (Round_Failed ''need at least 2 intents to match''), s0)
     else let s1 = s0\<lparr>ss_status := Sess_matching\<rparr>
     in case decrypt_nodes N nodes s1 of
          (s2, Some reason) \<Rightarrow> (Inr (Round_Failed reason), s2\<lparr>ss_status := Sess_failed\<rparr>)
        | (s2, None) \<Rightarrow>
            (case reconstruct_intents s2 (map ck_nodeId nodes) (ss_intents s2) of
               Inl e \<Rightarrow> (Inl e, s2)
             | Inr (Inl reason) \<Rightarrow> (Inr (Round_Failed reason), s2\<lparr>ss_status := Sess_failed\<rparr>)
             | Inr (Inr reconstructed) \<Rightarrow>
                 let s3 = clear_shares (map ck_nodeId nodes) s2;
                     matches = matchIntents reconstructed;
                     batchHash = computeBatchHash N batchId matches
                 in case mapR (signBatch N batchId matches) nodes of
                      Inl e \<Rightarrow> (Inl e, s3)
                    | Inr signatures \<Rightarrow>
                        let signedBatch = \<lparr>sb_batchId = batchId, sb_sessionId = ss_sessionId s3, sb_matches = matches,
                              sb_batchHash = batchHash, sb_signatures = signatures\<rparr>
                        in (Inr (Round_Ok signedBatch),
                            s3\<lparr>ss_signedBatch := Some signedBatch, ss_status := Sess_signed\<rparr>)))"

section \<open>The round over HTTP\<close>

record NodeEndpoint =
  ne_nodeId :: string
  ne_url :: string

record DecryptResponse =
  dr_nodeId :: string
  dr_shares :: "(string \<times> json) list"

text \<open>One pass of the loop that stores the answers of a node.\<close>

definition store_decrypted :: "(string \<times> NodeShareEntry) list \<Rightarrow> string \<times> json \<Rightarrow> (string \<times> NodeShareEntry) list" where
  "store_decrypted es r =
    (case map_of es (fst r) of
       None \<Rightarrow> es
     | Some e \<Rightarrow> AList.update (fst r) (e\<lparr>nse_decryptedShare := snd r\<rparr>) es)"

definition apply_response :: "SessionState \<Rightarrow> DecryptResponse \<Rightarrow> SessionState" where
  "apply_response s r =
    (case map_of (ss_shares s) (dr_nodeId r) of
       None \<Rightarrow> s
     | Some es \<Rightarrow> s\<lparr>ss_shares := AList.update (dr_nodeId r) (foldl store_decrypted es (dr_shares r)) (ss_shares s)\<rparr>)"

definition somes :: "'a option list \<Rightarrow> 'a list" where
  "somes xs = map the (filter (\<lambda>x. x \<noteq> None) xs)"

definition nodes_text :: "nat \<Rightarrow> nat \<Rightarrow> string \<Rightarrow> nat \<Rightarrow> string" where
  "nodes_text got n what need =
    ''only '' @ nat_to_radix 10 got @ ''/'' @ nat_to_radix 10 n @ '' nodes '' @ what @ '' (need ''
      @ nat_to_radix 10 need @ '')''"

definition runMatchingRoundRemote ::
  "Nacl \<Rightarrow> string \<Rightarrow> (NodeEndpoint \<Rightarrow> string list \<Rightarrow> DecryptResponse option) \<Rightarrow>
   (NodeEndpoint \<Rightarrow> string \<Rightarrow> MatchResult list \<Rightarrow> NodeSignature option) \<Rightarrow>
   NodeEndpoint list \<Rightarrow> SessionState \<Rightarrow> CoordinatorResult result \<times> SessionState" where
  "runMatchingRoundRemote N batchId decryptCall signCall endpoints s0 =
    (if length (ss_intents s0) < 2 then (Inr (Round_Failed ''need at least 2 intents to match''), s0)
     else let need = quorum (length endpoints);
              s1 = s0\<lparr>ss_status := Sess_matching\<rparr>;
              intentIds = map fst (ss_intents s1);
              responding = somes (map (\<lambda>n. decryptCall n intentIds) endpoints)
     in if length responding < need
        then (Inr (Round_Failed (nodes_text (length responding) (length endpoints) ''responded to decrypt'' need)),
              s1\<lparr>ss_status := Sess_failed\<rparr>)
        else let s2 = foldl apply_response s1 responding; ids = map ne_nodeId endpoints
        in case reconstruct_intents s2 ids (ss_intents s2) of
             Inl e \<Rightarrow> (Inl e, s2)
           | Inr (Inl reason) \<Rightarrow> (Inr (Round_Failed reason), s2\<lparr>ss_status := Sess_failed\<rparr>)
           | Inr (Inr reconstructed) \<Rightarrow>
               let s3 = clear_shares ids s2;
                   matches = matchIntents reconstructed;
                   batchHash = computeBatchHash N batchId matches;
                   signatures = somes (map (\<lambda>n. signCall n batchId matches) endpoints)
               in if length signatures < need
                  then (Inr (Round_Failed (nodes_text (length signatures) (length endpoints) ''signed'' need)),
                        s3\<lparr>ss_status := Sess_failed\<rparr>)
                  else let signedBatch = \<lparr>sb_batchId = batchId, sb_sessionId = ss_sessionId s3, sb_matches = matches,
                             sb_batchHash = batchHash, sb_signatures = signatures\<rparr>
                       in (Inr (Round_Ok signedBatch),
                           s3\<lparr>ss_signedBatch := Some signedBatch, ss_status := Sess_signed\<rparr>))"

section \<open>One node behind HTTP\<close>

text \<open>\<open>node-server.ts\<close>: a node keeps its own key pair and its slice of the encrypted shares; every
  internal route is guarded by the shared token.\<close>

datatype 'a reply = Reply 'a | Reply_Error nat string

record NodeServer =
  nv_nodeId :: string
  nv_node :: CommitteeNodeKeyPair
  nv_token :: string
  nv_shares :: "(string \<times> EncryptedShare) list"

definition requireInternalAuth :: "NodeServer \<Rightarrow> string option \<Rightarrow> bool result" where
  "requireInternalAuth nv header =
    (case header of
       None \<Rightarrow> Inr False
     | Some provided \<Rightarrow>
         if length provided \<noteq> length (nv_token nv) then Inr False
         else if length (utf8_encode provided) \<noteq> length (utf8_encode (nv_token nv))
           then Inl (Range_Error ''Input buffers must have the same byte length'')
         else Inr (utf8_encode provided = utf8_encode (nv_token nv)))"

definition node_post_share ::
  "NodeServer \<Rightarrow> string option \<Rightarrow> string \<Rightarrow> EncryptedShare \<Rightarrow> (string \<times> string) reply result \<times> NodeServer" where
  "node_post_share nv header intentId encShare =
    (case requireInternalAuth nv header of
       Inl e \<Rightarrow> (Inl e, nv)
     | Inr False \<Rightarrow> (Inr (Reply_Error 401 ''unauthorized''), nv)
     | Inr True \<Rightarrow>
         if es_nodeId encShare \<noteq> nv_nodeId nv then (Inr (Reply_Error 400 ''share addressed to wrong node''), nv)
         else (Inr (Reply (nv_nodeId nv, intentId)),
               nv\<lparr>nv_shares := AList.update intentId encShare (nv_shares nv)\<rparr>))"

definition decrypt_one :: "Nacl \<Rightarrow> NodeServer \<Rightarrow> string \<Rightarrow> json" where
  "decrypt_one N nv intentId =
    (case map_of (nv_shares nv) intentId of
       None \<Rightarrow> JNull
     | Some enc \<Rightarrow>
         (case decryptShare N enc (kp_secretKey (ck_encryptionKeyPair (nv_node nv))) of
            Inl _ \<Rightarrow> JNull | Inr share \<Rightarrow> share))"

definition node_decrypt :: "Nacl \<Rightarrow> NodeServer \<Rightarrow> string option \<Rightarrow> string list \<Rightarrow> DecryptResponse reply result" where
  "node_decrypt N nv header intentIds =
    (case requireInternalAuth nv header of
       Inl e \<Rightarrow> Inl e
     | Inr False \<Rightarrow> Inr (Reply_Error 401 ''unauthorized'')
     | Inr True \<Rightarrow>
         Inr (Reply \<lparr>dr_nodeId = nv_nodeId nv,
                     dr_shares = foldl (\<lambda>rs i. AList.update i (decrypt_one N nv i) rs) [] intentIds\<rparr>))"

definition node_sign_batch ::
  "Nacl \<Rightarrow> NodeServer \<Rightarrow> string option \<Rightarrow> string \<Rightarrow> MatchResult list \<Rightarrow> NodeSignature reply result" where
  "node_sign_batch N nv header batchId matches =
    (case requireInternalAuth nv header of
       Inl e \<Rightarrow> Inl e
     | Inr False \<Rightarrow> Inr (Reply_Error 401 ''unauthorized'')
     | Inr True \<Rightarrow> bindR (signBatch N batchId matches (nv_node nv)) (\<lambda>s. Inr (Reply s)))"

text \<open>\<open>postJson\<close>: anything but a successful answer is \<open>null\<close>.\<close>

definition postJson :: "'a reply result option \<Rightarrow> 'a option" where
  "postJson r = (case r of Some (Inr (Reply x)) \<Rightarrow> Some x | _ \<Rightarrow> None)"

section \<open>Frame facts\<close>

lemma reconstruct_intents_Cons:
  "reconstruct_intents s ns (p # is) = Inr (Inr recs) \<longleftrightarrow>
    (\<exists>amount recs'. 2 \<le> length (collect_shares s (fst p) [] ns) \<and>
      reconstructAmount (collect_shares s (fst p) [] ns) = Inr amount \<and>
      reconstruct_intents s ns is = Inr (Inr recs') \<and>
      recs = \<lparr>rc_intentId = fst p, rc_amount7dp = amount, rc_inputAsset = mi_inputAsset (snd p),
              rc_outputAsset = mi_outputAsset (snd p)\<rparr> # recs')"
  by (cases p; cases "reconstructAmount (collect_shares s (fst p) [] ns)"; cases "reconstruct_intents s ns is")
    (auto simp: Let_def not_less split: sum.splits)

lemma reconstruct_intents_ids:
  "reconstruct_intents s ns is = Inr (Inr recs) \<Longrightarrow>
    map rc_intentId recs = map fst is \<and> map rc_inputAsset recs = map (mi_inputAsset \<circ> snd) is \<and>
    map rc_outputAsset recs = map (mi_outputAsset \<circ> snd) is"
  by (induction "is" arbitrary: recs) (auto simp: reconstruct_intents_Cons simp del: reconstruct_intents.simps(2))

lemma decrypt_nodes_frame:
  "decrypt_nodes N nodes s = (s', r) \<Longrightarrow>
    ss_intents s' = ss_intents s \<and> ss_sessionId s' = ss_sessionId s \<and> ss_status s' = ss_status s \<and>
    ss_signedBatch s' = ss_signedBatch s"
proof (induction nodes arbitrary: s)
  case (Cons node nodes)
  show ?case
  proof (cases "map_of (ss_shares s) (ck_nodeId node)")
    case None
    with Cons show ?thesis by simp
  next
    case (Some es)
    obtain es' r' where "decrypt_entries N node es = (es', r')" by fastforce
    with Some Cons.prems Cons.IH show ?thesis by (cases r') (fastforce simp: Let_def)+
  qed
qed simp

lemma apply_response_frame [simp]:
  "ss_intents (apply_response s r) = ss_intents s" "ss_sessionId (apply_response s r) = ss_sessionId s"
  "ss_status (apply_response s r) = ss_status s" "ss_signedBatch (apply_response s r) = ss_signedBatch s"
  by (auto simp: apply_response_def split: option.splits)

lemma foldl_apply_response_frame [simp]:
  "ss_intents (foldl apply_response s rs) = ss_intents s"
  "ss_sessionId (foldl apply_response s rs) = ss_sessionId s"
  "ss_status (foldl apply_response s rs) = ss_status s"
  "ss_signedBatch (foldl apply_response s rs) = ss_signedBatch s"
  by (induction rs arbitrary: s) simp_all

lemma clear_shares_frame [simp]:
  "ss_intents (clear_shares ns s) = ss_intents s" "ss_sessionId (clear_shares ns s) = ss_sessionId s"
  "ss_status (clear_shares ns s) = ss_status s" "ss_signedBatch (clear_shares ns s) = ss_signedBatch s"
  by (simp_all add: clear_shares_def)

lemma map_of_map_values: "map_of (map (\<lambda>(k, v). (k, f k v)) xs) k = map_option (f k) (map_of xs k)"
  by (induction xs) auto

lemma clear_shares_decrypted: "n \<in> set ns \<Longrightarrow> decrypted (clear_shares ns s) n i = JNull"
  by (auto simp: decrypted_def clear_shares_def clear_entries_def map_of_map_values split: option.splits)

section \<open>The contract of a matching round\<close>

text \<open>What the request handlers rely on, whichever coordinator runs: a successful round signs the
  netting of the session's own intents under the session's id and leaves it signed with no plaintext
  share behind; a round that does not succeed records no batch.\<close>

definition session_recs :: "SessionState \<Rightarrow> ReconIntent list \<Rightarrow> bool" where
  "session_recs s recs \<longleftrightarrow>
    map rc_intentId recs = map fst (ss_intents s) \<and>
    map rc_inputAsset recs = map (mi_inputAsset \<circ> snd) (ss_intents s) \<and>
    map rc_outputAsset recs = map (mi_outputAsset \<circ> snd) (ss_intents s)"

locale matching_round =
  fixes round :: "SessionState \<Rightarrow> CoordinatorResult result \<times> SessionState"
    and N :: Nacl and node_ids :: "string list"
  assumes frame: "round s = (r, s') \<Longrightarrow> ss_intents s' = ss_intents s \<and> ss_sessionId s' = ss_sessionId s"
    and round_ok: "round s = (Inr (Round_Ok b), s') \<Longrightarrow>
      ss_status s' = Sess_signed \<and> ss_signedBatch s' = Some b \<and> sb_sessionId b = ss_sessionId s \<and>
      2 \<le> length (ss_intents s) \<and>
      (\<exists>recs. session_recs s recs \<and> sb_matches b = matchIntents recs) \<and>
      sb_batchHash b = computeBatchHash N (sb_batchId b) (sb_matches b) \<and>
      (\<forall>n \<in> set node_ids. \<forall>i. decrypted s' n i = JNull)"
    and round_fails: "round s = (Inr (Round_Failed why), s') \<Longrightarrow>
      ss_signedBatch s' = ss_signedBatch s \<and> (s' = s \<or> ss_status s' = Sess_failed)"
    and round_throws: "round s = (Inl e, s') \<Longrightarrow> ss_signedBatch s' = ss_signedBatch s \<and> ss_status s' = Sess_matching"
begin

lemma batch_no_reuse: "round s = (Inr (Round_Ok b), s') \<Longrightarrow> distinct (match_ids (sb_matches b))"
proof -
  assume "round s = (Inr (Round_Ok b), s')"
  then obtain recs where "sb_matches b = matchIntents recs" using round_ok by blast
  moreover have "acc_ok (foldl (match_group (group_intents recs)) ([], []) (group_intents recs))"
    by (rule foldl_acc_ok) (simp add: acc_ok_def)
  ultimately show ?thesis by (simp add: acc_ok_def matchIntents_def Let_def)
qed

lemma batch_set_once: "round s = (r, s') \<Longrightarrow> ss_signedBatch s' \<noteq> ss_signedBatch s \<Longrightarrow>
    \<exists>b. r = Inr (Round_Ok b) \<and> ss_signedBatch s' = Some b \<and> ss_status s' = Sess_signed"
proof -
  assume *: "round s = (r, s')" "ss_signedBatch s' \<noteq> ss_signedBatch s"
  show ?thesis
  proof (cases r)
    case (Inl e)
    with * round_throws show ?thesis by blast
  next
    case (Inr c)
    with * round_ok round_fails show ?thesis by (cases c) blast+
  qed
qed

end

lemma runMatchingRoundE:
  assumes "runMatchingRound N batchId nodes s = (r, s')"
  obtains
    (few) "length (ss_intents s) < 2" "r = Inr (Round_Failed ''need at least 2 intents to match'')" "s' = s"
  | (decrypt) s2 reason where "decrypt_nodes N nodes (s\<lparr>ss_status := Sess_matching\<rparr>) = (s2, Some reason)"
      "r = Inr (Round_Failed reason)" "s' = s2\<lparr>ss_status := Sess_failed\<rparr>"
  | (throw) s2 e where "decrypt_nodes N nodes (s\<lparr>ss_status := Sess_matching\<rparr>) = (s2, None)" "r = Inl e" "s' = s2"
  | (reason) s2 why where "decrypt_nodes N nodes (s\<lparr>ss_status := Sess_matching\<rparr>) = (s2, None)"
      "r = Inr (Round_Failed why)" "s' = s2\<lparr>ss_status := Sess_failed\<rparr>"
  | (sign) s2 e where "decrypt_nodes N nodes (s\<lparr>ss_status := Sess_matching\<rparr>) = (s2, None)" "r = Inl e"
      "s' = clear_shares (map ck_nodeId nodes) s2"
  | (ok) s2 recs sigs b where "2 \<le> length (ss_intents s)"
      "decrypt_nodes N nodes (s\<lparr>ss_status := Sess_matching\<rparr>) = (s2, None)"
      "reconstruct_intents s2 (map ck_nodeId nodes) (ss_intents s2) = Inr (Inr recs)"
      "mapR (signBatch N batchId (matchIntents recs)) nodes = Inr sigs"
      "b = \<lparr>sb_batchId = batchId, sb_sessionId = ss_sessionId s2, sb_matches = matchIntents recs,
            sb_batchHash = computeBatchHash N batchId (matchIntents recs), sb_signatures = sigs\<rparr>"
      "r = Inr (Round_Ok b)"
      "s' = (clear_shares (map ck_nodeId nodes) s2)\<lparr>ss_signedBatch := Some b, ss_status := Sess_signed\<rparr>"
  using assms unfolding runMatchingRound_def Let_def
  by (auto split: if_splits prod.splits option.splits sum.splits)

interpretation local_round: matching_round "runMatchingRound N batchId nodes" N "map ck_nodeId nodes"
proof
  fix s r s' assume "runMatchingRound N batchId nodes s = (r, s')"
  then show "ss_intents s' = ss_intents s \<and> ss_sessionId s' = ss_sessionId s"
    by (cases rule: runMatchingRoundE) (auto dest: decrypt_nodes_frame)
next
  fix s b s' assume "runMatchingRound N batchId nodes s = (Inr (Round_Ok b), s')"
  then show "ss_status s' = Sess_signed \<and> ss_signedBatch s' = Some b \<and> sb_sessionId b = ss_sessionId s \<and>
      2 \<le> length (ss_intents s) \<and>
      (\<exists>recs. session_recs s recs \<and> sb_matches b = matchIntents recs) \<and>
      sb_batchHash b = computeBatchHash N (sb_batchId b) (sb_matches b) \<and>
      (\<forall>n \<in> set (map ck_nodeId nodes). \<forall>i. decrypted s' n i = JNull)"
  proof (cases rule: runMatchingRoundE)
    case (ok s2 recs sigs b')
    have fr: "ss_intents s2 = ss_intents s" "ss_sessionId s2 = ss_sessionId s"
      using decrypt_nodes_frame [OF ok(2)] by simp_all
    have "session_recs s recs" using reconstruct_intents_ids [OF ok(3)] fr by (simp add: session_recs_def)
    moreover have "decrypted s' n i = decrypted (clear_shares (map ck_nodeId nodes) s2) n i" for n i
      using ok(7) by (simp add: decrypted_def)
    ultimately show ?thesis using ok fr clear_shares_decrypted by auto
  qed auto
next
  fix s why s' assume "runMatchingRound N batchId nodes s = (Inr (Round_Failed why), s')"
  then show "ss_signedBatch s' = ss_signedBatch s \<and> (s' = s \<or> ss_status s' = Sess_failed)"
    by (cases rule: runMatchingRoundE) (auto dest: decrypt_nodes_frame)
next
  fix s e s' assume "runMatchingRound N batchId nodes s = (Inl e, s')"
  then show "ss_signedBatch s' = ss_signedBatch s \<and> ss_status s' = Sess_matching"
    by (cases rule: runMatchingRoundE) (auto dest: decrypt_nodes_frame)
qed

lemma runMatchingRoundRemoteE:
  assumes "runMatchingRoundRemote N batchId decryptCall signCall endpoints s = (r, s')"
  obtains
    (few) "length (ss_intents s) < 2" "r = Inr (Round_Failed ''need at least 2 intents to match'')" "s' = s"
  | (silent) why where "r = Inr (Round_Failed why)" "s' = s\<lparr>ss_status := Sess_failed\<rparr>"
  | (throw) s2 e where "s2 = foldl apply_response (s\<lparr>ss_status := Sess_matching\<rparr>)
        (somes (map (\<lambda>n. decryptCall n (map fst (ss_intents s))) endpoints))" "r = Inl e" "s' = s2"
  | (reason) s2 why where "s2 = foldl apply_response (s\<lparr>ss_status := Sess_matching\<rparr>)
        (somes (map (\<lambda>n. decryptCall n (map fst (ss_intents s))) endpoints))"
      "r = Inr (Round_Failed why)" "s' = s2\<lparr>ss_status := Sess_failed\<rparr> \<or>
        s' = (clear_shares (map ne_nodeId endpoints) s2)\<lparr>ss_status := Sess_failed\<rparr>"
  | (ok) s2 recs b where "2 \<le> length (ss_intents s)"
      "s2 = foldl apply_response (s\<lparr>ss_status := Sess_matching\<rparr>)
        (somes (map (\<lambda>n. decryptCall n (map fst (ss_intents s))) endpoints))"
      "reconstruct_intents s2 (map ne_nodeId endpoints) (ss_intents s2) = Inr (Inr recs)"
      "quorum (length endpoints) \<le> length (sb_signatures b)"
      "b = \<lparr>sb_batchId = batchId, sb_sessionId = ss_sessionId s2, sb_matches = matchIntents recs,
            sb_batchHash = computeBatchHash N batchId (matchIntents recs),
            sb_signatures = somes (map (\<lambda>n. signCall n batchId (matchIntents recs)) endpoints)\<rparr>"
      "r = Inr (Round_Ok b)"
      "s' = (clear_shares (map ne_nodeId endpoints) s2)\<lparr>ss_signedBatch := Some b, ss_status := Sess_signed\<rparr>"
proof -
  let ?resp = "somes (map (\<lambda>n. decryptCall n (map fst (ss_intents s))) endpoints)"
  let ?s2 = "foldl apply_response (s\<lparr>ss_status := Sess_matching\<rparr>) ?resp"
  let ?rec = "reconstruct_intents ?s2 (map ne_nodeId endpoints) (ss_intents ?s2)"
  note run = assms [unfolded runMatchingRoundRemote_def Let_def, simplified]
  show thesis
  proof (cases "length (ss_intents s) < 2")
    case True
    with run show thesis by (intro few) auto
  next
    case two: False
    show thesis
    proof (cases "length ?resp < quorum (length endpoints)")
      case True
      with run two show thesis by (intro silent) auto
    next
      case resp: False
      show thesis
      proof (cases ?rec)
        case (Inl e)
        with run two resp show thesis by (intro throw [of ?s2 e]) auto
      next
        case (Inr res)
        show thesis
        proof (cases res)
          case (Inl why)
          with Inr run two resp show thesis by (intro reason [of ?s2 why]) auto
        next
          case (Inr recs)
          let ?sigs = "somes (map (\<lambda>n. signCall n batchId (matchIntents recs)) endpoints)"
          show thesis
          proof (cases "length ?sigs < quorum (length endpoints)")
            case True
            with Inr \<open>?rec = Inr res\<close> run two resp show thesis by (intro reason [of ?s2]) auto
          next
            case False
            with Inr \<open>?rec = Inr res\<close> run two resp show thesis by (intro ok [of ?s2 recs]) auto
          qed
        qed
      qed
    qed
  qed
qed

interpretation remote_round: matching_round "runMatchingRoundRemote N batchId decryptCall signCall endpoints" N
  "map ne_nodeId endpoints"
proof
  fix s r s' assume "runMatchingRoundRemote N batchId decryptCall signCall endpoints s = (r, s')"
  then show "ss_intents s' = ss_intents s \<and> ss_sessionId s' = ss_sessionId s"
    by (cases rule: runMatchingRoundRemoteE) auto
next
  fix s b s' assume "runMatchingRoundRemote N batchId decryptCall signCall endpoints s = (Inr (Round_Ok b), s')"
  then show "ss_status s' = Sess_signed \<and> ss_signedBatch s' = Some b \<and> sb_sessionId b = ss_sessionId s \<and>
      2 \<le> length (ss_intents s) \<and>
      (\<exists>recs. session_recs s recs \<and> sb_matches b = matchIntents recs) \<and>
      sb_batchHash b = computeBatchHash N (sb_batchId b) (sb_matches b) \<and>
      (\<forall>n \<in> set (map ne_nodeId endpoints). \<forall>i. decrypted s' n i = JNull)"
  proof (cases rule: runMatchingRoundRemoteE)
    case (ok s2 recs b')
    have fr: "ss_intents s2 = ss_intents s" "ss_sessionId s2 = ss_sessionId s"
      by (simp_all add: ok(2))
    have "session_recs s recs" using reconstruct_intents_ids [OF ok(3)] fr by (simp add: session_recs_def)
    moreover have "decrypted s' n i = decrypted (clear_shares (map ne_nodeId endpoints) s2) n i" for n i
      using ok(7) by (simp add: decrypted_def)
    ultimately show ?thesis using ok(1,5-7) fr clear_shares_decrypted by auto
  qed auto
next
  fix s why s' assume "runMatchingRoundRemote N batchId decryptCall signCall endpoints s = (Inr (Round_Failed why), s')"
  then show "ss_signedBatch s' = ss_signedBatch s \<and> (s' = s \<or> ss_status s' = Sess_failed)"
    by (cases rule: runMatchingRoundRemoteE) auto
next
  fix s e s' assume "runMatchingRoundRemote N batchId decryptCall signCall endpoints s = (Inl e, s')"
  then show "ss_signedBatch s' = ss_signedBatch s \<and> ss_status s' = Sess_matching"
    by (cases rule: runMatchingRoundRemoteE) auto
qed

section \<open>Reconstruction gives the submitted amounts\<close>

lemma collect_shares_take:
  "length acc < 2 \<Longrightarrow>
   collect_shares s i acc ns = take 2 (acc @ filter truthy (map (\<lambda>n. decrypted s n i) ns))"
proof (induction ns arbitrary: acc)
  case (Cons n ns)
  show ?case
  proof (cases "truthy (decrypted s n i)")
    case True
    show ?thesis
    proof (cases "acc = []")
      case False
      then have "length acc = 1" using Cons.prems by (cases acc) auto
      with True show ?thesis by (simp add: Let_def)
    qed (use True Cons.IH [of "[decrypted s n i]"] in \<open>simp add: Let_def\<close>)
  qed (use Cons in \<open>simp add: Let_def\<close>)
qed simp

text \<open>The decrypted shares a session holds for one intent: genuine where present, at least two.\<close>

definition genuine_shares :: "SessionState \<Rightarrow> string list \<Rightarrow> string \<Rightarrow> int \<Rightarrow> bool" where
  "genuine_shares s ns i amount \<longleftrightarrow>
    (\<exists>cs. length cs \<le> 2 \<and> evalShare cs 0 = amount \<and>
      (\<forall>k < length ns. truthy (decrypted s (ns ! k) i) \<longrightarrow>
        decrypted s (ns ! k) i = encodeShare (sharesOf cs (length ns) ! k)) \<and>
      2 \<le> length (filter truthy (map (\<lambda>n. decrypted s n i) ns)))"

lemma filter_map_nth: "filter Q (map f xs) = map (\<lambda>k. f (xs ! k)) (filter (\<lambda>k. Q (f (xs ! k))) [0..<length xs])"
proof -
  have "map f xs = map (\<lambda>k. f (xs ! k)) [0..<length xs]" by (rule nth_equalityI) simp_all
  then have "filter Q (map f xs) = filter Q (map (\<lambda>k. f (xs ! k)) [0..<length xs])"
    by (rule arg_cong [where f = "filter Q"])
  also have "\<dots> = map (\<lambda>k. f (xs ! k)) (filter (\<lambda>k. Q (f (xs ! k))) [0..<length xs])"
    by (rule filter_map [unfolded comp_def])
  finally show ?thesis .
qed

lemma collect_genuine:
  assumes "genuine_shares s ns i amount" "length ns \<le> 255"
  shows "2 \<le> length (collect_shares s i [] ns) \<and> reconstructAmount (collect_shares s i [] ns) = Inr amount"
proof -
  obtain cs where cs: "length cs \<le> 2" "evalShare cs 0 = amount"
    and gen: "\<And>k. k < length ns \<Longrightarrow> truthy (decrypted s (ns ! k) i) \<Longrightarrow>
        decrypted s (ns ! k) i = encodeShare (sharesOf cs (length ns) ! k)"
    and two: "2 \<le> length (filter truthy (map (\<lambda>n. decrypted s n i) ns))"
    using assms(1) unfolding genuine_shares_def by blast
  define idx where "idx = take 2 (filter (\<lambda>k. truthy (decrypted s (ns ! k) i)) [0..<length ns])"
  have idx: "distinct idx" "length idx = 2" "\<And>k. k \<in> set idx \<Longrightarrow> k < length ns \<and> truthy (decrypted s (ns ! k) i)"
    using two unfolding idx_def filter_map_nth by (auto dest: in_set_takeD)
  let ?sub = "map ((!) (sharesOf cs (length ns))) idx"
  have "collect_shares s i [] ns = map (\<lambda>k. decrypted s (ns ! k) i) idx"
    by (simp add: collect_shares_take filter_map_nth idx_def take_map)
  also have "\<dots> = map encodeShare ?sub" using idx(3) gen by simp
  finally have coll: "collect_shares s i [] ns = map encodeShare ?sub" .
  have "inj_on ((!) (sharesOf cs (length ns))) (set idx)"
    using idx(3) by (auto simp: inj_on_def)
  then have "distinct ?sub" using idx(1) by (simp add: distinct_map)
  moreover have "set ?sub \<subseteq> set (sharesOf cs (length ns))" using idx(3) by (auto simp del: sharesOf_nth intro: nth_mem)
  ultimately have "shamirReconstruct ?sub = amount"
    using reconstruct_sharesOf [of "length ns" ?sub cs] assms(2) cs idx(2) by simp
  with coll idx(2) show ?thesis by (simp only: reconstructAmount_encoded length_map) simp
qed

definition plain_intents :: "(string \<Rightarrow> int) \<Rightarrow> (string \<times> MpcIntent) list \<Rightarrow> ReconIntent list" where
  "plain_intents amt is =
    map (\<lambda>(i, m). \<lparr>rc_intentId = i, rc_amount7dp = amt i, rc_inputAsset = mi_inputAsset m,
                   rc_outputAsset = mi_outputAsset m\<rparr>) is"

lemma reconstruct_genuine:
  assumes "length ns \<le> 255"
  shows "(\<And>i m. (i, m) \<in> set is \<Longrightarrow> genuine_shares s ns i (amt i)) \<Longrightarrow>
    reconstruct_intents s ns is = Inr (Inr (plain_intents amt is))"
proof (induction "is")
  case (Cons p "is")
  obtain i m where p: "p = (i, m)" by (cases p)
  have "genuine_shares s ns i (amt i)" using Cons.prems [of i m] p by simp
  note collect_genuine [OF this assms]
  moreover have "reconstruct_intents s ns is = Inr (Inr (plain_intents amt is))"
    using Cons by auto
  ultimately show ?case
    unfolding reconstruct_intents_Cons by (simp add: p plain_intents_def)
qed (simp add: plain_intents_def)

section \<open>What a session holds after intents are added\<close>

definition entry_of :: "(string \<times> (string \<times> NodeShareEntry) list) list \<Rightarrow> string \<Rightarrow> string \<Rightarrow> NodeShareEntry option" where
  "entry_of shares n i = (case map_of shares n of None \<Rightarrow> None | Some es \<Rightarrow> map_of es i)"

definition shares_wf :: "(string \<times> (string \<times> NodeShareEntry) list) list \<Rightarrow> bool" where
  "shares_wf shares \<longleftrightarrow> distinct (map fst shares) \<and> (\<forall>(n, es) \<in> set shares. distinct (map fst es))"

lemma shares_wf_lookup: "shares_wf shares \<Longrightarrow> map_of shares n = Some es \<Longrightarrow> distinct (map fst es)"
  by (auto simp: shares_wf_def dest: map_of_SomeD)

lemma shares_wf_update:
  assumes "shares_wf shares" "distinct (map fst es)"
  shows "shares_wf (AList.update n es shares)"
proof -
  have d: "distinct (map fst (AList.update n es shares))"
    using assms(1) by (simp add: shares_wf_def distinct_update)
  have "distinct (map fst es')" if "(n', es') \<in> set (AList.update n es shares)" for n' es'
  proof -
    have "map_of (AList.update n es shares) n' = Some es'" using that d by simp
    then show ?thesis
      using assms shares_wf_lookup [OF assms(1), of n' es'] by (auto simp: AList.update_conv' split: if_splits)
  qed
  with d show ?thesis by (auto simp: shares_wf_def)
qed

lemma store_share_wf: "shares_wf shares \<Longrightarrow> shares_wf (store_share i shares e)"
  unfolding store_share_def Let_def
  by (rule shares_wf_update) (auto intro: distinct_update dest: shares_wf_lookup split: option.splits)

lemma entry_of_store:
  "entry_of (store_share iid shares e) n i =
    (if n = es_nodeId e \<and> i = iid then Some (share_entry iid e) else entry_of shares n i)"
  by (auto simp: entry_of_def store_share_def Let_def AList.update_conv' split: option.splits)

lemma foldl_store_wf: "shares_wf shares \<Longrightarrow> shares_wf (foldl (store_share i) shares es)"
  by (induction es arbitrary: shares) (auto intro: store_share_wf)

lemma entry_of_foldl_store:
  "distinct (map es_nodeId es) \<Longrightarrow>
   entry_of (foldl (store_share iid) shares es) n i =
    (if i = iid \<and> n \<in> es_nodeId ` set es then map_option (share_entry iid) (find (\<lambda>e. es_nodeId e = n) es)
     else entry_of shares n i)"
proof (induction es arbitrary: shares)
  case (Cons e es)
  then show ?case by (auto simp: entry_of_store)
qed simp

lemma session_add_frame [simp]:
  "ss_intents (session_add i s) = AList.update (mi_intentId i) i (ss_intents s)"
  "ss_sessionId (session_add i s) = ss_sessionId s" "ss_status (session_add i s) = ss_status s"
  by (simp_all add: session_add_def)

text \<open>An intent whose encrypted shares reach the nodes: the \<open>k\<close>-th is addressed to the \<open>k\<close>-th node and
  decrypts there to the \<open>k\<close>-th share of the amount.\<close>

definition delivers :: "Nacl \<Rightarrow> CommitteeNodeKeyPair list \<Rightarrow> MpcIntent \<Rightarrow> int \<Rightarrow> bool" where
  "delivers N kps m amount \<longleftrightarrow>
    map es_nodeId (mi_encryptedShares m) = map ck_nodeId kps \<and>
    (\<exists>cs. length cs \<le> 2 \<and> evalShare cs 0 = amount \<and>
      (\<forall>k < length kps. decryptShare N (mi_encryptedShares m ! k) (kp_secretKey (ck_encryptionKeyPair (kps ! k)))
        = Inr (encodeShare (sharesOf cs (length kps) ! k))))"

lemma split_delivers:
  assumes "2 \<le> length kps" "BigInt amountStr = Inr amount" "length ephs = length kps"
    and box: "\<And>k. k < length kps \<Longrightarrow> box_correct N (fst (ephs ! k)) (ck_encryptionKeyPair (kps ! k)) (snd (ephs ! k))"
    and split: "splitAmountForCommittee N draws ephs amountStr (map nodePublicInfo kps) 2 = Some (Inr (mi_encryptedShares m))"
  shows "delivers N kps m (amount mod P)"
proof -
  obtain cs rest where cs: "randomFieldElements 1 draws = Some (cs, rest)"
    "shamirSplit amount 2 (length kps) draws = Some (Inr (sharesOf (modp amount # cs) (length kps), rest))"
    using split assms(1,2)
    by (auto simp: splitAmountForCommittee_def shamirSplit_def split: option.splits if_splits)
  then have len: "length cs = 1" using randomFieldElements_range by blast
  note sh = splitAmount_shares [OF assms(2,3) cs(2) _ box]
  have "map es_nodeId (mi_encryptedShares m) = map ck_nodeId kps"
    using sh split by (auto simp: list_eq_iff_nth_eq)
  moreover have "\<forall>k < length kps. decryptShare N (mi_encryptedShares m ! k) (kp_secretKey (ck_encryptionKeyPair (kps ! k)))
        = Inr (encodeShare (sharesOf (modp amount # cs) (length kps) ! k))"
    using sh split by (auto simp del: sharesOf_nth)
  moreover have "evalShare (modp amount # cs) 0 = amount mod P" by (simp add: evalShare_peval)
  ultimately show ?thesis
    unfolding delivers_def using len by (intro conjI exI [of _ "modp amount # cs"]) simp_all
qed

definition session_of :: "string \<Rightarrow> int \<Rightarrow> MpcIntent list \<Rightarrow> SessionState" where
  "session_of sid now ms = foldl (\<lambda>s m. session_add m s) (new_session sid now) ms"

lemma session_of_snoc: "session_of sid now (ms @ [m]) = session_add m (session_of sid now ms)"
  by (simp add: session_of_def)

lemma session_of_intents:
  "distinct (map mi_intentId ms) \<Longrightarrow> ss_intents (session_of sid now ms) = map (\<lambda>m. (mi_intentId m, m)) ms"
proof (induction ms rule: rev_induct)
  case (snoc m ms)
  have "AList.update k v xs = xs @ [(k, v)]" if "k \<notin> fst ` set xs" for k :: string and v :: MpcIntent and xs
    using that by (induction xs) auto
  then show ?case using snoc by (auto simp: session_of_snoc image_image)
qed (simp add: session_of_def new_session_def)

lemma session_of_wf: "shares_wf (ss_shares (session_of sid now ms))"
proof (induction ms rule: rev_induct)
  case (snoc m ms)
  then show ?case by (simp add: session_of_snoc session_add_def foldl_store_wf)
qed (simp add: session_of_def new_session_def shares_wf_def)

lemma find_nth:
  "distinct (map f xs) \<Longrightarrow> k < length xs \<Longrightarrow> find (\<lambda>x. f x = f (xs ! k)) xs = Some (xs ! k)"
proof (induction xs arbitrary: k)
  case (Cons x xs)
  show ?case
  proof (cases k)
    case (Suc j)
    with Cons.prems have "f x \<noteq> f (xs ! j)" by (metis Suc_less_eq distinct.simps(2) imageI length_Cons list.simps(9) nth_mem set_map)
    with Suc Cons show ?thesis by simp
  qed simp
qed simp

lemma session_of_entry:
  assumes "distinct (map ck_nodeId kps)" "k < length kps"
    and "\<And>m. m \<in> set ms \<Longrightarrow> map es_nodeId (mi_encryptedShares m) = map ck_nodeId kps"
    and "distinct (map mi_intentId ms)"
  shows "entry_of (ss_shares (session_of sid now ms)) (ck_nodeId (kps ! k)) i =
    map_option (\<lambda>m. share_entry i (mi_encryptedShares m ! k)) (find (\<lambda>m. mi_intentId m = i) ms)"
  using assms(3,4)
proof (induction ms rule: rev_induct)
  case (snoc m ms)
  have ids: "map es_nodeId (mi_encryptedShares m) = map ck_nodeId kps" using snoc.prems(1) by simp
  then have len: "length (mi_encryptedShares m) = length kps" by (metis length_map)
  have nth: "es_nodeId (mi_encryptedShares m ! k) = ck_nodeId (kps ! k)"
    using ids assms(2) len by (metis nth_map)
  have fnd: "find (\<lambda>e. es_nodeId e = ck_nodeId (kps ! k)) (mi_encryptedShares m) = Some (mi_encryptedShares m ! k)"
    using find_nth [of es_nodeId "mi_encryptedShares m" k] ids assms(1,2) len nth by simp
  have mem: "ck_nodeId (kps ! k) \<in> es_nodeId ` set (mi_encryptedShares m)"
    using nth len assms(2) by (metis imageI nth_mem)
  have d: "distinct (map es_nodeId (mi_encryptedShares m))" using ids assms(1) by simp
  have "find (\<lambda>m'. mi_intentId m' = i) (ms @ [m]) =
      (if i = mi_intentId m then Some m else find (\<lambda>m'. mi_intentId m' = i) ms)"
  proof (cases "find (\<lambda>m'. mi_intentId m' = i) ms")
    case (Some m')
    then have "m' \<in> set ms" "mi_intentId m' = i" by (auto simp: find_Some_iff)
    with snoc.prems(2) have "mi_intentId m \<noteq> i" by auto
    with Some show ?thesis by (simp add: find_snoc)
  qed (simp add: find_snoc)
  then show ?case
    using snoc fnd mem by (simp add: session_of_snoc session_add_def entry_of_foldl_store [OF d])
qed (simp add: session_of_def new_session_def entry_of_def)

section \<open>The decryption phase\<close>

abbreviation plain_share :: "Nacl \<Rightarrow> CommitteeNodeKeyPair \<Rightarrow> NodeShareEntry \<Rightarrow> json result" where
  "plain_share N node e \<equiv> decryptShare N (entry_share (ck_nodeId node) e) (kp_secretKey (ck_encryptionKeyPair node))"

lemma decrypt_entries_all:
  "(\<And>k e. (k, e) \<in> set es \<Longrightarrow> is_ok (plain_share N node e)) \<Longrightarrow>
   decrypt_entries N node es = (map (\<lambda>(k, e). (k, e\<lparr>nse_decryptedShare := projr (plain_share N node e)\<rparr>)) es, None)"
proof (induction es)
  case (Cons p es)
  obtain k e where p: "p = (k, e)" by (cases p)
  obtain sh where "plain_share N node e = Inr sh"
    using Cons.prems [of k e] p by (cases "plain_share N node e") auto
  moreover have "decrypt_entries N node es =
      (map (\<lambda>(k, e). (k, e\<lparr>nse_decryptedShare := projr (plain_share N node e)\<rparr>)) es, None)"
    using Cons.prems by (intro Cons.IH) auto
  ultimately show ?case by (simp add: p)
qed simp

lemma decrypted_entry: "decrypted s n i = (case entry_of (ss_shares s) n i of None \<Rightarrow> JNull | Some e \<Rightarrow> nse_decryptedShare e)"
  by (auto simp: decrypted_def entry_of_def split: option.splits)

lemma entry_of_update:
  "entry_of (AList.update n' es shares) n i = (if n = n' then map_of es i else entry_of shares n i)"
  by (auto simp: entry_of_def AList.update_conv')

lemma decrypt_nodes_all:
  "shares_wf (ss_shares s) \<Longrightarrow> distinct (map ck_nodeId nodes) \<Longrightarrow>
   (\<And>n i e. n \<in> set nodes \<Longrightarrow> entry_of (ss_shares s) (ck_nodeId n) i = Some e \<Longrightarrow> is_ok (plain_share N n e)) \<Longrightarrow>
   \<exists>s'. decrypt_nodes N nodes s = (s', None) \<and>
     (\<forall>n \<in> set nodes. \<forall>i. decrypted s' (ck_nodeId n) i =
       (case entry_of (ss_shares s) (ck_nodeId n) i of None \<Rightarrow> JNull | Some e \<Rightarrow> projr (plain_share N n e))) \<and>
     (\<forall>nid i. nid \<notin> ck_nodeId ` set nodes \<longrightarrow> decrypted s' nid i = decrypted s nid i)"
proof (induction nodes arbitrary: s)
  case (Cons node nodes)
  show ?case
  proof (cases "map_of (ss_shares s) (ck_nodeId node)")
    case None
    have ih: "\<exists>s'. decrypt_nodes N nodes s = (s', None) \<and>
       (\<forall>n \<in> set nodes. \<forall>i. decrypted s' (ck_nodeId n) i =
         (case entry_of (ss_shares s) (ck_nodeId n) i of None \<Rightarrow> JNull | Some e \<Rightarrow> projr (plain_share N n e))) \<and>
       (\<forall>nid i. nid \<notin> ck_nodeId ` set nodes \<longrightarrow> decrypted s' nid i = decrypted s nid i)"
      using Cons.prems by (intro Cons.IH) auto
    have "entry_of (ss_shares s) (ck_nodeId node) i = None" for i using None by (simp add: entry_of_def)
    then have "decrypted s (ck_nodeId node) i = JNull" "entry_of (ss_shares s) (ck_nodeId node) i = None" for i
      by (simp_all add: decrypted_entry)
    with ih None Cons.prems(2) show ?thesis by auto
  next
    case (Some es)
    let ?f = "\<lambda>_ e. e\<lparr>nse_decryptedShare := projr (plain_share N node e)\<rparr>"
    define s1 where "s1 = s\<lparr>ss_shares := AList.update (ck_nodeId node) (map (\<lambda>(k, e). (k, ?f k e)) es) (ss_shares s)\<rparr>"
    have des: "distinct (map fst es)" using Cons.prems(1) Some by (rule shares_wf_lookup)
    have ok: "is_ok (plain_share N node e)" if "(k, e) \<in> set es" for k e
      using Cons.prems(3) [of node k e] that des Some by (simp add: entry_of_def)
    have run: "decrypt_nodes N (node # nodes) s = decrypt_nodes N nodes s1"
      using decrypt_entries_all [of es N node] ok Some by (simp add: s1_def Let_def)
    have e1: "entry_of (ss_shares s1) n i =
        (if n = ck_nodeId node then map_option (?f i) (entry_of (ss_shares s) n i) else entry_of (ss_shares s) n i)" for n i
      using Some map_of_map_values [of ?f es] unfolding s1_def
      by (simp add: entry_of_update) (simp add: entry_of_def)
    have wf1: "shares_wf (ss_shares s1)"
      unfolding s1_def using Cons.prems(1) des by (auto intro!: shares_wf_update simp: comp_def case_prod_unfold)
    have other: "ck_nodeId n \<noteq> ck_nodeId node" if "n \<in> set nodes" for n
      using Cons.prems(2) that by (metis distinct.simps(2) imageI list.simps(9) set_map)
    obtain s' where s': "decrypt_nodes N nodes s1 = (s', None)"
      "\<forall>n \<in> set nodes. \<forall>i. decrypted s' (ck_nodeId n) i =
         (case entry_of (ss_shares s1) (ck_nodeId n) i of None \<Rightarrow> JNull | Some e \<Rightarrow> projr (plain_share N n e))"
      "\<forall>nid i. nid \<notin> ck_nodeId ` set nodes \<longrightarrow> decrypted s' nid i = decrypted s1 nid i"
      using Cons.IH [OF wf1] Cons.prems(2,3) other e1 by (auto 0 3)
    have "ck_nodeId node \<notin> ck_nodeId ` set nodes" using Cons.prems(2) by auto
    then have mine: "decrypted s' (ck_nodeId node) i =
        (case entry_of (ss_shares s) (ck_nodeId node) i of None \<Rightarrow> JNull | Some e \<Rightarrow> projr (plain_share N node e))" for i
      using s'(3) e1 [of "ck_nodeId node" i] by (auto simp: decrypted_entry split: option.splits)
    have "decrypted s' nid i = decrypted s nid i" if "nid \<notin> ck_nodeId ` set (node # nodes)" for nid i
      using s'(3) that e1 [of nid i] by (auto simp: decrypted_entry)
    with run s'(1,2) mine other e1 show ?thesis by auto
  qed
qed simp

section \<open>Sessions fed by \<open>addIntent\<close>\<close>

definition empty_state :: CommitteeState where
  "empty_state = \<lparr>cs_sessions = [], cs_intentToSession = []\<rparr>"

definition submit_all :: "(int \<times> MpcIntent) list \<Rightarrow> CommitteeState" where
  "submit_all tms = foldl (\<lambda>st (t, m). snd (addIntent t m st)) empty_state tms"

lemma session_of_frame [simp]:
  "ss_sessionId (session_of sid now ms) = sid" "ss_status (session_of sid now ms) = Sess_open"
  by (induction ms rule: rev_induct) (simp_all add: session_of_snoc, simp_all add: session_of_def new_session_def)

lemma submit_all_session:
  "tms \<noteq> [] \<Longrightarrow> cs_sessions (submit_all tms) =
    [(''session-'' @ bigint_to_string (fst (hd tms)),
      session_of (''session-'' @ bigint_to_string (fst (hd tms))) (fst (hd tms)) (map snd tms))]"
proof (induction tms rule: rev_induct)
  case (snoc tm tms)
  obtain t m where tm: "tm = (t, m)" by (cases tm)
  have step: "submit_all (tms @ [tm]) = snd (addIntent t m (submit_all tms))"
    by (simp add: submit_all_def tm)
  show ?case
  proof (cases "tms = []")
    case True
    then show ?thesis unfolding step
      by (simp add: tm submit_all_def empty_state_def addIntent_def getOrCreateOpenSession_def createSession_def
          put_session_def Let_def session_of_def new_session_def session_add_def)
  next
    case False
    with snoc have "cs_sessions (submit_all tms) =
    [(''session-'' @ bigint_to_string (fst (hd tms)),
      session_of (''session-'' @ bigint_to_string (fst (hd tms))) (fst (hd tms)) (map snd tms))]" by blast
    with False show ?thesis unfolding step
      by (simp add: tm addIntent_def getOrCreateOpenSession_def put_session_def session_of_snoc)
  qed
qed simp

section \<open>A submitted session is matched on its true amounts\<close>

lemma find_intent:
  "distinct (map mi_intentId ms) \<Longrightarrow> m \<in> set ms \<Longrightarrow> find (\<lambda>m'. mi_intentId m' = mi_intentId m) ms = Some m"
  by (metis find_nth in_set_conv_nth)

lemma entry_share_id: "es_nodeId e = n \<Longrightarrow> entry_share n (share_entry i e) = e"
  by (cases e) (simp add: entry_share_def share_entry_def)

lemma truthy_encodeShare [simp]: "truthy (encodeShare s)"
  by (simp add: encodeShare_def)

lemma delivered_entry:
  assumes "distinct (map ck_nodeId kps)" "distinct (map mi_intentId ms)"
    and "\<And>m. m \<in> set ms \<Longrightarrow> delivers N kps m (amt (mi_intentId m))" "k < length kps"
  shows "entry_of (ss_shares (session_of sid now ms)) (ck_nodeId (kps ! k)) i =
    map_option (\<lambda>m. share_entry i (mi_encryptedShares m ! k)) (find (\<lambda>m. mi_intentId m = i) ms)"
  using assms by (intro session_of_entry) (auto simp: delivers_def)

lemma delivered_plain:
  assumes "delivers N kps m amount" "k < length kps"
  shows "plain_share N (kps ! k) (share_entry i (mi_encryptedShares m ! k)) =
    decryptShare N (mi_encryptedShares m ! k) (kp_secretKey (ck_encryptionKeyPair (kps ! k)))"
proof -
  have ids: "map es_nodeId (mi_encryptedShares m) = map ck_nodeId kps" using assms(1) by (simp add: delivers_def)
  then have "es_nodeId (mi_encryptedShares m ! k) = ck_nodeId (kps ! k)"
    using assms(2) by (metis length_map nth_map)
  then show ?thesis by (simp add: entry_share_id)
qed

lemma delivered_session_decrypts:
  assumes "distinct (map ck_nodeId kps)" "distinct (map mi_intentId ms)" "2 \<le> length kps"
    and del: "\<And>m. m \<in> set ms \<Longrightarrow> delivers N kps m (amt (mi_intentId m))"
  shows "\<exists>s'. decrypt_nodes N kps ((session_of sid now ms)\<lparr>ss_status := Sess_matching\<rparr>) = (s', None) \<and>
    (\<forall>m \<in> set ms. genuine_shares s' (map ck_nodeId kps) (mi_intentId m) (amt (mi_intentId m)))"
proof -
  let ?s = "(session_of sid now ms)\<lparr>ss_status := Sess_matching\<rparr>"
  note entry = delivered_entry [OF assms(1,2) del]
  have wf: "shares_wf (ss_shares ?s)" using session_of_wf by simp
  have ok: "is_ok (plain_share N n e)" if n: "n \<in> set kps" "entry_of (ss_shares ?s) (ck_nodeId n) i = Some e" for n i e
  proof -
    obtain k where k: "k < length kps" "n = kps ! k" using n(1) by (metis in_set_conv_nth)
    obtain m where m: "find (\<lambda>m. mi_intentId m = i) ms = Some m" "e = share_entry i (mi_encryptedShares m ! k)"
      using n(2) entry [OF _ k(1), of sid now i] k(2) by auto
    then have "m \<in> set ms" by (auto simp: find_Some_iff)
    from delivered_plain [OF del [OF this] k(1), of i] del [OF this] k m(2) show ?thesis
      by (auto simp: delivers_def)
  qed
  have "\<exists>s'. decrypt_nodes N kps ?s = (s', None) \<and>
     (\<forall>n \<in> set kps. \<forall>i. decrypted s' (ck_nodeId n) i =
       (case entry_of (ss_shares ?s) (ck_nodeId n) i of None \<Rightarrow> JNull | Some e \<Rightarrow> projr (plain_share N n e))) \<and>
     (\<forall>nid i. nid \<notin> ck_nodeId ` set kps \<longrightarrow> decrypted s' nid i = decrypted ?s nid i)"
    by (rule decrypt_nodes_all [OF wf assms(1)]) (rule ok)
  then obtain s' where
    run: "decrypt_nodes N kps ?s = (s', None)"
    and dec: "\<And>n i. n \<in> set kps \<Longrightarrow> decrypted s' (ck_nodeId n) i =
      (case entry_of (ss_shares ?s) (ck_nodeId n) i of None \<Rightarrow> JNull | Some e \<Rightarrow> projr (plain_share N n e))" by blast
  have "genuine_shares s' (map ck_nodeId kps) (mi_intentId m) (amt (mi_intentId m))" if m: "m \<in> set ms" for m
  proof -
    obtain cs where cs: "length cs \<le> 2" "evalShare cs 0 = amt (mi_intentId m)"
      "\<And>k. k < length kps \<Longrightarrow> decryptShare N (mi_encryptedShares m ! k) (kp_secretKey (ck_encryptionKeyPair (kps ! k)))
        = Inr (encodeShare (sharesOf cs (length kps) ! k))"
      using del [OF m] by (auto simp: delivers_def)
    have val: "decrypted s' (ck_nodeId (kps ! k)) (mi_intentId m) = encodeShare (sharesOf cs (length kps) ! k)"
      if k: "k < length kps" for k
      using dec [of "kps ! k" "mi_intentId m"] entry [OF _ k, of sid now "mi_intentId m"]
        find_intent [OF assms(2) m] delivered_plain [OF del [OF m] k] cs(3) [OF k] k by simp
    have "map (\<lambda>n. decrypted s' n (mi_intentId m)) (map ck_nodeId kps) = map encodeShare (sharesOf cs (length kps))"
      by (rule nth_equalityI) (simp_all add: val del: sharesOf_nth)
    then have "filter truthy (map (\<lambda>n. decrypted s' n (mi_intentId m)) (map ck_nodeId kps)) = map encodeShare (sharesOf cs (length kps))"
      by (simp only: filter_True truthy_encodeShare set_map image_iff) (simp add: filter_id_conv)
    then show ?thesis
      unfolding genuine_shares_def using cs assms(3) val
      by (intro exI [of _ cs]) (simp del: sharesOf_nth map_map)
  qed
  with run show ?thesis by blast
qed

lemma delivered_round_ok:
  assumes nodes: "distinct (map ck_nodeId kps)" "2 \<le> length kps" "length kps \<le> 255"
      "distinct (map (\<lambda>kp. ni_signingPubkey (nodePublicInfo kp)) kps)"
    and sign: "\<And>kp. kp \<in> set kps \<Longrightarrow> sign_correct N (ck_signingKeyPair kp)"
    and intents: "2 \<le> length tms" "distinct (map (mi_intentId \<circ> snd) tms)"
    and del: "\<And>m. m \<in> snd ` set tms \<Longrightarrow> delivers N kps m (amount (mi_intentId m) mod P)"
  shows "\<exists>s b s'. getSession (''session-'' @ bigint_to_string (fst (hd tms))) (submit_all tms) = Some s \<and>
    runMatchingRound N batchId kps s = (Inr (Round_Ok b), s') \<and>
    sb_matches b = matchIntents (map (\<lambda>(t, m). \<lparr>rc_intentId = mi_intentId m, rc_amount7dp = amount (mi_intentId m) mod P,
      rc_inputAsset = mi_inputAsset m, rc_outputAsset = mi_outputAsset m\<rparr>) tms) \<and>
    verifySignedBatch N b (map nodePublicInfo kps) = Inr True"
proof -
  let ?sid = "''session-'' @ bigint_to_string (fst (hd tms))" and ?now = "fst (hd tms)" and ?ms = "map snd tms"
  let ?s = "session_of ?sid ?now ?ms" and ?amt = "\<lambda>i. amount i mod P"
  have "tms \<noteq> []" using intents(1) by auto
  then have sess: "getSession ?sid (submit_all tms) = Some ?s"
    by (simp add: getSession_def submit_all_session)
  have dist: "distinct (map mi_intentId ?ms)" using intents(2) by simp
  obtain s2 where s2: "decrypt_nodes N kps (?s\<lparr>ss_status := Sess_matching\<rparr>) = (s2, None)"
    "\<forall>m \<in> set ?ms. genuine_shares s2 (map ck_nodeId kps) (mi_intentId m) (?amt (mi_intentId m))"
    using delivered_session_decrypts [OF nodes(1) dist nodes(2), of N ?amt ?sid ?now] del by (metis set_map)
  have fr: "ss_intents s2 = map (\<lambda>m. (mi_intentId m, m)) ?ms" "ss_sessionId s2 = ?sid"
    using decrypt_nodes_frame [OF s2(1)] session_of_intents [OF dist, of ?sid ?now] by simp_all
  let ?recs = "plain_intents ?amt (ss_intents s2)"
  have rec: "reconstruct_intents s2 (map ck_nodeId kps) (ss_intents s2) = Inr (Inr ?recs)"
    using s2(2) fr(1) nodes(3) by (intro reconstruct_genuine) auto
  obtain sigs where sigs: "mapR (signBatch N batchId (matchIntents ?recs)) kps = Inr sigs"
    "\<And>h. verifySignedBatch N \<lparr>sb_batchId = batchId, sb_sessionId = ?sid, sb_matches = matchIntents ?recs,
        sb_batchHash = h, sb_signatures = sigs\<rparr> (map nodePublicInfo kps) = Inr True"
    using honest_batch [OF nodes(4), of kps N batchId "matchIntents ?recs" ?sid] sign quorum_two_thirds(2) [of "length kps"] nodes(2)
    by (auto simp: verifySignedBatch_iff)
  have "?recs = map (\<lambda>(t, m). \<lparr>rc_intentId = mi_intentId m, rc_amount7dp = amount (mi_intentId m) mod P,
      rc_inputAsset = mi_inputAsset m, rc_outputAsset = mi_outputAsset m\<rparr>) tms"
    by (simp add: fr(1) plain_intents_def comp_def case_prod_unfold)
  moreover have "length (ss_intents ?s) = length tms" using session_of_intents [OF dist] by simp
  ultimately show ?thesis
    using sess s2(1) rec sigs fr(2) intents(1) unfolding runMatchingRound_def by (simp add: Let_def)
qed

lemma submitted_round_ok:
  assumes nodes: "distinct (map ck_nodeId kps)" "2 \<le> length kps" "length kps \<le> 255"
      "distinct (map (\<lambda>kp. ni_signingPubkey (nodePublicInfo kp)) kps)"
    and sign: "\<And>kp. kp \<in> set kps \<Longrightarrow> sign_correct N (ck_signingKeyPair kp)"
    and intents: "2 \<le> length tms" "distinct (map (mi_intentId \<circ> snd) tms)"
    and amounts: "\<And>m. m \<in> snd ` set tms \<Longrightarrow> BigInt (amountStr (mi_intentId m)) = Inr (amount (mi_intentId m))"
    and shares: "\<And>m. m \<in> snd ` set tms \<Longrightarrow> \<exists>draws ephs. length ephs = length kps \<and>
        (\<forall>k < length kps. box_correct N (fst (ephs ! k)) (ck_encryptionKeyPair (kps ! k)) (snd (ephs ! k))) \<and>
        splitAmountForCommittee N draws ephs (amountStr (mi_intentId m)) (map nodePublicInfo kps) 2
          = Some (Inr (mi_encryptedShares m))"
  shows "\<exists>s b s'. getSession (''session-'' @ bigint_to_string (fst (hd tms))) (submit_all tms) = Some s \<and>
    runMatchingRound N batchId kps s = (Inr (Round_Ok b), s') \<and>
    sb_matches b = matchIntents (map (\<lambda>(t, m). \<lparr>rc_intentId = mi_intentId m, rc_amount7dp = amount (mi_intentId m) mod P,
      rc_inputAsset = mi_inputAsset m, rc_outputAsset = mi_outputAsset m\<rparr>) tms) \<and>
    verifySignedBatch N b (map nodePublicInfo kps) = Inr True"
proof (rule delivered_round_ok [OF nodes sign intents])
  fix m assume m: "m \<in> snd ` set tms"
  obtain draws ephs where "length ephs = length kps"
      "\<forall>k < length kps. box_correct N (fst (ephs ! k)) (ck_encryptionKeyPair (kps ! k)) (snd (ephs ! k))"
      "splitAmountForCommittee N draws ephs (amountStr (mi_intentId m)) (map nodePublicInfo kps) 2 = Some (Inr (mi_encryptedShares m))"
    using shares [OF m] by blast
  then show "delivers N kps m (amount (mi_intentId m) mod P)" using split_delivers [OF nodes(2) amounts [OF m]] by blast
qed

section \<open>Properties\<close>

text \<open>End to end, in one process: when at least two intents with distinct ids are submitted to an
  empty committee, each with its amount split for the nodes, the matching round succeeds, nets exactly
  the submitted amounts (modulo the field prime), and its batch passes the committee's verification.\<close>

theorem submitted_intents_matched_and_signed:
  assumes nodes: "distinct (map ck_nodeId kps)" "2 \<le> length kps" "length kps \<le> 255"
      "distinct (map (\<lambda>kp. ni_signingPubkey (nodePublicInfo kp)) kps)"
    and sign: "\<And>kp. kp \<in> set kps \<Longrightarrow> sign_correct N (ck_signingKeyPair kp)"
    and intents: "2 \<le> length tms" "distinct (map (mi_intentId \<circ> snd) tms)"
    and amounts: "\<And>m. m \<in> snd ` set tms \<Longrightarrow> BigInt (amountStr (mi_intentId m)) = Inr (amount (mi_intentId m))"
    and shares: "\<And>m. m \<in> snd ` set tms \<Longrightarrow> \<exists>draws ephs. length ephs = length kps \<and>
        (\<forall>k < length kps. box_correct N (fst (ephs ! k)) (ck_encryptionKeyPair (kps ! k)) (snd (ephs ! k))) \<and>
        splitAmountForCommittee N draws ephs (amountStr (mi_intentId m)) (map nodePublicInfo kps) 2
          = Some (Inr (mi_encryptedShares m))"
  shows "\<exists>s b s'. getSession (''session-'' @ bigint_to_string (fst (hd tms))) (submit_all tms) = Some s \<and>
    runMatchingRound N batchId kps s = (Inr (Round_Ok b), s') \<and>
    sb_matches b = matchIntents (map (\<lambda>(t, m). \<lparr>rc_intentId = mi_intentId m, rc_amount7dp = amount (mi_intentId m) mod P,
      rc_inputAsset = mi_inputAsset m, rc_outputAsset = mi_outputAsset m\<rparr>) tms) \<and>
    verifySignedBatch N b (map nodePublicInfo kps) = Inr True"
  using assms by (rule submitted_round_ok)

definition demo_kps :: "CommitteeNodeKeyPair list" where
  "demo_kps = map plain_kp [0, 1, 2]"

lemma length_demo_kps [simp]: "length demo_kps = 3"
  by (simp add: demo_kps_def)

definition demo_split :: "string \<Rightarrow> EncryptedShare list result option" where
  "demo_split a = splitAmountForCommittee plain_nacl [replicate 32 7]
     (replicate 3 (\<lparr>kp_publicKey = [1], kp_secretKey = [1]\<rparr>, [])) a (map nodePublicInfo demo_kps) 2"

definition demo_intent :: "string \<Rightarrow> string \<Rightarrow> string \<Rightarrow> string \<Rightarrow> MpcIntent" where
  "demo_intent i a inA outA =
    \<lparr>mi_intentId = i, mi_userId = ''u'', mi_inputAsset = inA, mi_outputAsset = outA, mi_expiryLedger = 0,
     mi_policyId = ''p'', mi_noteNullifier = ''n'', mi_noteCommitment = ''c'', mi_recipientCommitment = ''r'',
     mi_encryptedShares = projr (the (demo_split a)), mi_submittedAt = 0\<rparr>"

definition demo_submission :: "(int \<times> MpcIntent) list" where
  "demo_submission = [(1, demo_intent ''10'' ''10'' ''USDC'' ''EURC''), (2, demo_intent ''7'' ''7'' ''EURC'' ''USDC'')]"

lemma demo_split_ok:
  assumes "BigInt a = Inr v"
  shows "demo_split a = Some (Inr (projr (the (demo_split a))))"
proof -
  obtain raw rest where raw: "shamirSplit v 2 3 [replicate 32 7] = Some (Inr (raw, rest))" "length raw = 3"
    using shamirSplit_returns [of 2 3 "[replicate 32 7]" v] draw_7_accepted by auto
  have "\<exists>shares. demo_split a = Some (Inr shares)"
    using splitAmount_shares [OF assms, of "replicate 3 (\<lparr>kp_publicKey = [1], kp_secretKey = [1]\<rparr>, [])"
        "demo_kps" 2 "[replicate 32 7]" raw rest plain_nacl] raw
    unfolding demo_split_def by (simp del: split_paired_Ex) blast
  then show ?thesis by auto
qed

lemma demo_numbers: "BigInt ''10'' = Inr 10" "BigInt ''7'' = Inr 7"
  by code_simp+

lemma demo_nodes:
  "distinct (map ck_nodeId demo_kps)"
  "distinct (map (\<lambda>kp. ni_signingPubkey (nodePublicInfo kp)) demo_kps)"
  by code_simp+

lemma demo_kps_sign: "kp \<in> set demo_kps \<Longrightarrow> sign_correct plain_nacl (ck_signingKeyPair kp)"
  by (auto simp: demo_kps_def)

lemma demo_submission_ids: "map (mi_intentId \<circ> snd) demo_submission = [''10'', ''7'']"
  by (simp add: demo_submission_def demo_intent_def)

lemma demo_shares:
  assumes that: "m \<in> snd ` set demo_submission"
  shows "\<exists>draws ephs. length ephs = length demo_kps \<and>
        (\<forall>k < length demo_kps. box_correct plain_nacl (fst (ephs ! k))
          (ck_encryptionKeyPair (demo_kps ! k)) (snd (ephs ! k))) \<and>
        splitAmountForCommittee plain_nacl draws ephs (mi_intentId m) (map nodePublicInfo demo_kps) 2
          = Some (Inr (mi_encryptedShares m))"
  proof (rule exI [of _ "[replicate 32 7]"], rule exI [of _ "replicate 3 (\<lparr>kp_publicKey = [1], kp_secretKey = [1]\<rparr>, [])"])
    have "demo_split (mi_intentId m) = Some (Inr (mi_encryptedShares m))"
      using that demo_split_ok [OF demo_numbers(1)] demo_split_ok [OF demo_numbers(2)]
      by (auto simp: demo_submission_def demo_intent_def)
    then show "length (replicate 3 (\<lparr>kp_publicKey = [1], kp_secretKey = [1]\<rparr>, [] :: bytes)) = length demo_kps \<and>
        (\<forall>k < length demo_kps. box_correct plain_nacl
          (fst (replicate 3 (\<lparr>kp_publicKey = [1], kp_secretKey = [1]\<rparr>, []) ! k))
          (ck_encryptionKeyPair (demo_kps ! k))
          (snd (replicate 3 (\<lparr>kp_publicKey = [1], kp_secretKey = [1]\<rparr>, []) ! k))) \<and>
        splitAmountForCommittee plain_nacl [replicate 32 7] (replicate 3 (\<lparr>kp_publicKey = [1], kp_secretKey = [1]\<rparr>, []))
          (mi_intentId m) (map nodePublicInfo demo_kps) 2 = Some (Inr (mi_encryptedShares m))"
      by (simp add: demo_split_def)
  qed

theorem submitted_intents_matched_and_signed_witness:
  "BigInt ''10'' = Inr 10 \<and>
   (\<exists>s b s'. getSession (''session-'' @ bigint_to_string (fst (hd demo_submission))) (submit_all demo_submission) = Some s \<and>
    runMatchingRound plain_nacl ''b1'' demo_kps s = (Inr (Round_Ok b), s') \<and>
    sb_matches b = matchIntents (map (\<lambda>(t, m). \<lparr>rc_intentId = mi_intentId m,
      rc_amount7dp = (if mi_intentId m = ''10'' then 10 else 7) mod P,
      rc_inputAsset = mi_inputAsset m, rc_outputAsset = mi_outputAsset m\<rparr>) demo_submission) \<and>
    verifySignedBatch plain_nacl b (map nodePublicInfo demo_kps) = Inr True)"
proof
  show "BigInt ''10'' = Inr 10" by (rule demo_numbers)
  show "\<exists>s b s'. getSession (''session-'' @ bigint_to_string (fst (hd demo_submission))) (submit_all demo_submission) = Some s \<and>
    runMatchingRound plain_nacl ''b1'' demo_kps s = (Inr (Round_Ok b), s') \<and>
    sb_matches b = matchIntents (map (\<lambda>(t, m). \<lparr>rc_intentId = mi_intentId m,
      rc_amount7dp = (if mi_intentId m = ''10'' then 10 else 7) mod P,
      rc_inputAsset = mi_inputAsset m, rc_outputAsset = mi_outputAsset m\<rparr>) demo_submission) \<and>
    verifySignedBatch plain_nacl b (map nodePublicInfo demo_kps) = Inr True"
    by (rule submitted_intents_matched_and_signed [where amountStr = "\<lambda>i. i", OF demo_nodes(1) _ _ demo_nodes(2) demo_kps_sign _ _ _ demo_shares])
      (use demo_numbers in \<open>auto simp: demo_submission_ids demo_submission_def demo_intent_def\<close>)
qed


lemma demo_round:
  "\<exists>s b s'. runMatchingRound plain_nacl ''b1'' demo_kps s = (Inr (Round_Ok b), s')"
proof -
  have "\<exists>s b s'. getSession (''session-'' @ bigint_to_string (fst (hd demo_submission))) (submit_all demo_submission) = Some s \<and>
    runMatchingRound plain_nacl ''b1'' demo_kps s = (Inr (Round_Ok b), s') \<and>
    sb_matches b = matchIntents (map (\<lambda>(t, m). \<lparr>rc_intentId = mi_intentId m,
      rc_amount7dp = (if mi_intentId m = ''10'' then 10 else 7) mod P,
      rc_inputAsset = mi_inputAsset m, rc_outputAsset = mi_outputAsset m\<rparr>) demo_submission) \<and>
    verifySignedBatch plain_nacl b (map nodePublicInfo demo_kps) = Inr True"
    by (rule submitted_round_ok [where amountStr = "\<lambda>i. i", OF demo_nodes(1) _ _ demo_nodes(2) demo_kps_sign _ _ _ demo_shares])
      (use demo_numbers in \<open>auto simp: demo_submission_ids demo_submission_def demo_intent_def\<close>)
  then show ?thesis by blast
qed


end
