(* ===== verification/Job_Queue.thy ===== *)
theory Job_Queue
  imports Json
begin

text \<open>
  \<open>packages/queue/src/index.ts\<close>: the durable queue over the tables \<open>service_jobs\<close> and
  \<open>service_events\<close>.  A statement is one atomic step on the tables; \<open>now()\<close> (in seconds) and the ids the
  database generates are arguments.  The table constraints of migration 003 (primary key, unique
  idempotency key, foreign key of the events) are part of the insert statements.  The second half is
  the step relation of the queue under any interleaving of workers, with its invariant.
\<close>

section \<open>State\<close>

datatype QueueName = Q_prover | Q_relayer

record ServiceJob =
  sj_job_id :: string
  sj_job_type :: string
  sj_queue :: QueueName
  sj_idempotency_key :: "string option"
  sj_payload :: json
  sj_status :: string
  sj_attempts :: nat
  sj_max_attempts :: nat
  sj_result :: "json option"
  sj_error :: "string option"
  sj_available_at :: int
  sj_created_at :: int

record ServiceEvent =
  ev_job_id :: string
  ev_status :: string
  ev_detail :: "string option"

record JobDb =
  jd_jobs :: "ServiceJob list"
  jd_events :: "ServiceEvent list"

section \<open>Operations\<close>

definition getJob :: "JobDb \<Rightarrow> string \<Rightarrow> ServiceJob option" where
  "getJob db jobId = find (\<lambda>j. sj_job_id j = jobId) (jd_jobs db)"

definition getEvents :: "JobDb \<Rightarrow> string \<Rightarrow> ServiceEvent list" where
  "getEvents db jobId = filter (\<lambda>e. ev_job_id e = jobId) (jd_events db)"

definition update_job :: "string \<Rightarrow> (ServiceJob \<Rightarrow> ServiceJob) \<Rightarrow> JobDb \<Rightarrow> JobDb" where
  "update_job jobId f db =
    db\<lparr>jd_jobs := map (\<lambda>j. if sj_job_id j = jobId then f j else j) (jd_jobs db)\<rparr>"

definition job_event :: "string \<Rightarrow> string \<Rightarrow> string option \<Rightarrow> JobDb \<Rightarrow> JobDb result" where
  "job_event jobId status detail db =
    (if getJob db jobId = None then Inl (Js_Error ''insert or update on table service_events violates foreign key constraint'')
     else Inr (db\<lparr>jd_events := jd_events db @ [\<lparr>ev_job_id = jobId, ev_status = status, ev_detail = detail\<rparr>]\<rparr>))"

definition new_job :: "string \<Rightarrow> int \<Rightarrow> QueueName \<Rightarrow> string \<Rightarrow> json \<Rightarrow> string option \<Rightarrow> ServiceJob" where
  "new_job jobId now queue jobType payload key =
    \<lparr>sj_job_id = jobId, sj_job_type = jobType, sj_queue = queue, sj_idempotency_key = key, sj_payload = payload,
     sj_status = ''queued'', sj_attempts = 0, sj_max_attempts = 3, sj_result = None, sj_error = None,
     sj_available_at = now, sj_created_at = now\<rparr>"

definition find_key :: "JobDb \<Rightarrow> string \<Rightarrow> ServiceJob option" where
  "find_key db key = find (\<lambda>j. sj_idempotency_key j = Some key) (jd_jobs db)"

definition insert_job :: "ServiceJob \<Rightarrow> JobDb \<Rightarrow> JobDb result" where
  "insert_job j db =
    (if getJob db (sj_job_id j) \<noteq> None then Inl (Js_Error ''duplicate key value violates unique constraint service_jobs_pkey'')
     else case sj_idempotency_key j of
            None \<Rightarrow> Inr (db\<lparr>jd_jobs := jd_jobs db @ [j]\<rparr>)
          | Some k \<Rightarrow>
              if find_key db k \<noteq> None
              then Inl (Js_Error ''duplicate key value violates unique constraint service_jobs_idempotency_key_key'')
              else Inr (db\<lparr>jd_jobs := jd_jobs db @ [j]\<rparr>))"

text \<open>An absent or empty key skips the lookup; an empty key is still stored.\<close>

definition enqueue ::
  "string \<Rightarrow> int \<Rightarrow> QueueName \<Rightarrow> string \<Rightarrow> json \<Rightarrow> string option \<Rightarrow> JobDb \<Rightarrow> (ServiceJob \<times> JobDb) result" where
  "enqueue newId now queue jobType payload key db =
    (case (if key = None \<or> key = Some [] then None else find_key db (the key)) of
       Some existing \<Rightarrow> Inr (existing, db)
     | None \<Rightarrow>
         (let j = new_job newId now queue jobType payload key
          in bindR (insert_job j db) (\<lambda>db'.
             bindR (job_event newId ''queued'' (Some (''enqueued '' @ jobType)) db') (\<lambda>db''.
             Inr (j, db'')))))"

definition claimable :: "int \<Rightarrow> QueueName \<Rightarrow> string list option \<Rightarrow> ServiceJob \<Rightarrow> bool" where
  "claimable now queue jobTypes j \<longleftrightarrow>
    sj_queue j = queue \<and> sj_status j \<in> {''queued'', ''failed_retry''} \<and> sj_available_at j \<le> now \<and>
    (jobTypes = None \<or> jobTypes = Some [] \<or> sj_job_type j \<in> set (the jobTypes))"

definition claim_job :: "ServiceJob \<Rightarrow> ServiceJob" where
  "claim_job j = j\<lparr>sj_status := ''claimed'', sj_attempts := sj_attempts j + 1\<rparr>"

definition claimNext :: "int \<Rightarrow> QueueName \<Rightarrow> string list option \<Rightarrow> JobDb \<Rightarrow> ServiceJob option \<times> JobDb" where
  "claimNext now queue jobTypes db =
    (case sort_key sj_created_at (filter (claimable now queue jobTypes) (jd_jobs db)) of
       [] \<Rightarrow> (None, db)
     | j # _ \<Rightarrow> (Some (claim_job j), update_job (sj_job_id j) claim_job db))"

definition setStatus :: "string \<Rightarrow> string \<Rightarrow> string option \<Rightarrow> JobDb \<Rightarrow> JobDb result" where
  "setStatus jobId status detail db =
    job_event jobId status detail (update_job jobId (\<lambda>j. j\<lparr>sj_status := status\<rparr>) db)"

definition complete_job :: "string \<Rightarrow> json \<Rightarrow> string \<Rightarrow> JobDb \<Rightarrow> JobDb result" where
  "complete_job jobId res status db =
    job_event jobId status (Some ''completed'')
      (update_job jobId (\<lambda>j. j\<lparr>sj_status := status, sj_result := Some res, sj_error := None\<rparr>) db)"

definition fail_job :: "int \<Rightarrow> string \<Rightarrow> string \<Rightarrow> nat \<Rightarrow> JobDb \<Rightarrow> JobDb result" where
  "fail_job now jobId error backoffSeconds db =
    (let terminal = (case getJob db jobId of None \<Rightarrow> True | Some j \<Rightarrow> sj_attempts j \<ge> sj_max_attempts j)
     in if terminal
        then job_event jobId ''failed'' (Some (take 500 error))
               (update_job jobId (\<lambda>j. j\<lparr>sj_status := ''failed'', sj_error := Some (take 2000 error)\<rparr>) db)
        else job_event jobId ''failed_retry'' (Some (take 500 error))
               (update_job jobId (\<lambda>j. j\<lparr>sj_status := ''failed_retry'', sj_error := Some (take 2000 error),
                  sj_available_at := now + int backoffSeconds\<rparr>) db))"

section \<open>The queue under interleaved workers\<close>

text \<open>The states a worker writes while it works: never one that makes a job claimable again.\<close>

definition claimable_status :: "string \<Rightarrow> bool" where
  "claimable_status st \<longleftrightarrow> st \<in> {''queued'', ''failed_retry''}"

datatype queue_op =
    Op_enqueue string int QueueName string json "string option"
  | Op_claim int QueueName "string list option" "string option"
  | Op_status string string "string option"
  | Op_complete string json string
  | Op_fail int string string nat

inductive queue_step :: "JobDb \<Rightarrow> queue_op \<Rightarrow> JobDb \<Rightarrow> bool" where
  step_enqueue: "enqueue newId now q ty payload key db = Inr (j, db') \<Longrightarrow>
    queue_step db (Op_enqueue newId now q ty payload key) db'"
| step_claim: "claimNext now q tys db = (r, db') \<Longrightarrow>
    queue_step db (Op_claim now q tys (map_option sj_job_id r)) db'"
| step_status: "\<not> claimable_status st \<Longrightarrow> setStatus jobId st detail db = Inr db' \<Longrightarrow>
    queue_step db (Op_status jobId st detail) db'"
| step_complete: "\<not> claimable_status st \<Longrightarrow> complete_job jobId res st db = Inr db' \<Longrightarrow>
    queue_step db (Op_complete jobId res st) db'"
| step_fail: "fail_job now jobId err backoff db = Inr db' \<Longrightarrow> queue_step db (Op_fail now jobId err backoff) db'"

inductive queue_run :: "JobDb \<Rightarrow> queue_op list \<Rightarrow> JobDb \<Rightarrow> bool" where
  run_nil: "queue_run db [] db"
| run_snoc: "queue_run db ops db' \<Longrightarrow> queue_step db' op db'' \<Longrightarrow> queue_run db (ops @ [op]) db''"

inductive_cases queue_stepE: "queue_step db op db'"

definition empty_jobs :: JobDb where
  "empty_jobs = \<lparr>jd_jobs = [], jd_events = []\<rparr>"

text \<open>The invariant: ids and keys are unique, no job is attempted more often than allowed, a claimable
  job has an attempt left, and every event belongs to a job.\<close>

definition job_keys :: "JobDb \<Rightarrow> string list" where
  "job_keys db = map (\<lambda>j. the (sj_idempotency_key j)) (filter (\<lambda>j. sj_idempotency_key j \<noteq> None) (jd_jobs db))"

definition job_ok :: "ServiceJob \<Rightarrow> bool" where
  "job_ok j \<longleftrightarrow> sj_attempts j \<le> sj_max_attempts j \<and>
    (claimable_status (sj_status j) \<longrightarrow> sj_attempts j < sj_max_attempts j)"

definition queue_inv :: "JobDb \<Rightarrow> bool" where
  "queue_inv db \<longleftrightarrow> distinct (map sj_job_id (jd_jobs db)) \<and> distinct (job_keys db) \<and>
    (\<forall>j \<in> set (jd_jobs db). job_ok j) \<and>
    (\<forall>e \<in> set (jd_events db). ev_job_id e \<in> sj_job_id ` set (jd_jobs db))"

section \<open>Frame facts\<close>

definition keeps_identity :: "(ServiceJob \<Rightarrow> ServiceJob) \<Rightarrow> bool" where
  "keeps_identity f \<longleftrightarrow> (\<forall>j. sj_job_id (f j) = sj_job_id j \<and> sj_idempotency_key (f j) = sj_idempotency_key j)"

lemma keeps_identityD:
  "keeps_identity f \<Longrightarrow> sj_job_id (f j) = sj_job_id j" "keeps_identity f \<Longrightarrow> sj_idempotency_key (f j) = sj_idempotency_key j"
  by (simp_all add: keeps_identity_def)

lemma keeps_identity_updates [simp]:
  "keeps_identity claim_job" "keeps_identity (\<lambda>j. j\<lparr>sj_status := st\<rparr>)"
  "keeps_identity (\<lambda>j. j\<lparr>sj_status := st, sj_result := r, sj_error := e\<rparr>)"
  "keeps_identity (\<lambda>j. j\<lparr>sj_status := st, sj_error := e\<rparr>)"
  "keeps_identity (\<lambda>j. j\<lparr>sj_status := st, sj_error := e, sj_available_at := t\<rparr>)"
  by (simp_all add: keeps_identity_def claim_job_def)

lemma update_job_ids [simp]:
  "keeps_identity f \<Longrightarrow> map sj_job_id (jd_jobs (update_job i f db)) = map sj_job_id (jd_jobs db)"
  by (simp add: update_job_def keeps_identity_def)

lemma update_job_keys [simp]: "keeps_identity f \<Longrightarrow> job_keys (update_job i f db) = job_keys db"
proof -
  assume f: "keeps_identity f"
  have "map (\<lambda>j. the (sj_idempotency_key j)) (filter (\<lambda>j. sj_idempotency_key j \<noteq> None)
      (map (\<lambda>j. if sj_job_id j = i then f j else j) js)) =
    map (\<lambda>j. the (sj_idempotency_key j)) (filter (\<lambda>j. sj_idempotency_key j \<noteq> None) js)" for js
    using f by (induction js) (simp_all add: keeps_identity_def)
  then show ?thesis by (simp only: job_keys_def update_job_def) simp
qed

lemma update_job_events [simp]: "jd_events (update_job i f db) = jd_events db"
  by (simp add: update_job_def)

lemma job_event_Inr:
  "job_event i st d db = Inr db' \<Longrightarrow> jd_jobs db' = jd_jobs db \<and> i \<in> sj_job_id ` set (jd_jobs db) \<and>
    jd_events db' = jd_events db @ [\<lparr>ev_job_id = i, ev_status = st, ev_detail = d\<rparr>]"
  by (auto simp: job_event_def getJob_def find_None_iff split: if_splits)

lemma getJob_Some:
  "distinct (map sj_job_id (jd_jobs db)) \<Longrightarrow> j \<in> set (jd_jobs db) \<Longrightarrow> getJob db (sj_job_id j) = Some j"
  unfolding getJob_def
proof (induction "jd_jobs db" arbitrary: db)
  case (Cons k js)
  from Cons(2) [symmetric] Cons(1) [of "db\<lparr>jd_jobs := js\<rparr>"] Cons(3,4) show ?case
    by (auto simp: image_iff)
qed simp

lemma getJob_mem: "getJob db i = Some j \<Longrightarrow> j \<in> set (jd_jobs db) \<and> sj_job_id j = i"
  by (auto simp: getJob_def find_Some_iff)

section \<open>Preservation of the invariant\<close>

lemma inv_update:
  assumes "queue_inv db" "keeps_identity f"
    and "\<And>j. j \<in> set (jd_jobs db) \<Longrightarrow> sj_job_id j = i \<Longrightarrow> job_ok (f j)"
  shows "queue_inv (update_job i f db)"
proof -
  have "set (jd_jobs (update_job i f db)) = (\<lambda>j. if sj_job_id j = i then f j else j) ` set (jd_jobs db)"
    by (simp add: update_job_def)
  moreover have "sj_job_id ` set (jd_jobs (update_job i f db)) = sj_job_id ` set (jd_jobs db)"
    using update_job_ids [OF assms(2)] by (metis set_map)
  ultimately show ?thesis using assms by (auto simp: queue_inv_def)
qed

lemma inv_event: "queue_inv db \<Longrightarrow> job_event i st d db = Inr db' \<Longrightarrow> queue_inv db'"
  by (drule job_event_Inr) (auto simp: queue_inv_def job_keys_def)

lemma inv_insert:
  assumes "queue_inv db" "insert_job j db = Inr db'" "job_ok j"
  shows "queue_inv db'"
proof -
  have db': "db' = db\<lparr>jd_jobs := jd_jobs db @ [j]\<rparr>" and new: "getJob db (sj_job_id j) = None"
    and key: "\<And>k. sj_idempotency_key j = Some k \<Longrightarrow> find_key db k = None"
    using assms(2) by (auto simp: insert_job_def split: if_splits option.splits)
  have "sj_job_id j \<notin> sj_job_id ` set (jd_jobs db)" using new by (auto simp: getJob_def find_None_iff)
  moreover have "the (sj_idempotency_key j) \<notin> set (job_keys db)" if "sj_idempotency_key j \<noteq> None"
    using that key by (auto simp: job_keys_def find_key_def find_None_iff)
  ultimately show ?thesis
    using assms(1,3) unfolding db' by (auto simp: queue_inv_def job_keys_def)
qed

lemma new_job_ok: "job_ok (new_job i now q ty p k)"
  by (simp add: new_job_def job_ok_def)

lemma claimNextE:
  assumes "claimNext now q tys db = (r, db')"
  obtains (none) "r = None" "db' = db" "filter (claimable now q tys) (jd_jobs db) = []"
  | (some) j where "j \<in> set (jd_jobs db)" "claimable now q tys j" "r = Some (claim_job j)"
      "db' = update_job (sj_job_id j) claim_job db"
      "\<And>k. k \<in> set (jd_jobs db) \<Longrightarrow> claimable now q tys k \<Longrightarrow> sj_created_at j \<le> sj_created_at k"
proof (cases "sort_key sj_created_at (filter (claimable now q tys) (jd_jobs db))")
  case Nil
  then have "filter (claimable now q tys) (jd_jobs db) = []"
    by (metis length_0_conv length_sort)
  with Nil none assms show thesis by (simp add: claimNext_def)
next
  case (Cons j js)
  then have mem: "set (j # js) = set (filter (claimable now q tys) (jd_jobs db))" by (metis set_sort)
  have "sorted (map sj_created_at (j # js))" using Cons by (metis sorted_sort_key)
  then have "sj_created_at j \<le> sj_created_at k" if "k \<in> set (jd_jobs db)" "claimable now q tys k" for k
    using that mem by (cases "k = j") auto
  moreover have "j \<in> set (jd_jobs db)" "claimable now q tys j" using mem by auto
  ultimately show thesis using some [of j] Cons assms by (simp add: claimNext_def)
qed

lemma queue_step_inv: "queue_step db op db' \<Longrightarrow> queue_inv db \<Longrightarrow> queue_inv db'"
proof (induction rule: queue_step.induct)
  case (step_enqueue newId now q ty payload key db j db')
  show ?case
  proof (cases "key = None \<or> key = Some [] \<or> find_key db (the key) = None")
    case True
    then have "(if key = None \<or> key = Some [] then None else find_key db (the key)) = None" by auto
    with step_enqueue obtain db1 where "insert_job (new_job newId now q ty payload key) db = Inr db1"
      "job_event newId ''queued'' (Some (''enqueued '' @ ty)) db1 = Inr db'"
      by (auto simp: enqueue_def Let_def)
    with step_enqueue(2) show ?thesis by (blast intro: inv_event inv_insert new_job_ok)
  next
    case False
    with step_enqueue show ?thesis by (auto simp: enqueue_def)
  qed
next
  case (step_claim now q tys db r db')
  from step_claim(1) show ?case
  proof (cases rule: claimNextE)
    case (some j)
    have "job_ok (claim_job j')" if "j' \<in> set (jd_jobs db)" "sj_job_id j' = sj_job_id j" for j'
    proof -
      have "j' = j"
        using getJob_Some [of db] that some(1) step_claim(2) by (metis option.inject queue_inv_def)
      moreover have "job_ok j" "claimable_status (sj_status j)"
        using some(1,2) step_claim(2) by (auto simp: queue_inv_def claimable_def claimable_status_def)
      ultimately show ?thesis by (auto simp: job_ok_def claim_job_def claimable_status_def)
    qed
    with some(4) step_claim(2) show ?thesis by (simp add: inv_update)
  qed (use step_claim in simp)
next
  case (step_status st jobId detail db db')
  then show ?case unfolding setStatus_def
    by (elim inv_event [rotated]) (rule inv_update, auto simp: queue_inv_def job_ok_def)
next
  case (step_complete st jobId res db db')
  then show ?case unfolding complete_job_def
    by (elim inv_event [rotated]) (rule inv_update, auto simp: queue_inv_def job_ok_def)
next
  case (step_fail now jobId err backoff db db')
  show ?case
  proof (cases "case getJob db jobId of None \<Rightarrow> True | Some j \<Rightarrow> sj_attempts j \<ge> sj_max_attempts j")
    case True
    with step_fail show ?thesis unfolding fail_job_def Let_def
      by (simp, elim inv_event [rotated]) (rule inv_update, auto simp: queue_inv_def job_ok_def claimable_status_def)
  next
    case False
    then obtain j where j: "getJob db jobId = Some j" "sj_attempts j < sj_max_attempts j"
      by (auto split: option.splits)
    have "j' = j" if "j' \<in> set (jd_jobs db)" "sj_job_id j' = jobId" for j'
      using getJob_Some [of db j'] that j(1) step_fail(2) by (simp add: queue_inv_def)
    with j step_fail show ?thesis unfolding fail_job_def Let_def
      by (simp, elim inv_event [rotated]) (rule inv_update, auto simp: job_ok_def)
  qed
qed

section \<open>Counting the claims of a job\<close>

definition claims :: "string \<Rightarrow> queue_op list \<Rightarrow> nat" where
  "claims i ops = length (filter (\<lambda>op. case op of Op_claim _ _ _ (Some k) \<Rightarrow> k = i | _ \<Rightarrow> False) ops)"

definition attempts_of :: "JobDb \<Rightarrow> string \<Rightarrow> nat" where
  "attempts_of db i = (case getJob db i of None \<Rightarrow> 0 | Some j \<Rightarrow> sj_attempts j)"

lemma getJob_update:
  assumes "keeps_identity f"
  shows "getJob (update_job i f db) k = map_option (\<lambda>j. if sj_job_id j = i then f j else j) (getJob db k)"
proof -
  have "find (\<lambda>j. sj_job_id j = k) (map (\<lambda>j. if sj_job_id j = i then f j else j) js)
      = map_option (\<lambda>j. if sj_job_id j = i then f j else j) (find (\<lambda>j. sj_job_id j = k) js)" for js
    using assms by (induction js) (simp_all add: keeps_identity_def)
  then show ?thesis by (simp add: getJob_def update_job_def)
qed

lemma getJob_event: "job_event i st d db = Inr db' \<Longrightarrow> getJob db' k = getJob db k"
  by (drule job_event_Inr) (simp add: getJob_def)

lemma getJob_insert:
  "insert_job j db = Inr db' \<Longrightarrow> getJob db' k = (if k = sj_job_id j then Some j else getJob db k)"
proof -
  assume "insert_job j db = Inr db'"
  then have db': "db' = db\<lparr>jd_jobs := jd_jobs db @ [j]\<rparr>" and new: "getJob db (sj_job_id j) = None"
    by (auto simp: insert_job_def split: if_splits option.splits)
  then show ?thesis by (auto simp: getJob_def find_snoc split: option.splits)
qed

definition count_inv :: "queue_op list \<Rightarrow> JobDb \<Rightarrow> bool" where
  "count_inv ops db \<longleftrightarrow> (\<forall>i. claims i ops = attempts_of db i) \<and>
    (\<forall>i j. getJob db i = Some j \<longrightarrow> sj_max_attempts j = 3)"

lemma count_update:
  assumes "count_inv ops db" "keeps_identity f" "\<And>j. sj_attempts (f j) = sj_attempts j \<and> sj_max_attempts (f j) = sj_max_attempts j"
    "job_event k st d (update_job i f db) = Inr db'" "\<And>i. claims i (ops @ [op]) = claims i ops"
  shows "count_inv (ops @ [op]) db'"
  using assms(1,3,5) getJob_event [OF assms(4)] getJob_update [OF assms(2)]
  by (auto simp: count_inv_def attempts_of_def split: option.splits)

lemma count_step:
  assumes "queue_step db op db'" "count_inv ops db" "queue_inv db"
  shows "count_inv (ops @ [op]) db'"
  using assms
proof (induction rule: queue_step.induct)
  case (step_enqueue newId now q ty payload key db j db')
  have c: "claims i (ops @ [Op_enqueue newId now q ty payload key]) = claims i ops" for i
    by (simp add: claims_def)
  show ?case
  proof (cases "key = None \<or> key = Some [] \<or> find_key db (the key) = None")
    case True
    then have "(if key = None \<or> key = Some [] then None else find_key db (the key)) = None" by auto
    with step_enqueue(1) obtain db1 where ins: "insert_job (new_job newId now q ty payload key) db = Inr db1"
      "job_event newId ''queued'' (Some (''enqueued '' @ ty)) db1 = Inr db'"
      by (auto simp: enqueue_def Let_def)
    have "getJob db newId = None" using ins(1) by (auto simp: insert_job_def new_job_def split: if_splits)
    moreover have "getJob db' k = (if k = newId then Some (new_job newId now q ty payload key) else getJob db k)" for k
      using getJob_event [OF ins(2)] getJob_insert [OF ins(1)] by (simp add: new_job_def)
    ultimately show ?thesis
      using step_enqueue(2) c by (auto simp: count_inv_def attempts_of_def new_job_def split: option.splits)
  next
    case False
    with step_enqueue c show ?thesis by (auto simp: enqueue_def count_inv_def)
  qed
next
  case (step_claim now q tys db r db')
  from step_claim(1) show ?case
  proof (cases rule: claimNextE)
    case none
    with step_claim(2) show ?thesis by (simp add: count_inv_def claims_def)
  next
    case (some j)
    have gj: "getJob db (sj_job_id j) = Some j"
      using getJob_Some some(1) step_claim(3) by (auto simp: queue_inv_def)
    have r: "map_option sj_job_id r = Some (sj_job_id j)" by (simp add: some(3) claim_job_def)
    have upd: "getJob db' k = map_option (\<lambda>x. if sj_job_id x = sj_job_id j then claim_job x else x) (getJob db k)" for k
      unfolding some(4) by (rule getJob_update) simp
    have "attempts_of db' i = attempts_of db i + (if i = sj_job_id j then 1 else 0)" for i
    proof (cases "getJob db i")
      case (Some x)
      then have "sj_job_id x = i" using getJob_mem by blast
      with Some gj upd show ?thesis by (simp add: attempts_of_def claim_job_def)
    next
      case None
      with gj have "i \<noteq> sj_job_id j" by auto
      with None upd show ?thesis by (simp add: attempts_of_def)
    qed
    moreover have "sj_max_attempts x' = 3" if x': "getJob db' i = Some x'" for i x'
    proof -
      obtain x where "getJob db i = Some x" "sj_max_attempts x' = sj_max_attempts x"
        using x' upd [of i] by (auto simp: claim_job_def split: if_splits)
      then show ?thesis using step_claim(2) by (auto simp: count_inv_def)
    qed
    ultimately show ?thesis
      using step_claim(2) unfolding r by (auto simp: count_inv_def claims_def)
  qed
next
  case (step_status st jobId detail db db')
  then show ?case unfolding setStatus_def by (elim count_update) (simp_all add: claims_def)
next
  case (step_complete st jobId res db db')
  then show ?case unfolding complete_job_def by (elim count_update) (simp_all add: claims_def)
next
  case (step_fail now jobId err backoff db db')
  show ?case
  proof (cases "case getJob db jobId of None \<Rightarrow> True | Some j \<Rightarrow> sj_attempts j \<ge> sj_max_attempts j")
    case True
    with step_fail(1) have "job_event jobId ''failed'' (Some (take 500 err))
        (update_job jobId (\<lambda>j. j\<lparr>sj_status := ''failed'', sj_error := Some (take 2000 err)\<rparr>) db) = Inr db'"
      by (simp add: fail_job_def)
    with step_fail(2) show ?thesis by (elim count_update) (simp_all add: claims_def)
  next
    case False
    with step_fail(1) have "job_event jobId ''failed_retry'' (Some (take 500 err))
        (update_job jobId (\<lambda>j. j\<lparr>sj_status := ''failed_retry'', sj_error := Some (take 2000 err),
          sj_available_at := now + int backoff\<rparr>) db) = Inr db'"
      by (simp add: fail_job_def)
    with step_fail(2) show ?thesis by (elim count_update) (simp_all add: claims_def)
  qed
qed

lemma queue_run_inv: "queue_run db0 ops db \<Longrightarrow> db0 = empty_jobs \<Longrightarrow> queue_inv db \<and> count_inv ops db"
proof (induction rule: queue_run.induct)
  case (run_nil db)
  then show ?case
    by (simp add: empty_jobs_def queue_inv_def job_keys_def count_inv_def claims_def attempts_of_def getJob_def)
next
  case (run_snoc db ops db' op db'')
  then show ?case by (blast intro: queue_step_inv count_step)
qed

section \<open>Properties\<close>


lemma demo_queue_run:
  "\<exists>db. queue_run empty_jobs
    [Op_enqueue ''j1'' 0 Q_relayer ''t'' JNull None, Op_claim 1 Q_relayer None (Some ''j1'')] db"
proof -
  let ?db1 = "\<lparr>jd_jobs = [new_job ''j1'' 0 Q_relayer ''t'' JNull None],
     jd_events = [\<lparr>ev_job_id = ''j1'', ev_status = ''queued'', ev_detail = Some ''enqueued t''\<rparr>]\<rparr>"
  have s1: "queue_step empty_jobs (Op_enqueue ''j1'' 0 Q_relayer ''t'' JNull None) ?db1"
    by (rule step_enqueue [where j = "new_job ''j1'' 0 Q_relayer ''t'' JNull None"])
      (simp add: enqueue_def empty_jobs_def insert_job_def job_event_def getJob_def new_job_def Let_def)
  have "claimNext 1 Q_relayer None ?db1 = (Some (claim_job (new_job ''j1'' 0 Q_relayer ''t'' JNull None)),
      update_job ''j1'' claim_job ?db1)"
    by (simp add: claimNext_def claimable_def new_job_def)
  from step_claim [OF this] have s2: "queue_step ?db1 (Op_claim 1 Q_relayer None (Some ''j1''))
      (update_job ''j1'' claim_job ?db1)"
    by (simp add: claim_job_def new_job_def)
  show ?thesis using run_snoc [OF run_snoc [OF run_nil s1] s2] by auto
qed


text \<open>Enqueueing is idempotent per key: a second request with the same non-empty key, whatever its
  queue, type and payload, gets the first job back and changes nothing.\<close>

theorem enqueue_idempotent:
  assumes "enqueue newId now q ty payload (Some key) db = Inr (j, db')" "key \<noteq> []" "queue_inv db"
  shows "enqueue newId2 now2 q2 ty2 payload2 (Some key) db' = Inr (j, db') \<and> sj_idempotency_key j = Some key"
proof (cases "find_key db key")
  case (Some old)
  then have "sj_idempotency_key old = Some key" by (auto simp: find_key_def find_Some_iff)
  with Some assms show ?thesis by (simp add: enqueue_def)
next
  case None
  with assms(1,2) obtain db1 where ins: "insert_job (new_job newId now q ty payload (Some key)) db = Inr db1"
    "job_event newId ''queued'' (Some (''enqueued '' @ ty)) db1 = Inr db'" and j: "j = new_job newId now q ty payload (Some key)"
    by (auto simp: enqueue_def Let_def)
  have jobs: "jd_jobs db' = jd_jobs db @ [j]"
    using ins(1) job_event_Inr [OF ins(2)] unfolding j by (auto simp: insert_job_def new_job_def split: if_splits option.splits)
  have "find_key db' key = Some j"
    using None unfolding find_key_def jobs find_snoc by (simp add: j new_job_def)
  then show ?thesis using assms(2) j by (simp add: enqueue_def new_job_def)
qed

theorem enqueue_idempotent_witness:
  "\<exists>j db'. enqueue ''j1'' 0 Q_relayer ''t'' JNull (Some ''k'') empty_jobs = Inr (j, db') \<and>
    enqueue ''j2'' 5 Q_prover ''u'' (JNum 1) (Some ''k'') db' = Inr (j, db') \<and> sj_idempotency_key j = Some ''k''"
proof -
  have "\<exists>j db'. enqueue ''j1'' 0 Q_relayer ''t'' JNull (Some ''k'') empty_jobs = Inr (j, db')"
    by (simp add: enqueue_def empty_jobs_def insert_job_def find_key_def job_event_def getJob_def new_job_def Let_def)
  moreover have "queue_inv empty_jobs" by (simp add: queue_inv_def empty_jobs_def job_keys_def)
  ultimately show ?thesis
    using enqueue_idempotent [of "''j1''" 0 Q_relayer "''t''" JNull "''k''" empty_jobs] by blast
qed

text \<open>A claim hands out the oldest claimable job of the queue, counts the attempt, and takes the job
  out of the queue: the same job cannot be claimed again while it is in work.\<close>

theorem claimNext_oldest_exclusive:
  assumes "queue_inv db" "claimNext now q tys db = (Some j, db')"
  shows "\<exists>j0 \<in> set (jd_jobs db). claimable now q tys j0 \<and> j = claim_job j0 \<and>
      (\<forall>k \<in> set (jd_jobs db). claimable now q tys k \<longrightarrow> sj_created_at j0 \<le> sj_created_at k) \<and>
      getJob db' (sj_job_id j) = Some j \<and>
      (\<forall>now' tys' r db''. claimNext now' q' tys' db' = (Some r, db'') \<longrightarrow> sj_job_id r \<noteq> sj_job_id j)"
  using assms(2)
proof (cases rule: claimNextE)
  case (some j0)
  have j: "j = claim_job j0" "sj_job_id j = sj_job_id j0" using some(3) by (simp_all add: claim_job_def)
  have "getJob db (sj_job_id j0) = Some j0" using getJob_Some some(1) assms(1) by (auto simp: queue_inv_def)
  then have gj: "getJob db' (sj_job_id j) = Some j"
    unfolding some(4) j by (simp add: getJob_update claim_job_def)
  have inv': "queue_inv db'" using queue_step_inv [OF step_claim [OF assms(2)] assms(1)] .
  have "sj_job_id r \<noteq> sj_job_id j" if "claimNext now' q' tys' db' = (Some r, db'')" for now' tys' r db''
    using that
  proof (cases rule: claimNextE)
    case (some k)
    have "getJob db' (sj_job_id k) = Some k" using getJob_Some some(1) inv' by (auto simp: queue_inv_def)
    moreover have "sj_status k \<noteq> sj_status j"
      using some(2) j(1) by (auto simp: claimable_def claim_job_def)
    moreover have "sj_job_id r = sj_job_id k" using some(3) by (simp add: claim_job_def)
    ultimately show ?thesis using gj by (metis option.inject)
  qed simp
  with some j gj show ?thesis by (intro bexI [of _ j0]) auto
qed simp

theorem claimNext_oldest_exclusive_witness:
  "\<exists>db j db'. queue_inv db \<and> claimNext 1 Q_relayer None db = (Some j, db') \<and> getJob db' (sj_job_id j) = Some j"
proof -
  let ?db = "\<lparr>jd_jobs = [new_job ''j1'' 0 Q_relayer ''t'' JNull None], jd_events = []\<rparr>"
  have inv: "queue_inv ?db" by (simp add: queue_inv_def job_keys_def new_job_ok)
  have run: "claimNext 1 Q_relayer None ?db = (Some (claim_job (new_job ''j1'' 0 Q_relayer ''t'' JNull None)),
      update_job ''j1'' claim_job ?db)"
    by (simp add: claimNext_def claimable_def new_job_def)
  show ?thesis using claimNext_oldest_exclusive [OF inv run] inv run by blast
qed

end
