(* ===== verification/Service_Io.thy ===== *)
theory Service_Io
  imports Json
begin

text \<open>
  What the services share when they talk to the outside: computations over an outside world \<open>'w\<close> that
  may throw (the \<open>async\<close> functions), environment maps, and \<open>packages/stellar-utils/src/index.ts\<close>, whose
  \<open>sorobanInvoke\<close> runs the \<open>stellar\<close> command line.  The world and the programs that act on it are
  arguments: a command is a function from its arguments and the world to an exit status, its output
  and the next world.
\<close>

section \<open>Computations over a world\<close>

type_synonym ('w, 'a) io = "'w \<Rightarrow> 'a result \<times> 'w"

definition returnIO :: "'a \<Rightarrow> ('w, 'a) io" where
  "returnIO x w = (Inr x, w)"

definition throwIO :: "js_error \<Rightarrow> ('w, 'a) io" where
  "throwIO e w = (Inl e, w)"

definition bindIO :: "('w, 'a) io \<Rightarrow> ('a \<Rightarrow> ('w, 'b) io) \<Rightarrow> ('w, 'b) io" where
  "bindIO m f w = (case m w of (Inl e, w') \<Rightarrow> (Inl e, w') | (Inr x, w') \<Rightarrow> f x w')"

definition guardIO :: "bool \<Rightarrow> string \<Rightarrow> ('w, unit) io" where
  "guardIO b msg = (if b then returnIO () else throwIO (Js_Error msg))"

definition liftIO :: "'a result \<Rightarrow> ('w, 'a) io" where
  "liftIO r w = (r, w)"

text \<open>\<open>try { m } catch (e) { h(e) }\<close>\<close>

definition catchIO :: "('w, 'a) io \<Rightarrow> (js_error \<Rightarrow> ('w, 'a) io) \<Rightarrow> ('w, 'a) io" where
  "catchIO m h w = (case m w of (Inl e, w') \<Rightarrow> h e w' | (Inr x, w') \<Rightarrow> (Inr x, w'))"

lemma bindIO_Inr_iff:
  "bindIO m f w = (Inr y, w'') \<longleftrightarrow> (\<exists>x w'. m w = (Inr x, w') \<and> f x w' = (Inr y, w''))"
  by (auto simp: bindIO_def split: prod.splits sum.splits)

lemma returnIO_iff [simp]: "returnIO x w = (r, w') \<longleftrightarrow> r = Inr x \<and> w' = w"
  by (auto simp: returnIO_def)

lemma throwIO_iff [simp]: "throwIO e w = (r, w') \<longleftrightarrow> r = Inl e \<and> w' = w"
  by (auto simp: throwIO_def)

lemma liftIO_iff [simp]: "liftIO r w = (r', w') \<longleftrightarrow> r' = r \<and> w' = w"
  by (auto simp: liftIO_def)

lemma guardIO_Inr [simp]: "guardIO b msg w = (Inr u, w') \<longleftrightarrow> b \<and> w' = w"
  by (auto simp: guardIO_def)

lemma bindIO_simps [simp]:
  "bindIO (returnIO x) f = f x" "bindIO (throwIO e) f = throwIO e"
  "bindIO (liftIO (Inr x)) f = f x" "bindIO (liftIO (Inl e)) f = throwIO e"
  "bindIO (guardIO True msg) g = g ()" "bindIO (guardIO False msg) g = throwIO (Js_Error msg)"
  by (simp_all add: bindIO_def returnIO_def throwIO_def liftIO_def guardIO_def fun_eq_iff)

section \<open>Environment maps\<close>

type_synonym env = "string \<Rightarrow> string option"

text \<open>\<open>env.KEY ?? d\<close>, and a value tested for truth.\<close>

definition env_or :: "env \<Rightarrow> string \<Rightarrow> string \<Rightarrow> string" where
  "env_or e k d = (case e k of None \<Rightarrow> d | Some v \<Rightarrow> v)"

definition need_env :: "env \<Rightarrow> string \<Rightarrow> string result" where
  "need_env e k =
    (case e k of
       Some v \<Rightarrow> if v = [] then Inl (Js_Error (''missing env '' @ k)) else Inr v
     | None \<Rightarrow> Inl (Js_Error (''missing env '' @ k)))"

section \<open>Text search\<close>

fun js_includes :: "string \<Rightarrow> string \<Rightarrow> bool" where
  "js_includes [] p = (p = [])"
| "js_includes (c # s) p = (starts_with (c # s) p \<or> js_includes s p)"

function replace_all :: "string \<Rightarrow> string \<Rightarrow> string \<Rightarrow> string" where
  "replace_all p r [] = []"
| "replace_all p r (c # s) =
    (if p \<noteq> [] \<and> starts_with (c # s) p then r @ replace_all p r (drop (length p) (c # s))
     else c # replace_all p r s)"
  by pat_completeness auto
termination
  by (relation "measure (\<lambda>(p, r, s). length s)") (auto simp: length_greater_0_conv)

declare replace_all.simps(2) [simp del]

definition redact :: "string \<Rightarrow> string \<Rightarrow> string" where
  "redact text secret =
    (if secret \<noteq> [] then replace_all secret ''[REDACTED_STELLAR_SECRET]'' text else text)"

definition hex64 :: "string \<Rightarrow> string option" where
  "hex64 s =
    (if 64 \<le> length s \<and> list_all (\<lambda>c. char_digit 16 c \<noteq> None) (take 64 s) then Some (take 64 s) else None)"

definition skip_space :: "string \<Rightarrow> string" where
  "skip_space s = dropWhile js_space s"

text \<open>The three regular expressions of \<open>parseSorobanTx\<close>, tried at one position.  None of the optional
  parts can be read in two ways, since a hexadecimal digit is neither space, colon nor \<open>i\<close>.\<close>

definition tx_pattern1 :: "string \<Rightarrow> string option" where
  "tx_pattern1 s =
    (if starts_with s ''Transaction hash'' \<or> starts_with s ''transaction hash'' then
       (let r = drop 16 s; t = skip_space r;
            r1 = (if t \<noteq> r \<and> starts_with t ''is'' then drop 2 t else r);
            r2 = (if starts_with r1 '':'' then tl r1 else r1)
        in hex64 (skip_space r2))
     else None)"

definition tx_pattern2 :: "string \<Rightarrow> string option" where
  "tx_pattern2 s = (if starts_with s ''tx/'' then hex64 (drop 3 s) else None)"

definition tx_pattern3 :: "string \<Rightarrow> string option" where
  "tx_pattern3 s = (if starts_with s ''transaction:'' then hex64 (skip_space (drop 12 s)) else None)"

fun first_match :: "(string \<Rightarrow> string option) \<Rightarrow> string \<Rightarrow> string option" where
  "first_match f [] = f []"
| "first_match f (c # s) = (case f (c # s) of Some m \<Rightarrow> Some m | None \<Rightarrow> first_match f s)"

definition parseSorobanTx :: "string \<Rightarrow> string option" where
  "parseSorobanTx out =
    (case first_match tx_pattern1 out of
       Some m \<Rightarrow> Some m
     | None \<Rightarrow> (case first_match tx_pattern2 out of
                  Some m \<Rightarrow> Some m
                | None \<Rightarrow> first_match tx_pattern3 out))"

section \<open>The command line\<close>

record CliResult =
  cli_status :: int
  cli_stdout :: string
  cli_stderr :: string

type_synonym 'w cli = "string list \<Rightarrow> 'w \<Rightarrow> CliResult \<times> 'w"

record InvokeOpts =
  io_contractId :: string
  io_secret :: string
  io_method :: string
  io_args :: "string list"
  io_rpcUrl :: string
  io_passphrase :: string
  io_retries :: nat
  io_readOnly :: bool

record SorobanInvokeResult =
  sr_txHash :: string
  sr_returnValue :: string
  sr_raw :: string

text \<open>The defaults of the optional members: the test network, four tries, not read-only.\<close>

definition default_opts :: InvokeOpts where
  "default_opts =
    \<lparr>io_contractId = [], io_secret = [], io_method = [], io_args = [],
     io_rpcUrl = ''https://soroban-testnet.stellar.org'', io_passphrase = ''Test SDF Network ; September 2015'',
     io_retries = 4, io_readOnly = False\<rparr>"

definition invoke_argv :: "InvokeOpts \<Rightarrow> string list" where
  "invoke_argv opts =
    [''contract'', ''invoke'', ''--id'', io_contractId opts, ''--source-account'', io_secret opts,
     ''--rpc-url'', io_rpcUrl opts, ''--network-passphrase'', io_passphrase opts, ''--'', io_method opts]
    @ io_args opts"

definition retryable :: "string \<Rightarrow> bool" where
  "retryable out \<longleftrightarrow>
    js_includes out ''TxBadSeq'' \<or> js_includes out ''timeout'' \<or> js_includes out ''429'' \<or> js_includes out ''temporarily''"

definition invoke_error :: "InvokeOpts \<Rightarrow> string \<Rightarrow> js_error" where
  "invoke_error opts out = Js_Error (''stellar contract invoke '' @ io_method opts @ '' failed: '' @ out)"

text \<open>The retry loop: \<open>n\<close> tries are left and \<open>out\<close> is the output of the last one.\<close>

fun invoke_loop :: "'w cli \<Rightarrow> InvokeOpts \<Rightarrow> nat \<Rightarrow> string \<Rightarrow> ('w, SorobanInvokeResult) io" where
  "invoke_loop cli opts 0 out w = (Inl (invoke_error opts out), w)"
| "invoke_loop cli opts (Suc n) out w =
    (case cli (invoke_argv opts) w of
       (r, w') \<Rightarrow>
         let raw = cli_stderr r @ [CHR 0x0A] @ cli_stdout r
         in if cli_status r = 0 then
              (case parseSorobanTx raw of
                 None \<Rightarrow>
                   if \<not> io_readOnly opts
                   then (Inl (Js_Error (''Soroban '' @ io_method opts @ '' succeeded but no tx hash found in output:'' @ [CHR 0x0A]
                           @ redact raw (io_secret opts))), w')
                   else (Inr \<lparr>sr_txHash = [], sr_returnValue = js_trim (cli_stdout r), sr_raw = redact raw (io_secret opts)\<rparr>, w')
               | Some h \<Rightarrow>
                   (Inr \<lparr>sr_txHash = h, sr_returnValue = js_trim (cli_stdout r), sr_raw = redact raw (io_secret opts)\<rparr>, w'))
            else let last = redact raw (io_secret opts)
                 in if retryable last then invoke_loop cli opts n last w'
                    else (Inl (invoke_error opts last), w'))"

definition sorobanInvoke :: "'w cli \<Rightarrow> InvokeOpts \<Rightarrow> ('w, SorobanInvokeResult) io" where
  "sorobanInvoke cli opts = invoke_loop cli opts (io_retries opts) []"

definition bytesToCliHex :: "string \<Rightarrow> string" where
  "bytesToCliHex hex = (if starts_with hex ''0x'' then drop 2 hex else hex)"

section \<open>Facts\<close>

lemma invoke_loop_hash:
  "invoke_loop cli opts n out w = (Inr r, w') \<Longrightarrow>
    io_readOnly opts \<or> (length (sr_txHash r) = 64 \<and> list_all (\<lambda>c. char_digit 16 c \<noteq> None) (sr_txHash r))"
proof (induction cli opts n out w arbitrary: r w' rule: invoke_loop.induct)
  case (2 cli opts n out w)
  have hex: "hex64 t = Some h \<Longrightarrow> length h = 64 \<and> list_all (\<lambda>c. char_digit 16 c \<noteq> None) h" for t h
    by (auto simp: hex64_def split: if_splits)
  have first: "first_match f s = Some h \<Longrightarrow> (\<exists>t. f t = Some h)" for f s and h :: string
    by (induction s) (auto split: option.splits)
  have tx: "length h = 64 \<and> list_all (\<lambda>c. char_digit 16 c \<noteq> None) h" if "parseSorobanTx s = Some h" for s h
    using that hex first
    by (fastforce simp: parseSorobanTx_def tx_pattern1_def tx_pattern2_def tx_pattern3_def Let_def
        split: option.splits if_splits)
  obtain c w1 where c: "cli (invoke_argv opts) w = (c, w1)" by fastforce
  show ?case
  proof (cases "cli_status c = 0")
    case True
    with 2(2) c tx show ?thesis by (auto simp: Let_def split: option.splits if_splits)
  next
    case False
    with 2(2) c 2(1) [OF c [symmetric] refl False refl] show ?thesis by (auto simp: Let_def split: if_splits)
  qed
qed simp

text \<open>Redaction.\<close>

lemma starts_with_Cons: "starts_with (c # s) (d # p) \<longleftrightarrow> c = d \<and> starts_with s p"
  by (auto simp: starts_with_def)

lemma starts_with_Nil [simp]: "starts_with s []"
  by (simp add: starts_with_def)

lemma starts_with_replaced:
  "starts_with (replace_all p (b # r) s) q \<Longrightarrow> b \<notin> set q \<Longrightarrow> starts_with s q"
proof (induction p "b # r" s arbitrary: q rule: replace_all.induct)
  case (2 p c s)
  show ?case
  proof (cases "p \<noteq> [] \<and> starts_with (c # s) p")
    case True
    with 2 show ?thesis by (cases q) (auto simp: replace_all.simps starts_with_Cons)
  next
    case False
    with 2 show ?thesis by (cases q) (auto simp: replace_all.simps starts_with_Cons)
  qed
qed simp

lemma starts_with_append_marker:
  "starts_with (u @ [e] @ t) p \<Longrightarrow> e \<notin> set p \<Longrightarrow> starts_with (u @ [e]) p"
proof (induction u arbitrary: p)
  case Nil
  then show ?case by (cases p) (auto simp: starts_with_def)
next
  case (Cons a u)
  then show ?case by (cases p) (auto simp: starts_with_Cons)
qed

lemma not_includes_append_marker:
  "\<not> js_includes (u @ [e]) p \<Longrightarrow> e \<notin> set p \<Longrightarrow> \<not> js_includes t p \<Longrightarrow> \<not> js_includes (u @ [e] @ t) p"
proof (induction u)
  case Nil
  then show ?case using starts_with_append_marker [of "[]" e t p] by auto
next
  case (Cons a u)
  then show ?case using starts_with_append_marker [of "a # u" e t p] by auto
qed

lemma replace_all_removes:
  assumes "p \<noteq> []" "b \<notin> set p" "e \<notin> set p" "\<not> js_includes (b # r @ [e]) p"
  shows "\<not> js_includes (replace_all p (b # r @ [e]) s) p"
proof (induction "length s" arbitrary: s rule: less_induct)
  case less
  show ?case
  proof (cases s)
    case (Cons c t)
    show ?thesis
    proof (cases "starts_with s p")
      case True
      have "\<not> js_includes (replace_all p (b # r @ [e]) (drop (length p) s)) p"
        using assms(1) Cons by (intro less) simp
      with True Cons assms not_includes_append_marker [of "b # r" e p] show ?thesis
        by (simp add: replace_all.simps)
    next
      case False
      have ih: "\<not> js_includes (replace_all p (b # r @ [e]) t) p" using Cons by (intro less) simp
      have "\<not> starts_with (c # replace_all p (b # r @ [e]) t) p"
        using False Cons assms(2) starts_with_replaced [of p b "r @ [e]" t]
        by (cases p) (auto simp: starts_with_Cons)
      with ih False Cons show ?thesis by (simp add: replace_all.simps)
    qed
  qed (use assms(1) in simp)
qed

text \<open>The marker is shorter than a secret key, so that no key occurs in it.\<close>

lemma js_includes_length: "js_includes s p \<Longrightarrow> length p \<le> length s"
  by (induction s) (auto simp: starts_with_def dest: arg_cong [where f = length])

lemma redact_removes:
  assumes "CHR ''['' \<notin> set secret" "CHR '']'' \<notin> set secret" "25 < length secret"
  shows "\<not> js_includes (redact text secret) secret"
proof -
  have "\<not> js_includes (replace_all secret (CHR ''['' # ''REDACTED_STELLAR_SECRET'' @ [CHR '']'']) text) secret"
  proof (rule replace_all_removes)
    show "\<not> js_includes (CHR ''['' # ''REDACTED_STELLAR_SECRET'' @ [CHR '']'']) secret"
      using js_includes_length [of "CHR ''['' # ''REDACTED_STELLAR_SECRET'' @ [CHR '']'']" secret] assms(3)
      by (auto simp del: js_includes.simps)
  qed (use assms in auto)
  with assms(3) show ?thesis by (auto simp: redact_def)
qed

lemma invoke_loop_raw:
  "invoke_loop cli opts n out w = (Inr r, w') \<Longrightarrow> \<exists>raw. sr_raw r = redact raw (io_secret opts)"
proof (induction cli opts n out w arbitrary: r w' rule: invoke_loop.induct)
  case (2 cli opts n out w)
  obtain c w1 where c: "cli (invoke_argv opts) w = (c, w1)" by fastforce
  show ?case
  proof (cases "cli_status c = 0")
    case True
    with 2(2) c show ?thesis by (auto simp: Let_def split: option.splits if_splits)
  next
    case False
    with 2(2) c 2(1) [OF c [symmetric] refl False refl] show ?thesis by (auto simp: Let_def split: if_splits)
  qed
qed simp

section \<open>Properties\<close>


definition demo_secret :: string where
  "demo_secret = replicate 56 CHR ''S''"

text \<open>A tool that prints the key it was given next to the hash.\<close>

definition demo_cli :: "unit cli" where
  "demo_cli a w =
    (\<lparr>cli_status = 0, cli_stdout = ''7'', cli_stderr = ''key '' @ a ! 5 @ '' tx/'' @ replicate 64 CHR ''a''\<rparr>, w)"

definition demo_opts :: InvokeOpts where
  "demo_opts = default_opts\<lparr>io_contractId := ''C'', io_secret := demo_secret, io_method := ''deposit''\<rparr>"

definition demo_result :: SorobanInvokeResult where
  "demo_result = \<lparr>sr_txHash = replicate 64 CHR ''a'', sr_returnValue = ''7'',
    sr_raw = ''key [REDACTED_STELLAR_SECRET] tx/'' @ replicate 64 CHR ''a'' @ [CHR 0x0A] @ ''7''\<rparr>"


end
