(* ===== verification/Settlement.thy ===== *)
theory Settlement
  imports Committee Job_Queue Service_Io
begin

text \<open>
  \<open>apps/mpc-committee/src/persist.ts\<close> and \<open>apps/mpc-committee/src/settler.ts\<close>: a signed batch is
  written to \<open>mpc_batches\<close> and its settlement jobs are put on the relayer's queue.  The world is the
  database; every statement is a step of its own, so that an error leaves what earlier statements
  wrote.  Foreign keys of migration 007 are part of the statements.  The JSON columns, which the driver
  parses, hold the lists themselves.  The ids the database draws for jobs are an argument.
\<close>

section \<open>Tables\<close>

record MpcSessionRow =
  ms_session_id :: string
  ms_status :: string
  ms_match_count :: nat

record MpcIntentRow =
  mt_intent_id :: string
  mt_note_nullifier :: string
  mt_note_commitment :: string
  mt_recipient_commitment :: string
  mt_status :: string
  mt_matched_with :: "string option"

record MpcBatchRow =
  mb_batch_id :: string
  mb_session_id :: string
  mb_batch_hash :: string
  mb_match_count :: nat
  mb_matches_json :: "MatchResult list"
  mb_signatures_json :: "NodeSignature list"
  mb_settlement_status :: string
  mb_created_at :: int

record MpcDb =
  md_sessions :: "MpcSessionRow list"
  md_intents :: "MpcIntentRow list"
  md_batches :: "MpcBatchRow list"
  md_signatures :: "(string \<times> NodeSignature) list"
  md_rfq_hashes :: "string list"
  md_queue :: JobDb

definition fk_error :: "string \<Rightarrow> js_error" where
  "fk_error t = Js_Error (''insert or update on table '' @ t @ '' violates foreign key constraint'')"

section \<open>Persisting a signed batch\<close>

definition insert_batch :: "int \<Rightarrow> string \<Rightarrow> SignedMatchBatch \<Rightarrow> (MpcDb, unit) io" where
  "insert_batch now sessionId batch db =
    (if sb_batchId batch \<in> set (map mb_batch_id (md_batches db)) then (Inr (), db)
     else if sessionId \<notin> set (map ms_session_id (md_sessions db)) then (Inl (fk_error ''mpc_batches''), db)
     else (Inr (), db\<lparr>md_batches := md_batches db @
       [\<lparr>mb_batch_id = sb_batchId batch, mb_session_id = sessionId, mb_batch_hash = sb_batchHash batch,
         mb_match_count = length (sb_matches batch), mb_matches_json = sb_matches batch,
         mb_signatures_json = sb_signatures batch, mb_settlement_status = ''pending'', mb_created_at = now\<rparr>]\<rparr>))"

definition insert_signature :: "string \<Rightarrow> NodeSignature \<Rightarrow> (MpcDb, unit) io" where
  "insert_signature batchId s db =
    (if (batchId, ns_nodeId s) \<in> set (map (\<lambda>(b, t). (b, ns_nodeId t)) (md_signatures db)) then (Inr (), db)
     else if batchId \<notin> set (map mb_batch_id (md_batches db)) then (Inl (fk_error ''mpc_batch_signatures''), db)
     else (Inr (), db\<lparr>md_signatures := md_signatures db @ [(batchId, s)]\<rparr>))"

definition close_session :: "nat \<Rightarrow> string \<Rightarrow> (MpcDb, unit) io" where
  "close_session n sessionId db =
    (Inr (), db\<lparr>md_sessions := map (\<lambda>s. if ms_session_id s = sessionId then s\<lparr>ms_status := ''signed'', ms_match_count := n\<rparr> else s)
       (md_sessions db)\<rparr>)"

definition mark_matched :: "string \<Rightarrow> string \<Rightarrow> (MpcDb, unit) io" where
  "mark_matched intentId other db =
    (if intentId \<in> set (map mt_intent_id (md_intents db)) \<and> other \<notin> set (map mt_intent_id (md_intents db))
     then (Inl (fk_error ''mpc_intents''), db)
     else (Inr (), db\<lparr>md_intents := map (\<lambda>r. if mt_intent_id r = intentId
         then r\<lparr>mt_status := ''matched'', mt_matched_with := Some other\<rparr> else r) (md_intents db)\<rparr>))"

fun forIO :: "('a \<Rightarrow> ('w, unit) io) \<Rightarrow> 'a list \<Rightarrow> ('w, unit) io" where
  "forIO f [] = returnIO ()"
| "forIO f (x # xs) = bindIO (f x) (\<lambda>_. forIO f xs)"

definition persistSignedBatch :: "int \<Rightarrow> string \<Rightarrow> SignedMatchBatch \<Rightarrow> (MpcDb, unit) io" where
  "persistSignedBatch now sessionId batch =
    bindIO (insert_batch now sessionId batch) (\<lambda>_.
    bindIO (forIO (insert_signature (sb_batchId batch)) (sb_signatures batch)) (\<lambda>_.
    bindIO (close_session (length (sb_matches batch)) sessionId) (\<lambda>_.
    forIO (\<lambda>m. bindIO (mark_matched (mr_intentAId m) (mr_intentBId m)) (\<lambda>_.
      mark_matched (mr_intentBId m) (mr_intentAId m))) (sb_matches batch))))"

section \<open>The settler\<close>

definition fetchIntentNote :: "MpcDb \<Rightarrow> string \<Rightarrow> MpcIntentRow option" where
  "fetchIntentNote db intentId = find (\<lambda>r. mt_intent_id r = intentId) (md_intents db)"

definition isRfqRouted :: "MpcDb \<Rightarrow> string \<Rightarrow> bool" where
  "isRfqRouted db intentId = (filter (\<lambda>h. h = intentId) (md_rfq_hashes db) \<noteq> [])"

definition rfq_match :: "MpcDb \<Rightarrow> MatchResult \<Rightarrow> bool" where
  "rfq_match db m \<longleftrightarrow> isRfqRouted db (mr_intentAId m) \<or> isRfqRouted db (mr_intentBId m)"

definition settle_key :: "string \<Rightarrow> nat \<Rightarrow> string" where
  "settle_key batchId i = ''mpc_settle:'' @ batchId @ '':'' @ bigint_to_string (int i)"

definition json_or_null :: "string option \<Rightarrow> json" where
  "json_or_null s = (case s of None \<Rightarrow> JNull | Some t \<Rightarrow> JStr t)"

definition signature_json :: "NodeSignature \<Rightarrow> json" where
  "signature_json s = JObj [(''nodeId'', JStr (ns_nodeId s)), (''signingPubkey'', JStr (ns_signingPubkey s)),
    (''signature'', JStr (ns_signature s))]"

definition settle_payload :: "MpcBatchRow \<Rightarrow> nat \<Rightarrow> MatchResult \<Rightarrow> MpcIntentRow option \<Rightarrow> MpcIntentRow option \<Rightarrow> json" where
  "settle_payload batch i m noteA noteB = JObj
    [(''batchId'', JStr (mb_batch_id batch)), (''batchHash'', JStr (mb_batch_hash batch)),
     (''signatures'', JArr (map signature_json (mb_signatures_json batch))), (''matchIndex'', JNum (int i)),
     (''sessionId'', JStr (mb_session_id batch)), (''intentAId'', JStr (mr_intentAId m)), (''intentBId'', JStr (mr_intentBId m)),
     (''matchedAmount7dp'', JStr (mr_matchedAmount7dp m)), (''inputAsset'', JStr (mr_inputAsset m)),
     (''outputAsset'', JStr (mr_outputAsset m)),
     (''nullifierA'', json_or_null (map_option mt_note_nullifier noteA)),
     (''nullifierB'', json_or_null (map_option mt_note_nullifier noteB)),
     (''outputCommitmentA'', json_or_null (map_option mt_recipient_commitment noteA)),
     (''outputCommitmentB'', json_or_null (map_option mt_recipient_commitment noteB))]"

definition enqueueIO :: "(JobDb \<Rightarrow> string) \<Rightarrow> int \<Rightarrow> QueueName \<Rightarrow> string \<Rightarrow> json \<Rightarrow> string option \<Rightarrow> (MpcDb, ServiceJob) io" where
  "enqueueIO newId now queue jobType payload key db =
    (case enqueue (newId (md_queue db)) now queue jobType payload key (md_queue db) of
       Inl e \<Rightarrow> (Inl e, db)
     | Inr (j, q) \<Rightarrow> (Inr j, db\<lparr>md_queue := q\<rparr>))"

text \<open>The loop over the matches from index \<open>i\<close> on, with the counts of queued and skipped ones.\<close>

fun settle_matches ::
  "(JobDb \<Rightarrow> string) \<Rightarrow> int \<Rightarrow> MpcBatchRow \<Rightarrow> nat \<Rightarrow> MatchResult list \<Rightarrow> nat \<Rightarrow> nat \<Rightarrow> (MpcDb, nat \<times> nat) io" where
  "settle_matches newId now batch i [] queued skipped db = (Inr (queued, skipped), db)"
| "settle_matches newId now batch i (m # ms) queued skipped db =
    (if rfq_match db m then settle_matches newId now batch (Suc i) ms queued (Suc skipped) db
     else bindIO (enqueueIO newId now Q_relayer ''MPC_SETTLE_SUBMIT''
         (settle_payload batch i m (fetchIntentNote db (mr_intentAId m)) (fetchIntentNote db (mr_intentBId m)))
         (Some (settle_key (mb_batch_id batch) i)))
       (\<lambda>_. settle_matches newId now batch (Suc i) ms (Suc queued) skipped) db)"

definition set_settlement_status :: "string \<Rightarrow> string \<Rightarrow> MpcDb \<Rightarrow> MpcDb" where
  "set_settlement_status batchId st db =
    db\<lparr>md_batches := map (\<lambda>b. if mb_batch_id b = batchId then b\<lparr>mb_settlement_status := st\<rparr> else b) (md_batches db)\<rparr>"

definition queueSettlementJobs :: "(JobDb \<Rightarrow> string) \<Rightarrow> int \<Rightarrow> MpcBatchRow \<Rightarrow> (MpcDb, unit) io" where
  "queueSettlementJobs newId now batch =
    bindIO (settle_matches newId now batch 0 (mb_matches_json batch) 0 0) (\<lambda>(queued, skipped) db.
      (Inr (), set_settlement_status (mb_batch_id batch) (if queued > 0 then ''queued'' else ''rfq_routed'') db))"

definition pending_batches :: "MpcDb \<Rightarrow> MpcBatchRow list" where
  "pending_batches db = take 50 (sort_key mb_created_at (filter (\<lambda>b. mb_settlement_status b = ''pending'') (md_batches db)))"

definition settleOnce :: "(JobDb \<Rightarrow> string) \<Rightarrow> int \<Rightarrow> (MpcDb, nat) io" where
  "settleOnce newId now db =
    bindIO (forIO (queueSettlementJobs newId now) (pending_batches db)) (\<lambda>_. returnIO (length (pending_batches db))) db"

text \<open>The settler's endless loop, for the rounds that start at the given times: an error ends a round,
  never the loop.\<close>

fun runSettlerLoop :: "(JobDb \<Rightarrow> string) \<Rightarrow> int list \<Rightarrow> (MpcDb, unit) io" where
  "runSettlerLoop newId [] = returnIO ()"
| "runSettlerLoop newId (now # later) =
    bindIO (catchIO (bindIO (settleOnce newId now) (\<lambda>_. returnIO ())) (\<lambda>_. returnIO ())) (\<lambda>_. runSettlerLoop newId later)"

section \<open>Facts\<close>

text \<open>What the database promises of generated ids.\<close>

definition fresh_ids :: "(JobDb \<Rightarrow> string) \<Rightarrow> bool" where
  "fresh_ids newId \<longleftrightarrow> (\<forall>q. getJob q (newId q) = None)"

definition add_job :: "ServiceJob \<Rightarrow> JobDb \<Rightarrow> JobDb" where
  "add_job j q = q\<lparr>jd_jobs := jd_jobs q @ [j],
    jd_events := jd_events q @ [\<lparr>ev_job_id = sj_job_id j, ev_status = ''queued'', ev_detail = Some (''enqueued '' @ sj_job_type j)\<rparr>]\<rparr>"

lemma find_append: "find p (xs @ ys) = (case find p xs of Some x \<Rightarrow> Some x | None \<Rightarrow> find p ys)"
  by (induction xs) auto

lemma enqueue_new:
  assumes "fresh_ids newId" "k \<noteq> []" "find_key q k = None"
  shows "enqueue (newId q) now qn ty p (Some k) q =
    Inr (new_job (newId q) now qn ty p (Some k), add_job (new_job (newId q) now qn ty p (Some k)) q)"
proof -
  have "getJob q (newId q) = None" using assms(1) by (simp add: fresh_ids_def)
  with assms(2,3) show ?thesis
    by (simp add: enqueue_def insert_job_def new_job_def job_event_def add_job_def getJob_def find_append Let_def)
qed

lemma enqueue_known:
  "find_key q k = Some j \<Longrightarrow> k \<noteq> [] \<Longrightarrow> enqueue i now qn ty p (Some k) q = Inr (j, q)"
  by (simp add: enqueue_def)

lemma enqueueIO_cases:
  assumes "fresh_ids newId" "k \<noteq> []"
  obtains (known) j where "find_key (md_queue db) k = Some j" "enqueueIO newId now qn ty p (Some k) db = (Inr j, db)"
  | (new) j where "find_key (md_queue db) k = None" "j = new_job (newId (md_queue db)) now qn ty p (Some k)"
      "enqueueIO newId now qn ty p (Some k) db = (Inr j, db\<lparr>md_queue := add_job j (md_queue db)\<rparr>)"
proof (cases "find_key (md_queue db) k")
  case None
  then show thesis using enqueue_new [OF assms] new by (simp add: enqueueIO_def)
next
  case (Some j)
  then show thesis using enqueue_known [OF Some assms(2)] known by (simp add: enqueueIO_def)
qed

lemma settle_key_nonempty [simp]: "settle_key b i \<noteq> []"
  by (simp add: settle_key_def)

lemma settle_key_inject [simp]: "settle_key b i = settle_key b j \<longleftrightarrow> i = j"
  using inj_bigint_to_string by (auto simp: settle_key_def dest: injD)

lemma find_key_add_job:
  "find_key (add_job j q) k =
    (case find_key q k of Some x \<Rightarrow> Some x | None \<Rightarrow> if sj_idempotency_key j = Some k then Some j else None)"
  by (simp add: find_key_def add_job_def find_append split: option.split)

text \<open>The loop over the matches leaves everything but the queue alone, appends to the queue only the
  jobs of matches outside the RFQ lifecycle, and afterwards each of those has its job.\<close>

definition settle_job :: "MpcDb \<Rightarrow> MpcBatchRow \<Rightarrow> nat \<Rightarrow> MatchResult \<Rightarrow> ServiceJob \<Rightarrow> bool" where
  "settle_job db b i m j \<longleftrightarrow>
    sj_job_type j = ''MPC_SETTLE_SUBMIT'' \<and> sj_queue j = Q_relayer \<and> sj_status j = ''queued'' \<and>
    sj_idempotency_key j = Some (settle_key (mb_batch_id b) i) \<and>
    sj_payload j = settle_payload b i m (fetchIntentNote db (mr_intentAId m)) (fetchIntentNote db (mr_intentBId m))"

lemma new_settle_job:
  "settle_job db b i m (new_job jid now Q_relayer ''MPC_SETTLE_SUBMIT''
    (settle_payload b i m (fetchIntentNote db (mr_intentAId m)) (fetchIntentNote db (mr_intentBId m)))
    (Some (settle_key (mb_batch_id b) i)))"
  by (simp add: settle_job_def new_job_def)

lemma rfq_match_queue [simp]: "rfq_match (db\<lparr>md_queue := q\<rparr>) m = rfq_match db m"
  by (simp add: rfq_match_def isRfqRouted_def)

lemma settle_job_queue [simp]: "settle_job (db\<lparr>md_queue := q\<rparr>) b i m j = settle_job db b i m j"
  by (simp add: settle_job_def fetchIntentNote_def)

lemma settle_matches_run:
  assumes fresh: "fresh_ids newId"
  shows "\<exists>new. settle_matches newId now b i ms n s db =
      (Inr (n + length (filter (\<lambda>m. \<not> rfq_match db m) ms), s + length (filter (rfq_match db) ms)),
       db\<lparr>md_queue := foldl (\<lambda>q j. add_job j q) (md_queue db) new\<rparr>) \<and>
    (\<forall>j \<in> set new. \<exists>(k, m) \<in> set (enumerate i ms). \<not> rfq_match db m \<and> settle_job db b k m j) \<and>
    (\<forall>(k, m) \<in> set (enumerate i ms). rfq_match db m \<or> find_key (md_queue db) (settle_key (mb_batch_id b) k) \<noteq> None \<or>
      (\<exists>j \<in> set new. settle_job db b k m j))"
proof (induction ms arbitrary: i n s db)
  case Nil
  then show ?case by (intro exI [of _ "[]"]) simp
next
  case (Cons m ms)
  show ?case
  proof (cases "rfq_match db m")
    case True
    obtain new where "settle_matches newId now b (Suc i) ms n (Suc s) db =
        (Inr (n + length (filter (\<lambda>m. \<not> rfq_match db m) ms), Suc s + length (filter (rfq_match db) ms)),
         db\<lparr>md_queue := foldl (\<lambda>q j. add_job j q) (md_queue db) new\<rparr>)"
      "\<forall>j \<in> set new. \<exists>(k, m) \<in> set (enumerate (Suc i) ms). \<not> rfq_match db m \<and> settle_job db b k m j"
      "\<forall>(k, m) \<in> set (enumerate (Suc i) ms). rfq_match db m \<or> find_key (md_queue db) (settle_key (mb_batch_id b) k) \<noteq> None \<or>
        (\<exists>j \<in> set new. settle_job db b k m j)"
      using Cons.IH [of "Suc i" n "Suc s" db] by blast
    with True show ?thesis by (intro exI [of _ new]) auto
  next
    case False
    let ?p = "settle_payload b i m (fetchIntentNote db (mr_intentAId m)) (fetchIntentNote db (mr_intentBId m))"
    let ?k = "settle_key (mb_batch_id b) i" and ?ty = "''MPC_SETTLE_SUBMIT''"
    consider (known) j where "find_key (md_queue db) ?k = Some j" "enqueueIO newId now Q_relayer ?ty ?p (Some ?k) db = (Inr j, db)"
      | (new) j where "find_key (md_queue db) ?k = None" "j = new_job (newId (md_queue db)) now Q_relayer ?ty ?p (Some ?k)"
          "enqueueIO newId now Q_relayer ?ty ?p (Some ?k) db = (Inr j, db\<lparr>md_queue := add_job j (md_queue db)\<rparr>)"
      by (rule enqueueIO_cases [OF fresh settle_key_nonempty])
    then show ?thesis
    proof cases
      case (known j)
      obtain new where "settle_matches newId now b (Suc i) ms (Suc n) s db =
          (Inr (Suc n + length (filter (\<lambda>m. \<not> rfq_match db m) ms), s + length (filter (rfq_match db) ms)),
           db\<lparr>md_queue := foldl (\<lambda>q j. add_job j q) (md_queue db) new\<rparr>)"
        "\<forall>j \<in> set new. \<exists>(k, m) \<in> set (enumerate (Suc i) ms). \<not> rfq_match db m \<and> settle_job db b k m j"
        "\<forall>(k, m) \<in> set (enumerate (Suc i) ms). rfq_match db m \<or> find_key (md_queue db) (settle_key (mb_batch_id b) k) \<noteq> None \<or>
          (\<exists>j \<in> set new. settle_job db b k m j)"
        using Cons.IH [of "Suc i" "Suc n" s db] by blast
      with False known show ?thesis by (intro exI [of _ new]) (auto simp: bindIO_def)
    next
      case (new j)
      let ?db = "db\<lparr>md_queue := add_job j (md_queue db)\<rparr>"
      have j: "settle_job db b i m j" using new(2) by (simp add: new_settle_job)
      obtain js where "settle_matches newId now b (Suc i) ms (Suc n) s ?db =
          (Inr (Suc n + length (filter (\<lambda>m. \<not> rfq_match db m) ms), s + length (filter (rfq_match db) ms)),
           db\<lparr>md_queue := foldl (\<lambda>q j. add_job j q) (add_job j (md_queue db)) js\<rparr>)"
        "\<forall>j \<in> set js. \<exists>(k, m) \<in> set (enumerate (Suc i) ms). \<not> rfq_match db m \<and> settle_job db b k m j"
        "\<forall>(k, m) \<in> set (enumerate (Suc i) ms). rfq_match db m \<or>
          find_key (add_job j (md_queue db)) (settle_key (mb_batch_id b) k) \<noteq> None \<or> (\<exists>j \<in> set js. settle_job db b k m j)"
        using Cons.IH [of "Suc i" "Suc n" s ?db] by auto
      moreover have "sj_idempotency_key j = Some (settle_key (mb_batch_id b) i)" using j by (simp add: settle_job_def)
      ultimately show ?thesis using False new(1,3) j
        by (intro exI [of _ "j # js"])
          (auto simp: bindIO_def find_key_add_job in_set_enumerate_eq split: option.splits if_splits)
    qed
  qed
qed


abbreviation add_jobs :: "JobDb \<Rightarrow> ServiceJob list \<Rightarrow> JobDb" where
  "add_jobs q js \<equiv> foldl (\<lambda>q j. add_job j q) q js"

lemma find_key_add_jobs:
  "find_key (add_jobs q js) k =
    (case find_key q k of Some x \<Rightarrow> Some x | None \<Rightarrow> find (\<lambda>j. sj_idempotency_key j = Some k) js)"
  by (induction js arbitrary: q) (auto simp: find_key_add_job split: option.splits)

lemma jd_jobs_add_jobs: "jd_jobs (add_jobs q js) = jd_jobs q @ js"
  by (induction js arbitrary: q) (auto simp: add_job_def)

lemma settle_job_key: "settle_job db b i m j \<Longrightarrow> sj_idempotency_key j = Some (settle_key (mb_batch_id b) i)"
  by (simp add: settle_job_def)

text \<open>A match whose job is on the queue is not queued again.\<close>

lemma settle_matches_known:
  "\<forall>(k, m) \<in> set (enumerate i ms). rfq_match db m \<or> find_key (md_queue db) (settle_key (mb_batch_id b) k) \<noteq> None \<Longrightarrow>
    settle_matches newId now b i ms n s db =
      (Inr (n + length (filter (\<lambda>m. \<not> rfq_match db m) ms), s + length (filter (rfq_match db) ms)), db)"
proof (induction ms arbitrary: i n s)
  case (Cons m ms)
  show ?case
  proof (cases "rfq_match db m")
    case False
    with Cons.prems obtain j where "find_key (md_queue db) (settle_key (mb_batch_id b) i) = Some j" by auto
    then show ?thesis using False Cons.IH [of "Suc i" "Suc n" s] Cons.prems
      by (simp add: enqueueIO_def enqueue_known bindIO_def)
  qed (use Cons.IH [of "Suc i" n "Suc s"] Cons.prems in simp)
qed simp

definition settled_status :: "MpcDb \<Rightarrow> MpcBatchRow \<Rightarrow> string" where
  "settled_status db b = (if \<exists>m \<in> set (mb_matches_json b). \<not> rfq_match db m then ''queued'' else ''rfq_routed'')"

text \<open>What one batch adds to the queue.\<close>

definition batch_jobs :: "MpcDb \<Rightarrow> MpcBatchRow \<Rightarrow> ServiceJob list \<Rightarrow> bool" where
  "batch_jobs db b new \<longleftrightarrow>
    (\<forall>j \<in> set new. \<exists>(k, m) \<in> set (enumerate 0 (mb_matches_json b)). \<not> rfq_match db m \<and> settle_job db b k m j) \<and>
    (\<forall>(k, m) \<in> set (enumerate 0 (mb_matches_json b)). rfq_match db m \<or>
      find_key (md_queue db) (settle_key (mb_batch_id b) k) \<noteq> None \<or> (\<exists>j \<in> set new. settle_job db b k m j))"

lemma queueSettlementJobs_run:
  assumes "fresh_ids newId"
  obtains new where "queueSettlementJobs newId now b db =
      (Inr (), set_settlement_status (mb_batch_id b) (settled_status db b) (db\<lparr>md_queue := add_jobs (md_queue db) new\<rparr>))"
    "batch_jobs db b new"
proof -
  obtain new where run: "settle_matches newId now b 0 (mb_matches_json b) 0 0 db =
      (Inr (length (filter (\<lambda>m. \<not> rfq_match db m) (mb_matches_json b)), length (filter (rfq_match db) (mb_matches_json b))),
       db\<lparr>md_queue := add_jobs (md_queue db) new\<rparr>)" and new: "batch_jobs db b new"
    using settle_matches_run [OF assms, of now b 0 "mb_matches_json b" 0 0 db] unfolding batch_jobs_def by auto
  have "queueSettlementJobs newId now b db =
      (Inr (), set_settlement_status (mb_batch_id b) (settled_status db b) (db\<lparr>md_queue := add_jobs (md_queue db) new\<rparr>))"
    using run by (simp add: queueSettlementJobs_def bindIO_def settled_status_def filter_empty_conv)
  with new show thesis by (rule that [rotated])
qed

lemma set_status_queue [simp]: "md_queue (set_settlement_status i st db) = md_queue db"
  "rfq_match (set_settlement_status i st db) m = rfq_match db m"
  by (simp_all add: set_settlement_status_def rfq_match_def isRfqRouted_def)

lemma set_status_twice: "set_settlement_status i st (set_settlement_status i st db) = set_settlement_status i st db"
  by (simp add: set_settlement_status_def comp_def if_distrib cong: if_cong)

section \<open>Properties\<close>


definition demo_match :: MatchResult where
  "demo_match = \<lparr>mr_intentAId = ''a'', mr_intentBId = ''b'', mr_matchedAmount7dp = ''5'', mr_inputAsset = ''X'', mr_outputAsset = ''Y'',
    mr_priceScaled = None, mr_assetIn = None, mr_assetOut = None\<rparr>"

definition demo_batch_row :: MpcBatchRow where
  "demo_batch_row = \<lparr>mb_batch_id = ''B'', mb_session_id = ''S'', mb_batch_hash = ''h'', mb_match_count = 2,
    mb_matches_json = [demo_match, demo_match\<lparr>mr_intentAId := ''r''\<rparr>], mb_signatures_json = [], mb_settlement_status = ''pending'', mb_created_at = 0\<rparr>"

definition demo_mpc_db :: MpcDb where
  "demo_mpc_db = \<lparr>md_sessions = [], md_intents = [], md_batches = [demo_batch_row], md_signatures = [], md_rfq_hashes = [''r''],
    md_queue = empty_jobs\<rparr>"

text \<open>An id longer than every id in use.\<close>

definition long_id :: "JobDb \<Rightarrow> string" where
  "long_id q = replicate (Suc (sum_list (map (length \<circ> sj_job_id) (jd_jobs q)))) CHR ''j''"

lemma fresh_long_id: "fresh_ids long_id"
proof -
  have "length (sj_job_id j) \<le> sum_list (map (length \<circ> sj_job_id) js)" if "j \<in> set js" for j js
    using that by (induction js) auto
  then show ?thesis
    by (fastforce simp: fresh_ids_def getJob_def find_None_iff long_id_def dest: arg_cong [where f = length])
qed


section \<open>Rounds of the settler\<close>

definition same_notes :: "MpcDb \<Rightarrow> MpcDb \<Rightarrow> bool" where
  "same_notes db db' \<longleftrightarrow> md_rfq_hashes db' = md_rfq_hashes db \<and> md_intents db' = md_intents db"

lemma same_notesD:
  assumes "same_notes db db'"
  shows "rfq_match db' m = rfq_match db m" "settle_job db' b i m j = settle_job db b i m j"
  using assms by (simp_all add: same_notes_def rfq_match_def isRfqRouted_def settle_job_def fetchIntentNote_def)

text \<open>A job of a match of the given batches outside the RFQ lifecycle.\<close>

definition job_of :: "MpcDb \<Rightarrow> MpcBatchRow list \<Rightarrow> ServiceJob \<Rightarrow> bool" where
  "job_of db bs j \<longleftrightarrow> (\<exists>b \<in> set bs. \<exists>(k, m) \<in> set (enumerate 0 (mb_matches_json b)). \<not> rfq_match db m \<and> settle_job db b k m j)"

lemma settled_status_not_pending: "settled_status db b \<noteq> ''pending''"
  by (simp add: settled_status_def)

lemma dispatch_all:
  assumes fresh: "fresh_ids newId"
  shows "\<exists>db'. forIO (queueSettlementJobs newId now) bs db = (Inr (), db') \<and> same_notes db db' \<and>
    (\<forall>x \<in> set (md_batches db'). mb_settlement_status x = ''pending'' \<longrightarrow>
      x \<in> set (md_batches db) \<and> mb_batch_id x \<notin> mb_batch_id ` set bs) \<and>
    (\<forall>j \<in> set (jd_jobs (md_queue db')). j \<in> set (jd_jobs (md_queue db)) \<or> job_of db bs j)"
proof (induction bs arbitrary: db)
  case Nil
  then show ?case by (simp add: same_notes_def)
next
  case (Cons b bs)
  obtain new where run: "queueSettlementJobs newId now b db =
      (Inr (), set_settlement_status (mb_batch_id b) (settled_status db b) (db\<lparr>md_queue := add_jobs (md_queue db) new\<rparr>))"
    and new: "batch_jobs db b new" using queueSettlementJobs_run [OF fresh] .
  define db1 where "db1 = set_settlement_status (mb_batch_id b) (settled_status db b) (db\<lparr>md_queue := add_jobs (md_queue db) new\<rparr>)"
  have sn: "same_notes db db1" by (simp add: same_notes_def db1_def set_settlement_status_def)
  have pend: "x \<in> set (md_batches db) \<and> mb_batch_id x \<noteq> mb_batch_id b"
    if "x \<in> set (md_batches db1)" "mb_settlement_status x = ''pending''" for x
    using that settled_status_not_pending [of db b] by (auto simp: db1_def set_settlement_status_def split: if_splits)
  have jobs: "j \<in> set (jd_jobs (md_queue db)) \<or> job_of db [b] j" if "j \<in> set (jd_jobs (md_queue db1))" for j
    using that new by (auto simp: db1_def jd_jobs_add_jobs job_of_def batch_jobs_def)
  obtain db2 where "forIO (queueSettlementJobs newId now) bs db1 = (Inr (), db2)" "same_notes db1 db2"
    "\<forall>x \<in> set (md_batches db2). mb_settlement_status x = ''pending'' \<longrightarrow>
      x \<in> set (md_batches db1) \<and> mb_batch_id x \<notin> mb_batch_id ` set bs"
    "\<forall>j \<in> set (jd_jobs (md_queue db2)). j \<in> set (jd_jobs (md_queue db1)) \<or> job_of db1 bs j"
    using Cons.IH [of db1] by blast
  moreover have "job_of db (b # bs) j" if "job_of db1 bs j \<or> job_of db [b] j" for j
    using that same_notesD [OF sn] by (auto simp: job_of_def)
  ultimately show ?case using run pend jobs sn unfolding db1_def [symmetric]
    by (intro exI [of _ db2]) (auto simp: bindIO_def same_notes_def, blast)
qed

lemma settleOnce_run:
  assumes "fresh_ids newId" "length (filter (\<lambda>b. mb_settlement_status b = ''pending'') (md_batches db)) \<le> 50"
  shows "\<exists>db' n. settleOnce newId now db = (Inr n, db') \<and> same_notes db db' \<and>
    (\<forall>x \<in> set (md_batches db'). mb_settlement_status x \<noteq> ''pending'') \<and>
    (\<forall>j \<in> set (jd_jobs (md_queue db')). j \<in> set (jd_jobs (md_queue db)) \<or> job_of db (md_batches db) j)"
proof -
  have all: "set (pending_batches db) = {b \<in> set (md_batches db). mb_settlement_status b = ''pending''}"
    using assms(2) by (simp add: pending_batches_def)
  obtain db' where r: "forIO (queueSettlementJobs newId now) (pending_batches db) db = (Inr (), db')" "same_notes db db'"
    "\<forall>x \<in> set (md_batches db'). mb_settlement_status x = ''pending'' \<longrightarrow>
      x \<in> set (md_batches db) \<and> mb_batch_id x \<notin> mb_batch_id ` set (pending_batches db)"
    "\<forall>j \<in> set (jd_jobs (md_queue db')). j \<in> set (jd_jobs (md_queue db)) \<or> job_of db (pending_batches db) j"
    using dispatch_all [OF assms(1)] by blast
  have "settleOnce newId now db = (Inr (length (pending_batches db)), db')"
    using r(1) by (simp add: settleOnce_def bindIO_def returnIO_def)
  moreover have "\<forall>x \<in> set (md_batches db'). mb_settlement_status x \<noteq> ''pending''" using r(3) all by blast
  moreover have "job_of db (md_batches db) j" if "job_of db (pending_batches db) j" for j
    using that all unfolding job_of_def by blast
  ultimately show ?thesis using r(2,4) by blast
qed

lemma settleOnce_idle:
  "\<forall>x \<in> set (md_batches db). mb_settlement_status x \<noteq> ''pending'' \<Longrightarrow> settleOnce newId now db = (Inr 0, db)"
  by (simp add: settleOnce_def pending_batches_def filter_empty_conv [THEN iffD2] bindIO_def returnIO_def)

lemma runSettlerLoop_idle:
  "\<forall>x \<in> set (md_batches db). mb_settlement_status x \<noteq> ''pending'' \<Longrightarrow> runSettlerLoop newId ts db = (Inr (), db)"
  by (induction ts) (simp_all add: settleOnce_idle bindIO_def catchIO_def returnIO_def)

text \<open>Within one round of the settler's loop a backlog of at most fifty signed batches is dispatched:
  no batch stays pending, whatever rounds follow, and every job the loop ever added is the job of a match
  neither side of which is in the RFQ lifecycle, so that the two settlement paths never both spend it.\<close>

theorem settler_drains_without_rfq:
  assumes "fresh_ids newId" "length (filter (\<lambda>b. mb_settlement_status b = ''pending'') (md_batches db)) \<le> 50"
  shows "\<exists>db'. runSettlerLoop newId (now # later) db = (Inr (), db') \<and>
    (\<forall>x \<in> set (md_batches db'). mb_settlement_status x \<noteq> ''pending'') \<and>
    (\<forall>j \<in> set (jd_jobs (md_queue db')). j \<in> set (jd_jobs (md_queue db)) \<or> job_of db (md_batches db) j)"
proof -
  obtain db' n where r: "settleOnce newId now db = (Inr n, db')"
    "\<forall>x \<in> set (md_batches db'). mb_settlement_status x \<noteq> ''pending''"
    "\<forall>j \<in> set (jd_jobs (md_queue db')). j \<in> set (jd_jobs (md_queue db)) \<or> job_of db (md_batches db) j"
    using settleOnce_run [OF assms] by blast
  have "runSettlerLoop newId (now # later) db = (Inr (), db')"
    using r(1) runSettlerLoop_idle [OF r(2)] by (simp add: bindIO_def catchIO_def returnIO_def)
  with r(2,3) show ?thesis by blast
qed

theorem settler_drains_without_rfq_witness:
  "\<exists>db'. runSettlerLoop long_id [0, 10] demo_mpc_db = (Inr (), db') \<and>
    (\<forall>x \<in> set (md_batches db'). mb_settlement_status x \<noteq> ''pending'')"
proof -
  have "length (filter (\<lambda>b. mb_settlement_status b = ''pending'') (md_batches demo_mpc_db)) \<le> 50" by (simp add: demo_mpc_db_def)
  from settler_drains_without_rfq [OF fresh_long_id this, of 0 "[10]"] show ?thesis by blast
qed

end
