(* ===== verification/Mpc_Server.thy ===== *)
theory Mpc_Server
  imports Mpc_Session Settlement
begin

text \<open>
  \<open>apps/mpc-committee/src/server.ts\<close> and \<open>apps/mpc-committee/src/coordinator-server.ts\<close>: the request
  handlers of the committee in one process and of the coordinator that reaches its nodes over HTTP, their
  auto-batch timers, and the invariant of a server under any sequence of requests and timer ticks.  The
  handlers the two files share take the matching round as an argument.  A handler runs as one step: a
  round marks its session before the first call that waits, and nothing else reads a session in between.
\<close>

section \<open>State and read-only routes\<close>

record MpcServer =
  sv_state :: CommitteeState
  sv_db :: "MpcDb option"

record SessionView =
  vw_sessionId :: string
  vw_status :: session_status
  vw_intentCount :: nat
  vw_startedAt :: int
  vw_signedBatch :: "SignedMatchBatch option"

definition get_session_route :: "string \<Rightarrow> MpcServer \<Rightarrow> SessionView reply" where
  "get_session_route sessionId srv =
    (case getSession sessionId (sv_state srv) of
       None \<Rightarrow> Reply_Error 404 ''session not found''
     | Some s \<Rightarrow> Reply \<lparr>vw_sessionId = ss_sessionId s, vw_status = ss_status s, vw_intentCount = length (ss_intents s),
         vw_startedAt = ss_startedAt s, vw_signedBatch = ss_signedBatch s\<rparr>)"

definition get_batches_route :: "MpcServer \<Rightarrow> SignedMatchBatch list" where
  "get_batches_route srv =
    map (\<lambda>s. the (ss_signedBatch s))
      (filter (\<lambda>s. ss_status s = Sess_signed \<and> ss_signedBatch s \<noteq> None) (allSessions (sv_state srv)))"

definition post_verify_route ::
  "Nacl \<Rightarrow> CommitteeNodeInfo list \<Rightarrow> SignedMatchBatch option \<Rightarrow> (bool \<times> nat \<times> nat) reply result" where
  "post_verify_route N committeeInfo batch =
    (case batch of
       None \<Rightarrow> Inr (Reply_Error 400 ''batch required'')
     | Some b \<Rightarrow> bindR (verifySignedBatch N b committeeInfo) (\<lambda>valid.
         Inr (Reply (valid, length committeeInfo, length (sb_signatures b)))))"

section \<open>Submitting\<close>

definition post_intent_route :: "nat \<Rightarrow> int \<Rightarrow> MpcIntent option \<Rightarrow> MpcServer \<Rightarrow> (string \<times> string) reply \<times> MpcServer" where
  "post_intent_route n now intent srv =
    (case intent of
       None \<Rightarrow> (Reply_Error 400 ''intentId required'', srv)
     | Some m \<Rightarrow>
         if mi_intentId m = [] then (Reply_Error 400 ''intentId required'', srv)
         else if length (mi_encryptedShares m) \<noteq> n
         then (Reply_Error 400 (''must supply '' @ nat_to_radix 10 n @ '' encrypted shares, one per committee node''), srv)
         else (case addIntent now m (sv_state srv) of
                 (sessionId, st) \<Rightarrow> (Reply (mi_intentId m, sessionId), srv\<lparr>sv_state := st\<rparr>)))"

text \<open>A node's own route in the one-process server: it overwrites the ciphertext of a slot that the
  submission made.\<close>

definition redeliver :: "EncryptedShare \<Rightarrow> NodeShareEntry \<Rightarrow> NodeShareEntry" where
  "redeliver e entry =
    entry\<lparr>nse_ciphertext := es_ciphertext e, nse_nonce := es_nonce e, nse_senderPubkey := es_senderPubkey e\<rparr>"

definition post_share_route :: "string \<Rightarrow> string \<Rightarrow> EncryptedShare \<Rightarrow> MpcServer \<Rightarrow> (string \<times> string) reply \<times> MpcServer" where
  "post_share_route nodeId intentId encShare srv =
    (if es_nodeId encShare \<noteq> nodeId then (Reply_Error 400 ''share addressed to wrong node'', srv)
     else case getSessionForIntent intentId (sv_state srv) of
            None \<Rightarrow> (Reply_Error 404 ''intent not registered'', srv)
          | Some session \<Rightarrow>
              (case map_of (ss_shares session) nodeId of
                 None \<Rightarrow> (Reply_Error 404 ''share slot not found for this intent'', srv)
               | Some nodeShares \<Rightarrow>
                   (case map_of nodeShares intentId of
                      None \<Rightarrow> (Reply_Error 404 ''share slot not found for this intent'', srv)
                    | Some entry \<Rightarrow>
                        (Reply (nodeId, intentId),
                         srv\<lparr>sv_state := put_session (session\<lparr>ss_shares := AList.update nodeId
                            (AList.update intentId (redeliver encShare entry) nodeShares) (ss_shares session)\<rparr>) (sv_state srv)\<rparr>))))"

section \<open>Matching\<close>

type_synonym round = "SessionState \<Rightarrow> CoordinatorResult result \<times> SessionState"

definition persist_if_db :: "int \<Rightarrow> string \<Rightarrow> SignedMatchBatch \<Rightarrow> (MpcServer, unit) io" where
  "persist_if_db now sessionId b srv =
    (case sv_db srv of
       None \<Rightarrow> (Inr (), srv)
     | Some db \<Rightarrow> (case persistSignedBatch now sessionId b db of (r, db') \<Rightarrow> (r, srv\<lparr>sv_db := Some db'\<rparr>)))"

text \<open>Running the round on a session of the store, and writing its batch.\<close>

definition run_round :: "round \<Rightarrow> int \<Rightarrow> SessionState \<Rightarrow> (MpcServer, CoordinatorResult) io" where
  "run_round rnd now session srv =
    (case rnd session of
       (r, session') \<Rightarrow>
         let srv' = srv\<lparr>sv_state := put_session session' (sv_state srv)\<rparr>
         in case r of
              Inl e \<Rightarrow> (Inl e, srv')
            | Inr (Round_Failed why) \<Rightarrow> (Inr (Round_Failed why), srv')
            | Inr (Round_Ok b) \<Rightarrow> bindIO (persist_if_db now (ss_sessionId session') b) (\<lambda>_. returnIO (Round_Ok b)) srv')"

definition match_route :: "round \<Rightarrow> int \<Rightarrow> string \<Rightarrow> (MpcServer, CoordinatorResult reply) io" where
  "match_route rnd now sessionId srv =
    (case getSession sessionId (sv_state srv) of
       None \<Rightarrow> (Inr (Reply_Error 404 ''session not found''), srv)
     | Some session \<Rightarrow>
         if ss_status session \<noteq> Sess_open
         then (Inr (Reply (Round_Failed (''session already in status '' @ [CHR 0x27] @ status_text (ss_status session) @ [CHR 0x27]))), srv)
         else bindIO (run_round rnd now session) (\<lambda>r. returnIO (Reply r)) srv)"

text \<open>One tick of the timer: every session that was open when it fired and has two intents is matched.  A
  throw ends the tick.\<close>

definition batch_timer_tick :: "round \<Rightarrow> int \<Rightarrow> (MpcServer, unit) io" where
  "batch_timer_tick rnd now srv =
    forIO (\<lambda>session. if length (ss_intents session) < 2 then returnIO ()
        else bindIO (run_round rnd now session) (\<lambda>_. returnIO ()))
      (getOpenSessions (sv_state srv)) srv"

text \<open>The two rounds; a batch id is drawn for every run.\<close>

definition server_round :: "Nacl \<Rightarrow> (SessionState \<Rightarrow> string) \<Rightarrow> CommitteeNodeKeyPair list \<Rightarrow> round" where
  "server_round N uuid nodes s = runMatchingRound N (uuid s) nodes s"

section \<open>The coordinator over HTTP\<close>

text \<open>\<open>Coordinator\<close> adds the nodes that answer, by their address.\<close>

record Coordinator = MpcServer +
  co_nodes :: "(string \<times> NodeServer) list"

definition parse_endpoint :: "string \<Rightarrow> NodeEndpoint result" where
  "parse_endpoint pair =
    (case js_split (CHR ''='') pair of
       nodeId # url # _ \<Rightarrow>
         if nodeId = [] \<or> url = [] then Inl (Js_Error (''invalid MPC_NODE_URLS entry: '' @ [CHR 0x22] @ pair @ [CHR 0x22] @ '' (expected nodeId=url)''))
         else Inr \<lparr>ne_nodeId = js_trim nodeId, ne_url = js_trim url\<rparr>
     | _ \<Rightarrow> Inl (Js_Error (''invalid MPC_NODE_URLS entry: '' @ [CHR 0x22] @ pair @ [CHR 0x22] @ '' (expected nodeId=url)'')))"

definition parseNodeUrls :: "string \<Rightarrow> NodeEndpoint list result" where
  "parseNodeUrls spec = mapR parse_endpoint (js_split (CHR '','') spec)"

definition deliver_share ::
  "string \<Rightarrow> NodeEndpoint list \<Rightarrow> string \<Rightarrow> (string \<times> NodeServer) list \<Rightarrow> EncryptedShare \<Rightarrow> (string \<times> NodeServer) list" where
  "deliver_share token endpoints intentId nodes share =
    (case find (\<lambda>n. ne_nodeId n = es_nodeId share) endpoints of
       None \<Rightarrow> nodes
     | Some n \<Rightarrow>
         (case map_of nodes (ne_url n) of
            None \<Rightarrow> nodes
          | Some nv \<Rightarrow> AList.update (ne_url n) (snd (node_post_share nv (Some token) intentId share)) nodes))"

definition distributeShares ::
  "string \<Rightarrow> NodeEndpoint list \<Rightarrow> string \<Rightarrow> EncryptedShare list \<Rightarrow> (string \<times> NodeServer) list \<Rightarrow> (string \<times> NodeServer) list" where
  "distributeShares token endpoints intentId encryptedShares nodes =
    foldl (deliver_share token endpoints intentId) nodes encryptedShares"

definition coordinator_post_intent ::
  "string \<Rightarrow> NodeEndpoint list \<Rightarrow> int \<Rightarrow> MpcIntent option \<Rightarrow> Coordinator \<Rightarrow> (string \<times> string) reply \<times> Coordinator" where
  "coordinator_post_intent token endpoints now intent co =
    (case post_intent_route (length endpoints) now intent (MpcServer.truncate co) of
       (Reply r, srv) \<Rightarrow>
         (Reply r, co\<lparr>sv_state := sv_state srv,
            co_nodes := distributeShares token endpoints (mi_intentId (the intent)) (mi_encryptedShares (the intent)) (co_nodes co)\<rparr>)
     | (Reply_Error c e, srv) \<Rightarrow> (Reply_Error c e, co))"

definition call_node :: "(string \<times> NodeServer) list \<Rightarrow> NodeEndpoint \<Rightarrow> (NodeServer \<Rightarrow> 'a reply result) \<Rightarrow> 'a option" where
  "call_node nodes n f = postJson (map_option f (map_of nodes (ne_url n)))"

definition coordinator_round ::
  "Nacl \<Rightarrow> (SessionState \<Rightarrow> string) \<Rightarrow> string \<Rightarrow> (string \<times> NodeServer) list \<Rightarrow> NodeEndpoint list \<Rightarrow> round" where
  "coordinator_round N uuid token nodes endpoints s =
    runMatchingRoundRemote N (uuid s)
      (\<lambda>n ids. call_node nodes n (\<lambda>nv. node_decrypt N nv (Some token) ids))
      (\<lambda>n batchId matches. call_node nodes n (\<lambda>nv. node_sign_batch N nv (Some token) batchId matches))
      endpoints s"

definition coordinator_match ::
  "Nacl \<Rightarrow> (SessionState \<Rightarrow> string) \<Rightarrow> string \<Rightarrow> NodeEndpoint list \<Rightarrow> int \<Rightarrow> string \<Rightarrow> Coordinator \<Rightarrow>
   CoordinatorResult reply result \<times> Coordinator" where
  "coordinator_match N uuid token endpoints now sessionId co =
    (case match_route (coordinator_round N uuid token (co_nodes co) endpoints) now sessionId (MpcServer.truncate co) of
       (r, srv) \<Rightarrow> (r, co\<lparr>sv_state := sv_state srv, sv_db := sv_db srv\<rparr>))"

definition coordinator_timer_tick ::
  "Nacl \<Rightarrow> (SessionState \<Rightarrow> string) \<Rightarrow> string \<Rightarrow> NodeEndpoint list \<Rightarrow> int \<Rightarrow> Coordinator \<Rightarrow> unit result \<times> Coordinator" where
  "coordinator_timer_tick N uuid token endpoints now co =
    (case batch_timer_tick (coordinator_round N uuid token (co_nodes co) endpoints) now (MpcServer.truncate co) of
       (r, srv) \<Rightarrow> (r, co\<lparr>sv_state := sv_state srv, sv_db := sv_db srv\<rparr>))"

definition fetch_committee_info :: "(string \<times> NodeServer) list \<Rightarrow> NodeEndpoint list \<Rightarrow> CommitteeNodeInfo list result" where
  "fetch_committee_info nodes endpoints =
    mapR (\<lambda>n. case map_of nodes (ne_url n) of
        None \<Rightarrow> Inl (Type_Error ''fetch failed'')
      | Some nv \<Rightarrow> Inr (nodePublicInfo (nv_node nv))) endpoints"

section \<open>The invariant of the store\<close>

definition session_ok :: "string \<Rightarrow> SessionState \<Rightarrow> bool" where
  "session_ok k s \<longleftrightarrow> ss_sessionId s = k \<and> (ss_status s = Sess_signed \<longleftrightarrow> ss_signedBatch s \<noteq> None) \<and>
    (\<forall>b. ss_signedBatch s = Some b \<longrightarrow> sb_sessionId b = k \<and> distinct (match_ids (sb_matches b)))"

definition store_inv :: "CommitteeState \<Rightarrow> bool" where
  "store_inv st \<longleftrightarrow> distinct (map fst (cs_sessions st)) \<and>
    (\<forall>k s. map_of (cs_sessions st) k = Some s \<longrightarrow> session_ok k s) \<and>
    (\<forall>k s k' s'. map_of (cs_sessions st) k = Some s \<longrightarrow> map_of (cs_sessions st) k' = Some s' \<longrightarrow>
      ss_status s = Sess_open \<longrightarrow> ss_status s' = Sess_open \<longrightarrow> k = k')"

lemma store_invD:
  assumes "store_inv st"
  shows "distinct (map fst (cs_sessions st))" "map_of (cs_sessions st) k = Some s \<Longrightarrow> session_ok k s"
    "map_of (cs_sessions st) k = Some s \<Longrightarrow> map_of (cs_sessions st) k' = Some s' \<Longrightarrow>
      ss_status s = Sess_open \<Longrightarrow> ss_status s' = Sess_open \<Longrightarrow> k = k'"
  using assms unfolding store_inv_def by blast+

lemma map_of_put [simp]: "map_of (cs_sessions (put_session s st)) = (map_of (cs_sessions st))(ss_sessionId s \<mapsto> s)"
  by (simp add: put_session_def update_conv')

lemma store_inv_put:
  assumes "store_inv st" "session_ok (ss_sessionId s) s"
    and "ss_status s = Sess_open \<Longrightarrow> \<forall>k s'. map_of (cs_sessions st) k = Some s' \<longrightarrow> ss_status s' = Sess_open \<longrightarrow> k = ss_sessionId s"
  shows "store_inv (put_session s st)"
proof -
  have "distinct (map fst (cs_sessions (put_session s st)))"
    using store_invD(1) [OF assms(1)] by (simp add: put_session_def distinct_update)
  then show ?thesis
    using store_invD(2,3) [OF assms(1)] assms(2,3) unfolding store_inv_def map_of_put by (auto split: if_splits)
qed

lemma open_sessions_mem:
  "store_inv st \<Longrightarrow> s \<in> set (getOpenSessions st) \<longleftrightarrow> map_of (cs_sessions st) (ss_sessionId s) = Some s \<and> ss_status s = Sess_open"
proof -
  assume inv: "store_inv st"
  have m: "(k, s) \<in> set (cs_sessions st) \<longleftrightarrow> map_of (cs_sessions st) k = Some s" for k
    using store_invD(1) [OF inv] by simp
  have "s \<in> set (map snd (cs_sessions st)) \<longleftrightarrow> (\<exists>k. map_of (cs_sessions st) k = Some s)" unfolding m [symmetric] by force
  also have "\<dots> \<longleftrightarrow> map_of (cs_sessions st) (ss_sessionId s) = Some s"
    using store_invD(2) [OF inv] unfolding session_ok_def by blast
  finally show ?thesis by (simp add: getOpenSessions_def)
qed

lemma one_open_session: "store_inv st \<Longrightarrow> length (getOpenSessions st) \<le> 1"
proof -
  assume inv: "store_inv st"
  have "distinct (map snd (cs_sessions st))"
  proof -
    have "inj_on snd (set (cs_sessions st))"
    proof (rule inj_onI)
      fix x y assume "x \<in> set (cs_sessions st)" "y \<in> set (cs_sessions st)" "snd x = snd y"
      then have "map_of (cs_sessions st) (fst x) = Some (snd x)" "map_of (cs_sessions st) (fst y) = Some (snd x)"
        using store_invD(1) [OF inv] by (simp_all, metis prod.collapse)
      then have "fst x = fst y" using store_invD(2) [OF inv] unfolding session_ok_def by metis
      then show "x = y" using \<open>snd x = snd y\<close> by (rule prod_eqI)
    qed
    then show ?thesis using store_invD(1) [OF inv] by (simp add: distinct_map)
  qed
  then have d: "distinct (getOpenSessions st)" by (simp add: getOpenSessions_def)
  have "s = s'" if "s \<in> set (getOpenSessions st)" "s' \<in> set (getOpenSessions st)" for s s'
    using that store_invD(3) [OF inv] open_sessions_mem [OF inv] by (metis option.inject)
  then have "card (set (getOpenSessions st)) \<le> 1" by (metis card_le_Suc0_iff_eq One_nat_def finite_set)
  with distinct_card [OF d] show ?thesis by simp
qed

lemma find_open_None:
  "store_inv st \<Longrightarrow> find (\<lambda>(k, s). ss_status s = Sess_open) (cs_sessions st) = None \<Longrightarrow>
    map_of (cs_sessions st) k = Some s \<Longrightarrow> ss_status s \<noteq> Sess_open"
  by (auto simp: find_None_iff dest!: map_of_SomeD)

lemma getOrCreate_cases:
  assumes "store_inv st" "getOrCreateOpenSession now st = (s, st')"
  shows "store_inv st' \<and> map_of (cs_sessions st') (ss_sessionId s) = Some s \<and> ss_status s = Sess_open \<and>
    (st' = st \<or> ss_sessionId s = ''session-'' @ bigint_to_string now \<and>
      map_of (cs_sessions st') = (map_of (cs_sessions st))(ss_sessionId s \<mapsto> s))"
proof (cases "find (\<lambda>(k, s). ss_status s = Sess_open) (cs_sessions st)")
  case None
  then have st': "s = new_session (''session-'' @ bigint_to_string now) now" "st' = put_session s st"
    using assms(2) by (auto simp: getOrCreateOpenSession_def createSession_def put_session_def Let_def new_session_def)
  have "store_inv st'" unfolding st'(2)
    using find_open_None [OF assms(1) None] assms(1) by (intro store_inv_put) (auto simp: st'(1) session_ok_def new_session_def)
  then show ?thesis using st' by (simp add: new_session_def)
next
  case (Some x)
  then have x: "x \<in> set (cs_sessions st)" "ss_status (snd x) = Sess_open" by (auto simp: find_Some_iff in_set_conv_nth)
  moreover have "snd x = s" "st' = st" using assms(2) Some by (auto simp: getOrCreateOpenSession_def split: prod.splits)
  ultimately obtain k where "st' = st" "ss_status s = Sess_open" "(k, s) \<in> set (cs_sessions st)" by (metis prod.collapse)
  then have "map_of (cs_sessions st) k = Some s" using store_invD(1) [OF assms(1)] by simp
  then show ?thesis using store_invD(2) [OF assms(1)] \<open>st' = st\<close> \<open>ss_status s = Sess_open\<close> assms(1) by (auto simp: session_ok_def)
qed

lemma addIntent_store:
  assumes "store_inv st" "addIntent now m st = (sid, st')"
  shows "store_inv st'" and "map_of (cs_sessions st) k = Some s \<Longrightarrow> ss_status s = Sess_signed \<Longrightarrow>
    k \<noteq> ''session-'' @ bigint_to_string now \<Longrightarrow> map_of (cs_sessions st') k = Some s"
proof -
  obtain so st1 where g: "getOrCreateOpenSession now st = (so, st1)" by fastforce
  note c = getOrCreate_cases [OF assms(1) g]
  have st': "cs_sessions st' = cs_sessions (put_session (session_add m so) st1)" using assms(2) g by (auto simp: addIntent_def)
  have fr: "ss_sessionId (session_add m so) = ss_sessionId so" "ss_status (session_add m so) = ss_status so"
    "ss_signedBatch (session_add m so) = ss_signedBatch so" by (simp_all add: session_add_def)
  have "store_inv (put_session (session_add m so) st1)"
  proof (rule store_inv_put [rotated])
    show "session_ok (ss_sessionId (session_add m so)) (session_add m so)"
      using c store_invD(2) [of st1 "ss_sessionId so" so] by (simp add: fr session_ok_def)
    show "\<forall>k s'. map_of (cs_sessions st1) k = Some s' \<longrightarrow> ss_status s' = Sess_open \<longrightarrow> k = ss_sessionId (session_add m so)"
      using c store_invD(3) [of st1] unfolding fr by blast
  qed (use c in blast)
  then show "store_inv st'" unfolding store_inv_def st' .
  show "map_of (cs_sessions st') k = Some s"
    if "map_of (cs_sessions st) k = Some s" "ss_status s = Sess_signed" "k \<noteq> ''session-'' @ bigint_to_string now"
    using that c by (auto simp: st' fr split: if_splits)
qed

lemma persist_if_db_state: "persist_if_db now sid b srv = (r, srv') \<Longrightarrow> sv_state srv' = sv_state srv"
  by (auto simp: persist_if_db_def split: option.splits prod.splits)

lemma run_round_state: "run_round rnd now s srv = (r, srv') \<Longrightarrow> sv_state srv' = put_session (snd (rnd s)) (sv_state srv)"
  by (auto simp: run_round_def bindIO_def Let_def dest!: persist_if_db_state
      split: prod.splits sum.splits CoordinatorResult.splits)

text \<open>What the handlers owe to the round's contract, for whichever round runs.\<close>

context matching_round
begin

lemma round_session_ok:
  assumes "session_ok k s" "ss_status s = Sess_open" "round s = (r, s')"
  shows "session_ok k s' \<and> (ss_status s' = Sess_open \<longrightarrow> s' = s)"
proof -
  have k: "ss_sessionId s' = k" "ss_signedBatch s = None" using assms frame by (auto simp: session_ok_def)
  show ?thesis
  proof (cases r)
    case (Inl e)
    then show ?thesis using assms(3) round_throws k by (fastforce simp: session_ok_def)
  next
    case r: (Inr c)
    show ?thesis
    proof (cases c)
      case (Round_Ok b)
      then show ?thesis using assms r round_ok batch_no_reuse k by (fastforce simp: session_ok_def)
    next
      case (Round_Failed why)
      then have "ss_signedBatch s' = ss_signedBatch s \<and> (s' = s \<or> ss_status s' = Sess_failed)"
        using assms(3) r round_fails by blast
      then show ?thesis using k assms(1) by (auto simp: session_ok_def)
    qed
  qed
qed

lemma run_round_store:
  assumes "store_inv (sv_state srv)" "map_of (cs_sessions (sv_state srv)) (ss_sessionId s) = Some s" "ss_status s = Sess_open"
    and "run_round round now s srv = (r, srv')"
  shows "store_inv (sv_state srv')" and "map_of (cs_sessions (sv_state srv)) k = Some t \<Longrightarrow> ss_status t = Sess_signed \<Longrightarrow>
    map_of (cs_sessions (sv_state srv')) k = Some t"
proof -
  obtain c s' where rs: "round s = (c, s')" by fastforce
  have st: "sv_state srv' = put_session s' (sv_state srv)" using run_round_state [OF assms(4)] rs by simp
  have fr: "ss_sessionId s' = ss_sessionId s" using frame [OF rs] by blast
  have ok: "session_ok (ss_sessionId s) s' \<and> (ss_status s' = Sess_open \<longrightarrow> s' = s)"
    using round_session_ok [OF store_invD(2) [OF assms(1,2)] assms(3) rs] .
  show "store_inv (sv_state srv')" unfolding st
    using ok assms(1,2,3) store_invD(3) [OF assms(1)] unfolding fr [symmetric] by (intro store_inv_put) auto
  show "map_of (cs_sessions (sv_state srv')) k = Some t"
    if "map_of (cs_sessions (sv_state srv)) k = Some t" "ss_status t = Sess_signed"
    using that assms(2,3) by (auto simp: st fr)
qed

lemma match_route_store:
  assumes "store_inv (sv_state srv)" "match_route round now sid srv = (r, srv')"
  shows "store_inv (sv_state srv')" and "map_of (cs_sessions (sv_state srv)) k = Some t \<Longrightarrow> ss_status t = Sess_signed \<Longrightarrow>
    map_of (cs_sessions (sv_state srv')) k = Some t"
proof -
  have "srv' = srv \<or> (\<exists>s c. map_of (cs_sessions (sv_state srv)) (ss_sessionId s) = Some s \<and> ss_status s = Sess_open \<and>
      run_round round now s srv = (c, srv'))"
  proof (cases "getSession sid (sv_state srv)")
    case (Some s)
    then have "map_of (cs_sessions (sv_state srv)) (ss_sessionId s) = Some s"
      using store_invD(2) [OF assms(1)] by (auto simp: getSession_def session_ok_def)
    then show ?thesis using assms(2) Some
      by (auto simp: match_route_def bindIO_def split: if_splits prod.splits sum.splits)
  qed (use assms(2) in \<open>auto simp: match_route_def\<close>)
  then show "store_inv (sv_state srv')" and "map_of (cs_sessions (sv_state srv)) k = Some t \<Longrightarrow> ss_status t = Sess_signed \<Longrightarrow>
    map_of (cs_sessions (sv_state srv')) k = Some t"
    using run_round_store [OF assms(1)] assms(1) by blast+
qed

lemma timer_tick_store:
  assumes "store_inv (sv_state srv)" "batch_timer_tick round now srv = (r, srv')"
  shows "store_inv (sv_state srv')" and "map_of (cs_sessions (sv_state srv)) k = Some t \<Longrightarrow> ss_status t = Sess_signed \<Longrightarrow>
    map_of (cs_sessions (sv_state srv')) k = Some t"
proof -
  have "srv' = srv \<or> (\<exists>s c. s \<in> set (getOpenSessions (sv_state srv)) \<and> run_round round now s srv = (c, srv'))"
  proof (cases "getOpenSessions (sv_state srv)")
    case (Cons s ss)
    then have "ss = []" using one_open_session [OF assms(1)] by (cases ss) auto
    with Cons assms(2) show ?thesis
      by (auto simp: batch_timer_tick_def bindIO_def split: if_splits prod.splits sum.splits)
  qed (use assms(2) in \<open>auto simp: batch_timer_tick_def\<close>)
  then show "store_inv (sv_state srv')" and "map_of (cs_sessions (sv_state srv)) k = Some t \<Longrightarrow> ss_status t = Sess_signed \<Longrightarrow>
    map_of (cs_sessions (sv_state srv')) k = Some t"
    using run_round_store [OF assms(1)] assms(1) open_sessions_mem [OF assms(1)] by blast+
qed

end

text \<open>The rounds the two servers run keep the contract.\<close>

interpretation server: matching_round "server_round N uuid nodes" N "map ck_nodeId nodes"
  by (unfold_locales; unfold server_round_def)
    (erule local_round.frame local_round.round_ok local_round.round_fails local_round.round_throws)+

interpretation coordinator: matching_round "coordinator_round N uuid token nodes endpoints" N "map ne_nodeId endpoints"
  by (unfold_locales; unfold coordinator_round_def)
    (erule remote_round.frame remote_round.round_ok remote_round.round_fails remote_round.round_throws)+

section \<open>Runs of a server\<close>

definition is_round :: "round \<Rightarrow> bool" where
  "is_round rnd \<longleftrightarrow> (\<exists>N uuid nodes. rnd = server_round N uuid nodes) \<or>
    (\<exists>N uuid token nodes endpoints. rnd = coordinator_round N uuid token nodes endpoints)"

lemma is_round_contract: "is_round rnd \<Longrightarrow> \<exists>N ids. matching_round rnd N ids"
  using server.matching_round_axioms coordinator.matching_round_axioms unfolding is_round_def by blast

datatype srv_op = Op_submit int | Op_share | Op_match | Op_tick

inductive srv_step :: "MpcServer \<Rightarrow> srv_op \<Rightarrow> MpcServer \<Rightarrow> bool" where
  srv_submit: "post_intent_route n now m srv = (r, srv') \<Longrightarrow> srv_step srv (Op_submit now) srv'"
| srv_share: "post_share_route nodeId intentId e srv = (r, srv') \<Longrightarrow> srv_step srv Op_share srv'"
| srv_match: "is_round rnd \<Longrightarrow> match_route rnd now sid srv = (r, srv') \<Longrightarrow> srv_step srv Op_match srv'"
| srv_tick: "is_round rnd \<Longrightarrow> batch_timer_tick rnd now srv = (r, srv') \<Longrightarrow> srv_step srv Op_tick srv'"

inductive srv_run :: "MpcServer \<Rightarrow> srv_op list \<Rightarrow> MpcServer \<Rightarrow> bool" where
  srv_run_nil: "srv_run srv [] srv"
| srv_run_snoc: "srv_run srv ops srv' \<Longrightarrow> srv_step srv' op srv'' \<Longrightarrow> srv_run srv (ops @ [op]) srv''"

text \<open>The coordinator's handlers are steps of the server it contains.\<close>

lemma coordinator_steps:
  "coordinator_post_intent token eps now m co = (r, co') \<Longrightarrow> srv_step (MpcServer.truncate co) (Op_submit now) (MpcServer.truncate co')"
  "coordinator_match N uuid token eps now sid co = (r', co') \<Longrightarrow> srv_step (MpcServer.truncate co) Op_match (MpcServer.truncate co')"
  "coordinator_timer_tick N uuid token eps now co = (r'', co') \<Longrightarrow> srv_step (MpcServer.truncate co) Op_tick (MpcServer.truncate co')"
proof -
  have db: "post_intent_route n now m srv = (x, srv') \<Longrightarrow> sv_db srv' = sv_db srv \<and> (\<forall>c e. x = Reply_Error c e \<longrightarrow> srv' = srv)" for n m srv x srv'
    by (auto simp: post_intent_route_def split: option.splits if_splits prod.splits)
  assume a: "coordinator_post_intent token eps now m co = (r, co')"
  obtain x srv' where p: "post_intent_route (length eps) now m (MpcServer.truncate co) = (x, srv')" by fastforce
  then have "srv' = MpcServer.truncate co'"
    using a db [OF p] by (cases x) (auto simp: coordinator_post_intent_def MpcServer.truncate_def)
  then show "srv_step (MpcServer.truncate co) (Op_submit now) (MpcServer.truncate co')" using p by (auto intro: srv_submit)
next
  assume a: "coordinator_match N uuid token eps now sid co = (r', co')"
  obtain x srv' where m: "match_route (coordinator_round N uuid token (co_nodes co) eps) now sid (MpcServer.truncate co) = (x, srv')" by fastforce
  then have "srv' = MpcServer.truncate co'" using a by (auto simp: coordinator_match_def MpcServer.truncate_def)
  then show "srv_step (MpcServer.truncate co) Op_match (MpcServer.truncate co')"
    using m srv_match unfolding is_round_def by blast
next
  assume a: "coordinator_timer_tick N uuid token eps now co = (r'', co')"
  obtain x srv' where m: "batch_timer_tick (coordinator_round N uuid token (co_nodes co) eps) now (MpcServer.truncate co) = (x, srv')" by fastforce
  then have "srv' = MpcServer.truncate co'" using a by (auto simp: coordinator_timer_tick_def MpcServer.truncate_def)
  then show "srv_step (MpcServer.truncate co) Op_tick (MpcServer.truncate co')"
    using m srv_tick unfolding is_round_def by blast
qed

lemma post_share_store:
  assumes "store_inv (sv_state srv)" "post_share_route nodeId intentId e srv = (r, srv')"
  shows "store_inv (sv_state srv') \<and> (\<forall>k t. map_of (cs_sessions (sv_state srv)) k = Some t \<longrightarrow>
    (\<exists>t'. map_of (cs_sessions (sv_state srv')) k = Some t' \<and> ss_status t' = ss_status t \<and> ss_signedBatch t' = ss_signedBatch t))"
proof -
  consider "srv' = srv" | s sh where "getSessionForIntent intentId (sv_state srv) = Some s"
      "sv_state srv' = put_session (s\<lparr>ss_shares := sh\<rparr>) (sv_state srv)"
  proof (cases "es_nodeId e = nodeId \<and> (\<exists>s ns en. getSessionForIntent intentId (sv_state srv) = Some s \<and>
      map_of (ss_shares s) nodeId = Some ns \<and> map_of ns intentId = Some en)")
    case True
    with assms(2) that(2) show thesis unfolding post_share_route_def by fastforce
  next
    case False
    with assms(2) have "srv' = srv" unfolding post_share_route_def by (auto split: if_splits option.splits)
    with that(1) show thesis .
  qed
  then show ?thesis
  proof cases
    case (2 s sh)
    then obtain k where "map_of (cs_sessions (sv_state srv)) k = Some s"
      by (auto simp: getSessionForIntent_def split: option.splits if_splits)
    then have s: "map_of (cs_sessions (sv_state srv)) (ss_sessionId s) = Some s" "session_ok (ss_sessionId s) s"
      using store_invD(2) [OF assms(1)] by (auto simp: session_ok_def)
    have "store_inv (put_session (s\<lparr>ss_shares := sh\<rparr>) (sv_state srv))"
    proof (rule store_inv_put [OF assms(1)])
      show "session_ok (ss_sessionId (s\<lparr>ss_shares := sh\<rparr>)) (s\<lparr>ss_shares := sh\<rparr>)" using s(2) by (simp add: session_ok_def)
      show "\<forall>k s'. map_of (cs_sessions (sv_state srv)) k = Some s' \<longrightarrow> ss_status s' = Sess_open \<longrightarrow> k = ss_sessionId (s\<lparr>ss_shares := sh\<rparr>)"
        if "ss_status (s\<lparr>ss_shares := sh\<rparr>) = Sess_open" using that store_invD(3) [OF assms(1) _ s(1)] by simp
    qed
    then show ?thesis using s 2(2) by auto
  qed (use assms(1) in auto)
qed

text \<open>One step keeps the invariant and never touches a recorded batch, unless it opens a session under the
  very millisecond of that session's id.\<close>

lemma srv_step_store:
  assumes "srv_step srv op srv'" "store_inv (sv_state srv)"
  shows "store_inv (sv_state srv') \<and> (\<forall>k t. map_of (cs_sessions (sv_state srv)) k = Some t \<longrightarrow> ss_status t = Sess_signed \<longrightarrow>
    (\<forall>now. op = Op_submit now \<longrightarrow> k \<noteq> ''session-'' @ bigint_to_string now) \<longrightarrow>
    (\<exists>t'. map_of (cs_sessions (sv_state srv')) k = Some t' \<and> ss_status t' = Sess_signed \<and> ss_signedBatch t' = ss_signedBatch t))"
  using assms
proof cases
  case (srv_submit n now m r)
  show ?thesis
  proof (cases "srv' = srv")
    case False
    then obtain i sid st where "addIntent now i (sv_state srv) = (sid, st)" "sv_state srv' = st"
      using srv_submit(2) by (auto simp: post_intent_route_def split: option.splits if_splits prod.splits)
    then show ?thesis using addIntent_store [OF assms(2)] srv_submit(1) by blast
  qed (use assms(2) in blast)
next
  case (srv_share nodeId intentId e r)
  then show ?thesis using post_share_store [OF assms(2)] by (metis srv_op.distinct(1))
next
  case (srv_match rnd now sid r)
  obtain N ids where mr: "matching_round rnd N ids" using is_round_contract [OF srv_match(2)] by blast
  show ?thesis
    using matching_round.match_route_store [OF mr assms(2) srv_match(3)] by blast
next
  case (srv_tick rnd now r)
  obtain N ids where mr: "matching_round rnd N ids" using is_round_contract [OF srv_tick(2)] by blast
  show ?thesis
    using matching_round.timer_tick_store [OF mr assms(2) srv_tick(3)] by blast
qed

lemma srv_run_store: "srv_run srv ops srv' \<Longrightarrow> store_inv (sv_state srv) \<Longrightarrow> store_inv (sv_state srv')"
  by (induction rule: srv_run.induct) (use srv_step_store in blast)+

lemma srv_run_signed:
  assumes "srv_run srv ops srv'" "store_inv (sv_state srv)" "map_of (cs_sessions (sv_state srv)) k = Some t" "ss_status t = Sess_signed"
    and "\<forall>now. Op_submit now \<in> set ops \<longrightarrow> k \<noteq> ''session-'' @ bigint_to_string now"
  shows "\<exists>t'. map_of (cs_sessions (sv_state srv')) k = Some t' \<and> ss_status t' = Sess_signed \<and> ss_signedBatch t' = ss_signedBatch t"
  using assms
proof (induction rule: srv_run.induct)
  case (srv_run_snoc srv ops srv' op srv'')
  then obtain t' where "map_of (cs_sessions (sv_state srv')) k = Some t'" "ss_status t' = Sess_signed" "ss_signedBatch t' = ss_signedBatch t"
    by auto
  then show ?case using srv_step_store [OF srv_run_snoc.hyps(2) srv_run_store [OF srv_run_snoc.hyps(1) srv_run_snoc.prems(1)]]
      srv_run_snoc.prems(4) by (metis in_set_conv_decomp)
qed blast

section \<open>Properties\<close>

text \<open>C22.  Whatever requests and timer ticks a committee server has served since it started, at most one
  session is open, a session is signed exactly when it holds a batch, and that batch is its own and spends
  no intent twice; and a batch once recorded is never replaced or lost, as long as no session is opened in
  the millisecond that its session is named after.\<close>

theorem server_invariant:
  assumes "srv_run \<lparr>sv_state = empty_state, sv_db = db\<rparr> ops srv"
  shows "length (getOpenSessions (sv_state srv)) \<le> 1 \<and>
    (\<forall>k s. getSession k (sv_state srv) = Some s \<longrightarrow> session_ok k s) \<and>
    (\<forall>k s ops' srv'. getSession k (sv_state srv) = Some s \<longrightarrow> ss_status s = Sess_signed \<longrightarrow> srv_run srv ops' srv' \<longrightarrow>
      (\<forall>now. Op_submit now \<in> set ops' \<longrightarrow> k \<noteq> ''session-'' @ bigint_to_string now) \<longrightarrow>
      (\<exists>s'. getSession k (sv_state srv') = Some s' \<and> ss_status s' = Sess_signed \<and> ss_signedBatch s' = ss_signedBatch s))"
proof -
  have inv: "store_inv (sv_state srv)"
    using srv_run_store [OF assms] by (simp add: store_inv_def empty_state_def)
  show ?thesis
    using one_open_session [OF inv] store_invD(2) [OF inv] srv_run_signed [OF _ inv] unfolding getSession_def by blast
qed

theorem server_invariant_witness:
  "\<exists>srv. srv_run \<lparr>sv_state = empty_state, sv_db = None\<rparr> [Op_submit 1, Op_submit 2, Op_tick] srv \<and>
    length (getOpenSessions (sv_state srv)) \<le> 1"
proof -
  let ?m = "\<lambda>i. Some (demo_intent i ''X'' ''Y'' ''10'')" and ?s0 = "\<lparr>sv_state = empty_state, sv_db = None\<rparr>"
  let ?s1 = "snd (post_intent_route 3 1 (?m ''a'') ?s0)" let ?s2 = "snd (post_intent_route 3 2 (?m ''b'') ?s1)"
  let ?s3 = "snd (batch_timer_tick (server_round plain_nacl (\<lambda>_. ''b1'') demo_kps) 3 ?s2)"
  have a: "srv_step ?s0 (Op_submit 1) ?s1" by (rule srv_submit, rule prod.collapse [symmetric])
  have b: "srv_step ?s1 (Op_submit 2) ?s2" by (rule srv_submit, rule prod.collapse [symmetric])
  have c: "srv_step ?s2 Op_tick ?s3"
  proof (rule srv_tick)
    show "is_round (server_round plain_nacl (\<lambda>_. ''b1'') demo_kps)" unfolding is_round_def by blast
  qed (rule prod.collapse [symmetric])
  have run: "srv_run ?s0 [Op_submit 1, Op_submit 2, Op_tick] ?s3"
    using srv_run_snoc [OF srv_run_snoc [OF srv_run_snoc [OF srv_run_nil a] b] c] by simp
  show ?thesis using run server_invariant [OF run] by blast
qed

end
