(* ===== verification/Mpc_Keys.thy ===== *)
theory Mpc_Keys
  imports Committee Service_Io
begin

text \<open>
  \<open>apps/mpc-committee/src/keys.ts\<close>: the committee's key pairs in the database, secret halves encrypted
  at rest.  AES-256-GCM is the argument \<open>Gcm\<close>; the key pairs and initialisation vectors drawn at random
  are an argument too.  The world is the table \<open>mpc_committee_keys\<close>, whose primary key is the node id.
\<close>

section \<open>Encryption at rest\<close>

text \<open>The cipher returns ciphertext and tag; opening throws when the tag does not fit.\<close>

record Gcm =
  gcm_seal :: "bytes \<Rightarrow> bytes \<Rightarrow> bytes \<Rightarrow> bytes \<times> bytes"
  gcm_open :: "bytes \<Rightarrow> bytes \<Rightarrow> bytes \<Rightarrow> bytes \<Rightarrow> bytes result"

record KeyRow =
  kr_node_id :: string
  kr_encryption_pubkey :: string
  kr_encryption_secret :: string
  kr_signing_pubkey :: string
  kr_signing_secret :: string

definition loadEncryptionKey :: "env \<Rightarrow> bytes result" where
  "loadEncryptionKey e =
    (case e ''MPC_KEY_ENCRYPTION_SECRET'' of
       Some hex \<Rightarrow>
         if length hex \<noteq> 64 then Inl (Js_Error (''MPC_KEY_ENCRYPTION_SECRET must be set to a 32-byte (64 hex char) key ''
             @ ''to persist committee keys. Generate one with: openssl rand -hex 32 ''
             @ ''- and keep it out of the database (env/KMS only).''))
         else Inr (hex_decode hex)
     | None \<Rightarrow> Inl (Js_Error (''MPC_KEY_ENCRYPTION_SECRET must be set to a 32-byte (64 hex char) key ''
             @ ''to persist committee keys. Generate one with: openssl rand -hex 32 ''
             @ ''- and keep it out of the database (env/KMS only).'')))"

definition encryptSecret :: "Gcm \<Rightarrow> bytes \<Rightarrow> string \<Rightarrow> bytes \<Rightarrow> string" where
  "encryptSecret G iv plainHex key =
    (case gcm_seal G key iv (hex_decode plainHex) of
       (ciphertext, authTag) \<Rightarrow> hex_encode (iv @ authTag @ ciphertext))"

definition decryptSecret :: "Gcm \<Rightarrow> string \<Rightarrow> bytes \<Rightarrow> string result" where
  "decryptSecret G encHex key =
    (let raw = hex_decode encHex; iv = take 12 raw; authTag = take 16 (drop 12 raw); ciphertext = drop 28 raw
     in bindR (gcm_open G key iv authTag ciphertext) (\<lambda>plaintext. Inr (hex_encode plaintext)))"

definition rowToKeyPair :: "Gcm \<Rightarrow> bytes \<Rightarrow> KeyRow \<Rightarrow> CommitteeNodeKeyPair result" where
  "rowToKeyPair G encKey row =
    bindR (decryptSecret G (kr_encryption_secret row) encKey) (\<lambda>esk.
    bindR (decryptSecret G (kr_signing_secret row) encKey) (\<lambda>ssk.
    Inr \<lparr>ck_nodeId = kr_node_id row,
      ck_encryptionKeyPair = \<lparr>kp_publicKey = hex_decode (kr_encryption_pubkey row), kp_secretKey = hex_decode esk\<rparr>,
      ck_signingKeyPair = \<lparr>kp_publicKey = hex_decode (kr_signing_pubkey row), kp_secretKey = hex_decode ssk\<rparr>\<rparr>))"

definition keyPairToRow :: "Gcm \<Rightarrow> bytes \<Rightarrow> bytes \<times> bytes \<Rightarrow> CommitteeNodeKeyPair \<Rightarrow> KeyRow" where
  "keyPairToRow G encKey ivs kp =
    \<lparr>kr_node_id = ck_nodeId kp,
     kr_encryption_pubkey = hex_encode (kp_publicKey (ck_encryptionKeyPair kp)),
     kr_encryption_secret = encryptSecret G (fst ivs) (hex_encode (kp_secretKey (ck_encryptionKeyPair kp))) encKey,
     kr_signing_pubkey = hex_encode (kp_publicKey (ck_signingKeyPair kp)),
     kr_signing_secret = encryptSecret G (snd ivs) (hex_encode (kp_secretKey (ck_signingKeyPair kp))) encKey\<rparr>"

section \<open>Loading\<close>

text \<open>\<open>gen\<close> gives the key pairs and vectors drawn for a node; the insertion keeps a row that is already
  there.\<close>

type_synonym key_gen = "string \<Rightarrow> (KeyPair \<times> KeyPair) \<times> (bytes \<times> bytes)"

definition insert_key_row :: "KeyRow \<Rightarrow> KeyRow list \<Rightarrow> KeyRow list" where
  "insert_key_row row tbl = (if kr_node_id row \<in> set (map kr_node_id tbl) then tbl else tbl @ [row])"

definition fresh_key_pair :: "key_gen \<Rightarrow> string \<Rightarrow> CommitteeNodeKeyPair" where
  "fresh_key_pair gen nid =
    \<lparr>ck_nodeId = nid, ck_encryptionKeyPair = fst (fst (gen nid)), ck_signingKeyPair = snd (fst (gen nid))\<rparr>"

fun generate_missing ::
  "Gcm \<Rightarrow> bytes \<Rightarrow> key_gen \<Rightarrow> (string \<times> CommitteeNodeKeyPair) list \<Rightarrow> string list \<Rightarrow>
   CommitteeNodeKeyPair list \<Rightarrow> KeyRow list \<Rightarrow> CommitteeNodeKeyPair list \<times> KeyRow list" where
  "generate_missing G encKey gen existing [] keypairs tbl = (keypairs, tbl)"
| "generate_missing G encKey gen existing (nid # ids) keypairs tbl =
    (case map_of existing nid of
       Some kp \<Rightarrow> generate_missing G encKey gen existing ids (keypairs @ [kp]) tbl
     | None \<Rightarrow>
         (let kp = fresh_key_pair gen nid; row = keyPairToRow G encKey (snd (gen nid)) kp
          in generate_missing G encKey gen existing ids (keypairs @ [kp]) (insert_key_row row tbl)))"

definition select_keys :: "string list \<Rightarrow> KeyRow list \<Rightarrow> KeyRow list" where
  "select_keys nodeIds tbl = sort_key kr_node_id (filter (\<lambda>r. kr_node_id r \<in> set nodeIds) tbl)"

definition loadOrGenerateKeys ::
  "Gcm \<Rightarrow> env \<Rightarrow> key_gen \<Rightarrow> string list \<Rightarrow> (KeyRow list, CommitteeNodeKeyPair list) io" where
  "loadOrGenerateKeys G e gen nodeIds tbl =
    (case loadEncryptionKey e of
       Inl err \<Rightarrow> (Inl err, tbl)
     | Inr encKey \<Rightarrow>
         (let rows = select_keys nodeIds tbl
          in if length rows = length nodeIds then
               (let byId = map_of (map (\<lambda>r. (kr_node_id r, r)) rows)
                in (mapR (\<lambda>nid. case byId nid of
                      None \<Rightarrow> Inl (Type_Error ''Cannot read properties of undefined'')
                    | Some r \<Rightarrow> rowToKeyPair G encKey r) nodeIds, tbl))
             else (case mapR (\<lambda>r. bindR (rowToKeyPair G encKey r) (\<lambda>kp. Inr (kr_node_id r, kp))) rows of
                     Inl err \<Rightarrow> (Inl err, tbl)
                   | Inr existing \<Rightarrow>
                       (case generate_missing G encKey gen existing nodeIds [] tbl of
                          (keypairs, tbl') \<Rightarrow> (Inr keypairs, tbl')))))"

section \<open>Facts\<close>

text \<open>What AES-GCM promises for a key and a vector: a 16-byte tag, and opening inverts sealing.\<close>

definition gcm_correct :: "Gcm \<Rightarrow> bytes \<Rightarrow> bool" where
  "gcm_correct G key \<longleftrightarrow> (\<forall>iv p. length iv = 12 \<longrightarrow> length (snd (gcm_seal G key iv p)) = 16 \<and>
    gcm_open G key iv (snd (gcm_seal G key iv p)) (fst (gcm_seal G key iv p)) = Inr p)"

lemma decrypt_encryptSecret:
  assumes "gcm_correct G key" "length iv = 12"
  shows "decryptSecret G (encryptSecret G iv (hex_encode p) key) key = Inr (hex_encode p)"
proof -
  obtain c t where s: "gcm_seal G key iv p = (c, t)" by fastforce
  then have "length t = 16" "gcm_open G key iv t c = Inr p"
    using assms unfolding gcm_correct_def by (metis fst_conv snd_conv)+
  with s assms(2) show ?thesis by (simp add: encryptSecret_def decryptSecret_def Let_def)
qed

lemma rowToKeyPair_keyPairToRow:
  assumes "gcm_correct G key" "length (fst ivs) = 12" "length (snd ivs) = 12"
  shows "rowToKeyPair G key (keyPairToRow G key ivs kp) = Inr kp"
  using assms by (simp add: rowToKeyPair_def keyPairToRow_def decrypt_encryptSecret)


text \<open>The table holds the given key pair for a node.\<close>

definition holds_key :: "Gcm \<Rightarrow> bytes \<Rightarrow> KeyRow list \<Rightarrow> string \<Rightarrow> CommitteeNodeKeyPair \<Rightarrow> bool" where
  "holds_key G key tbl nid kp \<longleftrightarrow> (\<exists>r \<in> set tbl. kr_node_id r = nid \<and> rowToKeyPair G key r = Inr kp)"

lemma rowToKeyPair_id: "rowToKeyPair G key r = Inr kp \<Longrightarrow> ck_nodeId kp = kr_node_id r"
  by (auto simp: rowToKeyPair_def)

lemma holds_key_mono: "set tbl \<subseteq> set tbl' \<Longrightarrow> holds_key G key tbl nid kp \<Longrightarrow> holds_key G key tbl' nid kp"
  by (auto simp: holds_key_def)

lemma generate_missing_spec:
  assumes "gcm_correct G key" "\<And>nid. nid \<in> set ids \<Longrightarrow> length (fst (snd (gen nid))) = 12 \<and> length (snd (snd (gen nid))) = 12"
    and "distinct ids" "distinct (map kr_node_id tbl)"
    and "\<And>nid kp. map_of existing nid = Some kp \<Longrightarrow> holds_key G key tbl nid kp"
    and "\<And>nid. nid \<in> set ids \<Longrightarrow> map_of existing nid = None \<Longrightarrow> nid \<notin> kr_node_id ` set tbl"
    and "generate_missing G key gen existing ids kps tbl = (kps', tbl')"
  shows "\<exists>new. kps' = kps @ new \<and> list_all2 (holds_key G key tbl') ids new \<and> distinct (map kr_node_id tbl') \<and> set tbl \<subseteq> set tbl'"
  using assms
proof (induction ids arbitrary: kps tbl)
  case (Cons nid ids)
  show ?case
  proof (cases "map_of existing nid")
    case (Some kp)
    obtain new where new: "kps' = (kps @ [kp]) @ new" "list_all2 (holds_key G key tbl') ids new"
      "distinct (map kr_node_id tbl')" "set tbl \<subseteq> set tbl'"
      using Cons.IH [of tbl "kps @ [kp]"] Cons.prems Some by auto
    then show ?thesis using holds_key_mono [OF new(4) Cons.prems(5) [OF Some]] by (intro exI [of _ "kp # new"]) simp
  next
    case None
    let ?kp = "fresh_key_pair gen nid" and ?row = "keyPairToRow G key (snd (gen nid)) (fresh_key_pair gen nid)"
    have rid: "kr_node_id ?row = nid" by (simp add: keyPairToRow_def fresh_key_pair_def)
    have out: "nid \<notin> kr_node_id ` set tbl" using Cons.prems(6) None by simp
    then have ins: "insert_key_row ?row tbl = tbl @ [?row]" by (simp add: insert_key_row_def rid)
    have row: "rowToKeyPair G key ?row = Inr ?kp"
      using Cons.prems(1,2) by (intro rowToKeyPair_keyPairToRow) auto
    have "\<exists>new. kps' = (kps @ [?kp]) @ new \<and> list_all2 (holds_key G key tbl') ids new \<and>
      distinct (map kr_node_id tbl') \<and> set (tbl @ [?row]) \<subseteq> set tbl'"
    proof (rule Cons.IH)
      show "distinct (map kr_node_id (tbl @ [?row]))" using Cons.prems(4) out rid by simp
      show "holds_key G key (tbl @ [?row]) i kp" if "map_of existing i = Some kp" for i kp
        using Cons.prems(5) [OF that] by (rule holds_key_mono [rotated]) auto
      show "i \<notin> kr_node_id ` set (tbl @ [?row])" if "i \<in> set ids" "map_of existing i = None" for i
        using Cons.prems(3,6) that rid by auto
      show "generate_missing G key gen existing ids (kps @ [?kp]) (tbl @ [?row]) = (kps', tbl')"
        using Cons.prems(7) None ins by (simp add: Let_def)
    qed (use Cons.prems in auto)
    then obtain new where new: "kps' = (kps @ [?kp]) @ new" "list_all2 (holds_key G key tbl') ids new"
      "distinct (map kr_node_id tbl')" "set (tbl @ [?row]) \<subseteq> set tbl'" by blast
    then have "holds_key G key tbl' nid ?kp" using row rid by (auto simp: holds_key_def)
    with new show ?thesis by (intro exI [of _ "?kp # new"]) auto
  qed
qed simp

lemma select_keys_set: "set (select_keys ids tbl) = {r \<in> set tbl. kr_node_id r \<in> set ids}"
  by (auto simp: select_keys_def)

lemma select_keys_ids: "distinct (map kr_node_id tbl) \<Longrightarrow> distinct (map kr_node_id (select_keys ids tbl))"
proof -
  assume "distinct (map kr_node_id tbl)"
  then have "distinct (map kr_node_id (filter (\<lambda>r. kr_node_id r \<in> set ids) tbl))" by (rule distinct_map_filter)
  then show ?thesis unfolding select_keys_def by (metis mset_eq_imp_distinct_iff mset_map mset_sort)
qed

lemma lookup_row:
  assumes "distinct (map kr_node_id rows)" "r \<in> set rows"
  shows "map_of (map (\<lambda>r. (kr_node_id r, r)) rows) (kr_node_id r) = Some r"
  using assms by (intro map_of_is_SomeI) (auto simp: comp_def)

text \<open>A table that holds a key for every node is loaded, whatever is generated.\<close>

lemma load_all:
  assumes key: "loadEncryptionKey e = Inr key" and tbl: "distinct (map kr_node_id tbl)" and ids: "distinct ids"
    and holds: "list_all2 (holds_key G key tbl) ids kps"
  shows "loadOrGenerateKeys G e gen ids tbl = (Inr kps, tbl)"
proof -
  let ?rows = "select_keys ids tbl"
  have "nid \<in> kr_node_id ` set ?rows" if nid: "nid \<in> set ids" for nid
  proof -
    obtain i where "i < length ids" "nid = ids ! i" using nid by (auto simp: in_set_conv_nth)
    then obtain r where "r \<in> set tbl" "kr_node_id r = nid" using holds by (auto simp: list_all2_conv_all_nth holds_key_def)
    then show ?thesis using nid by (force simp: select_keys_set)
  qed
  then have "set ids \<subseteq> kr_node_id ` set ?rows" by blast
  moreover have "kr_node_id ` set ?rows \<subseteq> set ids" by (auto simp: select_keys_set)
  ultimately have "set (map kr_node_id ?rows) = set ids" by auto
  then have "length (map kr_node_id ?rows) = length ids"
    using select_keys_ids [OF tbl] ids by (metis distinct_card)
  then have len: "length ?rows = length ids" by simp
  have look: "(case map_of (map (\<lambda>r. (kr_node_id r, r)) ?rows) (ids ! i) of
      None \<Rightarrow> Inl (Type_Error ''Cannot read properties of undefined'') | Some r \<Rightarrow> rowToKeyPair G key r) = Inr (kps ! i)"
    if i: "i < length ids" for i
  proof -
    obtain r where r: "r \<in> set tbl" "kr_node_id r = ids ! i" "rowToKeyPair G key r = Inr (kps ! i)"
      using holds i by (auto simp: list_all2_conv_all_nth holds_key_def)
    then have "r \<in> set ?rows" using i by (auto simp: select_keys_set)
    then show ?thesis using lookup_row [OF select_keys_ids [OF tbl]] r by fastforce
  qed
  have "length kps = length ids" using holds by (simp add: list_all2_lengthD)
  then have "mapR (\<lambda>nid. case map_of (map (\<lambda>r. (kr_node_id r, r)) ?rows) nid of
      None \<Rightarrow> Inl (Type_Error ''Cannot read properties of undefined'') | Some r \<Rightarrow> rowToKeyPair G key r) ids = Inr kps"
    using look by (simp add: mapR_Inr_iff list_eq_iff_nth_eq)
  then show ?thesis using key len by (simp add: loadOrGenerateKeys_def Let_def)
qed

lemma load_result_held:
  assumes key: "loadEncryptionKey e = Inr key" and tbl: "distinct (map kr_node_id tbl)" and ids: "distinct ids"
    and gcm: "gcm_correct G key" and iv: "\<And>nid. nid \<in> set ids \<Longrightarrow> length (fst (snd (gen nid))) = 12 \<and> length (snd (snd (gen nid))) = 12"
    and run: "loadOrGenerateKeys G e gen ids tbl = (Inr kps, tbl')"
  shows "list_all2 (holds_key G key tbl') ids kps \<and> distinct (map kr_node_id tbl')"
proof (cases "length (select_keys ids tbl) = length ids")
  case True
  let ?f = "\<lambda>nid. case map_of (map (\<lambda>r. (kr_node_id r, r)) (select_keys ids tbl)) nid of
      None \<Rightarrow> Inl (Type_Error ''Cannot read properties of undefined'') | Some r \<Rightarrow> rowToKeyPair G key r"
  have m: "mapR ?f ids = Inr kps" "tbl' = tbl" using run key True by (auto simp: loadOrGenerateKeys_def Let_def)
  have "holds_key G key tbl (ids ! i) (kps ! i)" if "i < length ids" for i
  proof -
    have "?f (ids ! i) = Inr (kps ! i)" using mapR_nth [OF m(1) that] .
    then obtain r where "map_of (map (\<lambda>r. (kr_node_id r, r)) (select_keys ids tbl)) (ids ! i) = Some r" "rowToKeyPair G key r = Inr (kps ! i)"
      by (auto split: option.splits)
    moreover from this(1) have "r \<in> set tbl" "kr_node_id r = ids ! i"
      by (auto simp: select_keys_set dest!: map_of_SomeD)
    ultimately show ?thesis unfolding holds_key_def by blast
  qed
  then show ?thesis using m tbl mapR_length [OF m(1)] by (simp add: list_all2_conv_all_nth)
next
  case False
  let ?g = "\<lambda>r. bindR (rowToKeyPair G key r) (\<lambda>kp. Inr (kr_node_id r, kp))"
  obtain existing where ex: "mapR ?g (select_keys ids tbl) = Inr existing"
    "generate_missing G key gen existing ids [] tbl = (kps, tbl')"
    using run key False by (auto simp: loadOrGenerateKeys_def Let_def split: sum.splits prod.splits)
  have fst_ex: "map fst existing = map kr_node_id (select_keys ids tbl)"
  proof (rule nth_equalityI)
    show "length (map fst existing) = length (map kr_node_id (select_keys ids tbl))" using mapR_length [OF ex(1)] by simp
    fix i assume "i < length (map fst existing)"
    then show "map fst existing ! i = map kr_node_id (select_keys ids tbl) ! i"
      using mapR_nth [OF ex(1), of i] mapR_length [OF ex(1)] by (auto dest: sym)
  qed
  have "holds_key G key tbl nid kp" if kp: "map_of existing nid = Some kp" for nid kp
  proof -
    obtain i where i: "i < length existing" "existing ! i = (nid, kp)" using map_of_SomeD [OF kp] by (auto simp: in_set_conv_nth)
    have len: "length existing = length (select_keys ids tbl)" by (rule mapR_length [OF ex(1)])
    have "?g (select_keys ids tbl ! i) = Inr (nid, kp)" using mapR_nth [OF ex(1), of i] i len by simp
    moreover have "select_keys ids tbl ! i \<in> set tbl" using i len nth_mem [of i "select_keys ids tbl"] by (simp add: select_keys_set)
    ultimately show ?thesis by (auto simp: holds_key_def)
  qed
  moreover have "nid \<notin> kr_node_id ` set tbl" if "nid \<in> set ids" "map_of existing nid = None" for nid
  proof -
    have "nid \<notin> set (map fst existing)" using that(2) by (simp add: map_of_eq_None_iff)
    then show ?thesis using that(1) unfolding fst_ex by (auto simp: select_keys_set)
  qed
  ultimately show ?thesis
    using generate_missing_spec [OF gcm iv ids tbl, where existing = existing and kps = "[]" and kps' = kps and tbl' = tbl'] ex(2)
    by auto
qed

section \<open>Properties\<close>

text \<open>C21.  Committee keys survive a restart: whatever a start returned, loaded, generated or mixed, is
  one key pair per node in the order of the ids, and the next start returns the same key pairs from the
  encrypted rows and writes nothing, however its own random draws fall.\<close>

theorem keys_survive_restart:
  assumes "loadEncryptionKey e = Inr key" "gcm_correct G key" "distinct (map kr_node_id tbl)" "distinct nodeIds"
    and "\<And>nid. nid \<in> set nodeIds \<Longrightarrow> length (fst (snd (gen nid))) = 12 \<and> length (snd (snd (gen nid))) = 12"
    and "loadOrGenerateKeys G e gen nodeIds tbl = (Inr kps, tbl')"
  shows "map ck_nodeId kps = nodeIds \<and> loadOrGenerateKeys G e gen' nodeIds tbl' = (Inr kps, tbl')"
proof -
  have held: "list_all2 (holds_key G key tbl') nodeIds kps" "distinct (map kr_node_id tbl')"
    using load_result_held [OF assms(1,3,4,2,5,6)] by auto
  then have "map ck_nodeId kps = nodeIds"
    by (auto simp: list_all2_conv_all_nth list_eq_iff_nth_eq holds_key_def dest!: rowToKeyPair_id)
  with load_all [OF assms(1) held(2) assms(4) held(1)] show ?thesis by blast
qed

definition plain_gcm :: Gcm where
  "plain_gcm = \<lparr>gcm_seal = (\<lambda>key iv p. (p, replicate 16 0)), gcm_open = (\<lambda>key iv t c. Inr c)\<rparr>"

definition demo_gen :: key_gen where
  "demo_gen nid = ((\<lparr>kp_publicKey = [1], kp_secretKey = [2]\<rparr>, \<lparr>kp_publicKey = [3], kp_secretKey = [4]\<rparr>), (replicate 12 0, replicate 12 0))"

theorem keys_survive_restart_witness:
  "\<exists>kps tbl'. loadOrGenerateKeys plain_gcm (\<lambda>_. Some (replicate 64 CHR ''0'')) demo_gen [''node-1'', ''node-2''] [] = (Inr kps, tbl') \<and>
    map ck_nodeId kps = [''node-1'', ''node-2''] \<and>
    loadOrGenerateKeys plain_gcm (\<lambda>_. Some (replicate 64 CHR ''0'')) (\<lambda>_. undefined) [''node-1'', ''node-2''] tbl' = (Inr kps, tbl')"
proof -
  let ?e = "\<lambda>_. Some (replicate 64 CHR ''0'')" and ?ids = "[''node-1'', ''node-2'']"
  obtain key where key: "loadEncryptionKey ?e = Inr key" by (simp add: loadEncryptionKey_def)
  have "\<exists>kps tbl'. loadOrGenerateKeys plain_gcm ?e demo_gen ?ids [] = (Inr kps, tbl')"
    using key by (auto simp: loadOrGenerateKeys_def select_keys_def split: prod.splits)
  then obtain kps tbl' where run: "loadOrGenerateKeys plain_gcm ?e demo_gen ?ids [] = (Inr kps, tbl')" by blast
  have "gcm_correct plain_gcm key" by (simp add: gcm_correct_def plain_gcm_def)
  from keys_survive_restart [OF key this _ _ _ run] run show ?thesis by (auto simp: demo_gen_def)
qed

end
