(* ===== verification/Worker.thy ===== *)
theory Worker
  imports Job_Queue Service_Io
begin

text \<open>
  What the relayer (\<open>apps/relayer/src/worker.ts\<close>) and the prover (\<open>apps/prover/src/worker.ts\<close>) have in
  common: claim a job, process it while its status is advanced, and complete or fail it.  The world of a
  worker is the queue's tables beside an outside world.  The contract of a processing function is the
  locale \<open>worker\<close>; what one turn of a worker does to the queue is proved there once.
\<close>

section \<open>A turn of a worker\<close>

type_synonym ('w, 'a) qio = "(JobDb \<times> 'w, 'a) io"

definition onQueue :: "(JobDb \<Rightarrow> JobDb result) \<Rightarrow> ('w, unit) qio" where
  "onQueue f s = (case s of (q, w) \<Rightarrow> (case f q of Inl e \<Rightarrow> (Inl e, (q, w)) | Inr q' \<Rightarrow> (Inr (), (q', w))))"

definition onWorld :: "('w, 'a) io \<Rightarrow> ('w, 'a) qio" where
  "onWorld m s = (case s of (q, w) \<Rightarrow> (case m w of (r, w') \<Rightarrow> (r, (q, w'))))"

definition setStatusIO :: "string \<Rightarrow> string \<Rightarrow> string \<Rightarrow> ('w, unit) qio" where
  "setStatusIO jobId status detail = onQueue (setStatus jobId status (Some detail))"

definition run_worker_once ::
  "(ServiceJob \<Rightarrow> ('w, json) qio) \<Rightarrow> QueueName \<Rightarrow> string list \<Rightarrow> int \<Rightarrow> int \<Rightarrow> ('w, bool) qio" where
  "run_worker_once process queue types now later s =
    (case s of (q, w) \<Rightarrow>
      (case claimNext now queue (Some types) q of
         (None, q') \<Rightarrow> (Inr False, (q', w))
       | (Some job, q') \<Rightarrow>
           bindIO (catchIO (bindIO (process job) (\<lambda>res. onQueue (complete_job (sj_job_id job) res ''ready'')))
               (\<lambda>e. onQueue (fail_job later (sj_job_id job) (err_message e) 10)))
             (\<lambda>_. returnIO True) (q', w)))"

section \<open>Status updates of one job\<close>

inductive working :: "string \<Rightarrow> JobDb \<Rightarrow> JobDb \<Rightarrow> bool" for i where
  working_refl [intro]: "working i q q"
| working_step: "working i q q' \<Longrightarrow> \<not> claimable_status st \<Longrightarrow> setStatus i st d q' = Inr q'' \<Longrightarrow> working i q q''"

lemma working_trans: "working i q' q'' \<Longrightarrow> working i q q' \<Longrightarrow> working i q q''"
  by (induction rule: working.induct) (auto intro: working_step)

text \<open>What nothing but a claim or an insertion changes.\<close>

definition job_identity :: "ServiceJob \<Rightarrow> string \<times> string \<times> QueueName \<times> json \<times> nat \<times> nat" where
  "job_identity j = (sj_job_id j, sj_job_type j, sj_queue j, sj_payload j, sj_attempts j, sj_max_attempts j)"

definition only_job :: "string \<Rightarrow> JobDb \<Rightarrow> JobDb \<Rightarrow> bool" where
  "only_job i q q' \<longleftrightarrow> (\<forall>k. k \<noteq> i \<longrightarrow> getJob q' k = getJob q k)"

lemma only_job_trans: "only_job i q q' \<Longrightarrow> only_job i q' q'' \<Longrightarrow> only_job i q q''"
  by (simp add: only_job_def)

lemma only_job_update: "keeps_identity f \<Longrightarrow> only_job i q (update_job i f q)"
  unfolding only_job_def
proof (intro allI impI)
  fix k assume "keeps_identity f" "k \<noteq> i"
  then show "getJob (update_job i f q) k = getJob q k"
    using getJob_mem [of q k] by (cases "getJob q k") (auto simp: getJob_update)
qed

lemma job_event_update:
  assumes "keeps_identity f" "getJob q i = Some j"
  shows "\<exists>q'. job_event i st d (update_job i f q) = Inr q' \<and> getJob q' i = Some (f j) \<and> only_job i q q'"
proof -
  have g: "getJob (update_job i f q) i = Some (f j)" using assms getJob_mem [OF assms(2)] by (simp add: getJob_update)
  then obtain q' where q': "job_event i st d (update_job i f q) = Inr q'" by (auto simp: job_event_def)
  then have "only_job i q q'" using only_job_update [OF assms(1), of i q] getJob_event [OF q'] by (simp add: only_job_def)
  then show ?thesis using q' getJob_event [OF q'] g by auto
qed

lemma setStatus_run:
  "getJob q i = Some j \<Longrightarrow> \<exists>q'. setStatus i st d q = Inr q' \<and> getJob q' i = Some (j\<lparr>sj_status := st\<rparr>) \<and> only_job i q q'"
  unfolding setStatus_def by (rule job_event_update) simp_all

lemma complete_run:
  "getJob q i = Some j \<Longrightarrow> \<exists>q'. complete_job i res st q = Inr q' \<and>
    getJob q' i = Some (j\<lparr>sj_status := st, sj_result := Some res, sj_error := None\<rparr>) \<and> only_job i q q'"
  unfolding complete_job_def by (rule job_event_update) simp_all

lemma fail_run:
  assumes "getJob q i = Some j"
  shows "\<exists>q' j'. fail_job now i e b q = Inr q' \<and> getJob q' i = Some j' \<and> only_job i q q' \<and> job_identity j' = job_identity j \<and>
    sj_status j' = (if sj_attempts j \<ge> sj_max_attempts j then ''failed'' else ''failed_retry'') \<and> sj_error j' = Some (take 2000 e)"
proof (cases "sj_attempts j \<ge> sj_max_attempts j")
  case True
  let ?f = "\<lambda>x :: ServiceJob. x\<lparr>sj_status := ''failed'', sj_error := Some (take 2000 e)\<rparr>"
  from job_event_update [OF _ assms, of ?f "''failed''" "Some (take 500 e)"] True assms show ?thesis
    by (auto simp: fail_job_def job_identity_def)
next
  case False
  let ?f = "\<lambda>x :: ServiceJob. x\<lparr>sj_status := ''failed_retry'', sj_error := Some (take 2000 e), sj_available_at := now + int b\<rparr>"
  from job_event_update [OF _ assms, of ?f "''failed_retry''" "Some (take 500 e)"] False assms show ?thesis
    by (auto simp: fail_job_def job_identity_def)
qed

lemma setStatus_exists: "setStatus i st d q = Inr q' \<Longrightarrow> \<exists>j. getJob q i = Some j"
  by (auto simp: setStatus_def job_event_def getJob_update split: if_splits)

lemma working_job:
  "working i q q' \<Longrightarrow> getJob q i = Some j \<Longrightarrow> only_job i q q' \<and> (\<exists>j'. getJob q' i = Some j' \<and> job_identity j' = job_identity j)"
proof (induction rule: working.induct)
  case (working_step q q' st d q'')
  then obtain j' where j': "only_job i q q'" "getJob q' i = Some j'" "job_identity j' = job_identity j" by blast
  with setStatus_run [OF j'(2), of st d] working_step.hyps(3) show ?case
    by (auto simp: job_identity_def intro: only_job_trans)
qed (simp add: only_job_def)

lemma working_inv: "working i q q' \<Longrightarrow> queue_inv q \<Longrightarrow> queue_inv q'"
  by (induction rule: working.induct) (auto intro: queue_step_inv step_status)

section \<open>Computations that only work on one job\<close>

definition tame :: "string \<Rightarrow> ('w, 'a) qio \<Rightarrow> bool" where
  "tame i m \<longleftrightarrow> (\<forall>q w r q' w'. m (q, w) = (r, (q', w')) \<longrightarrow> working i q q')"

lemma tame_basic [intro!]: "tame i (returnIO x)" "tame i (throwIO e)" "tame i (liftIO y)" "tame i (onWorld m)"
  by (auto simp: tame_def liftIO_def onWorld_def split: prod.splits)

lemma tame_setStatus [intro!]: "\<not> claimable_status st \<Longrightarrow> tame i (setStatusIO i st d)"
  by (auto simp: tame_def setStatusIO_def onQueue_def split: sum.splits intro: working_step)

lemma tame_bind [intro!]: "tame i m \<Longrightarrow> (\<And>x. tame i (f x)) \<Longrightarrow> tame i (bindIO m f)"
  unfolding tame_def bindIO_def by (fastforce split: prod.splits sum.splits intro: working_trans)

lemma tame_catch [intro!]: "tame i m \<Longrightarrow> (\<And>e. tame i (h e)) \<Longrightarrow> tame i (catchIO m h)"
  unfolding tame_def catchIO_def by (fastforce split: prod.splits sum.splits intro: working_trans)

lemma tame_if [intro!]: "(b \<Longrightarrow> tame i m) \<Longrightarrow> (\<not> b \<Longrightarrow> tame i n) \<Longrightarrow> tame i (if b then m else n)"
  by simp

lemma onWorld_Inr: "onWorld m (q, w) = (Inr x, s') \<longleftrightarrow> (\<exists>w'. m w = (Inr x, w') \<and> s' = (q, w'))"
  by (auto simp: onWorld_def split: prod.splits)

lemma setStatusIO_run:
  assumes "getJob q i \<noteq> None"
  obtains q' where "setStatusIO i st d (q, w) = (Inr (), (q', w))" "getJob q' i \<noteq> None"
proof -
  from assms obtain j where "getJob q i = Some j" by blast
  then have "\<exists>q'. setStatusIO i st d (q, w) = (Inr (), (q', w)) \<and> getJob q' i \<noteq> None"
    using setStatus_run [of q i j st "Some d"] by (auto simp: setStatusIO_def onQueue_def)
  then show thesis using that by blast
qed

section \<open>The contract of a processing function\<close>

locale worker =
  fixes process :: "ServiceJob \<Rightarrow> ('w, json) qio" and good :: "ServiceJob \<Rightarrow> json \<Rightarrow> bool"
  assumes works: "process job (q, w) = (r, (q', w')) \<Longrightarrow> working (sj_job_id job) q q'"
    and sound: "process job s = (Inr res, s') \<Longrightarrow> good job res"
begin

text \<open>One turn: an empty queue is left alone; otherwise exactly the oldest job it may take is attempted
  once more, and ends ready with a good result, or failed, for good when its attempts are used up.\<close>

lemma turn:
  assumes inv: "queue_inv q"
    and run: "run_worker_once process queue types now later (q, w) = (r, (q', w'))"
  shows "queue_inv q' \<and>
    (r = Inr False \<and> q' = q \<and> w' = w \<and> filter (claimable now queue (Some types)) (jd_jobs q) = [] \<or>
     r = Inr True \<and> (\<exists>j j'. claimable now queue (Some types) j \<and> getJob q (sj_job_id j) = Some j \<and>
       (\<forall>k \<in> set (jd_jobs q). claimable now queue (Some types) k \<longrightarrow> sj_created_at j \<le> sj_created_at k) \<and>
       (\<forall>i. i \<noteq> sj_job_id j \<longrightarrow> getJob q' i = getJob q i) \<and> getJob q' (sj_job_id j) = Some j' \<and>
       job_identity j' = job_identity (claim_job j) \<and>
       (sj_status j' = ''ready'' \<and> (\<exists>res. sj_result j' = Some res \<and> good (claim_job j) res) \<or>
        sj_status j' = (if sj_attempts j + 1 \<ge> sj_max_attempts j then ''failed'' else ''failed_retry'') \<and> sj_error j' \<noteq> None)))"
proof -
  obtain c q1 where cl: "claimNext now queue (Some types) q = (c, q1)" by fastforce
  have inv1: "queue_inv q1" using queue_step_inv [OF step_claim [OF cl] inv] .
  from cl show ?thesis
  proof (cases rule: claimNextE)
    case none
    then show ?thesis using cl run inv by (auto simp: run_worker_once_def)
  next
    case (some j)
    let ?i = "sj_job_id j"
    have j: "getJob q ?i = Some j" using getJob_Some [OF _ some(1)] inv by (simp add: queue_inv_def)
    have j1: "getJob q1 ?i = Some (claim_job j)" "only_job ?i q q1"
      using some(4) j by (simp_all add: getJob_update only_job_update)
    have jid: "sj_job_id (claim_job j) = ?i" by (simp add: claim_job_def)
    obtain p q2 w2 where pr: "process (claim_job j) (q1, w) = (p, (q2, w2))" by (metis prod.collapse)
    have wk: "working ?i q1 q2" using works [OF pr] jid by simp
    obtain j2 where j2: "only_job ?i q q2" "getJob q2 ?i = Some j2" "job_identity j2 = job_identity (claim_job j)"
      using working_job [OF wk j1(1)] only_job_trans [OF j1(2)] by blast
    have att: "sj_attempts j2 = sj_attempts j + 1" "sj_max_attempts j2 = sj_max_attempts j"
      using j2(3) by (auto simp: job_identity_def claim_job_def)
    have inv2: "queue_inv q2" using working_inv [OF wk inv1] .
    note turn = run [unfolded run_worker_once_def, simplified, unfolded cl some(3)]
    have "\<exists>j'. r = Inr True \<and> queue_inv q' \<and> only_job ?i q2 q' \<and> getJob q' ?i = Some j' \<and> job_identity j' = job_identity j2 \<and>
      (sj_status j' = ''ready'' \<and> (\<exists>res. sj_result j' = Some res \<and> good (claim_job j) res) \<or>
       sj_status j' = (if sj_attempts j2 \<ge> sj_max_attempts j2 then ''failed'' else ''failed_retry'') \<and> sj_error j' \<noteq> None)"
    proof (cases p)
      case (Inr res)
      obtain q3 where q3: "complete_job ?i res ''ready'' q2 = Inr q3" "only_job ?i q2 q3"
        "getJob q3 ?i = Some (j2\<lparr>sj_status := ''ready'', sj_result := Some res, sj_error := None\<rparr>)"
        using complete_run [OF j2(2)] by blast
      have "queue_inv q3" using queue_step_inv [OF step_complete [OF _ q3(1)] inv2] by (simp add: claimable_status_def)
      moreover have "r = Inr True" "q' = q3"
        using turn pr Inr q3(1) jid by (auto simp: bindIO_def catchIO_def onQueue_def returnIO_def)
      moreover have "good (claim_job j) res" using sound pr Inr by blast
      ultimately show ?thesis using q3 by (auto simp: job_identity_def)
    next
      case (Inl e)
      obtain q3 j3 where q3: "fail_job later ?i (err_message e) 10 q2 = Inr q3" "getJob q3 ?i = Some j3" "only_job ?i q2 q3"
        "job_identity j3 = job_identity j2" "sj_error j3 = Some (take 2000 (err_message e))"
        "sj_status j3 = (if sj_attempts j2 \<ge> sj_max_attempts j2 then ''failed'' else ''failed_retry'')"
        using fail_run [OF j2(2)] by blast
      have "queue_inv q3" using queue_step_inv [OF step_fail [OF q3(1)] inv2] .
      moreover have "r = Inr True" "q' = q3"
        using turn pr Inl q3(1) jid by (auto simp: bindIO_def catchIO_def onQueue_def returnIO_def)
      ultimately show ?thesis using q3 by auto
    qed
    then show ?thesis using some(2,5) j j2(1,3) att unfolding only_job_def by auto
  qed
qed

end

end
