(* ===== verification/Cctp.thy ===== *)
theory Cctp
  imports Service_Io
begin

text \<open>
  \<open>packages/cctp-utils/src/index.ts\<close> and \<open>packages/cctp/src/cctp-inbound.ts\<close>: the route checks, the
  forwarding hook, unit conversion, attestation polling, the operator-driven inbound transfer, the
  validation of a user's burn transaction and the Stellar side after it.  Stellar key encoding
  (\<open>StrKey\<close>), \<open>keccak256\<close>, calldata decoding, the EVM and Iris endpoints and the proof builder are
  arguments.
\<close>

section \<open>Routes and units\<close>

definition stellarDomain :: int where "stellarDomain = 27"
definition arbitrumSepoliaDomain :: int where "arbitrumSepoliaDomain = 3"
definition stellarCctpForwarder :: string where
  "stellarCctpForwarder = ''CA66Q2WFBND6V4UEB7RD4SAXSVIWMD6RA4X3U32ELVFGXV5PJK4T4VSZ''"
definition arbitrumSepoliaUsdc :: string where
  "arbitrumSepoliaUsdc = ''0x75faf114eafb1BDbe2F0316DF893fd58CE46AA4d''"
definition arbitrumSepoliaTokenMessenger :: string where
  "arbitrumSepoliaTokenMessenger = ''0x8FE6B999Dc680CcFDD5Bf7EB0974218be2542DAA''"
definition FINALITY_THRESHOLD_FINALIZED :: int where "FINALITY_THRESHOLD_FINALIZED = 2000"
definition FINALITY_THRESHOLD_CONFIRMED :: int where "FINALITY_THRESHOLD_CONFIRMED = 1000"

text \<open>The key-encoding library.\<close>

record StrKey =
  sk_isValidContract :: "string \<Rightarrow> bool"
  sk_decodeContract :: "string \<Rightarrow> bytes"

record CctpInboundRoute =
  cr_destinationDomain :: int
  cr_mintRecipient :: string
  cr_destinationCaller :: string
  cr_forwardRecipient :: string

definition stellarContractToBytes32 :: "StrKey \<Rightarrow> string \<Rightarrow> string result" where
  "stellarContractToBytes32 K c =
    (if \<not> sk_isValidContract K c then Inl (Js_Error (''Expected Stellar contract strkey, got '' @ c))
     else Inr (''0x'' @ hex_encode (sk_decodeContract K c)))"

definition validateInboundRoute :: "StrKey \<Rightarrow> CctpInboundRoute \<Rightarrow> string \<Rightarrow> unit result" where
  "validateInboundRoute K route expectedForwarder =
    (if cr_destinationDomain route \<noteq> stellarDomain
     then Inl (Js_Error (''wrong destination domain: expected '' @ bigint_to_string stellarDomain))
     else if \<not> sk_isValidContract K (cr_mintRecipient route) then Inl (Js_Error ''mintRecipient must be a Stellar C contract'')
     else if \<not> sk_isValidContract K (cr_destinationCaller route) then Inl (Js_Error ''destinationCaller must be a Stellar C contract'')
     else if cr_mintRecipient route \<noteq> expectedForwarder then Inl (Js_Error ''mintRecipient must equal CctpForwarder'')
     else if cr_destinationCaller route \<noteq> expectedForwarder then Inl (Js_Error ''destinationCaller must equal CctpForwarder'')
     else if \<not> sk_isValidContract K (cr_forwardRecipient route)
       then Inl (Js_Error ''forwardRecipient must be the LumixProtocolVault C contract'')
     else Inr ())"

definition uint32_be :: "nat \<Rightarrow> bytes" where
  "uint32_be n = [byte_of (n div 16777216 mod 256), byte_of (n div 65536 mod 256), byte_of (n div 256 mod 256), byte_of (n mod 256)]"

definition encodeStellarForwardHook :: "StrKey \<Rightarrow> string \<Rightarrow> string result" where
  "encodeStellarForwardHook K forwardRecipient =
    (if \<not> sk_isValidContract K forwardRecipient then Inl (Js_Error ''forwardRecipient must be a Stellar C contract'')
     else let recipient = utf8_encode forwardRecipient
          in if length recipient \<ge> 4294967296 then Inl (Range_Error ''ERR_OUT_OF_RANGE'')
             else Inr (''0x'' @ hex_encode (replicate 24 0 @ replicate 4 0 @ uint32_be (length recipient) @ recipient)))"

definition usdc6ToStellar7 :: "int \<Rightarrow> int" where
  "usdc6ToStellar7 amount6 = amount6 * 10"

definition stellar7ToUsdc6 :: "int \<Rightarrow> int result" where
  "stellar7ToUsdc6 amount7 =
    (if amount7 smod 10 \<noteq> 0 then Inl (Js_Error ''Stellar 7dp amount cannot be represented exactly as CCTP 6dp'')
     else Inr (amount7 sdiv 10))"

section \<open>Attestations\<close>

text \<open>\<open>String(v)\<close> of a parsed value.\<close>

fun js_string :: "json \<Rightarrow> string" where
  "js_string JNull = ''null''"
| "js_string (JBool b) = (if b then ''true'' else ''false'')"
| "js_string (JNum n) = bigint_to_string n"
| "js_string (JStr s) = s"
| "js_string (JArr js) = js_join '','' (map (\<lambda>j. if j = JNull then [] else js_string j) js)"
| "js_string (JObj _) = ''[object Object]''"

definition js_string_opt :: "json option \<Rightarrow> string" where
  "js_string_opt v = (case v of None \<Rightarrow> ''undefined'' | Some j \<Rightarrow> js_string j)"

definition json_falsy :: "json option \<Rightarrow> bool" where
  "json_falsy v \<longleftrightarrow> v \<in> {None, Some JNull, Some (JBool False), Some (JNum 0), Some (JStr [])}"

record HttpResponse =
  hr_status :: int
  hr_text :: string
  hr_json :: "json result"

record CctpAttestation =
  att_status :: string
  att_message :: "json option"
  att_attestation :: "json option"
  att_eventNonce :: "string option"
  att_cctpVersion :: "int option"

record ('w) CctpWorld =
  cw_fetch :: "string \<Rightarrow> ('w, HttpResponse) io"
  cw_now :: "('w, int) io"
  cw_sleep :: "int \<Rightarrow> ('w, unit) io"
  cw_cli :: "'w cli"

definition strip_slash :: "string \<Rightarrow> string" where
  "strip_slash s = (if s \<noteq> [] \<and> last s = CHR ''/'' then butlast s else s)"

definition iris_url :: "string \<Rightarrow> int \<Rightarrow> string \<Rightarrow> string" where
  "iris_url apiBase sourceDomain burnTxHash =
    strip_slash apiBase @ ''/v2/messages/'' @ bigint_to_string sourceDomain @ ''?transactionHash='' @ burnTxHash"

definition first_message :: "json \<Rightarrow> json option" where
  "first_message body =
    (case json_get ''messages'' body of Some (JArr (m # _)) \<Rightarrow> if json_falsy (Some m) then None else Some m | _ \<Rightarrow> None)"

definition mk_attestation :: "json \<Rightarrow> CctpAttestation" where
  "mk_attestation msg =
    \<lparr>att_status = js_string_opt (json_get ''status'' msg),
     att_message = json_get ''message'' msg,
     att_attestation = json_get ''attestation'' msg,
     att_eventNonce = (if json_falsy (json_get ''eventNonce'' msg) then None else Some (js_string_opt (json_get ''eventNonce'' msg))),
     att_cctpVersion = (case json_get ''cctpVersion'' msg of Some (JNum n) \<Rightarrow> Some n | _ \<Rightarrow> None)\<rparr>"

definition fetchAttestationByTx ::
  "'w CctpWorld \<Rightarrow> string \<Rightarrow> int \<Rightarrow> string \<Rightarrow> ('w, CctpAttestation option) io" where
  "fetchAttestationByTx W apiBase sourceDomain burnTxHash =
    bindIO (cw_fetch W (iris_url apiBase sourceDomain burnTxHash)) (\<lambda>res.
      if hr_status res = 404 then returnIO None
      else if \<not> (200 \<le> hr_status res \<and> hr_status res < 300)
        then throwIO (Js_Error (''Iris lookup failed '' @ bigint_to_string (hr_status res) @ '': '' @ hr_text res))
      else bindIO (liftIO (hr_json res)) (\<lambda>body. returnIO (map_option mk_attestation (first_message body))))"

definition attestation_ready :: "CctpAttestation option \<Rightarrow> bool" where
  "attestation_ready att =
    (case att of
       None \<Rightarrow> False
     | Some a \<Rightarrow> att_status a = ''complete'' \<and> \<not> json_falsy (att_attestation a) \<and>
         att_attestation a \<noteq> Some (JStr ''0x'') \<and> att_attestation a \<noteq> Some (JStr ''PENDING''))"

definition timeout_error :: "int \<Rightarrow> CctpAttestation option \<Rightarrow> js_error" where
  "timeout_error elapsedMs att =
    Js_Error (''attestation timed out after '' @ bigint_to_string ((elapsedMs + 500) div 1000) @ ''s (last status: ''
      @ (case att of None \<Rightarrow> ''pending'' | Some a \<Rightarrow> att_status a) @ '')'')"

definition out_of_fuel :: js_error where
  "out_of_fuel = Range_Error ''out of fuel''"

text \<open>The polling loop of \<open>pollAttestation\<close>; the fuel bounds the number of polls and running out of it
  is an error of its own, which a clock that advances never reaches.\<close>

fun poll_loop :: "'w CctpWorld \<Rightarrow> string \<Rightarrow> int \<Rightarrow> string \<Rightarrow> int \<Rightarrow> int \<Rightarrow> nat \<Rightarrow> ('w, CctpAttestation) io" where
  "poll_loop W apiBase sdom tx start timeoutMs 0 = throwIO out_of_fuel"
| "poll_loop W apiBase sdom tx start timeoutMs (Suc n) =
    bindIO (fetchAttestationByTx W apiBase sdom tx) (\<lambda>att.
      if attestation_ready att then returnIO (the att)
      else bindIO (cw_now W) (\<lambda>t.
        if t - start > timeoutMs then bindIO (cw_now W) (\<lambda>t'. throwIO (timeout_error (t' - start) att))
        else bindIO (cw_sleep W 8000) (\<lambda>_. poll_loop W apiBase sdom tx start timeoutMs n)))"

definition poll_fuel :: nat where
  "poll_fuel = 152"

definition pollAttestation :: "'w CctpWorld \<Rightarrow> string \<Rightarrow> int \<Rightarrow> string \<Rightarrow> ('w, CctpAttestation) io" where
  "pollAttestation W apiBase sourceDomain burnTxHash =
    bindIO (cw_now W) (\<lambda>start. poll_loop W apiBase sourceDomain burnTxHash start 1200000 poll_fuel)"

section \<open>Validation of a user's burn\<close>

record EvmTx =
  tx_from :: string
  tx_to :: "string option"
  tx_data :: string

text \<open>The decoded arguments of \<open>depositForBurnWithHook\<close>.\<close>

record BurnCall =
  bc_amount :: int
  bc_destinationDomain :: int
  bc_mintRecipient :: string
  bc_burnToken :: string
  bc_destinationCaller :: string
  bc_maxFee :: int
  bc_minFinalityThreshold :: int
  bc_hookData :: string

record BurnValidation =
  bv_burnTxHash :: string
  bv_sender :: string
  bv_call :: BurnCall

record BurnExpectation =
  be_burnTxHash :: string
  be_expectedSender :: string
  be_expectedAmount6 :: int
  be_pool :: string
  be_expectedMaxFee6 :: "int option"
  be_expectedFinality :: "int option"

definition lower_char :: "char \<Rightarrow> char" where
  "lower_char c = (let k = (of_char c :: nat) in
     if (65 \<le> k \<and> k \<le> 90) \<or> (192 \<le> k \<and> k \<le> 222 \<and> k \<noteq> 215) then char_of (k + 32) else c)"

definition lower :: "string \<Rightarrow> string" where
  "lower s = map lower_char s"

definition nonempty_env :: "env \<Rightarrow> string \<Rightarrow> string option" where
  "nonempty_env e k = (case e k of Some v \<Rightarrow> if v = [] then None else Some v | None \<Rightarrow> None)"

text \<open>\<open>Number(text)\<close> of a threshold; text that is no integer is never equal to one.\<close>

definition expected_finality :: "env \<Rightarrow> BurnExpectation \<Rightarrow> int option" where
  "expected_finality e a =
    (case be_expectedFinality a of
       Some f \<Rightarrow> Some f
     | None \<Rightarrow>
         (case nonempty_env e ''EXPECTED_CCTP_FINALITY_THRESHOLD'' of
            Some s \<Rightarrow> (case BigInt s of Inr n \<Rightarrow> Some n | Inl _ \<Rightarrow> None)
          | None \<Rightarrow> Some FINALITY_THRESHOLD_CONFIRMED))"

definition validateInboundBurnTx ::
  "StrKey \<Rightarrow> (string \<Rightarrow> EvmTx option) \<Rightarrow> (string \<Rightarrow> int option) \<Rightarrow> (string \<Rightarrow> BurnCall option result) \<Rightarrow>
   env \<Rightarrow> BurnExpectation \<Rightarrow> BurnValidation result" where
  "validateInboundBurnTx K getTransaction getReceiptStatus parseTransaction e a =
    (case (getTransaction (be_burnTxHash a), getReceiptStatus (be_burnTxHash a)) of
       (Some tx, Some status) \<Rightarrow>
         bindR (guardR (status = 1) (Js_Error ''burn tx reverted'')) (\<lambda>_.
         bindR (guardR (lower (tx_from tx) = lower (be_expectedSender a)) (Js_Error ''burn sender != deposit user wallet'')) (\<lambda>_.
         bindR (guardR (lower (case tx_to tx of None \<Rightarrow> [] | Some t \<Rightarrow> t)
             = lower (env_or e ''ARB_SEPOLIA_CCTP_TOKEN_MESSENGER'' arbitrumSepoliaTokenMessenger))
           (Js_Error ''burn tx target != CCTP TokenMessenger'')) (\<lambda>_.
         bindR (case parseTransaction (tx_data tx) of
             Inl _ \<Rightarrow> Inl (Js_Error ''burn tx is not depositForBurnWithHook'')
           | Inr None \<Rightarrow> Inl (Js_Error ''could not decode burn calldata'')
           | Inr (Some d) \<Rightarrow> Inr d) (\<lambda>d.
         bindR (stellarContractToBytes32 K (env_or e ''STELLAR_CCTP_FORWARDER_CONTRACT'' stellarCctpForwarder)) (\<lambda>mint.
         bindR (encodeStellarForwardHook K (be_pool a)) (\<lambda>hook.
         bindR (guardR (bc_amount d = be_expectedAmount6 a) (Js_Error ''burn amount != deposit amount'')) (\<lambda>_.
         bindR (guardR (bc_destinationDomain d = stellarDomain) (Js_Error ''burn destination domain != Stellar'')) (\<lambda>_.
         bindR (guardR (lower (bc_mintRecipient d) = lower mint) (Js_Error ''burn mintRecipient != Stellar CCTP Forwarder'')) (\<lambda>_.
         bindR (guardR (lower (bc_burnToken d) = lower (env_or e ''ARB_SEPOLIA_USDC_ADDRESS'' arbitrumSepoliaUsdc))
           (Js_Error ''burn burnToken != expected USDC'')) (\<lambda>_.
         bindR (guardR (lower (bc_destinationCaller d) = lower mint) (Js_Error ''burn destinationCaller != Stellar CCTP Forwarder'')) (\<lambda>_.
         bindR (guardR (case be_expectedMaxFee6 a of None \<Rightarrow> True | Some f \<Rightarrow> bc_maxFee d \<le> f)
           (Js_Error ''burn maxFee exceeds prepared maxFee'')) (\<lambda>_.
         bindR (guardR (Some (bc_minFinalityThreshold d) = expected_finality e a) (Js_Error
           (''burn minFinalityThreshold '' @ bigint_to_string (bc_minFinalityThreshold d) @ '' != expected ''
             @ (case expected_finality e a of Some n \<Rightarrow> bigint_to_string n | None \<Rightarrow> ''NaN'')))) (\<lambda>_.
         bindR (guardR (lower (bc_hookData d) = lower hook) (Js_Error ''burn hookData forwardRecipient != LumixProtocolPool'')) (\<lambda>_.
         Inr \<lparr>bv_burnTxHash = be_burnTxHash a, bv_sender = tx_from tx, bv_call = d\<rparr>))))))))))))))
     | _ \<Rightarrow> Inl (Js_Error ''burn tx not found on Arbitrum''))"

section \<open>The inbound transfer\<close>

text \<open>The note opening the proof builder reads, what it is asked to bind, and what it returns.\<close>

record GeneratedCoin =
  gc_path :: string
  gc_commitmentHex :: string
  gc_commitmentDecimal :: string
  gc_value7dp :: string
  gc_assetIdField :: string

record DepositBinding =
  db_sourceDomain :: string
  db_destinationDomain :: string
  db_cctpNonceHex :: string
  db_burnTxHashHex :: string
  db_amount6dp :: string
  db_amount7dp :: string
  db_assetStrkey :: string
  db_poolStrkey :: string
  db_encryptedNotePayloadHashHex :: string
  db_policyIdHex :: string
  db_poolId :: string
  db_chainId :: string

record DepositProof =
  dp_proofHex :: string
  dp_publicHex :: string
  dp_commitmentHex :: string
  dp_locallyVerified :: bool

record InboundParams =
  ip_amount6 :: int
  ip_commitmentHex :: string
  ip_encryptedNotePayloadHashHex :: string
  ip_policyIdHex :: string
  ip_fast :: "bool option"
  ip_maxFee6 :: "int option"
  ip_targetContract :: "string option"
  ip_rootMethod :: "string option"
  ip_newRootHex :: "string option"
  ip_coin :: "GeneratedCoin option"
  ip_scratch :: "string option"
  ip_poolId :: "string option"
  ip_chainId :: "string option"
  ip_adminSecret :: "string option"

record InboundResult =
  ir_burnTxHash :: string
  ir_message :: string
  ir_attestation :: string
  ir_cctpNonceHex :: string
  ir_mintForwardTxHash :: string
  ir_vaultUsdcBefore :: int
  ir_vaultUsdcAfter :: int
  ir_receiveDepositTxHash :: string
  ir_leafIndex :: string
  ir_root :: string
  ir_amount7 :: int

record ('w) InboundWorld = "'w CctpWorld" +
  iw_balanceOf :: "('w, int) io"
  iw_allowance :: "('w, int) io"
  iw_approve :: "int \<Rightarrow> ('w, unit) io"
  iw_burn :: "BurnCall \<Rightarrow> ('w, string) io"
  iw_keccak256 :: "json option \<Rightarrow> string result"
  iw_buildDepositProof :: "GeneratedCoin \<Rightarrow> DepositBinding \<Rightarrow> string \<Rightarrow> string \<Rightarrow> ('w, DepositProof) io"

definition opt_or :: "'a option \<Rightarrow> 'a \<Rightarrow> 'a" where
  "opt_or x d = (case x of None \<Rightarrow> d | Some v \<Rightarrow> v)"

definition json_text :: "json option \<Rightarrow> string result" where
  "json_text v = (case v of Some (JStr s) \<Rightarrow> Inr s | _ \<Rightarrow> Inl (Type_Error ''startsWith is not a function''))"

definition unquote :: "string \<Rightarrow> string" where
  "unquote s = js_trim (filter (\<lambda>c. c \<noteq> CHR 0x22) s)"

definition env_opts :: "env \<Rightarrow> InvokeOpts" where
  "env_opts e = default_opts
    \<lparr>io_rpcUrl := env_or e ''STELLAR_RPC_URL'' (io_rpcUrl default_opts),
     io_passphrase := env_or e ''STELLAR_NETWORK_PASSPHRASE'' (io_passphrase default_opts)\<rparr>"

definition invoke :: "'w cli \<Rightarrow> env \<Rightarrow> string \<Rightarrow> string \<Rightarrow> string \<Rightarrow> string list \<Rightarrow> bool \<Rightarrow> ('w, SorobanInvokeResult) io" where
  "invoke cli e contractId secret method args readOnly =
    sorobanInvoke cli ((env_opts e)\<lparr>io_contractId := contractId, io_secret := secret, io_method := method,
      io_args := args, io_readOnly := readOnly\<rparr>)"

fun sacBalance_loop :: "'w cli \<Rightarrow> env \<Rightarrow> string \<Rightarrow> string \<Rightarrow> string \<Rightarrow> nat \<Rightarrow> ('w, int) io" where
  "sacBalance_loop cli e sac ofContract secret 0 = returnIO 0"
| "sacBalance_loop cli e sac ofContract secret (Suc n) =
    bindIO (invoke cli e sac secret ''balance'' [''--id'', ofContract] True) (\<lambda>res.
      let cleaned = unquote (sr_returnValue res)
      in if cleaned \<noteq> [] then liftIO (BigInt cleaned) else sacBalance_loop cli e sac ofContract secret n)"

definition sacBalance :: "'w cli \<Rightarrow> env \<Rightarrow> string \<Rightarrow> string \<Rightarrow> string \<Rightarrow> ('w, int) io" where
  "sacBalance cli e sac ofContract secret = sacBalance_loop cli e sac ofContract secret 5"

text \<open>\<open>for (i = 0; i < 10 && after <= before; i++) after = sacBalance(...)\<close>\<close>

fun await_mint :: "('w, int) io \<Rightarrow> int \<Rightarrow> nat \<Rightarrow> int \<Rightarrow> ('w, int) io" where
  "await_mint readBalance before 0 after = returnIO after"
| "await_mint readBalance before (Suc n) after =
    (if after \<le> before then bindIO readBalance (await_mint readBalance before n) else returnIO after)"

text \<open>Attestation, \<open>mint_and_forward\<close> into \<open>vault\<close>, and the balances around it.\<close>

definition mint_phase ::
  "('w, 'z) InboundWorld_scheme \<Rightarrow> env \<Rightarrow> string \<Rightarrow> string \<Rightarrow> string \<Rightarrow> string \<Rightarrow> string \<Rightarrow> string \<Rightarrow>
   ('w, string \<times> string \<times> string \<times> SorobanInvokeResult \<times> int \<times> int) io" where
  "mint_phase W e forwarder vault sac relayerSecret apiBase burnTxHash =
    bindIO (pollAttestation (CctpWorld.truncate W) apiBase arbitrumSepoliaDomain burnTxHash) (\<lambda>att.
    bindIO (liftIO (iw_keccak256 W (att_message att))) (\<lambda>nonce.
    bindIO (sacBalance (cw_cli W) e sac vault relayerSecret) (\<lambda>before.
    bindIO (liftIO (json_text (att_message att))) (\<lambda>message.
    bindIO (liftIO (json_text (att_attestation att))) (\<lambda>attestation.
    bindIO (invoke (cw_cli W) e forwarder relayerSecret ''mint_and_forward''
        [''--message'', bytesToCliHex message, ''--attestation'', bytesToCliHex attestation] False) (\<lambda>mintForward.
    bindIO (sacBalance (cw_cli W) e sac vault relayerSecret) (\<lambda>after0.
    bindIO (await_mint (sacBalance (cw_cli W) e sac vault relayerSecret) before 10 after0) (\<lambda>after.
    returnIO (nonce, message, attestation, mintForward, before, after)))))))))"

definition deposit_binding ::
  "string \<Rightarrow> string \<Rightarrow> int \<Rightarrow> int \<Rightarrow> string \<Rightarrow> string \<Rightarrow> string \<Rightarrow> string \<Rightarrow> string option \<Rightarrow> string option \<Rightarrow> DepositBinding" where
  "deposit_binding nonce burnTxHash amount6 amount7 sac pool payloadHash policyId poolId chainId =
    \<lparr>db_sourceDomain = bigint_to_string arbitrumSepoliaDomain, db_destinationDomain = bigint_to_string stellarDomain,
     db_cctpNonceHex = nonce, db_burnTxHashHex = burnTxHash, db_amount6dp = bigint_to_string amount6,
     db_amount7dp = bigint_to_string amount7, db_assetStrkey = sac, db_poolStrkey = pool,
     db_encryptedNotePayloadHashHex = payloadHash, db_policyIdHex = policyId,
     db_poolId = opt_or poolId ''1'', db_chainId = opt_or chainId ''148''\<rparr>"

definition receive_args ::
  "string \<Rightarrow> string \<Rightarrow> int \<Rightarrow> string \<Rightarrow> string list \<Rightarrow> string \<Rightarrow> string \<Rightarrow> string list \<Rightarrow> string list" where
  "receive_args nonce sac amount7 commitment rootArgs payloadHash policyId proofArgs =
    [''--source_domain'', bigint_to_string arbitrumSepoliaDomain, ''--cctp_nonce'', bytesToCliHex nonce,
     ''--asset'', sac, ''--amount'', bigint_to_string amount7, ''--commitment'', bytesToCliHex commitment]
    @ rootArgs @ [''--encrypted_note_payload_hash'', bytesToCliHex payloadHash, ''--policy_id'', bytesToCliHex policyId]
    @ proofArgs"

definition is_target :: "InboundParams \<Rightarrow> bool" where
  "is_target p \<longleftrightarrow> ip_targetContract p \<noteq> None \<and> ip_targetContract p \<noteq> Some []"

definition operator_max_fee :: "InboundParams \<Rightarrow> int" where
  "operator_max_fee p =
    (if opt_or (ip_fast p) True
     then opt_or (ip_maxFee6 p) (if ip_amount6 p sdiv 1000 > 0 then ip_amount6 p sdiv 1000 else 1) else 0)"

definition runCctpInbound :: "StrKey \<Rightarrow> 'w InboundWorld \<Rightarrow> env \<Rightarrow> InboundParams \<Rightarrow> ('w, InboundResult) io" where
  "runCctpInbound K W e p =
    (let privateKey = (case e ''ARB_SEPOLIA_PRIVATE_KEY'' of Some k \<Rightarrow> Some k | None \<Rightarrow> e ''ETH_PRIVATE_KEY'') in
    bindIO (guardIO (privateKey \<noteq> None \<and> privateKey \<noteq> Some []) ''ARB_SEPOLIA_PRIVATE_KEY/ETH_PRIVATE_KEY required'') (\<lambda>_.
    bindIO (liftIO (need_env e ''STELLAR_CCTP_FORWARDER_CONTRACT'')) (\<lambda>forwarder.
    bindIO (liftIO (case ip_targetContract p of Some c \<Rightarrow> Inr c | None \<Rightarrow> need_env e ''LUMIXPROTOCOL_VAULT_CONTRACT'')) (\<lambda>vault.
    bindIO (liftIO (need_env e ''STELLAR_TESTNET_USDC_SAC_CONTRACT'')) (\<lambda>sac.
    bindIO (liftIO (need_env e ''STELLAR_RELAYER_SECRET'')) (\<lambda>relayerSecret.
    let apiBase = env_or e ''CCTP_ATTESTATION_API_BASE'' ''https://iris-api-sandbox.circle.com'';
        usdcAddr = env_or e ''ARB_SEPOLIA_USDC_ADDRESS'' arbitrumSepoliaUsdc in
    bindIO (iw_balanceOf W) (\<lambda>bal.
    bindIO (guardIO (ip_amount6 p \<le> bal) (''insufficient USDC: have '' @ bigint_to_string bal @ '', need '' @ bigint_to_string (ip_amount6 p))) (\<lambda>_.
    bindIO (iw_allowance W) (\<lambda>allowance.
    bindIO (if allowance < ip_amount6 p then iw_approve W (ip_amount6 p * 100) else returnIO ()) (\<lambda>_.
    bindIO (liftIO (stellarContractToBytes32 K forwarder)) (\<lambda>mintRecipient.
    bindIO (liftIO (encodeStellarForwardHook K vault)) (\<lambda>hookData.
    bindIO (iw_burn W \<lparr>bc_amount = ip_amount6 p, bc_destinationDomain = stellarDomain, bc_mintRecipient = mintRecipient,
        bc_burnToken = usdcAddr, bc_destinationCaller = mintRecipient, bc_maxFee = operator_max_fee p,
        bc_minFinalityThreshold = (if opt_or (ip_fast p) True then FINALITY_THRESHOLD_CONFIRMED else FINALITY_THRESHOLD_FINALIZED),
        bc_hookData = hookData\<rparr>) (\<lambda>burnTxHash.
    bindIO (mint_phase W e forwarder vault sac relayerSecret apiBase burnTxHash) (\<lambda>(nonce, message, attestation, mintForward, before, after).
    let mintedDelta7 = after - before; expectedMax7 = usdc6ToStellar7 (ip_amount6 p) in
    bindIO (guardIO (0 < mintedDelta7 \<and> mintedDelta7 \<le> expectedMax7)
      (''vault USDC delta '' @ bigint_to_string mintedDelta7 @ '' not in (0, '' @ bigint_to_string expectedMax7 @ '']'')) (\<lambda>_.
    bindIO (if is_target p then
        (case ip_coin p of
           None \<Rightarrow> throwIO (Js_Error ''P1.8: coin (note opening) required for shielded_pool deposit proof'')
         | Some coin \<Rightarrow>
             bindIO (iw_buildDepositProof W coin
                (deposit_binding nonce burnTxHash (ip_amount6 p) mintedDelta7 sac (the (ip_targetContract p))
                  (ip_encryptedNotePayloadHashHex p) (ip_policyIdHex p) (ip_poolId p) (ip_chainId p))
                (opt_or (ip_scratch p) ''.scratch'') ''inbound'') (\<lambda>dep.
             if \<not> dp_locallyVerified dep then throwIO (Js_Error ''P1.8 deposit proof failed local verification'')
             else returnIO [''--proof_bytes'', dp_proofHex dep, ''--pub_signals_bytes'', dp_publicHex dep]))
      else returnIO []) (\<lambda>proofArgs.
    bindIO (if is_target p then
        (case ip_newRootHex p of
           None \<Rightarrow> throwIO (Js_Error ''newRootHex required for shielded_pool deposit'')
         | Some r \<Rightarrow> returnIO [''--new_root'', bytesToCliHex r])
      else returnIO []) (\<lambda>rootArgs.
    bindIO (invoke (cw_cli W) e vault (opt_or (ip_adminSecret p) relayerSecret) ''receive_cctp_deposit''
      (receive_args nonce sac mintedDelta7 (ip_commitmentHex p) rootArgs (ip_encryptedNotePayloadHashHex p) (ip_policyIdHex p) proofArgs)
      False) (\<lambda>receive.
    bindIO (liftIO (case ip_targetContract p of Some c \<Rightarrow> Inr c | None \<Rightarrow> need_env e ''COMMITMENT_TREE_CONTRACT'')) (\<lambda>rootContract.
    bindIO (invoke (cw_cli W) e rootContract relayerSecret
      (opt_or (ip_rootMethod p) (if is_target p then ''get_root'' else ''get_latest_root'')) [] True) (\<lambda>rootRes.
    returnIO \<lparr>ir_burnTxHash = burnTxHash, ir_message = message, ir_attestation = attestation, ir_cctpNonceHex = nonce,
      ir_mintForwardTxHash = sr_txHash mintForward, ir_vaultUsdcBefore = before, ir_vaultUsdcAfter = after,
      ir_receiveDepositTxHash = sr_txHash receive, ir_leafIndex = unquote (sr_returnValue receive),
      ir_root = unquote (sr_returnValue rootRes), ir_amount7 = mintedDelta7\<rparr>))))))))))))))))))))"

record PostUserBurnParams =
  pb_burnTxHash :: string
  pb_pool :: string
  pb_amount6 :: int
  pb_commitmentHex :: string
  pb_encryptedNotePayloadHashHex :: string
  pb_policyIdHex :: string
  pb_newRootHex :: string
  pb_coin :: "GeneratedCoin option"
  pb_scratch :: "string option"
  pb_poolId :: "string option"
  pb_chainId :: "string option"

definition runPostUserBurnCctpInbound :: "'w InboundWorld \<Rightarrow> env \<Rightarrow> PostUserBurnParams \<Rightarrow> ('w, InboundResult) io" where
  "runPostUserBurnCctpInbound W e p =
    (let forwarder = env_or e ''STELLAR_CCTP_FORWARDER_CONTRACT'' stellarCctpForwarder in
    bindIO (liftIO (need_env e ''STELLAR_TESTNET_USDC_SAC_CONTRACT'')) (\<lambda>sac.
    bindIO (liftIO (need_env e ''STELLAR_RELAYER_SECRET'')) (\<lambda>relayerSecret.
    let apiBase = env_or e ''CCTP_ATTESTATION_API_BASE'' ''https://iris-api-sandbox.circle.com'' in
    bindIO (mint_phase W e forwarder (pb_pool p) sac relayerSecret apiBase (pb_burnTxHash p))
      (\<lambda>(nonce, message, attestation, mintForward, before, after).
    let amount7 = after - before in
    bindIO (guardIO (0 < amount7) ''mint_and_forward produced no pool USDC delta'') (\<lambda>_.
    bindIO (case pb_coin p of
        None \<Rightarrow> throwIO (Js_Error ''coin opening required to build DepositNoteMint proof (supply via prover path)'')
      | Some coin \<Rightarrow>
          iw_buildDepositProof W coin
            (deposit_binding nonce (pb_burnTxHash p) (pb_amount6 p) amount7 sac (pb_pool p)
              (pb_encryptedNotePayloadHashHex p) (pb_policyIdHex p) (pb_poolId p) (pb_chainId p))
            (opt_or (pb_scratch p) ''.scratch'') ''userburn'') (\<lambda>dep.
    bindIO (guardIO (dp_locallyVerified dep) ''DepositNoteMint proof failed local verification'') (\<lambda>_.
    bindIO (invoke (cw_cli W) e (pb_pool p) relayerSecret ''receive_cctp_deposit''
      (receive_args nonce sac amount7 (pb_commitmentHex p) [''--new_root'', bytesToCliHex (pb_newRootHex p)]
        (pb_encryptedNotePayloadHashHex p) (pb_policyIdHex p)
        [''--proof_bytes'', dp_proofHex dep, ''--pub_signals_bytes'', dp_publicHex dep]) False) (\<lambda>receive.
    bindIO (invoke (cw_cli W) e (pb_pool p) relayerSecret ''get_root'' [] True) (\<lambda>rootRes.
    returnIO \<lparr>ir_burnTxHash = pb_burnTxHash p, ir_message = message, ir_attestation = attestation, ir_cctpNonceHex = nonce,
      ir_mintForwardTxHash = sr_txHash mintForward, ir_vaultUsdcBefore = before, ir_vaultUsdcAfter = after,
      ir_receiveDepositTxHash = sr_txHash receive, ir_leafIndex = unquote (sr_returnValue receive),
      ir_root = unquote (sr_returnValue rootRes), ir_amount7 = amount7\<rparr>)))))))))"

section \<open>Termination of the polling\<close>

text \<open>What a world with a clock provides: reading it returns it, a sleep advances it by at least its
  argument, nothing turns it back, and no answer of the endpoint is the model's own fuel error.\<close>

definition clocked :: "('w, 'z) CctpWorld_scheme \<Rightarrow> ('w \<Rightarrow> int) \<Rightarrow> bool" where
  "clocked W clk \<longleftrightarrow>
    (\<forall>w r w'. cw_now W w = (r, w') \<longrightarrow> r = Inr (clk w) \<and> clk w \<le> clk w') \<and>
    (\<forall>ms w r w'. cw_sleep W ms w = (r, w') \<longrightarrow> r = Inr () \<and> clk w + ms \<le> clk w') \<and>
    (\<forall>u w r w'. cw_fetch W u w = (r, w') \<longrightarrow> r \<noteq> Inl out_of_fuel \<and> clk w \<le> clk w' \<and>
      (case r of Inr res \<Rightarrow> hr_json res \<noteq> Inl out_of_fuel | Inl _ \<Rightarrow> True))"

lemma fetch_clocked:
  assumes "clocked W clk" "fetchAttestationByTx W apiBase d tx w = (r, w')"
  shows "r \<noteq> Inl out_of_fuel \<and> clk w \<le> clk w'"
proof -
  obtain res w1 where f: "cw_fetch W (iris_url apiBase d tx) w = (res, w1)" by fastforce
  have "res \<noteq> Inl out_of_fuel \<and> clk w \<le> clk w1 \<and>
      (case res of Inr x \<Rightarrow> hr_json x \<noteq> Inl out_of_fuel | Inl _ \<Rightarrow> True)"
    using assms(1) f unfolding clocked_def by blast
  then have c: "res \<noteq> Inl out_of_fuel" "clk w \<le> clk w1"
    and j: "\<And>x. res = Inr x \<Longrightarrow> hr_json x \<noteq> Inl out_of_fuel" by auto
  show ?thesis
  proof (cases res)
    case (Inl e)
    with assms(2) f c show ?thesis by (auto simp: fetchAttestationByTx_def bindIO_def)
  next
    case (Inr x)
    with assms(2) f c j [OF Inr] show ?thesis
      by (cases "hr_json x")
        (auto simp: fetchAttestationByTx_def bindIO_def liftIO_def out_of_fuel_def split: if_splits)
  qed
qed

lemma poll_loop_fuel:
  assumes "clocked W clk"
  shows "1 \<le> n \<Longrightarrow> n \<le> 152 \<Longrightarrow> start + 8000 * int (152 - n) \<le> clk w \<Longrightarrow>
    fst (poll_loop W apiBase d tx start 1200000 n w) \<noteq> Inl out_of_fuel"
proof (induction n arbitrary: w)
  case (Suc m)
  obtain a w1 where f: "fetchAttestationByTx W apiBase d tx w = (a, w1)" by fastforce
  note fc = fetch_clocked [OF assms f]
  show ?case
  proof (cases a)
    case (Inl e)
    with f fc show ?thesis by (simp add: bindIO_def)
  next
    case a: (Inr att)
    show ?thesis
    proof (cases "attestation_ready att")
      case False
      obtain t w2 where t: "cw_now W w1 = (t, w2)" by fastforce
      then have t': "t = Inr (clk w1)" "clk w1 \<le> clk w2" using assms unfolding clocked_def by metis+
      show ?thesis
      proof (cases "clk w1 - start > 1200000")
        case True
        obtain t2 w3 where "cw_now W w2 = (t2, w3)" by fastforce
        moreover from this have "t2 = Inr (clk w2)" using assms unfolding clocked_def by metis
        ultimately show ?thesis using True f a False t t'
          by (simp add: bindIO_def timeout_error_def out_of_fuel_def throwIO_def)
      next
        case early: False
        obtain u w3 where s: "cw_sleep W 8000 w2 = (u, w3)" by fastforce
        then have s': "u = Inr ()" "clk w2 + 8000 \<le> clk w3" using assms unfolding clocked_def by metis+
        have "m \<noteq> 0"
        proof
          assume "m = 0"
          with Suc.prems fc have "start + 8000 * 151 \<le> clk w1" by simp
          with early show False by simp
        qed
        have "8000 * int (152 - m) = 8000 * int (152 - Suc m) + 8000" using Suc.prems(2) by (simp add: of_nat_diff)
        then have "start + 8000 * int (152 - m) \<le> clk w3" using Suc.prems(3) fc t'(2) s'(2) by linarith
        then have "fst (poll_loop W apiBase d tx start 1200000 m w3) \<noteq> Inl out_of_fuel"
          using \<open>m \<noteq> 0\<close> Suc.prems(2) by (intro Suc.IH) auto
        with f a False t t' early s s' show ?thesis by (simp add: bindIO_def)
      qed
    qed (use f a in \<open>simp add: bindIO_def returnIO_def\<close>)
  qed
qed simp

section \<open>Properties\<close>

text \<open>C17.  Polling for an attestation ends: with a clock that advances by the sleeps, 152 polls always
  reach an answer, an error of the endpoint, or the twenty-minute timeout.\<close>

theorem pollAttestation_terminates:
  assumes "clocked W clk"
  shows "\<exists>r w'. pollAttestation W apiBase d tx w = (r, w') \<and> r \<noteq> Inl out_of_fuel"
proof -
  obtain t w1 where t: "cw_now W w = (t, w1)" by fastforce
  then have t': "t = Inr (clk w)" "clk w \<le> clk w1" using assms unfolding clocked_def by metis+
  have "fst (poll_loop W apiBase d tx (clk w) 1200000 152 w1) \<noteq> Inl out_of_fuel"
    using t'(2) by (intro poll_loop_fuel [OF assms]) auto
  moreover have "pollAttestation W apiBase d tx w = poll_loop W apiBase d tx (clk w) 1200000 152 w1"
    using t t' by (simp add: pollAttestation_def poll_fuel_def bindIO_def)
  ultimately show ?thesis by (metis prod.collapse)
qed

definition demo_clock_world :: "int CctpWorld" where
  "demo_clock_world =
    \<lparr>cw_fetch = (\<lambda>u w. (Inr \<lparr>hr_status = 404, hr_text = [], hr_json = Inr JNull\<rparr>, w)),
     cw_now = (\<lambda>w. (Inr w, w)), cw_sleep = (\<lambda>ms w. (Inr (), w + \<bar>ms\<bar>)),
     cw_cli = (\<lambda>a w. (\<lparr>cli_status = 0, cli_stdout = [], cli_stderr = []\<rparr>, w))\<rparr>"

theorem pollAttestation_terminates_witness:
  "\<exists>r w'. pollAttestation demo_clock_world ''https://iris'' 3 ''0xabc'' 0 = (r, w') \<and> r \<noteq> Inl out_of_fuel"
proof (rule pollAttestation_terminates [where clk = "\<lambda>w. w"])
  show "clocked demo_clock_world (\<lambda>w. w)"
    by (auto simp: clocked_def demo_clock_world_def out_of_fuel_def)
qed


definition demo_StrKey :: StrKey where
  "demo_StrKey = \<lparr>sk_isValidContract = (\<lambda>s. starts_with s ''C''), sk_decodeContract = utf8_encode\<rparr>"

definition demo_mint :: string where
  "demo_mint = ''0x'' @ hex_encode (utf8_encode ''CFWD'')"

definition demo_burn :: BurnCall where
  "demo_burn = \<lparr>bc_amount = 5000, bc_destinationDomain = 27, bc_mintRecipient = demo_mint, bc_burnToken = ''CFWD'',
    bc_destinationCaller = demo_mint, bc_maxFee = 5, bc_minFinalityThreshold = 1000,
    bc_hookData = ''0x'' @ hex_encode (replicate 24 0 @ replicate 4 0 @ uint32_be 4 @ utf8_encode ''CPOL'')\<rparr>"

definition demo_expect :: BurnExpectation where
  "demo_expect = \<lparr>be_burnTxHash = ''0xAB'', be_expectedSender = ''0xa1'', be_expectedAmount6 = 5000, be_pool = ''CPOL'',
    be_expectedMaxFee6 = Some 5, be_expectedFinality = Some 1000\<rparr>"


text \<open>A local network for one transfer: the world is the vault's balance, \<open>mint_and_forward\<close> adds 500 to it.\<close>

definition demo_chain :: "int cli" where
  "demo_chain a w =
    (if a ! 11 = ''balance'' then (\<lparr>cli_status = 0, cli_stdout = (if w = 0 then ''0'' else ''500''), cli_stderr = []\<rparr>, w)
     else (\<lparr>cli_status = 0, cli_stdout = ''1'', cli_stderr = ''tx/'' @ replicate 64 CHR ''a''\<rparr>,
       if a ! 11 = ''mint_and_forward'' then w + 500 else w))"

definition demo_inbound :: "int InboundWorld" where
  "demo_inbound =
    \<lparr>cw_fetch = (\<lambda>u w. (Inr \<lparr>hr_status = 200, hr_text = [], hr_json = Inr (JObj [(''messages'',
        JArr [JObj [(''status'', JStr ''complete''), (''message'', JStr ''0x01''), (''attestation'', JStr ''0x02'')]])])\<rparr>, w)),
     cw_now = (\<lambda>w. (Inr 0, w)), cw_sleep = (\<lambda>ms w. (Inr (), w)), cw_cli = demo_chain,
     iw_balanceOf = (\<lambda>w. (Inr 1000, w)), iw_allowance = (\<lambda>w. (Inr 0, w)), iw_approve = (\<lambda>a w. (Inr (), w)),
     iw_burn = (\<lambda>b w. (Inr ''0xbb'', w)), iw_keccak256 = (\<lambda>m. Inr ''0xcc''),
     iw_buildDepositProof = (\<lambda>c b s l w. (Inr \<lparr>dp_proofHex = ''01'', dp_publicHex = ''02'', dp_commitmentHex = ''00'', dp_locallyVerified = True\<rparr>, w))\<rparr>"

definition demo_params :: InboundParams where
  "demo_params = \<lparr>ip_amount6 = 50, ip_commitmentHex = ''c0'', ip_encryptedNotePayloadHashHex = ''e0'', ip_policyIdHex = ''d0'',
    ip_fast = None, ip_maxFee6 = None, ip_targetContract = None, ip_rootMethod = None, ip_newRootHex = None, ip_coin = None,
    ip_scratch = None, ip_poolId = None, ip_chainId = None, ip_adminSecret = None\<rparr>"

lemma demo_hash: "parseSorobanTx (''tx/'' @ replicate 64 CHR ''a'' @ CHR 0x0A # ''1'') = Some (replicate 64 CHR ''a'')"
  by code_simp

lemma demo_text:
  "parseSorobanTx (CHR 0x0A # ''0'') = None" "parseSorobanTx (CHR 0x0A # ''500'') = None"
  "js_trim ''0'' = ''0''" "js_trim ''500'' = ''500''" "js_trim ''1'' = ''1''"
  "unquote ''0'' = ''0''" "unquote ''500'' = ''500''" "BigInt ''0'' = Inr 0" "BigInt ''500'' = Inr 500"
  by code_simp+

definition demo_call_result :: "string \<Rightarrow> SorobanInvokeResult" where
  "demo_call_result k = \<lparr>sr_txHash = replicate 64 CHR ''a'', sr_returnValue = ''1'',
    sr_raw = redact (''tx/'' @ replicate 64 CHR ''a'' @ CHR 0x0A # ''1'') k\<rparr>"

lemma demo_balance:
  "invoke demo_chain e c k ''balance'' a True w =
    (Inr \<lparr>sr_txHash = [], sr_returnValue = (if w = 0 then ''0'' else ''500''),
       sr_raw = redact (CHR 0x0A # (if w = 0 then ''0'' else ''500'')) k\<rparr>, w)"
  by (simp add: invoke_def sorobanInvoke_def env_opts_def default_opts_def invoke_argv_def demo_chain_def demo_text
    Let_def numeral_eq_Suc)

lemma demo_call:
  assumes "m \<noteq> ''balance''"
  shows "invoke demo_chain e c k m a ro w =
    (Inr (demo_call_result k), if m = ''mint_and_forward'' then w + 500 else w)"
proof -
  note four = invoke_loop.simps(2) [where n = 3, unfolded Suc_numeral add_num_simps]
  show ?thesis
    using assms demo_hash
    by (simp add: invoke_def sorobanInvoke_def env_opts_def env_or_def default_opts_def invoke_argv_def demo_chain_def
        demo_text Let_def four demo_call_result_def)
qed

lemma demo_sacBalance: "sacBalance demo_chain e s v k w = (Inr (if w = 0 then 0 else 500), w)"
  by (simp add: sacBalance_def numeral_eq_Suc bindIO_def demo_balance demo_text liftIO_def Let_def)

lemma demo_poll:
  "pollAttestation (CctpWorld.truncate demo_inbound) u d t w =
    (Inr \<lparr>att_status = ''complete'', att_message = Some (JStr ''0x01''), att_attestation = Some (JStr ''0x02''),
       att_eventNonce = None, att_cctpVersion = None\<rparr>, w)"
  by (simp add: pollAttestation_def poll_fuel_def numeral_eq_Suc demo_inbound_def CctpWorld.truncate_def bindIO_def returnIO_def liftIO_def
    fetchAttestationByTx_def first_message_def mk_attestation_def json_get_def js_string_opt_def json_falsy_def attestation_ready_def)

lemma demo_world [simp]:
  "cw_cli demo_inbound = demo_chain" "iw_keccak256 demo_inbound m = Inr ''0xcc''"
  "iw_balanceOf demo_inbound w = (Inr 1000, w)" "iw_allowance demo_inbound w = (Inr 0, w)"
  "iw_approve demo_inbound a w = (Inr (), w)" "iw_burn demo_inbound b w = (Inr ''0xbb'', w)"
  "iw_buildDepositProof demo_inbound c d sc l w =
    (Inr \<lparr>dp_proofHex = ''01'', dp_publicHex = ''02'', dp_commitmentHex = ''00'', dp_locallyVerified = True\<rparr>, w)"
  by (simp_all add: demo_inbound_def)

lemma demo_mint_phase:
  "mint_phase demo_inbound e f v s k u t 0 =
    (Inr (''0xcc'', ''0x01'', ''0x02'', demo_call_result k, 0, 500), 500)"
  by (simp add: mint_phase_def bindIO_def demo_poll liftIO_def json_text_def demo_sacBalance demo_call
      numeral_eq_Suc returnIO_def)



text \<open>The transfer that follows a user's own burn has no such upper bound: with a pool balance that
  grows by more than the burn while it is being minted (another deposit, say), the note is credited with
  all of the growth.  Here a burn of one unit of \<open>10^-6\<close> USDC, which is worth 10, is deposited as 500.\<close>

definition demo_post_burn :: PostUserBurnParams where
  "demo_post_burn = \<lparr>pb_burnTxHash = ''0xbb'', pb_pool = ''CPOL'', pb_amount6 = 1, pb_commitmentHex = ''c0'',
    pb_encryptedNotePayloadHashHex = ''e0'', pb_policyIdHex = ''d0'', pb_newRootHex = ''f0'',
    pb_coin = Some \<lparr>gc_path = [], gc_commitmentHex = ''c0'', gc_commitmentDecimal = ''1'', gc_value7dp = ''500'', gc_assetIdField = ''1''\<rparr>,
    pb_scratch = None, pb_poolId = None, pb_chainId = None\<rparr>"

theorem runPostUserBurn_over_credits:
  "\<exists>r. runPostUserBurnCctpInbound demo_inbound (\<lambda>_. Some ''CFWD'') demo_post_burn 0 = (Inr r, 500) \<and>
    ir_amount7 r = 500 \<and> usdc6ToStellar7 (pb_amount6 demo_post_burn) = 10"
  by (simp add: runPostUserBurnCctpInbound_def demo_post_burn_def demo_mint_phase demo_call bindIO_def liftIO_def returnIO_def
      need_env_def env_or_def Let_def opt_or_def usdc6ToStellar7_def guardIO_def)

text \<open>Converting CCTP's six decimals to Stellar's seven and back returns the amount, and the way back
  exists only for amounts that six decimals can express, of either sign.\<close>

theorem usdc_units_roundtrip:
  "stellar7ToUsdc6 (usdc6ToStellar7 a) = Inr a \<and>
   (stellar7ToUsdc6 b = Inr a \<longleftrightarrow> b = usdc6ToStellar7 a)"
proof -
  have zero: "(a * 10) smod 10 = 0" by (simp add: signed_modulo_int_def abs_mult)
  then have quot: "(a * 10) sdiv 10 = a" using mult_sdiv_smod_eq [of 10 "a * 10"] by simp
  have "b = b sdiv 10 * 10" if "b smod 10 = 0" using that sdiv_mult_smod_eq [of b 10] by simp
  with zero quot show ?thesis by (auto simp: stellar7ToUsdc6_def usdc6ToStellar7_def)
qed

end
