(* ===== verification/Proving.thy ===== *)
theory Proving
  imports Cctp
begin

text \<open>
  \<open>packages/proving\<close> (\<open>paths.ts\<close>, \<open>prove.ts\<close>, \<open>mpc-settlement.ts\<close>, \<open>mpc-priced.ts\<close>, \<open>compliance.ts\<close>) and
  \<open>packages/assets\<close>: how the inputs of the circuits are assembled and the external programs are run.
  The programs (\<open>coinutils\<close>, \<open>snarkjs\<close>, \<open>circom2soroban\<close>), the file system, SHA-256, random bytes and
  \<open>path.resolve\<close> are the fields of \<open>Tools\<close>, over a world \<open>'w\<close>.
\<close>

section \<open>Tools\<close>

record ('w) Tools =
  tl_env :: env
  tl_cwd :: string
  tl_resolve :: "string \<Rightarrow> string \<Rightarrow> string"
  tl_execPath :: string
  tl_exec :: "string \<Rightarrow> string list \<Rightarrow> ('w, string) io"
  tl_readFile :: "string \<Rightarrow> ('w, string) io"
  tl_writeFile :: "string \<Rightarrow> string \<Rightarrow> ('w, unit) io"
  tl_rm :: "string \<Rightarrow> ('w, unit) io"
  tl_exists :: "string \<Rightarrow> ('w, bool) io"
  tl_randomBytes :: "nat \<Rightarrow> ('w, bytes) io"
  tl_sha256 :: "bytes \<Rightarrow> bytes"

text \<open>\<open>process.env.K || d\<close>: the empty text counts as absent.\<close>

definition env_true :: "'w Tools \<Rightarrow> string \<Rightarrow> string \<Rightarrow> string" where
  "env_true T k d = (case tl_env T k of Some v \<Rightarrow> if v = [] then d else v | None \<Rightarrow> d)"

definition LUMIXPROTOCOL_ROOT :: "'w Tools \<Rightarrow> string" where
  "LUMIXPROTOCOL_ROOT T = env_true T ''LUMIXPROTOCOL_ROOT'' (tl_cwd T)"
definition LUMIXPROTOCOL_SCRATCH_DIR :: "'w Tools \<Rightarrow> string" where
  "LUMIXPROTOCOL_SCRATCH_DIR T = env_true T ''LUMIXPROTOCOL_SCRATCH_DIR'' (tl_resolve T (LUMIXPROTOCOL_ROOT T) ''.scratch'')"
definition ZK_REF :: "'w Tools \<Rightarrow> string" where
  "ZK_REF T = env_true T ''LUMIXPROTOCOL_ZK_REF'' (tl_resolve T (LUMIXPROTOCOL_ROOT T) ''.zk-ref/soroban-examples/privacy-pools'')"
definition COINUTILS_BIN :: "'w Tools \<Rightarrow> string" where
  "COINUTILS_BIN T = env_true T ''COINUTILS_BIN'' (tl_resolve T (ZK_REF T) ''target/release/stellar-coinutils'')"
definition CIRCOM2SOROBAN_BIN :: "'w Tools \<Rightarrow> string" where
  "CIRCOM2SOROBAN_BIN T = env_true T ''CIRCOM2SOROBAN_BIN''
    (tl_resolve T (LUMIXPROTOCOL_ROOT T) ''tools/circom2soroban/target/release/circom2soroban'')"
definition CIRCUIT_BUILD_DIR :: "'w Tools \<Rightarrow> string" where
  "CIRCUIT_BUILD_DIR T = env_true T ''CIRCUIT_BUILD_DIR'' (tl_resolve T (LUMIXPROTOCOL_ROOT T) ''circuits'')"
definition withdrawCircuitDir :: "'w Tools \<Rightarrow> string" where
  "withdrawCircuitDir T = env_true T ''WITHDRAW_CIRCUIT_DIR'' (tl_resolve T (CIRCUIT_BUILD_DIR T) ''withdraw_public'')"
definition transferCircuitDir :: "'w Tools \<Rightarrow> string" where
  "transferCircuitDir T = env_true T ''TRANSFER_CIRCUIT_DIR'' (tl_resolve T (CIRCUIT_BUILD_DIR T) ''private_transfer'')"
definition depositCircuitDir :: "'w Tools \<Rightarrow> string" where
  "depositCircuitDir T = env_true T ''DEPOSIT_CIRCUIT_DIR'' (tl_resolve T (CIRCUIT_BUILD_DIR T) ''deposit_note_mint'')"
definition mpcSettlementCircuitDir :: "'w Tools \<Rightarrow> string" where
  "mpcSettlementCircuitDir T = env_true T ''MPC_SETTLEMENT_CIRCUIT_DIR'' (tl_resolve T (CIRCUIT_BUILD_DIR T) ''mpc_settlement'')"
definition mpcPricedSettlementCircuitDir :: "'w Tools \<Rightarrow> string" where
  "mpcPricedSettlementCircuitDir T = env_true T ''MPC_PRICED_SETTLEMENT_CIRCUIT_DIR'' (tl_resolve T (CIRCUIT_BUILD_DIR T) ''mpc_priced_settlement'')"
definition complianceDir :: "'w Tools \<Rightarrow> string" where
  "complianceDir T = env_or (tl_env T) ''COMPLIANCE_CIRCUIT_DIR'' (tl_resolve T (CIRCUIT_BUILD_DIR T) ''compliance_membership'')"

definition snarkjs :: "'w Tools \<Rightarrow> string list \<Rightarrow> ('w, string) io" where
  "snarkjs T args = tl_exec T (tl_execPath T) (tl_resolve T (LUMIXPROTOCOL_ROOT T) ''node_modules/snarkjs/cli.js'' # args)"

text \<open>\<open>`${scratch}/${tag}` + s\<close>\<close>

definition scratch_file :: "string \<Rightarrow> string \<Rightarrow> string \<Rightarrow> string" where
  "scratch_file scratch tag s = scratch @ ''/'' @ tag @ s"

definition read_json :: "'w Tools \<Rightarrow> string \<Rightarrow> ('w, json) io" where
  "read_json T path = bindIO (tl_readFile T path) (\<lambda>text. liftIO (json_parse text))"

text \<open>\<open>o.k\<close> of a value that may be \<open>undefined\<close>, and the members of an object literal whose
  \<open>undefined\<close> ones \<open>JSON.stringify\<close> drops.\<close>

definition get_member :: "string \<Rightarrow> json option \<Rightarrow> json option result" where
  "get_member k v =
    (case v of
       None \<Rightarrow> Inl (Type_Error (''Cannot read properties of undefined (reading '' @ k @ '')''))
     | Some JNull \<Rightarrow> Inl (Type_Error (''Cannot read properties of null (reading '' @ k @ '')''))
     | Some j \<Rightarrow> Inr (json_get k j))"

definition opt_member :: "string \<Rightarrow> json option \<Rightarrow> (string \<times> json) list" where
  "opt_member k v = (case v of None \<Rightarrow> [] | Some j \<Rightarrow> [(k, j)])"

definition opt_members :: "(string \<times> json option) list \<Rightarrow> json" where
  "opt_members ms = JObj (concat (map (\<lambda>(k, v). opt_member k v) ms))"

definition state_json :: "string list \<Rightarrow> string \<Rightarrow> string" where
  "state_json commitments scope = stringify (JObj [(''commitments'', JArr (map JStr commitments)), (''scope'', JStr scope)])"

section \<open>Field elements\<close>

definition bigint_to_hex :: "int \<Rightarrow> string" where
  "bigint_to_hex n = (if n < 0 then CHR ''-'' # nat_to_radix 16 (nat (- n)) else nat_to_radix 16 (nat n))"

definition hex32_of :: "int \<Rightarrow> string" where
  "hex32_of n = ''0x'' @ pad_start 64 (CHR ''0'') (bigint_to_hex n)"

definition hexRoot :: "json option \<Rightarrow> string result" where
  "hexRoot decimal = bindR (BigInt_json decimal) (\<lambda>n. Inr (hex32_of n))"

definition strip0x :: "string \<Rightarrow> string" where
  "strip0x s = (if starts_with s ''0x'' then drop 2 s else s)"

definition hex_to_decimal :: "string \<Rightarrow> string result" where
  "hex_to_decimal h = bindR (BigInt (''0x'' @ h)) (\<lambda>n. Inr (bigint_to_string n))"

definition recipient32ToField :: "string \<Rightarrow> string result" where
  "recipient32ToField hex32 = hex_to_decimal (strip0x hex32)"

definition recipientHashField :: "'w Tools \<Rightarrow> string \<Rightarrow> string result" where
  "recipientHashField T strkey = hex_to_decimal (hex_encode (take 31 (tl_sha256 T (utf8_encode strkey))))"

definition hashToField :: "string \<Rightarrow> string result" where
  "hashToField hex32 = hex_to_decimal (take 62 (strip0x hex32))"

section \<open>Assets\<close>

record AssetConfig =
  ac_symbol :: string
  ac_assetIdHex :: string
  ac_assetIdField :: string
  ac_tokenContract :: string
  ac_decimals :: int

definition assetIdField :: "'w Tools \<Rightarrow> string \<Rightarrow> string result" where
  "assetIdField T tokenContract = hex_to_decimal (hex_encode (take 31 (tl_sha256 T (utf8_encode tokenContract))))"

definition assetIdHex :: "'w Tools \<Rightarrow> string \<Rightarrow> string result" where
  "assetIdHex T tokenContract = bindR (assetIdField T tokenContract) (\<lambda>f. bindR (BigInt f) (\<lambda>field. Inr (hex32_of field)))"

definition makeAssetConfig :: "'w Tools \<Rightarrow> string \<Rightarrow> string \<Rightarrow> int \<Rightarrow> AssetConfig result" where
  "makeAssetConfig T symbol tokenContract decimals =
    bindR (assetIdField T tokenContract) (\<lambda>field. bindR (assetIdHex T tokenContract) (\<lambda>hex.
      Inr \<lparr>ac_symbol = symbol, ac_assetIdHex = hex, ac_assetIdField = field, ac_tokenContract = tokenContract, ac_decimals = decimals\<rparr>))"

definition USDC_TOKEN :: "'w Tools \<Rightarrow> string" where
  "USDC_TOKEN T = env_or (tl_env T) ''USDC_SAC_CONTRACT'' ''CBIELTK6YBZJU5UP2WWQEUCYKLPU6AUNZ2BQ4WWFEIE3USCIHMXQDAMA''"

definition XLM_TOKEN :: "'w Tools \<Rightarrow> string" where
  "XLM_TOKEN T = env_or (tl_env T) ''XLM_SAC_CONTRACT'' ''CDLZFC3SYJYDZT7K67VZ75HPJVIEUVNIXF47ZG2FB2RMQQVU2HHGCYSC''"

definition ASSETS :: "'w Tools \<Rightarrow> AssetConfig list result" where
  "ASSETS T =
    bindR (makeAssetConfig T ''USDC'' (USDC_TOKEN T) 7) (\<lambda>usdc.
    bindR (makeAssetConfig T ''XLM'' (XLM_TOKEN T) 7) (\<lambda>xlm. Inr [usdc, xlm]))"

definition assetBySymbol :: "'w Tools \<Rightarrow> string \<Rightarrow> AssetConfig result" where
  "assetBySymbol T symbol =
    bindR (ASSETS T) (\<lambda>assets. case find (\<lambda>a. ac_symbol a = symbol) assets of
        None \<Rightarrow> Inl (Js_Error (''unknown asset symbol: '' @ symbol))
      | Some cfg \<Rightarrow> Inr cfg)"

definition assetByIdHex :: "'w Tools \<Rightarrow> string \<Rightarrow> AssetConfig result" where
  "assetByIdHex T idHex =
    (let norm = (if starts_with idHex ''0x'' then lower idHex else ''0x'' @ lower idHex) in
    bindR (ASSETS T) (\<lambda>assets. case find (\<lambda>a. lower (ac_assetIdHex a) = norm) assets of
        None \<Rightarrow> Inl (Js_Error (''unknown assetId: '' @ idHex))
      | Some found \<Rightarrow> Inr found))"

section \<open>Running a circuit\<close>

text \<open>The three \<open>snarkjs\<close> calls every builder makes: witness, proof, verification, on the files it names;
  the result is the text of the verification.\<close>

definition groth16 :: "'w Tools \<Rightarrow> string \<Rightarrow> string \<Rightarrow> string \<Rightarrow> string \<Rightarrow> string \<Rightarrow> string \<Rightarrow> string \<Rightarrow> ('w, string) io" where
  "groth16 T wasm zkey vk inputPath wtns proofJson publicJson =
    bindIO (snarkjs T [''wtns'', ''calculate'', wasm, inputPath, wtns]) (\<lambda>_.
    bindIO (snarkjs T [''groth16'', ''prove'', zkey, wtns, proofJson, publicJson]) (\<lambda>_.
    snarkjs T [''groth16'', ''verify'', vk, publicJson, proofJson]))"

definition run_circuit :: "'w Tools \<Rightarrow> string \<Rightarrow> string \<Rightarrow> string \<Rightarrow> string \<Rightarrow> string \<Rightarrow> ('w, string) io" where
  "run_circuit T dir = groth16 T (dir @ ''/build/main_js/main.wasm'') (dir @ ''/output/main_final.zkey'') (dir @ ''/output/main_verification_key.json'')"

definition run_circuit_at :: "'w Tools \<Rightarrow> string \<Rightarrow> string \<Rightarrow> string \<Rightarrow> string \<Rightarrow> string \<Rightarrow> ('w, string) io" where
  "run_circuit_at T dir = groth16 T (tl_resolve T dir ''build/main_js/main.wasm'') (tl_resolve T dir ''output/main_final.zkey'')
    (tl_resolve T dir ''output/main_verification_key.json'')"

definition verified :: "string \<Rightarrow> bool" where
  "verified out = js_includes out ''OK!''"

definition to_soroban :: "'w Tools \<Rightarrow> string \<Rightarrow> string \<Rightarrow> string \<Rightarrow> ('w, string \<times> string) io" where
  "to_soroban T c2s proofJson publicJson =
    bindIO (tl_exec T c2s [''proof'', proofJson]) (\<lambda>p.
    bindIO (tl_exec T c2s [''public'', publicJson]) (\<lambda>q. returnIO (js_trim p, js_trim q)))"

section \<open>Coins\<close>

definition generateCoin :: "'w Tools \<Rightarrow> string \<Rightarrow> string \<Rightarrow> string option \<Rightarrow> ('w, GeneratedCoin) io" where
  "generateCoin T scope outPath assetId =
    bindIO (liftIO (case assetId of Some a \<Rightarrow> Inr a | None \<Rightarrow> bindR (ASSETS T) (\<lambda>as. Inr (ac_assetIdField (hd as))))) (\<lambda>asset.
    bindIO (tl_exec T (COINUTILS_BIN T) [''generate'', scope, ''-o'', outPath, ''--asset-id'', asset]) (\<lambda>_.
    bindIO (read_json T outPath) (\<lambda>file.
    bindIO (liftIO (get_member ''coin'' (Some file))) (\<lambda>coin.
    bindIO (liftIO (get_member ''commitment'' coin)) (\<lambda>commitment.
    returnIO \<lparr>gc_path = outPath, gc_commitmentHex = js_string_opt (json_get ''commitment_hex'' file), gc_commitmentDecimal = js_string_opt commitment,
      gc_value7dp = js_string_opt (json_get ''value'' (the coin)), gc_assetIdField = js_string_opt (json_get ''asset_id'' (the coin))\<rparr>)))))"

definition coin_member :: "'w Tools \<Rightarrow> string \<Rightarrow> string \<Rightarrow> ('w, json option) io" where
  "coin_member T path k =
    bindIO (read_json T path) (\<lambda>file. bindIO (liftIO (get_member ''coin'' (Some file))) (\<lambda>coin. liftIO (get_member k coin)))"

definition buildAssociationSet :: "'w Tools \<Rightarrow> GeneratedCoin \<Rightarrow> string \<Rightarrow> string \<Rightarrow> ('w, string \<times> string) io" where
  "buildAssociationSet T coin scratch tag =
    (let assocPath = scratch_file scratch tag ''_assoc.json'' in
    bindIO (coin_member T (gc_path coin) ''label'') (\<lambda>label.
    bindIO (catchIO (tl_rm T assocPath) (\<lambda>_. returnIO ())) (\<lambda>_.
    bindIO (tl_exec T (COINUTILS_BIN T) [''update-association'', assocPath, js_string_opt label]) (\<lambda>_.
    bindIO (read_json T assocPath) (\<lambda>file.
    bindIO (liftIO (get_member ''root'' (Some file))) (\<lambda>root.
    bindIO (liftIO (hexRoot root)) (\<lambda>rootHex. returnIO (assocPath, rootHex))))))))"

definition computeStateRoot ::
  "'w Tools \<Rightarrow> GeneratedCoin \<Rightarrow> string list \<Rightarrow> string \<Rightarrow> string \<Rightarrow> string \<Rightarrow> string option \<Rightarrow> ('w, string) io" where
  "computeStateRoot T coin commitments scope scratch tag assocPath =
    (let statePath = scratch_file scratch tag ''_rootstate.json''; inputPath = scratch_file scratch tag ''_rootinput.json'';
         assoc = (case assocPath of Some a \<Rightarrow> if a = [] then [] else [a] | None \<Rightarrow> []) in
    bindIO (tl_writeFile T statePath (state_json commitments scope)) (\<lambda>_.
    bindIO (tl_exec T (COINUTILS_BIN T) ([''withdraw'', gc_path coin, statePath] @ assoc @ [''-o'', inputPath])) (\<lambda>_.
    bindIO (read_json T inputPath) (\<lambda>input.
    bindIO (liftIO (get_member ''stateRoot'' (Some input))) (\<lambda>root. liftIO (hexRoot root))))))"

section \<open>Transfer, withdrawal and deposit proofs\<close>

record TransferProof =
  tp_proofHex :: string
  tp_publicHex :: string
  tp_stateRootHex :: string
  tp_associationRootHex :: string
  tp_outputCommitmentHex :: string
  tp_feePublic :: "json option"
  tp_outValue :: "json option"
  tp_locallyVerified :: bool

definition buildTransferProof ::
  "'w Tools \<Rightarrow> GeneratedCoin \<Rightarrow> string list \<Rightarrow> string \<Rightarrow> string \<Rightarrow> string \<Rightarrow> string \<Rightarrow> string option \<Rightarrow> ('w, TransferProof) io" where
  "buildTransferProof T coin commitments scope fee7dp scratch tag assocPath =
    (let statePath = scratch_file scratch tag ''_xstate.json''; witnessPath = scratch_file scratch tag ''_xfer.json'';
         proofJson = scratch_file scratch tag ''_x_proof.json''; publicJson = scratch_file scratch tag ''_x_public.json'' in
    bindIO (tl_writeFile T statePath (state_json commitments scope)) (\<lambda>_.
    bindIO (tl_exec T (COINUTILS_BIN T)
      ([''transfer'', gc_path coin, statePath, fee7dp, ''--out-scope'', scope @ ''_out'', ''-o'', witnessPath,
        ''--out-coin'', scratch_file scratch tag ''_xout.json'']
       @ (case assocPath of Some a \<Rightarrow> if a = [] then [] else [''--association-file'', a] | None \<Rightarrow> []))) (\<lambda>_.
    bindIO (read_json T witnessPath) (\<lambda>witness.
    bindIO (run_circuit T (transferCircuitDir T) witnessPath (scratch_file scratch tag ''_x.wtns'') proofJson publicJson) (\<lambda>verify.
    bindIO (to_soroban T (CIRCOM2SOROBAN_BIN T) proofJson publicJson) (\<lambda>(proofHex, publicHex).
    bindIO (liftIO (bindR (get_member ''stateRoot'' (Some witness)) hexRoot)) (\<lambda>stateRoot.
    bindIO (liftIO (hexRoot (json_get ''associationRoot'' witness))) (\<lambda>associationRoot.
    bindIO (liftIO (hexRoot (json_get ''outputCommitment'' witness))) (\<lambda>outputCommitment.
    returnIO \<lparr>tp_proofHex = proofHex, tp_publicHex = publicHex, tp_stateRootHex = stateRoot, tp_associationRootHex = associationRoot,
      tp_outputCommitmentHex = outputCommitment, tp_feePublic = json_get ''feePublic'' witness, tp_outValue = json_get ''outValue'' witness,
      tp_locallyVerified = verified verify\<rparr>)))))))))"

record NoteProof =
  np_proofHex :: string
  np_publicHex :: string
  np_stateRootHex :: string
  np_locallyVerified :: bool

record WithdrawBinding =
  wb_operationType :: string
  wb_recipientHash :: string
  wb_relayerFee :: string
  wb_deadlineLedger :: string
  wb_quoteHash :: "string option"
  wb_intentHash :: "string option"
  wb_fillReceiptHash :: "string option"
  wb_destinationDomain :: "string option"
  wb_destinationRecipient :: "string option"
  wb_maxFee :: "string option"
  wb_minFinalityThreshold :: "string option"

definition default_binding :: WithdrawBinding where
  "default_binding = \<lparr>wb_operationType = ''1'', wb_recipientHash = ''0'', wb_relayerFee = ''0'', wb_deadlineLedger = ''0'',
    wb_quoteHash = None, wb_intentHash = None, wb_fillReceiptHash = None, wb_destinationDomain = None,
    wb_destinationRecipient = None, wb_maxFee = None, wb_minFinalityThreshold = None\<rparr>"

definition withdraw_args :: "WithdrawBinding \<Rightarrow> string list" where
  "withdraw_args b =
    [''--operation-type'', wb_operationType b, ''--recipient-hash'', wb_recipientHash b, ''--relayer-fee'', wb_relayerFee b,
     ''--deadline-ledger'', wb_deadlineLedger b, ''--quote-hash'', opt_or (wb_quoteHash b) ''0'', ''--intent-hash'', opt_or (wb_intentHash b) ''0'',
     ''--fill-receipt-hash'', opt_or (wb_fillReceiptHash b) ''0'', ''--destination-domain'', opt_or (wb_destinationDomain b) ''0'',
     ''--destination-recipient'', opt_or (wb_destinationRecipient b) ''0'', ''--max-fee'', opt_or (wb_maxFee b) ''0'',
     ''--min-finality-threshold'', opt_or (wb_minFinalityThreshold b) ''0'']"

definition buildNoteProof ::
  "'w Tools \<Rightarrow> GeneratedCoin \<Rightarrow> string list \<Rightarrow> string \<Rightarrow> string \<Rightarrow> string \<Rightarrow> string \<Rightarrow> WithdrawBinding option \<Rightarrow> ('w, NoteProof) io" where
  "buildNoteProof T coin commitments scope scratch tag assocPath binding =
    (let b = opt_or binding default_binding; statePath = scratch_file scratch tag ''_state.json''; inputPath = scratch_file scratch tag ''_input.json'';
         proofJson = scratch_file scratch tag ''_proof.json''; publicJson = scratch_file scratch tag ''_public.json'' in
    bindIO (tl_writeFile T statePath (state_json commitments scope)) (\<lambda>_.
    bindIO (tl_exec T (COINUTILS_BIN T) ([''withdraw'', gc_path coin, statePath, assocPath, ''-o'', inputPath] @ withdraw_args b)) (\<lambda>_.
    bindIO (read_json T inputPath) (\<lambda>input.
    bindIO (liftIO (bindR (get_member ''stateRoot'' (Some input)) hexRoot)) (\<lambda>stateRoot.
    bindIO (run_circuit T (withdrawCircuitDir T) inputPath (scratch_file scratch tag ''_witness.wtns'') proofJson publicJson) (\<lambda>verify.
    bindIO (to_soroban T (CIRCOM2SOROBAN_BIN T) proofJson publicJson) (\<lambda>(proofHex, publicHex).
    returnIO \<lparr>np_proofHex = proofHex, np_publicHex = publicHex, np_stateRootHex = stateRoot, np_locallyVerified = verified verify\<rparr>)))))))"

text \<open>The inputs of the deposit circuit: the CCTP message and the note's opening.\<close>

definition deposit_input :: "'w Tools \<Rightarrow> json option \<Rightarrow> DepositBinding \<Rightarrow> json result" where
  "deposit_input T opening b =
    bindR (hashToField (db_cctpNonceHex b)) (\<lambda>nonce.
    bindR (hashToField (hex_encode (tl_sha256 T (utf8_encode (db_burnTxHashHex b))))) (\<lambda>burn.
    bindR (recipientHashField T (db_assetStrkey b)) (\<lambda>asset.
    bindR (recipientHashField T (db_poolStrkey b)) (\<lambda>pool.
    bindR (hashToField (db_encryptedNotePayloadHashHex b)) (\<lambda>note_hash.
    bindR (hashToField (db_policyIdHex b)) (\<lambda>policy.
    bindR (get_member ''value'' opening) (\<lambda>val.
    Inr (opt_members [(''operationType'', Some (JStr ''4'')), (''sourceDomain'', Some (JStr (db_sourceDomain b))),
      (''destinationDomain'', Some (JStr (db_destinationDomain b))), (''cctpNonceHash'', Some (JStr nonce)), (''burnTxHashHash'', Some (JStr burn)),
      (''amount6dp'', Some (JStr (db_amount6dp b))), (''amount7dp'', Some (JStr (db_amount7dp b))), (''assetIdHash'', Some (JStr asset)),
      (''recipientPool'', Some (JStr pool)), (''encryptedNotePayloadHash'', Some (JStr note_hash)), (''policyIdHash'', Some (JStr policy)),
      (''poolId'', Some (JStr (db_poolId b))), (''chainId'', Some (JStr (db_chainId b))), (''value'', val), (''label'', json_get ''label'' (the opening)),
      (''nullifier'', json_get ''nullifier'' (the opening)), (''secret'', json_get ''secret'' (the opening))]))))))))"

definition buildDepositProof :: "'w Tools \<Rightarrow> GeneratedCoin \<Rightarrow> DepositBinding \<Rightarrow> string \<Rightarrow> string \<Rightarrow> ('w, DepositProof) io" where
  "buildDepositProof T coin b scratch tag =
    (let inputPath = scratch_file scratch tag ''_dep_input.json''; proofJson = scratch_file scratch tag ''_dep_proof.json'';
         publicJson = scratch_file scratch tag ''_dep_public.json'' in
    bindIO (read_json T (gc_path coin)) (\<lambda>file.
    bindIO (liftIO (get_member ''coin'' (Some file))) (\<lambda>opening.
    bindIO (liftIO (deposit_input T opening b)) (\<lambda>input.
    bindIO (tl_writeFile T inputPath (stringify input)) (\<lambda>_.
    bindIO (run_circuit T (depositCircuitDir T) inputPath (scratch_file scratch tag ''_dep.wtns'') proofJson publicJson) (\<lambda>verify.
    bindIO (to_soroban T (CIRCOM2SOROBAN_BIN T) proofJson publicJson) (\<lambda>(proofHex, publicHex).
    returnIO \<lparr>dp_proofHex = proofHex, dp_publicHex = publicHex, dp_commitmentHex = gc_commitmentHex coin,
      dp_locallyVerified = verified verify\<rparr>)))))))"

section \<open>Committee settlement proofs\<close>

record MpcSettlementParams =
  mp_coinA :: GeneratedCoin
  mp_coinB :: GeneratedCoin
  mp_commitmentsDecimal :: "string list"
  mp_assocPath :: string
  mp_scope :: string
  mp_batchHashHex :: string
  mp_poolId :: string
  mp_chainId :: string
  mp_matchedAmount7dp :: string
  mp_deadlineLedger :: string
  mp_scratch :: string
  mp_tag :: string

record NotePreimage =
  pi_value :: "json option"
  pi_label :: "json option"
  pi_nullifier :: "json option"
  pi_secret :: "json option"

record MpcSettlementProof =
  mq_proofHex :: string
  mq_publicHex :: string
  mq_nullifierHashAHex :: string
  mq_nullifierHashBHex :: string
  mq_outputCommitmentAHex :: string
  mq_outputCommitmentBHex :: string
  mq_outPreimageA :: NotePreimage
  mq_outPreimageB :: NotePreimage
  mq_locallyVerified :: bool

definition has_artifacts :: "'w Tools \<Rightarrow> string \<Rightarrow> string list \<Rightarrow> ('w, bool) io" where
  "has_artifacts T d files =
    foldr (\<lambda>f rest. bindIO (tl_exists T (tl_resolve T d f)) (\<lambda>b. if b then rest else returnIO False)) files (returnIO True)"

definition circuit_files :: "string list" where
  "circuit_files = [''build/main_js/main.wasm'', ''output/main_final.zkey'', ''output/main_verification_key.json'']"

definition hasMpcSettlementArtifacts :: "'w Tools \<Rightarrow> ('w, bool) io" where
  "hasMpcSettlementArtifacts T = has_artifacts T (mpcSettlementCircuitDir T) circuit_files"

definition MpcCircuitNotBuiltError :: js_error where
  "MpcCircuitNotBuiltError = Js_Error ''mpc_settlement circuit not compiled yet. Run: bash circuits/mpc_settlement/build.sh''"

definition BN254_P :: int where
  "BN254_P = 21888242871839275222246405745257275088548364400416034343698204186575808495617"

definition randField :: "'w Tools \<Rightarrow> ('w, string) io" where
  "randField T = bindIO (tl_randomBytes T 31) (\<lambda>bs.
    bindIO (liftIO (BigInt (''0x'' @ hex_encode bs))) (\<lambda>n. returnIO (bigint_to_string (n smod BN254_P))))"

definition readCoinPreimage :: "'w Tools \<Rightarrow> GeneratedCoin \<Rightarrow> ('w, NotePreimage) io" where
  "readCoinPreimage T coin =
    bindIO (read_json T (gc_path coin)) (\<lambda>raw.
    bindIO (liftIO (get_member ''coin'' (Some raw))) (\<lambda>c.
    bindIO (liftIO (get_member ''value'' c)) (\<lambda>val.
    returnIO \<lparr>pi_value = val, pi_label = json_get ''label'' (the c), pi_nullifier = json_get ''nullifier'' (the c), pi_secret = json_get ''secret'' (the c)\<rparr>)))"

definition fresh_preimage :: "'w Tools \<Rightarrow> string \<Rightarrow> ('w, NotePreimage) io" where
  "fresh_preimage T amount =
    bindIO (randField T) (\<lambda>label. bindIO (randField T) (\<lambda>nullifier. bindIO (randField T) (\<lambda>secret.
    returnIO \<lparr>pi_value = Some (JStr amount), pi_label = Some (JStr label), pi_nullifier = Some (JStr nullifier), pi_secret = Some (JStr secret)\<rparr>)))"

definition dummyBindArgs :: "string \<Rightarrow> string list" where
  "dummyBindArgs operationType = withdraw_args (default_binding\<lparr>wb_operationType := operationType\<rparr>)"

definition merkle_paths :: "string \<Rightarrow> json \<Rightarrow> (string \<times> json option) list" where
  "merkle_paths side w = [(''stateIndex'' @ side, json_get ''stateIndex'' w), (''stateSiblings'' @ side, json_get ''stateSiblings'' w),
    (''labelIndex'' @ side, json_get ''labelIndex'' w), (''labelSiblings'' @ side, json_get ''labelSiblings'' w)]"

definition settlement_witness :: "MpcSettlementParams \<Rightarrow> string \<Rightarrow> json \<Rightarrow> json \<Rightarrow> NotePreimage \<Rightarrow> NotePreimage \<Rightarrow> NotePreimage \<Rightarrow> NotePreimage \<Rightarrow> json" where
  "settlement_witness p batch wA wB preA preB outA outB = opt_members (
    [(''stateRoot'', json_get ''stateRoot'' wA), (''associationRoot'', json_get ''associationRoot'' wA), (''batchHash'', Some (JStr batch)),
     (''poolId'', Some (JStr (mp_poolId p))), (''chainId'', Some (JStr (mp_chainId p))), (''matchedAmount7dp'', Some (JStr (mp_matchedAmount7dp p))),
     (''deadlineLedger'', Some (JStr (mp_deadlineLedger p))), (''assetId'', Some (JStr (gc_assetIdField (mp_coinA p)))),
     (''labelA'', pi_label preA), (''valueA'', pi_value preA), (''nullifierA'', pi_nullifier preA), (''secretA'', pi_secret preA)]
    @ merkle_paths ''A'' wA
    @ [(''outValueA'', pi_value outA), (''outLabelA'', pi_label outA), (''outNullifierA'', pi_nullifier outA), (''outSecretA'', pi_secret outA),
     (''labelB'', pi_label preB), (''valueB'', pi_value preB), (''nullifierB'', pi_nullifier preB), (''secretB'', pi_secret preB)]
    @ merkle_paths ''B'' wB
    @ [(''outValueB'', pi_value outB), (''outLabelB'', pi_label outB), (''outNullifierB'', pi_nullifier outB), (''outSecretB'', pi_secret outB)])"

definition buildMpcSettlementWitness :: "'w Tools \<Rightarrow> MpcSettlementParams \<Rightarrow> ('w, json \<times> NotePreimage \<times> NotePreimage) io" where
  "buildMpcSettlementWitness T p =
    (let file = scratch_file (mp_scratch p) (mp_tag p); statePath = file ''_mpc_state.json'';
         inputPathA = file ''_mpc_coinA_withdraw.json''; inputPathB = file ''_mpc_coinB_withdraw.json'' in
    bindIO (tl_writeFile T statePath (state_json (mp_commitmentsDecimal p) (mp_scope p))) (\<lambda>_.
    bindIO (tl_exec T (COINUTILS_BIN T) ([''withdraw'', gc_path (mp_coinA p), statePath, mp_assocPath p, ''-o'', inputPathA] @ dummyBindArgs ''1'')) (\<lambda>_.
    bindIO (tl_exec T (COINUTILS_BIN T) ([''withdraw'', gc_path (mp_coinB p), statePath, mp_assocPath p, ''-o'', inputPathB] @ dummyBindArgs ''1'')) (\<lambda>_.
    bindIO (read_json T inputPathA) (\<lambda>wA.
    bindIO (read_json T inputPathB) (\<lambda>wB.
    if gc_assetIdField (mp_coinA p) = [] \<or> gc_assetIdField (mp_coinA p) \<noteq> gc_assetIdField (mp_coinB p)
    then throwIO (Js_Error ''mpc_settlement is same-asset only: coinA and coinB must share one assetId'')
    else bindIO (readCoinPreimage T (mp_coinA p)) (\<lambda>preA.
    bindIO (readCoinPreimage T (mp_coinB p)) (\<lambda>preB.
    bindIO (fresh_preimage T (mp_matchedAmount7dp p)) (\<lambda>outA.
    bindIO (fresh_preimage T (mp_matchedAmount7dp p)) (\<lambda>outB.
    bindIO (liftIO (get_member ''stateRoot'' (Some wA))) (\<lambda>_.
    bindIO (liftIO (hashToField (mp_batchHashHex p))) (\<lambda>batch.
    bindIO (liftIO (get_member ''stateIndex'' (Some wB))) (\<lambda>_.
    returnIO (settlement_witness p batch wA wB preA preB outA outB, outA, outB))))))))))))))"

definition json_index :: "nat \<Rightarrow> json \<Rightarrow> json option" where
  "json_index i j = (case j of JArr js \<Rightarrow> if i < length js then Some (js ! i) else None | _ \<Rightarrow> None)"

definition public_outputs :: "json \<Rightarrow> string list result" where
  "public_outputs pub = mapR (\<lambda>i. hexRoot (json_index i pub)) [0, 1, 2, 3]"

definition buildMpcSettlementProof :: "'w Tools \<Rightarrow> MpcSettlementParams \<Rightarrow> ('w, MpcSettlementProof) io" where
  "buildMpcSettlementProof T p =
    (let file = scratch_file (mp_scratch p) (mp_tag p); inputPath = file ''_mpc_witness.json''; proofJson = file ''_mpc_proof.json'';
         publicJson = file ''_mpc_public.json'' in
    bindIO (hasMpcSettlementArtifacts T) (\<lambda>built.
    if \<not> built then throwIO MpcCircuitNotBuiltError
    else bindIO (buildMpcSettlementWitness T p) (\<lambda>(witnessJson, outA, outB).
    bindIO (tl_writeFile T inputPath (stringify witnessJson)) (\<lambda>_.
    bindIO (run_circuit_at T (mpcSettlementCircuitDir T) inputPath (file ''_mpc.wtns'') proofJson publicJson) (\<lambda>verifyOut.
    bindIO (read_json T publicJson) (\<lambda>pub.
    bindIO (to_soroban T (CIRCOM2SOROBAN_BIN T) proofJson publicJson) (\<lambda>(proofHex, publicHex).
    bindIO (liftIO (public_outputs pub)) (\<lambda>outs.
    returnIO \<lparr>mq_proofHex = proofHex, mq_publicHex = publicHex, mq_nullifierHashAHex = outs ! 0, mq_nullifierHashBHex = outs ! 1,
      mq_outputCommitmentAHex = outs ! 2, mq_outputCommitmentBHex = outs ! 3, mq_outPreimageA = outA, mq_outPreimageB = outB,
      mq_locallyVerified = verified verifyOut\<rparr>))))))))"

section \<open>Priced settlement proofs\<close>

record PricedParams =
  pp_coinX :: GeneratedCoin
  pp_coinY :: GeneratedCoin
  pp_commitmentsDecimal :: "string list"
  pp_assocPath :: string
  pp_scope :: string
  pp_batchHashHex :: string
  pp_poolId :: string
  pp_chainId :: string
  pp_priceScaled :: string
  pp_minOutputA :: string
  pp_minOutputB :: string
  pp_deadlineLedger :: string
  pp_scratch :: string
  pp_tag :: string

record PricedProof =
  pq_proofHex :: string
  pq_publicHex :: string
  pq_locallyVerified :: bool
  pq_witnessJson :: json
  pq_nullifierHashAHex :: string
  pq_nullifierHashBHex :: string
  pq_outputCommitmentAHex :: string
  pq_outputCommitmentBHex :: string

definition hasMpcPricedArtifacts :: "'w Tools \<Rightarrow> ('w, bool) io" where
  "hasMpcPricedArtifacts T = has_artifacts T (mpcPricedSettlementCircuitDir T) circuit_files"

definition readOpening :: "'w Tools \<Rightarrow> GeneratedCoin \<Rightarrow> ('w, json) io" where
  "readOpening T coin =
    bindIO (read_json T (gc_path coin)) (\<lambda>file.
    bindIO (liftIO (get_member ''coin'' (Some file))) (\<lambda>c.
    bindIO (liftIO (get_member ''value'' c)) (\<lambda>_. returnIO (the c))))"

text \<open>The amounts of the trade: what \<open>coinX\<close> holds, and its price in the other asset, which \<open>coinY\<close> must
  hold exactly.\<close>

definition priced_amounts :: "json \<Rightarrow> json \<Rightarrow> string \<Rightarrow> (int \<times> int) result" where
  "priced_amounts preX preY price =
    bindR (BigInt_json (json_get ''value'' preX)) (\<lambda>matchedA.
    bindR (BigInt price) (\<lambda>priceScaled.
    let matchedB = (matchedA * priceScaled) sdiv 1000000000 in
    if json_get ''value'' preY \<noteq> Some (JStr (bigint_to_string matchedB))
    then Inl (Js_Error (''priced witness: coinY value '' @ js_string_opt (json_get ''value'' preY) @ '' != floor(matchedA*price/1e9)=''
      @ bigint_to_string matchedB @ '' (choose notes/price so they match)''))
    else Inr (matchedA, matchedB)))"

definition priced_witness :: "PricedParams \<Rightarrow> string \<Rightarrow> json \<Rightarrow> json \<Rightarrow> json \<Rightarrow> json \<Rightarrow> int \<Rightarrow> int \<Rightarrow> string list \<Rightarrow> json" where
  "priced_witness p batch wX wY preX preY matchedA matchedB rands = opt_members (
    [(''stateRoot'', json_get ''stateRoot'' wX), (''associationRoot'', json_get ''associationRoot'' wX), (''batchHash'', Some (JStr batch)),
     (''poolId'', Some (JStr (pp_poolId p))), (''chainId'', Some (JStr (pp_chainId p))), (''deadlineLedger'', Some (JStr (pp_deadlineLedger p))),
     (''inputAssetA'', json_get ''asset_id'' preX), (''outputAssetA'', json_get ''asset_id'' preY), (''inputAssetB'', json_get ''asset_id'' preY),
     (''outputAssetB'', json_get ''asset_id'' preX), (''matchedAmountA'', Some (JStr (bigint_to_string matchedA))),
     (''matchedAmountB'', Some (JStr (bigint_to_string matchedB))), (''priceScaled'', Some (JStr (pp_priceScaled p))),
     (''priceScale'', Some (JStr ''1000000000'')), (''minOutputA'', Some (JStr (pp_minOutputA p))), (''minOutputB'', Some (JStr (pp_minOutputB p))),
     (''labelA'', json_get ''label'' preX), (''nullifierA'', json_get ''nullifier'' preX), (''secretA'', json_get ''secret'' preX)]
    @ merkle_paths ''A'' wX
    @ [(''labelB'', json_get ''label'' preY), (''nullifierB'', json_get ''nullifier'' preY), (''secretB'', json_get ''secret'' preY)]
    @ merkle_paths ''B'' wY
    @ zip [''outLabelA'', ''outNullifierA'', ''outSecretA'', ''outLabelB'', ''outNullifierB'', ''outSecretB''] (map (Some \<circ> JStr) rands))"

fun repeatIO :: "nat \<Rightarrow> ('w, 'a) io \<Rightarrow> ('w, 'a list) io" where
  "repeatIO 0 m = returnIO []"
| "repeatIO (Suc n) m = bindIO m (\<lambda>x. bindIO (repeatIO n m) (\<lambda>xs. returnIO (x # xs)))"

definition buildMpcPricedWitness :: "'w Tools \<Rightarrow> PricedParams \<Rightarrow> ('w, json) io" where
  "buildMpcPricedWitness T p =
    (let file = scratch_file (pp_scratch p) (pp_tag p); statePath = file ''_priced_state.json'';
         inA = file ''_priced_wX.json''; inB = file ''_priced_wY.json'' in
    bindIO (tl_writeFile T statePath (state_json (pp_commitmentsDecimal p) (pp_scope p))) (\<lambda>_.
    bindIO (tl_exec T (COINUTILS_BIN T) ([''withdraw'', gc_path (pp_coinX p), statePath, pp_assocPath p, ''-o'', inA] @ dummyBindArgs ''0'')) (\<lambda>_.
    bindIO (tl_exec T (COINUTILS_BIN T) ([''withdraw'', gc_path (pp_coinY p), statePath, pp_assocPath p, ''-o'', inB] @ dummyBindArgs ''0'')) (\<lambda>_.
    bindIO (read_json T inA) (\<lambda>wX.
    bindIO (read_json T inB) (\<lambda>wY.
    bindIO (readOpening T (pp_coinX p)) (\<lambda>preX.
    bindIO (readOpening T (pp_coinY p)) (\<lambda>preY.
    if json_get ''asset_id'' preX = json_get ''asset_id'' preY
    then throwIO (Js_Error ''priced settlement requires a genuine cross-asset (assetX != assetY)'')
    else bindIO (liftIO (priced_amounts preX preY (pp_priceScaled p))) (\<lambda>(matchedA, matchedB).
    bindIO (liftIO (get_member ''stateRoot'' (Some wX))) (\<lambda>_.
    bindIO (liftIO (hashToField (pp_batchHashHex p))) (\<lambda>batch.
    bindIO (liftIO (get_member ''stateIndex'' (Some wY))) (\<lambda>_.
    bindIO (repeatIO 6 (randField T)) (\<lambda>rands.
    returnIO (priced_witness p batch wX wY preX preY matchedA matchedB rands))))))))))))))"

definition buildMpcPricedProof :: "'w Tools \<Rightarrow> PricedParams \<Rightarrow> ('w, PricedProof) io" where
  "buildMpcPricedProof T p =
    (let file = scratch_file (pp_scratch p) (pp_tag p); inputPath = file ''_priced_input.json''; proofJson = file ''_priced_proof.json'';
         publicJson = file ''_priced_public.json'';
         c2s = env_or (tl_env T) ''CIRCOM2SOROBAN_BIN'' (tl_resolve T (LUMIXPROTOCOL_ROOT T) ''tools/circom2soroban/target/release/circom2soroban'') in
    bindIO (hasMpcPricedArtifacts T) (\<lambda>built.
    if \<not> built then throwIO (Js_Error ''mpc_priced_settlement circuit not built; run npm run circuits:build'')
    else bindIO (buildMpcPricedWitness T p) (\<lambda>witnessJson.
    bindIO (tl_writeFile T inputPath (stringify witnessJson)) (\<lambda>_.
    bindIO (run_circuit_at T (mpcPricedSettlementCircuitDir T) inputPath (file ''_priced.wtns'') proofJson publicJson) (\<lambda>verify.
    bindIO (read_json T publicJson) (\<lambda>pub.
    bindIO (to_soroban T c2s proofJson publicJson) (\<lambda>(proofHex, publicHex).
    bindIO (liftIO (public_outputs pub)) (\<lambda>outs.
    returnIO \<lparr>pq_proofHex = proofHex, pq_publicHex = publicHex, pq_locallyVerified = verified verify, pq_witnessJson = witnessJson,
      pq_nullifierHashAHex = outs ! 0, pq_nullifierHashBHex = outs ! 1, pq_outputCommitmentAHex = outs ! 2, pq_outputCommitmentBHex = outs ! 3\<rparr>))))))))"

definition calcPricedWitness :: "'w Tools \<Rightarrow> json \<Rightarrow> string \<Rightarrow> string \<Rightarrow> ('w, unit) io" where
  "calcPricedWitness T witnessJson scratch tag =
    (let inputPath = scratch_file scratch tag ''_priced_adv_input.json'' in
    bindIO (tl_writeFile T inputPath (stringify witnessJson)) (\<lambda>_.
    bindIO (snarkjs T [''wtns'', ''calculate'', tl_resolve T (mpcPricedSettlementCircuitDir T) ''build/main_js/main.wasm'', inputPath,
      scratch_file scratch tag ''_priced_adv.wtns'']) (\<lambda>_. returnIO ())))"

section \<open>Compliance proofs\<close>

record ComplianceParams =
  cp_label :: string
  cp_allowLabels :: "string list"
  cp_denyLabels :: "string list"
  cp_policyId :: string
  cp_scratch :: string
  cp_tag :: string

definition hasComplianceArtifacts :: "'w Tools \<Rightarrow> ('w, bool) io" where
  "hasComplianceArtifacts T = has_artifacts T (complianceDir T) [''build/main_js/main.wasm'', ''output/main_final.zkey'']"

definition merkleProof :: "'w Tools \<Rightarrow> string \<Rightarrow> string \<Rightarrow> string list \<Rightarrow> nat \<Rightarrow> ('w, json) io" where
  "merkleProof T scratch tag leaves index =
    (let statePath = scratch_file scratch tag ''_state.json'' in
    bindIO (tl_writeFile T statePath (state_json leaves ''compliance'')) (\<lambda>_.
    bindIO (tl_exec T (COINUTILS_BIN T) [''merkle-proof'', statePath, bigint_to_string (int index), ''--depth'', ''2'']) (\<lambda>out.
    liftIO (json_parse (js_trim out)))))"

fun index_of :: "'a \<Rightarrow> 'a list \<Rightarrow> nat option" where
  "index_of x [] = None"
| "index_of x (y # ys) = (if x = y then Some 0 else map_option Suc (index_of x ys))"

text \<open>The loop over neighbouring deny labels that demands strict order.\<close>

fun check_sorted :: "string list \<Rightarrow> unit result" where
  "check_sorted (x # y # ys) =
    bindR (BigInt y) (\<lambda>b. bindR (BigInt x) (\<lambda>a.
      if b \<le> a then Inl (Js_Error ''deny labels must be strictly sorted ascending'') else check_sorted (y # ys)))"
| "check_sorted _ = Inr ()"

text \<open>The position of the neighbours that enclose the label.\<close>

fun find_adjacent :: "string \<Rightarrow> nat \<Rightarrow> string list \<Rightarrow> nat option result" where
  "find_adjacent label i (x # y # ys) =
    bindR (BigInt x) (\<lambda>a. bindR (BigInt label) (\<lambda>l.
      if a < l then bindR (BigInt y) (\<lambda>b. if l < b then Inr (Some i) else find_adjacent label (Suc i) (y # ys))
      else find_adjacent label (Suc i) (y # ys)))"
| "find_adjacent label i _ = Inr None"

definition compliance_witness :: "ComplianceParams \<Rightarrow> nat \<Rightarrow> nat \<Rightarrow> json \<Rightarrow> json \<Rightarrow> json \<Rightarrow> json" where
  "compliance_witness p allowIdx loIdx allowP loP hiP = opt_members
    [(''allowRoot'', json_get ''root'' allowP), (''denyRoot'', json_get ''root'' loP), (''policyId'', Some (JStr (cp_policyId p))),
     (''label'', Some (JStr (cp_label p))), (''allowIndex'', Some (JStr (bigint_to_string (int allowIdx)))),
     (''allowSiblings'', json_get ''siblings'' allowP), (''denyLo'', Some (JStr (cp_denyLabels p ! loIdx))),
     (''denyLoIndex'', Some (JStr (bigint_to_string (int loIdx)))), (''denyLoSiblings'', json_get ''siblings'' loP),
     (''denyHi'', Some (JStr (cp_denyLabels p ! (loIdx + 1)))), (''denyHiIndex'', Some (JStr (bigint_to_string (int loIdx + 1)))),
     (''denyHiSiblings'', json_get ''siblings'' hiP)]"

definition buildComplianceWitness :: "'w Tools \<Rightarrow> ComplianceParams \<Rightarrow> ('w, json) io" where
  "buildComplianceWitness T p =
    (case index_of (cp_label p) (cp_allowLabels p) of
       None \<Rightarrow> throwIO (Js_Error ''label not in allow set'')
     | Some allowIdx \<Rightarrow>
         bindIO (liftIO (check_sorted (cp_denyLabels p))) (\<lambda>_.
         bindIO (liftIO (find_adjacent (cp_label p) 0 (cp_denyLabels p))) (\<lambda>lo.
         case lo of
           None \<Rightarrow> throwIO (Js_Error ''no adjacent deny leaves bound the label (is it denied, or out of sentinel range?)'')
         | Some loIdx \<Rightarrow>
             bindIO (merkleProof T (cp_scratch p) (cp_tag p @ ''_allow'') (cp_allowLabels p) allowIdx) (\<lambda>allowP.
             bindIO (merkleProof T (cp_scratch p) (cp_tag p @ ''_lo'') (cp_denyLabels p) loIdx) (\<lambda>loP.
             bindIO (merkleProof T (cp_scratch p) (cp_tag p @ ''_hi'') (cp_denyLabels p) (loIdx + 1)) (\<lambda>hiP.
             bindIO (liftIO (get_member ''root'' (Some allowP))) (\<lambda>_.
             bindIO (liftIO (get_member ''root'' (Some loP))) (\<lambda>_.
             bindIO (liftIO (get_member ''siblings'' (Some hiP))) (\<lambda>_.
             returnIO (compliance_witness p allowIdx loIdx allowP loP hiP))))))))))"

definition buildComplianceProof :: "'w Tools \<Rightarrow> ComplianceParams \<Rightarrow> ('w, bool \<times> json) io" where
  "buildComplianceProof T p =
    (let file = scratch_file (cp_scratch p) (cp_tag p); inputPath = file ''_comp_input.json'' in
    bindIO (hasComplianceArtifacts T) (\<lambda>built.
    if \<not> built then throwIO (Js_Error ''compliance_membership circuit not built; run npm run circuits:build'')
    else bindIO (buildComplianceWitness T p) (\<lambda>witnessJson.
    bindIO (tl_writeFile T inputPath (stringify witnessJson)) (\<lambda>_.
    bindIO (run_circuit_at T (complianceDir T) inputPath (file ''_comp.wtns'') (file ''_comp_proof.json'') (file ''_comp_public.json'')) (\<lambda>verify.
    returnIO (verified verify, witnessJson))))))"

definition calcComplianceWitness :: "'w Tools \<Rightarrow> json \<Rightarrow> string \<Rightarrow> string \<Rightarrow> ('w, unit) io" where
  "calcComplianceWitness T witnessJson scratch tag =
    (let inputPath = scratch_file scratch tag ''_comp_adv_input.json'' in
    bindIO (tl_writeFile T inputPath (stringify witnessJson)) (\<lambda>_.
    bindIO (snarkjs T [''wtns'', ''calculate'', tl_resolve T (complianceDir T) ''build/main_js/main.wasm'', inputPath,
      scratch_file scratch tag ''_comp_adv.wtns'']) (\<lambda>_. returnIO ())))"

section \<open>Facts\<close>

lemma index_of_Some: "index_of x xs = Some i \<Longrightarrow> i < length xs \<and> xs ! i = x"
  by (induction xs arbitrary: i) (auto split: if_splits)

lemma find_adjacent_ok:
  "find_adjacent label i xs = Inr (Some k) \<Longrightarrow>
    i \<le> k \<and> Suc (k - i) < length xs \<and> (\<exists>a l b. BigInt (xs ! (k - i)) = Inr a \<and> BigInt label = Inr l \<and>
      BigInt (xs ! Suc (k - i)) = Inr b \<and> a < l \<and> l < b)"
proof (induction xs arbitrary: i)
  case (Cons x zs)
  then obtain y ys where zs: "zs = y # ys" by (cases zs) auto
  obtain a l where al: "BigInt x = Inr a" "BigInt label = Inr l" using Cons.prems zs by (auto simp: bindR_Inr_iff)
  show ?case
  proof (cases "a < l \<and> (\<exists>b. BigInt y = Inr b \<and> l < b)")
    case True
    then have "k = i" using Cons.prems zs al by auto
    then show ?thesis using True al zs by auto
  next
    case False
    then have "find_adjacent label (Suc i) zs = Inr (Some k)"
      using Cons.prems zs al by (auto simp: bindR_Inr_iff split: if_splits)
    note ih = Cons.IH [OF this]
    have "Suc i \<le> k" using ih by blast
    then have "k - i = Suc (k - Suc i)" by arith
    then show ?thesis using ih by auto
  qed
qed simp

lemma check_sorted_ok:
  "check_sorted xs = Inr () \<Longrightarrow> 2 \<le> length xs \<Longrightarrow>
    \<exists>ns. mapR BigInt xs = Inr ns \<and> sorted_wrt (<) ns"
proof (induction xs rule: check_sorted.induct)
  case (1 x y ys)
  then obtain a b where ab: "BigInt x = Inr a" "BigInt y = Inr b" "a < b" "check_sorted (y # ys) = Inr ()"
    by (auto simp: bindR_Inr_iff split: if_splits)
  show ?case
  proof (cases ys)
    case Nil
    then show ?thesis using ab by simp
  next
    case (Cons z zs)
    then obtain ns where ns: "mapR BigInt (y # ys) = Inr ns" "sorted_wrt (<) ns"
      using 1(1) [OF ab(2,1)] ab by auto
    then obtain ns' where ns': "ns = b # ns'" using ab(2) by (auto simp: bindR_Inr_iff)
    have "sorted_wrt (<) (a # b # ns')" using ns(2) ab(3) unfolding ns' by auto
    then show ?thesis using ns(1) ab(1) unfolding ns' by auto
  qed
qed auto

text \<open>The hexadecimal texts are conversions of the very files that the verifier accepted.\<close>

definition verified_proof :: "'w Tools \<Rightarrow> string \<Rightarrow> string \<Rightarrow> string \<Rightarrow> bool" where
  "verified_proof T vk proofHex publicHex \<longleftrightarrow>
    (\<exists>c2s proofJson publicJson v p q w1 w1' w2 w2' w3 w3'.
      snarkjs T [''groth16'', ''verify'', vk, publicJson, proofJson] w1 = (Inr v, w1') \<and> verified v \<and>
      tl_exec T c2s [''proof'', proofJson] w2 = (Inr p, w2') \<and> proofHex = js_trim p \<and>
      tl_exec T c2s [''public'', publicJson] w3 = (Inr q, w3') \<and> publicHex = js_trim q)"

lemma verified_proofI:
  assumes "groth16 T wasm zkey vk inputPath wtns proofJson publicJson w = (Inr v, w')" "verified v"
    "to_soroban T c2s proofJson publicJson u = (Inr (proofHex, publicHex), u')"
  shows "verified_proof T vk proofHex publicHex"
  using assms unfolding groth16_def to_soroban_def verified_proof_def by (clarsimp simp: bindIO_Inr_iff) blast

lemma buildNoteProof_verified:
  assumes "buildNoteProof T coin cs scope scratch tag assoc b w = (Inr pr, w')" "np_locallyVerified pr"
  shows "verified_proof T (withdrawCircuitDir T @ ''/output/main_verification_key.json'') (np_proofHex pr) (np_publicHex pr)"
  using assms unfolding buildNoteProof_def Let_def run_circuit_def
  by (clarsimp simp: bindIO_Inr_iff) (erule (2) verified_proofI)

lemma buildTransferProof_verified:
  assumes "buildTransferProof T coin cs scope fee scratch tag assoc w = (Inr pr, w')" "tp_locallyVerified pr"
  shows "verified_proof T (transferCircuitDir T @ ''/output/main_verification_key.json'') (tp_proofHex pr) (tp_publicHex pr)"
  using assms unfolding buildTransferProof_def Let_def run_circuit_def
  by (clarsimp simp: bindIO_Inr_iff) (erule (2) verified_proofI)

lemma buildDepositProof_verified:
  assumes "buildDepositProof T coin b scratch tag w = (Inr pr, w')" "dp_locallyVerified pr"
  shows "verified_proof T (depositCircuitDir T @ ''/output/main_verification_key.json'') (dp_proofHex pr) (dp_publicHex pr)"
  using assms unfolding buildDepositProof_def Let_def run_circuit_def
  by (clarsimp simp: bindIO_Inr_iff) (erule (2) verified_proofI)

lemma buildMpcSettlementProof_verified:
  assumes "buildMpcSettlementProof T p w = (Inr pr, w')" "mq_locallyVerified pr"
  shows "verified_proof T (tl_resolve T (mpcSettlementCircuitDir T) ''output/main_verification_key.json'') (mq_proofHex pr) (mq_publicHex pr)"
  using assms unfolding buildMpcSettlementProof_def Let_def run_circuit_at_def
  by (clarsimp simp: bindIO_Inr_iff split: if_splits) (erule (2) verified_proofI)

lemma buildMpcPricedProof_verified:
  assumes "buildMpcPricedProof T p w = (Inr pr, w')" "pq_locallyVerified pr"
  shows "verified_proof T (tl_resolve T (mpcPricedSettlementCircuitDir T) ''output/main_verification_key.json'') (pq_proofHex pr) (pq_publicHex pr)"
  using assms unfolding buildMpcPricedProof_def Let_def run_circuit_at_def
  by (clarsimp simp: bindIO_Inr_iff split: if_splits) (erule (2) verified_proofI)

lemma parse_digits_length: "parse_digits b s = Some ds \<Longrightarrow> length ds = length s \<and> (\<forall>d \<in> set ds. d < b)"
  by (induction s arbitrary: ds) (auto simp: char_digit_def Let_def split: option.splits if_splits)

lemma parse_radix_bound: "parse_radix b s = Some n \<Longrightarrow> n < b ^ length s"
  using digits_value_bound parse_digits_length by (fastforce simp: parse_radix_def split: option.splits if_splits)

lemma js_trim_0x: "\<exists>n. js_trim (CHR ''0'' # CHR ''x'' # h) = CHR ''0'' # CHR ''x'' # take n h"
proof -
  have "\<exists>n. rev (dropWhile js_space (rev (CHR ''0'' # CHR ''x'' # h))) = CHR ''0'' # CHR ''x'' # take n h"
  proof (induction h rule: rev_induct)
    case Nil
    show ?case by (simp add: js_space_def)
  next
    case (snoc c h)
    then obtain n where n: "rev (dropWhile js_space (rev (CHR ''0'' # CHR ''x'' # h))) = CHR ''0'' # CHR ''x'' # take n h" by blast
    have "take n h = take (min n (length h)) (h @ [c])" by (simp add: min_def)
    then show ?case
      using n by (cases "js_space c") (auto intro: exI [of _ "min n (length h)"] exI [of _ "Suc (length h)"])
  qed
  then show ?thesis by (simp add: js_trim_def js_space_def)
qed

lemma hex_to_decimal_bound:
  assumes "hex_to_decimal h = Inr d"
  shows "\<exists>n. d = bigint_to_string (int n) \<and> n < 16 ^ length h"
proof -
  obtain n where n: "js_trim (CHR ''0'' # CHR ''x'' # h) = CHR ''0'' # CHR ''x'' # take n h" using js_trim_0x by blast
  then obtain k where k: "parse_radix 16 (take n h) = Some k" "d = bigint_to_string (int k)"
    using assms by (auto simp: hex_to_decimal_def bindR_Inr_iff BigInt_def bigint_syntax_def split: option.splits)
  have "k < 16 ^ length (take n h)" using parse_radix_bound [OF k(1)] .
  also have "(16 :: nat) ^ length (take n h) \<le> 16 ^ length h" by (rule power_increasing) auto
  finally show ?thesis using k(2) by (intro exI [of _ k] conjI)
qed

lemma sorted_gap:
  assumes "sorted_wrt (<) ns" "Suc k < length ns" "ns ! k < l" "l < ns ! Suc k"
  shows "(l :: int) \<notin> set ns"
proof
  assume "l \<in> set ns"
  then obtain i where i: "i < length ns" "ns ! i = l" by (auto simp: in_set_conv_nth)
  consider "i \<le> k" | "Suc k \<le> i" by linarith
  then show False
  proof cases
    case 1
    then have "ns ! i \<le> ns ! k" using assms(1,2) by (cases "i = k") (auto simp: sorted_wrt_iff_nth_less intro: less_imp_le)
    then show False using i assms(3) by simp
  next
    case 2
    then have "ns ! Suc k \<le> ns ! i" using assms(1) i(1) by (cases "i = Suc k") (auto simp: sorted_wrt_iff_nth_less intro: less_imp_le)
    then show False using i assms(4) by simp
  qed
qed

lemma buildComplianceWitness_ok:
  assumes "buildComplianceWitness T p w = (Inr j, w')"
  obtains allowIdx loIdx where "index_of (cp_label p) (cp_allowLabels p) = Some allowIdx" "check_sorted (cp_denyLabels p) = Inr ()"
    "find_adjacent (cp_label p) 0 (cp_denyLabels p) = Inr (Some loIdx)"
  using assms unfolding buildComplianceWitness_def by (auto simp: bindIO_Inr_iff split: option.splits) (metis that)

lemma digits_value_zeros: "digits_value b (replicate k 0 @ ds) = digits_value b ds"
  by (induction k) (simp_all add: digits_value_def)

lemma parse_digits_append:
  "parse_digits b s = Some ds \<Longrightarrow> parse_digits b t = Some es \<Longrightarrow> parse_digits b (s @ t) = Some (ds @ es)"
  by (induction s arbitrary: ds) (auto split: option.splits)

lemma hex32_of_inject: "hex32_of (int m) = hex32_of (int n) \<longleftrightarrow> m = n"
proof -
  have zeros: "parse_digits 16 (replicate k CHR ''0'') = Some (replicate k 0)" for k
    by (induction k) (auto simp: char_digit_def)
  have padded: "map_option (digits_value 16) (parse_digits 16 (pad_start 64 CHR ''0'' (nat_to_radix 16 k))) = Some k" for k
  proof -
    have "parse_radix 16 (nat_to_radix 16 k) = Some k" by simp
    then obtain ds where ds: "parse_digits 16 (nat_to_radix 16 k) = Some ds" "digits_value 16 ds = k"
      by (auto simp: parse_radix_def split: if_splits)
    show ?thesis unfolding pad_start_def parse_digits_append [OF zeros ds(1)] by (simp add: digits_value_zeros ds(2))
  qed
  show ?thesis
  proof
    assume "hex32_of (int m) = hex32_of (int n)"
    then have "pad_start 64 CHR ''0'' (nat_to_radix 16 m) = pad_start 64 CHR ''0'' (nat_to_radix 16 n)"
      by (simp add: hex32_of_def bigint_to_hex_def)
    then have "Some m = Some n" by (simp only: padded [symmetric])
    then show "m = n" by (rule option.inject [THEN iffD1])
  qed simp
qed

section \<open>Properties\<close>

text \<open>Field elements fit.  Whatever text they are computed from, the field elements of hashes, of
  Stellar addresses and of assets are decimal texts of numbers below \<open>2^248\<close>, which is smaller than the
  scalar moduli of both BN254 and BLS12-381: no reduction can make two of them collide.\<close>

theorem field_elements_fit:
  assumes "hashToField h = Inr d \<or> recipientHashField T h = Inr d \<or> assetIdField T h = Inr d"
  shows "\<exists>n. d = bigint_to_string (int n) \<and> n < 2 ^ 248 \<and> int n < BN254_P \<and>
    int n < 52435875175126190479447740508185965837690552500527637822603658699938581184513"
proof -
  have "\<exists>s. length s \<le> 62 \<and> hex_to_decimal s = Inr d"
    using assms unfolding hashToField_def recipientHashField_def assetIdField_def
    by (elim disjE) (rule exI, rule conjI [rotated], assumption, simp add: length_hex_encode)+
  then obtain s where s0: "length s \<le> 62" "hex_to_decimal s = Inr d" by (elim exE conjE)
  from hex_to_decimal_bound [OF s0(2)] obtain n where s: "length s \<le> 62" "d = bigint_to_string (int n)" "n < 16 ^ length s"
    using s0(1) by (elim exE conjE)
  have "(16 :: nat) ^ length s \<le> 16 ^ 62" using s(1) by (intro power_increasing) auto
  also have "(16 :: nat) ^ 62 = 2 ^ 248" by (simp add: power_mult [of 2 4 62, simplified])
  finally have n: "n < 2 ^ 248" using s(3) by (rule less_le_trans [rotated])
  then have "int n < 2 ^ 248" by (metis of_nat_less_iff of_nat_numeral of_nat_power)
  then show ?thesis using s(2) n by (auto simp: BN254_P_def)
qed

theorem field_elements_fit_witness:
  "hashToField ''0xff'' = Inr ''255'' \<and> (\<exists>n. ''255'' = bigint_to_string (int n) \<and> int n < BN254_P)"
proof -
  have run: "hashToField ''0xff'' = Inr ''255''" by code_simp
  then show ?thesis using field_elements_fit [of "''0xff''" "''255''"] by blast
qed

text \<open>C35.  A compliance witness is built only for a label that is in the allow list and not in the deny
  list: the deny labels are strictly increasing numbers, and the label lies strictly between two neighbours.\<close>

theorem compliance_witness_sound:
  assumes "buildComplianceWitness T p w = (Inr j, w')"
  shows "cp_label p \<in> set (cp_allowLabels p) \<and>
    (\<exists>ns l. mapR BigInt (cp_denyLabels p) = Inr ns \<and> sorted_wrt (<) ns \<and> BigInt (cp_label p) = Inr l \<and> l \<notin> set ns \<and>
      (\<exists>k. Suc k < length ns \<and> ns ! k < l \<and> l < ns ! Suc k))"
proof -
  obtain ai k where w: "index_of (cp_label p) (cp_allowLabels p) = Some ai" "check_sorted (cp_denyLabels p) = Inr ()"
    "find_adjacent (cp_label p) 0 (cp_denyLabels p) = Inr (Some k)"
    using assms by (rule buildComplianceWitness_ok)
  from find_adjacent_ok [OF w(3)] obtain a l b where k: "Suc k < length (cp_denyLabels p)" "BigInt (cp_denyLabels p ! k) = Inr a"
    "BigInt (cp_label p) = Inr l" "BigInt (cp_denyLabels p ! Suc k) = Inr b" "a < l" "l < b" by auto
  from check_sorted_ok [OF w(2)] k(1) obtain ns where ns: "mapR BigInt (cp_denyLabels p) = Inr ns" "sorted_wrt (<) ns" by auto
  have "length ns = length (cp_denyLabels p)" "ns ! k = a" "ns ! Suc k = b"
    using mapR_length [OF ns(1)] mapR_nth [OF ns(1)] k by (metis Inr_inject Suc_lessD)+
  then show ?thesis using ns k sorted_gap [OF ns(2)] index_of_Some [OF w(1)] by (metis nth_mem)
qed

text \<open>Tools that accept everything, for the witnesses.\<close>

definition demo_tools :: "int Tools" where
  "demo_tools = \<lparr>tl_env = Map.empty, tl_cwd = ''/r'', tl_resolve = (\<lambda>a b. a @ ''/'' @ b), tl_execPath = ''node'',
    tl_exec = (\<lambda>cmd args w. (Inr (if hd args = ''merkle-proof'' then ''{}'' else if hd args = ''proof'' then ''01'' else if hd args = ''public'' then ''02'' else ''OK!''), w)),
    tl_readFile = (\<lambda>path w. (Inr ''{\"coin\":{},\"stateRoot\":5}'', w)), tl_writeFile = (\<lambda>path t w. (Inr (), w)), tl_rm = (\<lambda>path w. (Inr (), w)),
    tl_exists = (\<lambda>path w. (Inr True, w)), tl_randomBytes = (\<lambda>n w. (Inr (replicate n 1), w)), tl_sha256 = (\<lambda>b. b)\<rparr>"

definition demo_compliance :: ComplianceParams where
  "demo_compliance = \<lparr>cp_label = ''5'', cp_allowLabels = [''3'', ''5''], cp_denyLabels = [''0'', ''9''], cp_policyId = ''1'',
    cp_scratch = ''s'', cp_tag = ''t''\<rparr>"

theorem compliance_witness_sound_witness:
  "\<exists>j. buildComplianceWitness demo_tools demo_compliance 0 = (Inr j, 0) \<and> cp_label demo_compliance \<in> set (cp_allowLabels demo_compliance)"
proof -
  have proof_ok: "merkleProof demo_tools s t ls i w = (Inr (JObj []), w)" for s t ls i w
  proof -
    have "json_parse (js_trim ''{}'') = Inr (JObj [])" by code_simp
    then show ?thesis by (simp add: merkleProof_def demo_tools_def bindIO_def Let_def)
  qed
  have "check_sorted [''0'', ''9''] = Inr ()" "find_adjacent ''5'' 0 [''0'', ''9''] = Inr (Some 0)" by code_simp+
  then have "\<exists>j. buildComplianceWitness demo_tools demo_compliance 0 = (Inr j, 0)"
    by (simp add: buildComplianceWitness_def demo_compliance_def proof_ok bindIO_def liftIO_def get_member_def returnIO_def
        del: check_sorted.simps find_adjacent.simps)
  then obtain j where "buildComplianceWitness demo_tools demo_compliance 0 = (Inr j, 0)" ..
  then show ?thesis using compliance_witness_sound [of demo_tools demo_compliance 0 j 0] by blast
qed

end
