(* ===== verification/Relayer.thy ===== *)
theory Relayer
  imports Worker Proving Settlement
begin

text \<open>
  \<open>apps/relayer/src/worker.ts\<close> and the broadcasting of \<open>packages/stellar-actions/src/index.ts\<close>: the
  processing of every kind of relayer job.  The chains, the attestation service, the file system, the
  database tables it reads, the root tool and the settlement prover are the fields of \<open>RelayerWorld\<close>, over
  an outside world \<open>'w\<close>; the job tables are the queue's own.  A payload is the JSON the job was enqueued
  with; its members that the code reads as text are text.
\<close>

section \<open>Environment files\<close>

definition env_line :: "bool \<Rightarrow> env \<Rightarrow> string \<Rightarrow> env" where
  "env_line override e raw =
    (let line = (if raw \<noteq> [] \<and> last raw = CHR 0x0D then butlast raw else raw)
     in if \<not> js_includes line ''='' \<or> starts_with (dropWhile js_space line) ''#'' then e
        else let k = takeWhile (\<lambda>c. c \<noteq> CHR ''='') line
             in if override \<or> e k = None then e(k \<mapsto> drop (length k + 1) line) else e)"

definition parseEnvFile :: "string option \<Rightarrow> bool \<Rightarrow> env \<Rightarrow> env" where
  "parseEnvFile file override e =
    (case file of None \<Rightarrow> e | Some text \<Rightarrow> foldl (env_line override) e (js_split (CHR 0x0A) text))"

definition loadEnv :: "env \<Rightarrow> string option \<Rightarrow> string option \<Rightarrow> string option \<Rightarrow> env" where
  "loadEnv process_env parentFile envFile generatedFile =
    parseEnvFile generatedFile True (parseEnvFile envFile False (parseEnvFile parentFile False process_env))"

section \<open>The outside\<close>

record SendResult =
  snd_status :: string
  snd_hash :: string
  snd_errorResult :: json

record ('w) RelayerWorld =
  rw_strkey :: StrKey
  rw_nacl :: Nacl
  rw_inbound :: "'w InboundWorld"
  rw_env :: env
  rw_process_env :: env
  rw_defaultScratch :: string
  rw_readFile :: "string \<Rightarrow> ('w, string) io"
  rw_commitments :: "('w, string list) io"
  rw_batch_matches :: "string \<Rightarrow> ('w, MatchResult list option) io"
  rw_compute_root :: "string list \<Rightarrow> ('w, string) io"
  rw_buildMpcSettlementProof :: "MpcSettlementParams \<Rightarrow> ('w, MpcSettlementProof) io"
  rw_getTransaction :: "string \<Rightarrow> ('w, EvmTx option) io"
  rw_getReceiptStatus :: "string \<Rightarrow> ('w, int option) io"
  rw_parseTransaction :: "string \<Rightarrow> BurnCall option result"
  rw_fromXDR :: "string \<Rightarrow> unit result"
  rw_sendTransaction :: "string \<Rightarrow> ('w, SendResult) io"
  rw_txStatus :: "string \<Rightarrow> ('w, string) io"

section \<open>Payload members\<close>

text \<open>\<open>String(p.k)\<close>, \<open>p.k ?? d\<close> and the truth of \<open>p.k\<close>.\<close>

definition pay :: "json \<Rightarrow> string \<Rightarrow> string" where
  "pay p k = js_string_opt (json_get k p)"

definition pay_or :: "json \<Rightarrow> string \<Rightarrow> string option \<Rightarrow> string option" where
  "pay_or p k d = (case json_get k p of None \<Rightarrow> d | Some JNull \<Rightarrow> d | Some j \<Rightarrow> Some (js_string j))"

definition pay_true :: "json \<Rightarrow> string \<Rightarrow> bool" where
  "pay_true p k \<longleftrightarrow> \<not> json_falsy (json_get k p)"

definition coin_of_json :: "string \<Rightarrow> json \<Rightarrow> GeneratedCoin result" where
  "coin_of_json path c =
    (case json_get ''coin'' c of
       None \<Rightarrow> Inl (Type_Error ''Cannot read properties of undefined (reading 'commitment')'')
     | Some JNull \<Rightarrow> Inl (Type_Error ''Cannot read properties of null (reading 'commitment')'')
     | Some coin \<Rightarrow> Inr \<lparr>gc_path = path, gc_commitmentHex = pay c ''commitment_hex'', gc_commitmentDecimal = pay coin ''commitment'',
         gc_value7dp = pay coin ''value'', gc_assetIdField = the (pay_or coin ''asset_id'' (Some []))\<rparr>)"

definition coinFromPath :: "'w RelayerWorld \<Rightarrow> string \<Rightarrow> ('w, GeneratedCoin) io" where
  "coinFromPath R path =
    bindIO (rw_readFile R path) (\<lambda>text. bindIO (liftIO (json_parse text)) (\<lambda>c. liftIO (coin_of_json path c)))"

definition rpc_opts :: "env \<Rightarrow> string \<Rightarrow> string \<Rightarrow> string \<Rightarrow> string list \<Rightarrow> bool \<Rightarrow> InvokeOpts" where
  "rpc_opts penv pool secret method args readOnly =
    \<lparr>io_contractId = pool, io_secret = secret, io_method = method, io_args = args,
     io_rpcUrl = env_or penv ''STELLAR_RPC_URL'' ''https://soroban-testnet.stellar.org'',
     io_passphrase = env_or penv ''STELLAR_NETWORK_PASSPHRASE'' ''Test SDF Network ; September 2015'',
     io_retries = 3, io_readOnly = readOnly\<rparr>"

definition relayer_invoke :: "'w RelayerWorld \<Rightarrow> string \<Rightarrow> string \<Rightarrow> string \<Rightarrow> string list \<Rightarrow> bool \<Rightarrow> ('w, SorobanInvokeResult) io" where
  "relayer_invoke R pool secret method args readOnly =
    sorobanInvoke (cw_cli (rw_inbound R)) (rpc_opts (rw_process_env R) pool secret method args readOnly)"

section \<open>Broadcasting\<close>

fun await_tx :: "'w RelayerWorld \<Rightarrow> string \<Rightarrow> nat \<Rightarrow> string \<Rightarrow> ('w, string) io" where
  "await_tx R h 0 status = returnIO status"
| "await_tx R h (Suc n) status =
    (if status = ''NOT_FOUND'' then bindIO (rw_txStatus R h) (await_tx R h n) else returnIO status)"

definition broadcastSignedXdr :: "'w RelayerWorld \<Rightarrow> string \<Rightarrow> ('w, string \<times> string) io" where
  "broadcastSignedXdr R signedXdr =
    bindIO (liftIO (rw_fromXDR R signedXdr)) (\<lambda>_.
    bindIO (rw_sendTransaction R signedXdr) (\<lambda>sent.
    if snd_status sent = ''ERROR'' then throwIO (Js_Error (''Soroban sendTransaction error: '' @ stringify (snd_errorResult sent)))
    else bindIO (rw_txStatus R (snd_hash sent)) (\<lambda>first.
      bindIO (await_tx R (snd_hash sent) 30 first) (\<lambda>status.
      if status \<noteq> ''SUCCESS'' then throwIO (Js_Error (''tx '' @ snd_hash sent @ '' status '' @ status))
      else returnIO (snd_hash sent, status)))))"

section \<open>Jobs other than the committee's\<close>

definition relay_inbound :: "'w RelayerWorld \<Rightarrow> string \<Rightarrow> ServiceJob \<Rightarrow> ('w, json) qio" where
  "relay_inbound R pool job =
    (let p = sj_payload job in
    if rw_env R ''ENABLE_OPERATOR_TESTNET_DEPOSIT'' \<noteq> Some ''true''
    then throwIO (Js_Error (''operator-driven CCTP_INBOUND is disabled (set ENABLE_OPERATOR_TESTNET_DEPOSIT=true for dev/test); ''
      @ ''app deposits use CCTP_INBOUND_AFTER_USER_BURN''))
    else bindIO (setStatusIO (sj_job_id job) ''burning'' ''CCTP burn + attestation + mint_and_forward + register'') (\<lambda>_.
    onWorld (bindIO (liftIO (BigInt (the (pay_or p ''amount6'' (Some ''1000000''))))) (\<lambda>amount6.
      bindIO (coinFromPath R (pay p ''coinPath'')) (\<lambda>coin.
      bindIO (runCctpInbound (rw_strkey R) (rw_inbound R) (rw_env R)
        \<lparr>ip_amount6 = amount6, ip_commitmentHex = pay p ''commitmentHex'',
         ip_encryptedNotePayloadHashHex = pay p ''encryptedNotePayloadHashHex'', ip_policyIdHex = pay p ''policyIdHex'',
         ip_fast = Some True, ip_maxFee6 = None, ip_targetContract = Some pool, ip_rootMethod = None,
         ip_newRootHex = Some (pay p ''newRootHex''), ip_coin = Some coin,
         ip_scratch = rw_process_env R ''LUMIXPROTOCOL_SCRATCH_DIR'', ip_poolId = None, ip_chainId = None, ip_adminSecret = None\<rparr>) (\<lambda>r.
      returnIO (JObj [(''burnTxHash'', JStr (ir_burnTxHash r)), (''mintForwardTxHash'', JStr (ir_mintForwardTxHash r)),
        (''leafIndex'', JStr (ir_leafIndex r)), (''root'', JStr (ir_root r)), (''amount7'', JStr (bigint_to_string (ir_amount7 r)))])))))))"

definition relay_broadcast :: "'w RelayerWorld \<Rightarrow> ServiceJob \<Rightarrow> ('w, json) qio" where
  "relay_broadcast R job =
    (let p = sj_payload job in
    if \<not> pay_true p ''signedXdr''
    then throwIO (Js_Error (sj_job_type job @ '' requires a client-signed XDR (signedXdr); backend never signs user Stellar actions''))
    else bindIO (setStatusIO (sj_job_id job) ''broadcasting'' (''broadcast signed '' @ sj_job_type job)) (\<lambda>_.
    onWorld (bindIO (broadcastSignedXdr R (pay p ''signedXdr'')) (\<lambda>(h, status).
      returnIO (JObj [(''txHash'', JStr h), (''status'', JStr status)])))))"

definition tx_result :: "SorobanInvokeResult \<Rightarrow> json" where
  "tx_result r = JObj [(''txHash'', JStr (sr_txHash r))]"

definition relay_rfq_settle :: "'w RelayerWorld \<Rightarrow> string \<Rightarrow> string \<Rightarrow> ServiceJob \<Rightarrow> ('w, json) qio" where
  "relay_rfq_settle R pool secret job =
    (let p = sj_payload job in
    bindIO (setStatusIO (sj_job_id job) ''submitting'' ''pool.rfq_settle'') (\<lambda>_.
    onWorld (bindIO (relayer_invoke R pool secret ''rfq_settle''
      [''--to_solver'', pay p ''toSolver'', ''--proof_bytes'', pay p ''proofHex'', ''--pub_signals_bytes'', pay p ''publicHex'',
       ''--quote_hash'', pay p ''quoteHash'', ''--intent_hash'', pay p ''intentHash'', ''--fill_receipt_hash'', pay p ''fillReceiptHash'',
       ''--solver_pubkey'', pay p ''solverPubkey'', ''--solver_sig'', pay p ''solverSig''] False) (\<lambda>r. returnIO (tx_result r)))))"

definition relay_atomic_swap :: "'w RelayerWorld \<Rightarrow> string \<Rightarrow> string \<Rightarrow> ServiceJob \<Rightarrow> ('w, json) qio" where
  "relay_atomic_swap R pool secret job =
    (let p = sj_payload job in
    bindIO (setStatusIO (sj_job_id job) ''submitting'' ''pool.rfq_settle_atomic_swap'') (\<lambda>_.
    onWorld (bindIO (relayer_invoke R pool secret ''rfq_settle_atomic_swap''
      [''--user_xlm_recipient'', pay p ''userXlmRecipient'', ''--solver_usdc_recipient'', pay p ''solverUsdcRecipient'',
       ''--proof_bytes'', pay p ''proofHex'', ''--pub_signals_bytes'', pay p ''publicHex'',
       ''--quote_hash'', pay p ''quoteHash'', ''--intent_hash'', pay p ''intentHash'', ''--fill_receipt_hash'', pay p ''fillReceiptHash'',
       ''--output_asset_id'', pay p ''outputAssetId'', ''--quoted_output'', pay p ''quotedOutput'', ''--min_output'', pay p ''minOutput'',
       ''--price_scaled'', pay p ''priceScaled'', ''--solver_pubkey'', pay p ''solverPubkey'', ''--solver_sig'', pay p ''solverSig''] False)
      (\<lambda>r. returnIO (tx_result r)))))"

definition relay_outbound_attestation :: "'w RelayerWorld \<Rightarrow> ServiceJob \<Rightarrow> ('w, json) qio" where
  "relay_outbound_attestation R job =
    bindIO (setStatusIO (sj_job_id job) ''polling'' ''Circle attestation'') (\<lambda>_.
    onWorld (bindIO (fetchAttestationByTx (CctpWorld.truncate (rw_inbound R))
        (env_or (rw_env R) ''CCTP_ATTESTATION_API_BASE'' ''https://iris-api-sandbox.circle.com'') stellarDomain
        (pay (sj_payload job) ''burnTxHash'')) (\<lambda>att.
      returnIO (case att of
          None \<Rightarrow> JObj [(''status'', JStr ''pending''), (''note'', JStr ''attestation not yet available; retry'')]
        | Some a \<Rightarrow> JObj ([(''status'', JStr (att_status a))] @ opt_member ''message'' (att_message a)
            @ opt_member ''attestation'' (att_attestation a))))))"

definition arbitrumSepoliaMessageTransmitter :: string where
  "arbitrumSepoliaMessageTransmitter = ''0xE737e5cEBEEBa77EFE34D4aa090756590b1CE275''"

definition relay_outbound_mint :: "ServiceJob \<Rightarrow> ('w, json) qio" where
  "relay_outbound_mint job =
    (let p = sj_payload job in
    if \<not> pay_true p ''message'' \<or> \<not> pay_true p ''attestation''
    then returnIO (JObj [(''status'', JStr ''pending''), (''note'', JStr ''message/attestation required from CCTP_OUTBOUND_ATTESTATION'')])
    else bindIO (setStatusIO (sj_job_id job) ''minting'' ''Arbitrum receiveMessage'') (\<lambda>_.
      returnIO (JObj [(''status'', JStr ''submit_via_arbitrum''), (''messageTransmitter'', JStr arbitrumSepoliaMessageTransmitter),
        (''note'', JStr ''receiveMessage(message, attestation) on Arbitrum Sepolia'')])))"

section \<open>Completing a user's burn\<close>

text \<open>\<open>Number(p.expected_finality)\<close>; -1 stands for \<open>NaN\<close>, which like it is no decoded threshold.\<close>

definition finality_of :: "json \<Rightarrow> int option" where
  "finality_of p =
    (case json_get ''expected_finality'' p of
       None \<Rightarrow> None
     | Some (JNum n) \<Rightarrow> Some n
     | Some JNull \<Rightarrow> Some 0
     | Some (JBool b) \<Rightarrow> Some (if b then 1 else 0)
     | Some j \<Rightarrow> (case BigInt (js_string j) of Inr n \<Rightarrow> Some n | Inl _ \<Rightarrow> Some (- 1)))"

definition optR :: "bool \<Rightarrow> 'a result \<Rightarrow> 'a option result" where
  "optR b r = (if b then bindR r (\<lambda>x. Inr (Some x)) else Inr None)"

definition validate_user_burn :: "'w RelayerWorld \<Rightarrow> string \<Rightarrow> json \<Rightarrow> ('w, BurnValidation) io" where
  "validate_user_burn R pool p =
    bindIO (liftIO (BigInt (pay p ''expected_amount6''))) (\<lambda>amount6.
    bindIO (liftIO (optR (pay_true p ''expected_max_fee6'') (BigInt (pay p ''expected_max_fee6'')))) (\<lambda>maxFee6.
    bindIO (rw_getTransaction R (pay p ''burn_tx_hash'')) (\<lambda>tx.
    bindIO (rw_getReceiptStatus R (pay p ''burn_tx_hash'')) (\<lambda>receipt.
    liftIO (validateInboundBurnTx (rw_strkey R) (\<lambda>_. tx) (\<lambda>_. receipt) (rw_parseTransaction R) (rw_env R)
      \<lparr>be_burnTxHash = pay p ''burn_tx_hash'', be_expectedSender = pay p ''source_wallet_address'', be_expectedAmount6 = amount6,
       be_pool = pool, be_expectedMaxFee6 = maxFee6, be_expectedFinality = finality_of p\<rparr>)))))"

definition burn_pending_result :: "BurnValidation \<Rightarrow> json" where
  "burn_pending_result v = JObj [(''validated'', JBool True), (''burnTxHash'', JStr (bv_burnTxHash v)), (''sender'', JStr (bv_sender v)),
    (''amount6'', JStr (bigint_to_string (bc_amount (bv_call v)))), (''state'', JStr ''burn_validated''),
    (''note'', JStr ''supply coin witness via prover path to complete mint/forward/register'')]"

definition burn_active_result :: "json \<Rightarrow> InboundResult \<Rightarrow> json" where
  "burn_active_result p r = JObj [(''state'', JStr ''active''), (''burnTxHash'', JStr (ir_burnTxHash r)),
    (''mintForwardTxHash'', JStr (ir_mintForwardTxHash r)), (''receiveDepositTxHash'', JStr (ir_receiveDepositTxHash r)),
    (''root'', JStr (ir_root r)), (''leafIndex'', JStr (ir_leafIndex r)), (''commitment'', JStr (pay p ''commitment'')),
    (''amount7'', JStr (bigint_to_string (ir_amount7 r)))]"

definition relay_after_user_burn :: "'w RelayerWorld \<Rightarrow> string \<Rightarrow> ServiceJob \<Rightarrow> ('w, json) qio" where
  "relay_after_user_burn R pool job =
    (let p = sj_payload job; jid = sj_job_id job in
    bindIO (setStatusIO jid ''validating_burn'' ''verify user burn tx'') (\<lambda>_.
    bindIO (onWorld (validate_user_burn R pool p)) (\<lambda>v.
    bindIO (setStatusIO jid ''burn_validated'' (''sender '' @ take 10 (bv_sender v) @ ''..., '' @ bigint_to_string (bc_amount (bv_call v)) @ '' (6dp)'')) (\<lambda>_.
    if \<not> pay_true p ''coinPath''
    then bindIO (setStatusIO jid ''awaiting_proof_witness'' ''burn validated; note witness not provided to relayer (prover path)'')
      (\<lambda>_. returnIO (burn_pending_result v))
    else bindIO (setStatusIO jid ''completing_stellar_side'' ''attestation + mint_forward + proof + register'') (\<lambda>_.
      bindIO (onWorld (bindIO (coinFromPath R (pay p ''coinPath'')) (\<lambda>coin.
        runPostUserBurnCctpInbound (rw_inbound R) (rw_env R)
          \<lparr>pb_burnTxHash = pay p ''burn_tx_hash'', pb_pool = pool, pb_amount6 = bc_amount (bv_call v), pb_commitmentHex = pay p ''commitment'',
           pb_encryptedNotePayloadHashHex = pay p ''encryptedNotePayloadHashHex'', pb_policyIdHex = pay p ''policyIdHex'',
           pb_newRootHex = pay p ''newRootHex'', pb_coin = Some coin, pb_scratch = rw_process_env R ''LUMIXPROTOCOL_SCRATCH_DIR'',
           pb_poolId = None, pb_chainId = None\<rparr>))) (\<lambda>r.
      bindIO (setStatusIO jid ''note_registered'' (''leaf '' @ ir_leafIndex r)) (\<lambda>_. returnIO (burn_active_result p r))))))))"

section \<open>Settling a committee match\<close>

text \<open>The matches the batch hash is recomputed from: those of the database without the priced members,
  or the payload's own when there are none.\<close>

definition strip_match :: "MatchResult \<Rightarrow> MatchResult" where
  "strip_match m = m\<lparr>mr_priceScaled := None, mr_assetIn := None, mr_assetOut := None\<rparr>"

definition payload_match :: "json \<Rightarrow> MatchResult" where
  "payload_match p = \<lparr>mr_intentAId = pay p ''intentAId'', mr_intentBId = pay p ''intentBId'',
    mr_matchedAmount7dp = pay p ''matchedAmount7dp'', mr_inputAsset = pay p ''inputAsset'', mr_outputAsset = pay p ''outputAsset'',
    mr_priceScaled = None, mr_assetIn = None, mr_assetOut = None\<rparr>"

definition settle_batch_matches :: "'w RelayerWorld \<Rightarrow> json \<Rightarrow> ('w, MatchResult list) io" where
  "settle_batch_matches R p =
    bindIO (catchIO (bindIO (rw_batch_matches R (pay p ''batchId'')) (\<lambda>r. returnIO (case r of None \<Rightarrow> [] | Some ms \<Rightarrow> map strip_match ms)))
      (\<lambda>_. returnIO [])) (\<lambda>ms.
    returnIO (if ms = [] \<and> pay_true p ''intentAId'' \<and> pay_true p ''intentBId'' then [payload_match p] else ms))"

definition signature_of_json :: "json \<Rightarrow> NodeSignature" where
  "signature_of_json j = \<lparr>ns_nodeId = pay j ''nodeId'', ns_signingPubkey = pay j ''signingPubkey'', ns_signature = pay j ''signature''\<rparr>"

definition settle_signatures :: "json \<Rightarrow> NodeSignature list result" where
  "settle_signatures p =
    (case json_get ''signatures'' p of
       Some (JArr js) \<Rightarrow> Inr (map signature_of_json js)
     | _ \<Rightarrow> Inl (Type_Error ''batch.signatures is not iterable''))"

text \<open>The committee of the chain, never of the batch.\<close>

definition committee_member :: "nat \<Rightarrow> json \<Rightarrow> CommitteeNodeInfo result" where
  "committee_member i pk =
    (case pk of
       JStr s \<Rightarrow> Inr \<lparr>ni_nodeId = ''chain-'' @ bigint_to_string (int i), ni_encryptionPubkey = [], ni_signingPubkey = lower s\<rparr>
     | _ \<Rightarrow> Inl (Type_Error ''pk.toLowerCase is not a function''))"

definition committee_of_text :: "string \<Rightarrow> CommitteeNodeInfo list result" where
  "committee_of_text text =
    bindR (json_parse text) (\<lambda>j. case j of
        JArr pks \<Rightarrow>
          if pks = [] then Inl (Js_Error ''on-chain committee is empty - call pool.set_committee() first'')
          else mapR (\<lambda>(i, pk). committee_member i pk) (enumerate 0 pks)
      | JStr [] \<Rightarrow> Inl (Js_Error ''on-chain committee is empty - call pool.set_committee() first'')
      | _ \<Rightarrow> Inl (Type_Error ''onChainPubkeys.map is not a function''))"

definition pin_committee :: "'w RelayerWorld \<Rightarrow> string \<Rightarrow> string \<Rightarrow> json \<Rightarrow> ('w, CommitteeNodeInfo list) io" where
  "pin_committee R pool secret p =
    catchIO (bindIO (relayer_invoke R pool secret ''get_committee'' [] True) (\<lambda>res. liftIO (committee_of_text (sr_returnValue res))))
      (\<lambda>e. throwIO (Js_Error (''MPC batch '' @ pay p ''batchId'' @ '': failed to pin committee from pool.get_committee(): '' @ err_message e)))"

definition hex_prefixed :: "string \<Rightarrow> string" where
  "hex_prefixed h = (if starts_with h ''0x'' then h else ''0x'' @ h)"

definition to_decimal :: "string \<Rightarrow> string result" where
  "to_decimal h = bindR (BigInt (hex_prefixed h)) (\<lambda>n. Inr (bigint_to_string n))"

text \<open>The leaves of the database, or none when they cannot be read.\<close>

definition pool_leaves :: "'w RelayerWorld \<Rightarrow> ('w, string list) io" where
  "pool_leaves R = catchIO (bindIO (rw_commitments R) (\<lambda>cs. liftIO (mapR to_decimal cs))) (\<lambda>_. returnIO [])"

definition computeMpcRoot :: "'w RelayerWorld \<Rightarrow> string \<Rightarrow> string \<Rightarrow> ('w, string) io" where
  "computeMpcRoot R outCommitAHex outCommitBHex =
    bindIO (pool_leaves R) (\<lambda>leaves.
    bindIO (liftIO (to_decimal outCommitAHex)) (\<lambda>a.
    bindIO (liftIO (to_decimal outCommitBHex)) (\<lambda>b.
    bindIO (rw_compute_root R (leaves @ [a, b])) (\<lambda>out.
    bindIO (liftIO (BigInt (js_trim out))) (\<lambda>n. returnIO (pad_start 64 (CHR ''0'') (bigint_to_hex n)))))))"

definition mpc_proof_params :: "'w RelayerWorld \<Rightarrow> json \<Rightarrow> int \<Rightarrow> GeneratedCoin \<Rightarrow> GeneratedCoin \<Rightarrow> string list \<Rightarrow> MpcSettlementParams" where
  "mpc_proof_params R p now coinA coinB commitments =
    \<lparr>mp_coinA = coinA, mp_coinB = coinB, mp_commitmentsDecimal = commitments, mp_assocPath = pay p ''assocPath'',
     mp_scope = the (pay_or p ''scope'' (Some (env_or (rw_env R) ''POOL_SCOPE'' ''lumixprotocol-pool-testnet-v1''))),
     mp_batchHashHex = pay p ''batchHash'', mp_poolId = the (pay_or p ''poolId'' (Some ''0'')),
     mp_chainId = the (pay_or p ''chainId'' (Some ''27'')), mp_matchedAmount7dp = pay p ''matchedAmount7dp'',
     mp_deadlineLedger = the (pay_or p ''deadlineLedger'' (Some ''0'')),
     mp_scratch = env_or (rw_process_env R) ''LUMIXPROTOCOL_SCRATCH_DIR'' (rw_defaultScratch R),
     mp_tag = ''mpc_'' @ take 8 (pay p ''batchId'') @ ''_'' @ bigint_to_string now\<rparr>"

text \<open>The proof, when the witness paths are given and nothing on the way throws.\<close>

definition mpc_proof :: "'w RelayerWorld \<Rightarrow> ServiceJob \<Rightarrow> ('w, MpcSettlementProof option) qio" where
  "mpc_proof R job =
    (let p = sj_payload job; jid = sj_job_id job in
    if \<not> (pay_true p ''coinAPath'' \<and> pay_true p ''coinBPath'' \<and> pay_true p ''assocPath'') then returnIO None
    else catchIO
      (bindIO (setStatusIO jid ''proving'' (''generating mpc_settlement ZK proof for batch '' @ pay p ''batchId'')) (\<lambda>_.
       bindIO (onWorld (cw_now (rw_inbound R))) (\<lambda>now.
       bindIO (onWorld (pool_leaves R)) (\<lambda>commitments.
       bindIO (onWorld (coinFromPath R (pay p ''coinAPath''))) (\<lambda>coinA.
       bindIO (onWorld (coinFromPath R (pay p ''coinBPath''))) (\<lambda>coinB.
       bindIO (onWorld (rw_buildMpcSettlementProof R (mpc_proof_params R p now coinA coinB commitments))) (\<lambda>proof.
       bindIO (catchIO (setStatusIO jid ''proof_ready'' (''ZK proof generated - locally verified: ''
           @ (if mq_locallyVerified proof then ''true'' else ''false'') @ '', nullifierA: '' @ take 10 (mq_nullifierHashAHex proof) @ ''...''))
         (\<lambda>_. returnIO ())) (\<lambda>_. returnIO (Some proof)))))))))
      (\<lambda>_. returnIO None))"

definition quoted_or_null :: "string \<Rightarrow> string" where
  "quoted_or_null s = (if s \<noteq> [] then stringify (JStr s) else ''null'')"

definition mpc_settle_args :: "json \<Rightarrow> NodeSignature list \<Rightarrow> string \<Rightarrow> string \<Rightarrow> string \<Rightarrow> string list" where
  "mpc_settle_args p sigs newRoot proofHex publicHex =
    [''--nullifier_a'', bytesToCliHex (pay p ''nullifierA''), ''--nullifier_b'', bytesToCliHex (pay p ''nullifierB''),
     ''--output_commitment_a'', bytesToCliHex (pay p ''outputCommitmentA''), ''--output_commitment_b'', bytesToCliHex (pay p ''outputCommitmentB''),
     ''--new_root'', newRoot, ''--batch_hash'', bytesToCliHex (pay p ''batchHash''),
     ''--signer_pubkeys'', stringify (JArr (map (\<lambda>s. JStr (bytesToCliHex (ns_signingPubkey s))) sigs)),
     ''--signatures'', stringify (JArr (map (\<lambda>s. JStr (bytesToCliHex (ns_signature s))) sigs)),
     ''--proof_bytes'', quoted_or_null proofHex, ''--pub_signals_bytes'', quoted_or_null publicHex]"

definition settle_result :: "json \<Rightarrow> MpcSettlementProof option \<Rightarrow> string \<Rightarrow> SorobanInvokeResult \<Rightarrow> json" where
  "settle_result p proof proofHex r = JObj
    ([(''settled'', JBool True), (''onChain'', JBool True)] @ opt_member ''batchId'' (json_get ''batchId'' p)
     @ opt_member ''matchIndex'' (json_get ''matchIndex'' p) @ [(''txHash'', JStr (sr_txHash r)),
     (''nullifierA'', JStr (pay p ''nullifierA'')), (''nullifierB'', JStr (pay p ''nullifierB'')),
     (''zkProof'', if proofHex \<noteq> [] then JObj [(''generated'', JBool True), (''verified'', JBool (case proof of Some q \<Rightarrow> mq_locallyVerified q | None \<Rightarrow> False))]
        else JObj [(''generated'', JBool False)]),
     (''note'', JStr (if proofHex \<noteq> [] then ''pool.mpc_settle confirmed with ZK proof (verified=''
          @ (if (case proof of Some q \<Rightarrow> mq_locallyVerified q | None \<Rightarrow> False) then ''true'' else ''false'') @ '')''
        else ''pool.mpc_settle submitted WITHOUT proof (ENABLE_UNSAFE_PROOFLESS_MPC_SETTLE dev-only; on-chain settle will reject this)''))])"

definition note_data_missing :: "json \<Rightarrow> bool" where
  "note_data_missing p \<longleftrightarrow> \<not> pay_true p ''nullifierA'' \<or> \<not> pay_true p ''nullifierB'' \<or>
    \<not> pay_true p ''outputCommitmentA'' \<or> \<not> pay_true p ''outputCommitmentB''"

definition submit_settlement :: "'w RelayerWorld \<Rightarrow> string \<Rightarrow> string \<Rightarrow> ServiceJob \<Rightarrow> NodeSignature list \<Rightarrow> MpcSettlementProof option \<Rightarrow> ('w, json) qio" where
  "submit_settlement R pool secret job sigs proof =
    (let p = sj_payload job;
         proofHex = (case proof of None \<Rightarrow> [] | Some q \<Rightarrow> mq_proofHex q); publicHex = (case proof of None \<Rightarrow> [] | Some q \<Rightarrow> mq_publicHex q) in
    if note_data_missing p
    then throwIO (Js_Error (''MPC batch '' @ pay p ''batchId'' @ '' match['' @ pay p ''matchIndex'' @ '']: note data missing from DB - intent not submitted through API''))
    else if (proofHex = [] \<or> publicHex = []) \<and> rw_process_env R ''ENABLE_UNSAFE_PROOFLESS_MPC_SETTLE'' \<noteq> Some ''true''
    then throwIO (Js_Error (''mpc_settlement proof generation failed or circuit artifacts missing; refusing to submit proofless mpc_settle ''
      @ ''(build circuits/mpc_settlement and supply coin/assoc witness paths; ENABLE_UNSAFE_PROOFLESS_MPC_SETTLE is dev-only and must never be used in E2E acceptance)''))
    else bindIO (setStatusIO (sj_job_id job) ''submitting'' (''pool.mpc_settle match['' @ pay p ''matchIndex'' @ '']'')) (\<lambda>_.
      onWorld (bindIO (computeMpcRoot R (pay p ''outputCommitmentA'') (pay p ''outputCommitmentB'')) (\<lambda>newRoot.
        bindIO (relayer_invoke R pool secret ''mpc_settle'' (mpc_settle_args p sigs newRoot proofHex publicHex) False) (\<lambda>r.
        returnIO (settle_result p proof proofHex r))))))"

definition settle_batch :: "json \<Rightarrow> MatchResult list \<Rightarrow> NodeSignature list \<Rightarrow> SignedMatchBatch" where
  "settle_batch p matches sigs = \<lparr>sb_batchId = pay p ''batchId'', sb_sessionId = pay p ''sessionId'', sb_matches = matches,
    sb_batchHash = pay p ''batchHash'', sb_signatures = sigs\<rparr>"

definition relay_mpc_settle :: "'w RelayerWorld \<Rightarrow> string \<Rightarrow> string \<Rightarrow> ServiceJob \<Rightarrow> ('w, json) qio" where
  "relay_mpc_settle R pool secret job =
    (let p = sj_payload job in
    bindIO (onWorld (settle_batch_matches R p)) (\<lambda>matches.
    bindIO (onWorld (pin_committee R pool secret p)) (\<lambda>committee.
    bindIO (liftIO (settle_signatures p)) (\<lambda>sigs.
    bindIO (liftIO (verifySignedBatch (rw_nacl R) (settle_batch p matches sigs) committee)) (\<lambda>valid.
    if \<not> valid then throwIO (Js_Error (''MPC batch '' @ pay p ''batchId'' @ '': signature verification failed (''
      @ bigint_to_string (int (length sigs)) @ '' sigs, need >=2/3)''))
    else bindIO (setStatusIO (sj_job_id job) ''verified_signatures'' (''batch '' @ pay p ''batchId'' @ '' - ''
        @ bigint_to_string (int (length sigs)) @ '' committee sigs valid'')) (\<lambda>_.
      bindIO (mpc_proof R job) (\<lambda>proof. submit_settlement R pool secret job sigs proof)))))))"

section \<open>The worker\<close>

definition RELAYER_JOB_TYPES :: "string list" where
  "RELAYER_JOB_TYPES = [''CCTP_INBOUND'', ''CCTP_INBOUND_AFTER_USER_BURN'', ''CCTP_INBOUND_BURN'', ''CCTP_FETCH_ATTESTATION'',
    ''STELLAR_MINT_FORWARD'', ''REGISTER_NOTE'', ''WITHDRAW_PUBLIC_SUBMIT'', ''WITHDRAW_CCTP_BURN'', ''RFQ_SETTLE_SUBMIT'',
    ''RFQ_ATOMIC_SWAP_SUBMIT'', ''CCTP_OUTBOUND_ATTESTATION'', ''CCTP_OUTBOUND_MINT'', ''MPC_SETTLE_SUBMIT'']"

definition INBOUND_ALIASES :: "string list" where
  "INBOUND_ALIASES = [''CCTP_INBOUND_BURN'', ''CCTP_FETCH_ATTESTATION'', ''STELLAR_MINT_FORWARD'', ''REGISTER_NOTE'']"

definition processRelayerJob :: "'w RelayerWorld \<Rightarrow> ServiceJob \<Rightarrow> ('w, json) qio" where
  "processRelayerJob R job =
    (let ty = sj_job_type job;
         pool = opt_or (pay_or (sj_payload job) ''pool'' (rw_env R ''SHIELDED_POOL_CONTRACT'')) [];
         secret = opt_or (rw_env R ''STELLAR_RELAYER_SECRET'') [] in
    if pool = [] \<or> secret = [] then throwIO (Js_Error ''relayer missing SHIELDED_POOL_CONTRACT / STELLAR_RELAYER_SECRET'')
    else if ty = ''CCTP_INBOUND'' \<or> ty \<in> set INBOUND_ALIASES then relay_inbound R pool job
    else if ty = ''WITHDRAW_PUBLIC_SUBMIT'' \<or> ty = ''WITHDRAW_CCTP_BURN'' then relay_broadcast R job
    else if ty = ''RFQ_SETTLE_SUBMIT'' then relay_rfq_settle R pool secret job
    else if ty = ''RFQ_ATOMIC_SWAP_SUBMIT'' then relay_atomic_swap R pool secret job
    else if ty = ''CCTP_OUTBOUND_ATTESTATION'' then relay_outbound_attestation R job
    else if ty = ''CCTP_OUTBOUND_MINT'' then relay_outbound_mint job
    else if ty = ''CCTP_INBOUND_AFTER_USER_BURN'' then relay_after_user_burn R pool job
    else if ty = ''MPC_SETTLE_SUBMIT'' then relay_mpc_settle R pool secret job
    else throwIO (Js_Error (''unknown relayer job type '' @ ty)))"

definition runRelayerOnce :: "'w RelayerWorld \<Rightarrow> int \<Rightarrow> int \<Rightarrow> ('w, bool) qio" where
  "runRelayerOnce R now later = run_worker_once (processRelayerJob R) Q_relayer RELAYER_JOB_TYPES now later"


section \<open>The relayer keeps the contract of a worker\<close>

lemma working_statuses [simp]:
  "\<not> claimable_status ''burning''" "\<not> claimable_status ''broadcasting''" "\<not> claimable_status ''submitting''"
  "\<not> claimable_status ''polling''" "\<not> claimable_status ''minting''" "\<not> claimable_status ''validating_burn''"
  "\<not> claimable_status ''burn_validated''" "\<not> claimable_status ''awaiting_proof_witness''"
  "\<not> claimable_status ''completing_stellar_side''" "\<not> claimable_status ''note_registered''"
  "\<not> claimable_status ''verified_signatures''" "\<not> claimable_status ''proving''" "\<not> claimable_status ''proof_ready''"
  by (simp_all add: claimable_status_def)

lemma relay_tame [intro!]:
  "tame (sj_job_id job) (relay_inbound R pool job)" "tame (sj_job_id job) (relay_broadcast R job)"
  "tame (sj_job_id job) (relay_rfq_settle R pool secret job)" "tame (sj_job_id job) (relay_atomic_swap R pool secret job)"
  "tame (sj_job_id job) (relay_outbound_attestation R job)" "tame (sj_job_id job) (relay_outbound_mint job)"
  "tame (sj_job_id job) (relay_after_user_burn R pool job)" "tame (sj_job_id job) (mpc_proof R job)"
  "tame (sj_job_id job) (submit_settlement R pool secret job sigs proof)"
  unfolding relay_inbound_def relay_broadcast_def relay_rfq_settle_def relay_atomic_swap_def relay_outbound_attestation_def
    relay_outbound_mint_def relay_after_user_burn_def mpc_proof_def submit_settlement_def Let_def
  by auto

lemma relay_mpc_settle_tame [intro!]: "tame (sj_job_id job) (relay_mpc_settle R pool secret job)"
  unfolding relay_mpc_settle_def Let_def by auto

lemma processRelayerJob_tame: "tame (sj_job_id job) (processRelayerJob R job)"
  unfolding processRelayerJob_def Let_def by auto

definition real_hash :: "string \<Rightarrow> bool" where
  "real_hash h \<longleftrightarrow> length h = 64 \<and> list_all (\<lambda>c. char_digit 16 c \<noteq> None) h"

lemma relayer_invoke_hash: "relayer_invoke R pool secret m a False w = (Inr r, w') \<Longrightarrow> real_hash (sr_txHash r)"
  using invoke_loop_hash by (fastforce simp: relayer_invoke_def sorobanInvoke_def rpc_opts_def real_hash_def)

text \<open>The results of settlement jobs carry the hash of a transaction.\<close>

definition settlement_types :: "string list" where
  "settlement_types = [''RFQ_SETTLE_SUBMIT'', ''RFQ_ATOMIC_SWAP_SUBMIT'', ''MPC_SETTLE_SUBMIT'']"

definition relayer_good :: "ServiceJob \<Rightarrow> json \<Rightarrow> bool" where
  "relayer_good job res \<longleftrightarrow>
    (sj_job_type job \<in> set settlement_types \<longrightarrow> (\<exists>h. json_get ''txHash'' res = Some (JStr h) \<and> real_hash h))"

lemma settle_result_hash: "json_get ''txHash'' (settle_result p proof h r) = Some (JStr (sr_txHash r))"
  by (auto simp: settle_result_def json_get_def opt_member_def split: option.splits)

lemma submit_settlement_ok:
  assumes "submit_settlement R pool secret job sigs proof s = (Inr res, s')"
  shows "\<not> note_data_missing (sj_payload job) \<and> (\<exists>h. json_get ''txHash'' res = Some (JStr h) \<and> real_hash h) \<and>
    (rw_process_env R ''ENABLE_UNSAFE_PROOFLESS_MPC_SETTLE'' \<noteq> Some ''true'' \<longrightarrow>
      (\<exists>pr. proof = Some pr \<and> mq_proofHex pr \<noteq> [] \<and> mq_publicHex pr \<noteq> []))"
proof -
  obtain q w where s: "s = (q, w)" by fastforce
  show ?thesis
    using assms unfolding submit_settlement_def Let_def s
    by (auto simp: bindIO_Inr_iff onWorld_Inr settle_result_hash split: if_splits option.splits dest!: relayer_invoke_hash)
qed

lemma unless_throwIO: "(if b then throwIO e else m) s = (Inr x, s') \<longleftrightarrow> \<not> b \<and> m s = (Inr x, s')"
  by simp

lemma relay_mpc_settle_ok:
  assumes "relay_mpc_settle R pool secret job (q, w) = (Inr res, s')"
  obtains ms committee sigs w1 w2 pf where
    "settle_batch_matches R (sj_payload job) w = (Inr ms, w1)"
    "pin_committee R pool secret (sj_payload job) w1 = (Inr committee, w2)"
    "settle_signatures (sj_payload job) = Inr sigs"
    "verifySignedBatch (rw_nacl R) (settle_batch (sj_payload job) ms sigs) committee = Inr True"
    "\<not> note_data_missing (sj_payload job)" "\<exists>h. json_get ''txHash'' res = Some (JStr h) \<and> real_hash h"
    "rw_process_env R ''ENABLE_UNSAFE_PROOFLESS_MPC_SETTLE'' \<noteq> Some ''true'' \<longrightarrow>
      (\<exists>pr. pf = Some pr \<and> mq_proofHex pr \<noteq> [] \<and> mq_publicHex pr \<noteq> [])"
    "\<exists>s1 s2. mpc_proof R job s1 = (Inr pf, s2)"
proof -
  from assms obtain ms committee sigs w1 w2 pf s1 s2 where *:
    "settle_batch_matches R (sj_payload job) w = (Inr ms, w1)"
    "pin_committee R pool secret (sj_payload job) w1 = (Inr committee, w2)"
    "settle_signatures (sj_payload job) = Inr sigs"
    "verifySignedBatch (rw_nacl R) (settle_batch (sj_payload job) ms sigs) committee = Inr True"
    "mpc_proof R job s1 = (Inr pf, s2)" "submit_settlement R pool secret job sigs pf s2 = (Inr res, s')"
    unfolding relay_mpc_settle_def Let_def by (clarsimp simp: bindIO_Inr_iff onWorld_Inr unless_throwIO) (metis (full_types))
  show thesis by (rule that [OF *(1-4)]) (use submit_settlement_ok [OF *(6)] *(5) in blast)+
qed

lemma processRelayerJob_sound:
  assumes "processRelayerJob R job s = (Inr res, s')"
  shows "relayer_good job res"
proof (cases "sj_job_type job \<in> set settlement_types")
  case True
  obtain q w where s: "s = (q, w)" by fastforce
  consider "sj_job_type job = ''RFQ_SETTLE_SUBMIT''" | "sj_job_type job = ''RFQ_ATOMIC_SWAP_SUBMIT''" | "sj_job_type job = ''MPC_SETTLE_SUBMIT''"
    using True by (auto simp: settlement_types_def)
  then have "\<exists>h. json_get ''txHash'' res = Some (JStr h) \<and> real_hash h"
  proof cases
    case 3
    then show ?thesis using assms unfolding processRelayerJob_def Let_def s
      by (auto simp: INBOUND_ALIASES_def split: if_splits elim!: relay_mpc_settle_ok)
  qed (use assms in \<open>auto simp: processRelayerJob_def Let_def INBOUND_ALIASES_def relay_rfq_settle_def relay_atomic_swap_def
      bindIO_Inr_iff onWorld_Inr s tx_result_def json_get_def split: if_splits dest!: relayer_invoke_hash\<close>)
  then show ?thesis by (simp add: relayer_good_def)
qed (simp add: relayer_good_def)

interpretation relayer: worker "processRelayerJob R" relayer_good for R :: "'w RelayerWorld"
proof
  show "working (sj_job_id job) q q'" if "processRelayerJob R job (q, w) = (r, q', w')" for job q w r q' w'
    using processRelayerJob_tame [of job R] that unfolding tame_def by blast
  show "relayer_good job res" if "processRelayerJob R job s = (Inr res, s')" for job s res s'
    using processRelayerJob_sound that .
qed

section \<open>Properties\<close>

text \<open>C32.  One turn of the relayer: with nothing to do it leaves queue and world alone.  Otherwise it takes
  the oldest relayer job that is due, touches no other job, keeps the queue's invariant, and leaves that
  job either \<open>ready\<close> with its result, which for a settlement job carries the 64-digit hash of a
  transaction, or failed, to be retried exactly while attempts are left.  It never throws.\<close>

theorem relayer_turn:
  assumes "queue_inv q" "runRelayerOnce R now later (q, w) = (r, (q', w'))"
  shows "queue_inv q' \<and>
    (r = Inr False \<and> q' = q \<and> w' = w \<and> filter (claimable now Q_relayer (Some RELAYER_JOB_TYPES)) (jd_jobs q) = [] \<or>
     r = Inr True \<and> (\<exists>j j'. claimable now Q_relayer (Some RELAYER_JOB_TYPES) j \<and> getJob q (sj_job_id j) = Some j \<and>
       (\<forall>k \<in> set (jd_jobs q). claimable now Q_relayer (Some RELAYER_JOB_TYPES) k \<longrightarrow> sj_created_at j \<le> sj_created_at k) \<and>
       (\<forall>i. i \<noteq> sj_job_id j \<longrightarrow> getJob q' i = getJob q i) \<and> getJob q' (sj_job_id j) = Some j' \<and>
       job_identity j' = job_identity (claim_job j) \<and>
       (sj_status j' = ''ready'' \<and> (\<exists>res. sj_result j' = Some res \<and> relayer_good (claim_job j) res) \<or>
        sj_status j' = (if sj_attempts j + 1 \<ge> sj_max_attempts j then ''failed'' else ''failed_retry'') \<and> sj_error j' \<noteq> None)))"
  by (rule relayer.turn [OF assms(1) assms(2) [unfolded runRelayerOnce_def]])

definition demo_relay_cli :: "int cli" where
  "demo_relay_cli a w =
    (if a ! 11 = ''get_committee'' then (\<lparr>cli_status = 0, cli_stdout = ''[\"00\"]'', cli_stderr = []\<rparr>, w)
     else demo_chain a w)"

definition demo_settlement_proof :: MpcSettlementProof where
  "demo_settlement_proof = \<lparr>mq_proofHex = ''01'', mq_publicHex = ''02'', mq_nullifierHashAHex = ''03'', mq_nullifierHashBHex = ''04'',
    mq_outputCommitmentAHex = ''05'', mq_outputCommitmentBHex = ''06'',
    mq_outPreimageA = \<lparr>pi_value = None, pi_label = None, pi_nullifier = None, pi_secret = None\<rparr>,
    mq_outPreimageB = \<lparr>pi_value = None, pi_label = None, pi_nullifier = None, pi_secret = None\<rparr>, mq_locallyVerified = True\<rparr>"

definition demo_relayer :: "int RelayerWorld" where
  "demo_relayer = \<lparr>rw_strkey = demo_StrKey, rw_nacl = plain_nacl, rw_inbound = demo_inbound\<lparr>cw_cli := demo_relay_cli\<rparr>,
    rw_env = [''SHIELDED_POOL_CONTRACT'' \<mapsto> ''CPOOL'', ''STELLAR_RELAYER_SECRET'' \<mapsto> ''SK''], rw_process_env = Map.empty,
    rw_defaultScratch = ''.scratch'', rw_readFile = (\<lambda>path w. (Inr ''{\"coin\":{}}'', w)), rw_commitments = (\<lambda>w. (Inr [], w)),
    rw_batch_matches = (\<lambda>b w. (Inr None, w)), rw_compute_root = (\<lambda>ls w. (Inr ''5'', w)),
    rw_buildMpcSettlementProof = (\<lambda>p w. (Inr demo_settlement_proof, w)),
    rw_getTransaction = (\<lambda>h w. (Inr None, w)), rw_getReceiptStatus = (\<lambda>h w. (Inr None, w)), rw_parseTransaction = (\<lambda>d. Inr None),
    rw_fromXDR = (\<lambda>x. Inr ()), rw_sendTransaction = (\<lambda>x w. (Inr \<lparr>snd_status = ''PENDING'', snd_hash = ''h'', snd_errorResult = JNull\<rparr>, w)),
    rw_txStatus = (\<lambda>h w. (Inr ''SUCCESS'', w))\<rparr>"

text \<open>The witness also shows that a mint without its attestation, whose result says pending, ends as ready.\<close>

theorem relayer_turn_witness:
  "\<exists>q q' j'. queue_inv q \<and> runRelayerOnce demo_relayer 1 1 (q, 0) = (Inr True, (q', 0)) \<and> queue_inv q' \<and>
    getJob q' ''j1'' = Some j' \<and> sj_status j' = ''ready'' \<and> json_get ''status'' (the (sj_result j')) = Some (JStr ''pending'')"
proof -
  let ?j = "new_job ''j1'' 0 Q_relayer ''CCTP_OUTBOUND_MINT'' (JObj []) None"
  let ?q = "\<lparr>jd_jobs = [?j], jd_events = []\<rparr>"
  let ?res = "JObj [(''status'', JStr ''pending''), (''note'', JStr ''message/attestation required from CCTP_OUTBOUND_ATTESTATION'')]"
  have inv: "queue_inv ?q" by (simp add: queue_inv_def job_keys_def new_job_ok)
  have cl: "claimNext 1 Q_relayer (Some RELAYER_JOB_TYPES) ?q = (Some (claim_job ?j), update_job ''j1'' claim_job ?q)"
    by (simp add: claimNext_def claimable_def new_job_def RELAYER_JOB_TYPES_def)
  have pr: "processRelayerJob demo_relayer (claim_job ?j) s = (Inr ?res, s)" for s
    by (simp add: processRelayerJob_def relay_outbound_mint_def claim_job_def new_job_def demo_relayer_def INBOUND_ALIASES_def
        pay_or_def json_get_def opt_or_def pay_true_def json_falsy_def)
  have jid: "sj_job_id (claim_job ?j) = ''j1''" by (simp add: claim_job_def new_job_def)
  have "getJob (update_job ''j1'' claim_job ?q) ''j1'' = Some (claim_job ?j)"
    by (simp add: getJob_def update_job_def new_job_def claim_job_def)
  from complete_run [OF this, of ?res "''ready''"] obtain q' where
    q': "complete_job ''j1'' ?res ''ready'' (update_job ''j1'' claim_job ?q) = Inr q'"
    "getJob q' ''j1'' = Some (claim_job ?j\<lparr>sj_status := ''ready'', sj_result := Some ?res, sj_error := None\<rparr>)" by blast
  have run: "runRelayerOnce demo_relayer 1 1 (?q, 0) = (Inr True, (q', 0))"
    using q'(1) by (simp add: runRelayerOnce_def run_worker_once_def cl bindIO_def catchIO_def pr onQueue_def jid returnIO_def)
  show ?thesis using relayer_turn [OF inv run] inv run q'(2)
    by (intro exI [of _ ?q] exI [of _ q'] exI conjI) (auto simp: json_get_def)
qed

text \<open>What the relayer refuses before it does anything: a job without a pool or its own key; the
  operator's own deposit unless it is switched on; a withdrawal that the user did not sign; a type it does
  not know.  The job tables and the world are untouched.\<close>

theorem relayer_refusals:
  assumes "rw_env R ''STELLAR_RELAYER_SECRET'' = None \<or>
      rw_env R ''SHIELDED_POOL_CONTRACT'' = None \<and> json_get ''pool'' (sj_payload job) = None \<or>
      (sj_job_type job = ''CCTP_INBOUND'' \<or> sj_job_type job \<in> set INBOUND_ALIASES) \<and>
        rw_env R ''ENABLE_OPERATOR_TESTNET_DEPOSIT'' \<noteq> Some ''true'' \<or>
      sj_job_type job \<in> {''WITHDRAW_PUBLIC_SUBMIT'', ''WITHDRAW_CCTP_BURN''} \<and> \<not> pay_true (sj_payload job) ''signedXdr'' \<or>
      sj_job_type job \<notin> set RELAYER_JOB_TYPES"
  shows "\<exists>e. processRelayerJob R job s = (Inl e, s)"
  using assms
  by (elim disjE conjE)
    (auto simp: processRelayerJob_def Let_def relay_inbound_def relay_broadcast_def RELAYER_JOB_TYPES_def INBOUND_ALIASES_def
      opt_or_def pay_or_def throwIO_def)

theorem relayer_refusals_witness:
  "\<exists>e. processRelayerJob demo_relayer (new_job ''j1'' 0 Q_relayer ''WITHDRAW_PUBLIC_SUBMIT'' (JObj []) None)
    (\<lparr>jd_jobs = [], jd_events = []\<rparr>, 0) = (Inl e, (\<lparr>jd_jobs = [], jd_events = []\<rparr>, 0))"
  by (rule relayer_refusals) (simp add: new_job_def pay_true_def json_get_def json_falsy_def)


definition demo_settle_job :: ServiceJob where
  "demo_settle_job = new_job ''j1'' 0 Q_relayer ''MPC_SETTLE_SUBMIT'' (JObj [(''batchId'', JStr ''b''), (''sessionId'', JStr ''s''),
    (''batchHash'', JStr ''00''), (''intentAId'', JStr ''A''), (''intentBId'', JStr ''B''),
    (''signatures'', JArr [JObj [(''nodeId'', JStr ''n''), (''signingPubkey'', JStr ''00''), (''signature'', JStr ''00'')]]),
    (''nullifierA'', JStr ''01''), (''nullifierB'', JStr ''02''), (''outputCommitmentA'', JStr ''03''), (''outputCommitmentB'', JStr ''04''),
    (''coinAPath'', JStr ''a''), (''coinBPath'', JStr ''b''), (''assocPath'', JStr ''c'')]) None"

lemma demo_relay_text:
  "parseSorobanTx (CHR 0x0A # ''[\"00\"]'') = None" "js_trim ''[\"00\"]'' = ''[\"00\"]''"
  "json_parse ''[\"00\"]'' = Inr (JArr [JStr ''00''])" "json_parse ''{\"coin\":{}}'' = Inr (JObj [(''coin'', JObj [])])"
  "to_decimal ''03'' = Inr ''3''" "to_decimal ''04'' = Inr ''4''" "js_trim ''5'' = ''5''" "BigInt ''5'' = Inr 5"
  by code_simp+

lemma demo_get_committee:
  "relayer_invoke demo_relayer pool k ''get_committee'' [] True w =
    (Inr \<lparr>sr_txHash = [], sr_returnValue = ''[\"00\"]'', sr_raw = redact (CHR 0x0A # ''[\"00\"]'') k\<rparr>, w)"
  and demo_mpc_settle:
  "relayer_invoke demo_relayer pool k ''mpc_settle'' a False w = (Inr (demo_call_result k), w)"
proof -
  note three = invoke_loop.simps(2) [where n = 2, unfolded Suc_numeral add_num_simps]
  show "relayer_invoke demo_relayer pool k ''get_committee'' [] True w =
    (Inr \<lparr>sr_txHash = [], sr_returnValue = ''[\"00\"]'', sr_raw = redact (CHR 0x0A # ''[\"00\"]'') k\<rparr>, w)"
    by (simp add: relayer_invoke_def sorobanInvoke_def rpc_opts_def three invoke_argv_def demo_relayer_def demo_relay_cli_def
        demo_relay_text Let_def)
  show "relayer_invoke demo_relayer pool k ''mpc_settle'' a False w = (Inr (demo_call_result k), w)"
    using demo_hash
    by (simp add: relayer_invoke_def sorobanInvoke_def rpc_opts_def three invoke_argv_def demo_relayer_def demo_relay_cli_def
        demo_chain_def demo_text Let_def demo_call_result_def)
qed

lemma demo_pin: "pin_committee demo_relayer pool k p w =
    (Inr [\<lparr>ni_nodeId = ''chain-'' @ bigint_to_string 0, ni_encryptionPubkey = [], ni_signingPubkey = ''00''\<rparr>], w)"
proof -
  have "lower ''00'' = ''00''" by code_simp
  then show ?thesis
    by (simp add: pin_committee_def catchIO_def bindIO_def demo_get_committee committee_of_text_def demo_relay_text bindR_def
        committee_member_def liftIO_def)
qed

lemma demo_matches: "settle_batch_matches demo_relayer (sj_payload demo_settle_job) w = (Inr [payload_match (sj_payload demo_settle_job)], w)"
  by (simp add: settle_batch_matches_def demo_relayer_def catchIO_def bindIO_def returnIO_def demo_settle_job_def new_job_def
      pay_true_def json_get_def json_falsy_def)

lemma demo_sigs: "settle_signatures (sj_payload demo_settle_job) =
    Inr [\<lparr>ns_nodeId = ''n'', ns_signingPubkey = ''00'', ns_signature = ''00''\<rparr>]"
  by (simp add: settle_signatures_def demo_settle_job_def new_job_def json_get_def signature_of_json_def pay_def js_string_opt_def)

lemma demo_verify:
  "verifySignedBatch plain_nacl (settle_batch p ms [\<lparr>ns_nodeId = ''n'', ns_signingPubkey = ''00'', ns_signature = ''00''\<rparr>])
    [\<lparr>ni_nodeId = i, ni_encryptionPubkey = [], ni_signingPubkey = ''00''\<rparr>] = Inr True"
  unfolding verifySignedBatch_iff by (simp add: settle_batch_def quorum_def verifyNodeSignature_def plain_nacl_def)

lemma demo_settlement_proof_hex: "mq_proofHex demo_settlement_proof \<noteq> []" "mq_publicHex demo_settlement_proof \<noteq> []"
  by (simp_all add: demo_settlement_proof_def)

lemma demo_proof:
  assumes "getJob q ''j1'' \<noteq> None"
  obtains q' where "mpc_proof demo_relayer demo_settle_job (q, w) =
      (Inr (Some demo_settlement_proof), (q', w))"
    "getJob q' ''j1'' \<noteq> None"
proof -
  let ?p = "sj_payload demo_settle_job"
  have id: "sj_job_id demo_settle_job = ''j1''" by (simp add: demo_settle_job_def new_job_def)
  have paths: "pay_true ?p ''coinAPath''" "pay_true ?p ''coinBPath''" "pay_true ?p ''assocPath''"
    by (simp_all add: demo_settle_job_def new_job_def pay_true_def json_get_def json_falsy_def)
  have leaves: "pool_leaves demo_relayer w = (Inr [], w)" for w
    by (simp add: pool_leaves_def demo_relayer_def catchIO_def bindIO_def liftIO_def)
  have "\<exists>c. coinFromPath demo_relayer path w = (Inr c, w)" for path w
    by (simp add: coinFromPath_def demo_relayer_def bindIO_def demo_relay_text liftIO_def coin_of_json_def json_get_def)
  then obtain c where coin: "\<And>path w. coinFromPath demo_relayer path w = (Inr (c path w), w)" by metis
  have now: "cw_now (rw_inbound demo_relayer) w = (Inr 0, w)" for w by (simp add: demo_relayer_def demo_inbound_def)
  have build: "rw_buildMpcSettlementProof demo_relayer x w =
    (Inr demo_settlement_proof, w)" for x w
    by (simp add: demo_relayer_def)
  obtain q1 where q1: "setStatusIO ''j1'' ''proving'' (''generating mpc_settlement ZK proof for batch '' @ pay ?p ''batchId'') (q, w) = (Inr (), (q1, w))"
    "getJob q1 ''j1'' \<noteq> None" by (rule setStatusIO_run [OF assms])
  obtain q2 where q2: "setStatusIO ''j1'' ''proof_ready'' (''ZK proof generated - locally verified: true, nullifierA: 03...'') (q1, w) = (Inr (), (q2, w))"
    "getJob q2 ''j1'' \<noteq> None" by (rule setStatusIO_run [OF q1(2)])
  show thesis
    by (rule that [of q2]) (use q1 q2 in \<open>simp_all add: mpc_proof_def id paths Let_def bindIO_def catchIO_def onWorld_def now leaves coin build returnIO_def demo_settlement_proof_def\<close>)
qed


end
