(* ===== verification/Prover.thy ===== *)
theory Prover
  imports Worker Proving
begin

text \<open>
  \<open>apps/prover/src/worker.ts\<close>: the worker that turns proof jobs into proofs with the builders of
  \<open>packages/proving\<close>.  It keeps the contract of the locale \<open>worker\<close>; the goodness of a result is that its
  proof was verified locally.
\<close>

definition PROOF_JOB_TYPES :: "string list" where
  "PROOF_JOB_TYPES = [''withdraw_public'', ''withdraw_cctp'', ''rfq_settlement'', ''private_transfer'', ''deposit_note_mint'']"

definition SCRATCH :: "'w Tools \<Rightarrow> string" where
  "SCRATCH T = env_or (tl_env T) ''LUMIXPROTOCOL_SCRATCH_DIR''
    (tl_resolve T (env_or (tl_env T) ''LUMIXPROTOCOL_ROOT'' (tl_cwd T)) ''.scratch'')"

section \<open>The payload of a proof job\<close>

definition text_or :: "json \<Rightarrow> string \<Rightarrow> string \<Rightarrow> string" where
  "text_or p k d = (case json_get k p of None \<Rightarrow> d | Some JNull \<Rightarrow> d | Some j \<Rightarrow> js_string j)"

definition text_opt :: "json \<Rightarrow> string \<Rightarrow> string option" where
  "text_opt p k = (case json_get k p of None \<Rightarrow> None | Some JNull \<Rightarrow> None | Some j \<Rightarrow> Some (js_string j))"

definition texts_or :: "json \<Rightarrow> string \<Rightarrow> string list \<Rightarrow> string list" where
  "texts_or p k d = (case json_get k p of Some (JArr js) \<Rightarrow> map js_string js | _ \<Rightarrow> d)"

definition binding_of :: "json \<Rightarrow> WithdrawBinding option" where
  "binding_of p =
    (case json_get ''binding'' p of
       None \<Rightarrow> None
     | Some JNull \<Rightarrow> None
     | Some b \<Rightarrow> Some \<lparr>wb_operationType = js_string_opt (json_get ''operationType'' b), wb_recipientHash = js_string_opt (json_get ''recipientHash'' b),
         wb_relayerFee = js_string_opt (json_get ''relayerFee'' b), wb_deadlineLedger = js_string_opt (json_get ''deadlineLedger'' b),
         wb_quoteHash = text_opt b ''quoteHash'', wb_intentHash = text_opt b ''intentHash'', wb_fillReceiptHash = text_opt b ''fillReceiptHash'',
         wb_destinationDomain = text_opt b ''destinationDomain'', wb_destinationRecipient = text_opt b ''destinationRecipient'',
         wb_maxFee = text_opt b ''maxFee'', wb_minFinalityThreshold = text_opt b ''minFinalityThreshold''\<rparr>)"

definition deposit_binding_of :: "json \<Rightarrow> DepositBinding" where
  "deposit_binding_of b = \<lparr>db_sourceDomain = js_string_opt (json_get ''sourceDomain'' b), db_destinationDomain = js_string_opt (json_get ''destinationDomain'' b),
    db_cctpNonceHex = js_string_opt (json_get ''cctpNonceHex'' b), db_burnTxHashHex = js_string_opt (json_get ''burnTxHashHex'' b),
    db_amount6dp = js_string_opt (json_get ''amount6dp'' b), db_amount7dp = js_string_opt (json_get ''amount7dp'' b),
    db_assetStrkey = js_string_opt (json_get ''assetStrkey'' b), db_poolStrkey = js_string_opt (json_get ''poolStrkey'' b),
    db_encryptedNotePayloadHashHex = js_string_opt (json_get ''encryptedNotePayloadHashHex'' b), db_policyIdHex = js_string_opt (json_get ''policyIdHex'' b),
    db_poolId = js_string_opt (json_get ''poolId'' b), db_chainId = js_string_opt (json_get ''chainId'' b)\<rparr>"

definition prover_coin :: "'w Tools \<Rightarrow> string \<Rightarrow> ('w, GeneratedCoin) io" where
  "prover_coin T path =
    bindIO (read_json T path) (\<lambda>c.
    bindIO (liftIO (get_member ''coin'' (Some c))) (\<lambda>coin.
    bindIO (liftIO (get_member ''commitment'' coin)) (\<lambda>commitment.
    returnIO \<lparr>gc_path = path, gc_commitmentHex = js_string_opt (json_get ''commitment_hex'' c), gc_commitmentDecimal = js_string_opt commitment,
      gc_value7dp = js_string_opt (json_get ''value'' (the coin)), gc_assetIdField = text_or (the coin) ''asset_id'' []\<rparr>)))"

section \<open>Processing\<close>

definition assertVerified :: "ServiceJob \<Rightarrow> bool \<Rightarrow> ('w, unit) qio" where
  "assertVerified job ok =
    bindIO (setStatusIO (sj_job_id job) ''verifying_locally'' (if ok then ''snarkjs verify OK'' else ''snarkjs verify FAILED'')) (\<lambda>_.
    if \<not> ok then throwIO (Js_Error ''local proof verification failed'') else returnIO ())"

definition requires_assoc :: "ServiceJob \<Rightarrow> js_error" where
  "requires_assoc job = Js_Error (sj_job_type job @ '' requires assocPath'')"

definition proof_result :: "'w Tools \<Rightarrow> ServiceJob \<Rightarrow> GeneratedCoin \<Rightarrow> string \<Rightarrow> ('w, json) qio" where
  "proof_result T job coin tag =
    (let p = sj_payload job; commitments = texts_or p ''commitmentsDecimal'' [gc_commitmentDecimal coin]; scope = text_or p ''scope'' ''lumixprotocol'';
         assoc = json_get ''assocPath'' p in
    if sj_job_type job = ''private_transfer'' then
      (if json_falsy assoc then throwIO (requires_assoc job)
       else bindIO (onWorld (buildTransferProof T coin commitments scope (text_or p ''fee7dp'' ''0'') (SCRATCH T) tag (text_opt p ''assocPath''))) (\<lambda>pr.
         bindIO (assertVerified job (tp_locallyVerified pr)) (\<lambda>_.
         returnIO (JObj [(''proofHex'', JStr (tp_proofHex pr)), (''publicHex'', JStr (tp_publicHex pr)), (''stateRootHex'', JStr (tp_stateRootHex pr)),
           (''associationRootHex'', JStr (tp_associationRootHex pr)), (''outputCommitmentHex'', JStr (tp_outputCommitmentHex pr))]))))
    else if sj_job_type job = ''deposit_note_mint'' then
      (if json_falsy (json_get ''depositBinding'' p) then throwIO (Js_Error ''deposit_note_mint requires depositBinding'')
       else bindIO (onWorld (buildDepositProof T coin (deposit_binding_of (the (json_get ''depositBinding'' p))) (SCRATCH T) tag)) (\<lambda>pr.
         bindIO (assertVerified job (dp_locallyVerified pr)) (\<lambda>_.
         returnIO (JObj [(''proofHex'', JStr (dp_proofHex pr)), (''publicHex'', JStr (dp_publicHex pr)), (''commitmentHex'', JStr (dp_commitmentHex pr))]))))
    else
      (if json_falsy assoc then throwIO (requires_assoc job)
       else bindIO (onWorld (buildNoteProof T coin commitments scope (SCRATCH T) tag (text_or p ''assocPath'' []) (binding_of p))) (\<lambda>pr.
         bindIO (assertVerified job (np_locallyVerified pr)) (\<lambda>_.
         returnIO (JObj [(''proofHex'', JStr (np_proofHex pr)), (''publicHex'', JStr (np_publicHex pr)), (''stateRootHex'', JStr (np_stateRootHex pr))])))))"

text \<open>The clean-up of witness files, whose failures are ignored.\<close>

definition remove_witnesses :: "'w Tools \<Rightarrow> string \<Rightarrow> ('w, unit) io" where
  "remove_witnesses T tag =
    foldr (\<lambda>f rest. bindIO (catchIO (tl_rm T (SCRATCH T @ ''/'' @ tag @ f)) (\<lambda>_. returnIO ())) (\<lambda>_. rest))
      [''_witness.wtns'', ''_x.wtns'', ''_dep.wtns''] (returnIO ())"

definition prove_job :: "'w Tools \<Rightarrow> ServiceJob \<Rightarrow> ('w, json) qio" where
  "prove_job T job =
    (let p = sj_payload job; tag = text_or p ''tag'' (''job_'' @ take 8 (sj_job_id job)) in
    bindIO (onWorld (prover_coin T (js_string_opt (json_get ''coinPath'' p)))) (\<lambda>coin.
    bindIO (setStatusIO (sj_job_id job) ''building_witness'' (sj_job_type job @ '' witness'')) (\<lambda>_.
    bindIO (setStatusIO (sj_job_id job) ''proving'' ''groth16 prove'') (\<lambda>_.
    bindIO (proof_result T job coin tag) (\<lambda>res.
    bindIO (setStatusIO (sj_job_id job) ''converting_for_soroban'' ''circom2soroban bytes ready'') (\<lambda>_.
    bindIO (onWorld (remove_witnesses T tag)) (\<lambda>_. returnIO res)))))))"

definition processProofJob :: "'w Tools \<Rightarrow> ServiceJob \<Rightarrow> ('w, json) qio" where
  "processProofJob T job =
    bindIO (prove_job T job) (\<lambda>res. bindIO (onQueue (complete_job (sj_job_id job) res ''ready'')) (\<lambda>_. returnIO res))"

definition runProverOnce :: "'w Tools \<Rightarrow> int \<Rightarrow> int \<Rightarrow> ('w, bool) qio" where
  "runProverOnce T now later s =
    (case s of (q, w) \<Rightarrow>
      (case claimNext now Q_prover (Some PROOF_JOB_TYPES) q of
         (None, q') \<Rightarrow> (Inr False, (q', w))
       | (Some job, q') \<Rightarrow>
           bindIO (catchIO (bindIO (processProofJob T job) (\<lambda>_. returnIO ()))
               (\<lambda>e. onQueue (fail_job later (sj_job_id job) (err_message e) 10)))
             (\<lambda>_. returnIO True) (q', w)))"

section \<open>The prover keeps the contract of a worker\<close>

lemma bindIO_assoc: "bindIO (bindIO m f) g = bindIO m (\<lambda>x. bindIO (f x) g)"
  by (auto simp: bindIO_def fun_eq_iff split: prod.splits sum.splits)

lemma bindIO_unit: "bindIO m (\<lambda>_. returnIO ()) = m"
  by (auto simp: bindIO_def fun_eq_iff split: prod.splits sum.splits)

lemma runProverOnce_worker: "runProverOnce T now later = run_worker_once (prove_job T) Q_prover PROOF_JOB_TYPES now later"
  unfolding runProverOnce_def run_worker_once_def processProofJob_def bindIO_assoc bindIO_simps bindIO_unit fun_eq_iff by simp

lemma proving_statuses [simp]:
  "\<not> claimable_status ''building_witness''" "\<not> claimable_status ''proving''" "\<not> claimable_status ''verifying_locally''"
  "\<not> claimable_status ''converting_for_soroban''"
  by (simp_all add: claimable_status_def)

lemma prove_job_tame: "tame (sj_job_id job) (prove_job T job)"
  unfolding prove_job_def proof_result_def assertVerified_def Let_def by auto

definition circuit_keys :: "'w Tools \<Rightarrow> string \<Rightarrow> string" where
  "circuit_keys T ty = (if ty = ''private_transfer'' then transferCircuitDir T
    else if ty = ''deposit_note_mint'' then depositCircuitDir T else withdrawCircuitDir T) @ ''/output/main_verification_key.json''"

definition prover_good :: "'w Tools \<Rightarrow> ServiceJob \<Rightarrow> json \<Rightarrow> bool" where
  "prover_good T job res \<longleftrightarrow>
    (\<exists>ph qh. json_get ''proofHex'' res = Some (JStr ph) \<and> json_get ''publicHex'' res = Some (JStr qh) \<and>
      verified_proof T (circuit_keys T (sj_job_type job)) ph qh)"

lemma assertVerified_Inr: "assertVerified job ok s = (Inr u, s') \<Longrightarrow> ok"
  by (auto simp: assertVerified_def bindIO_Inr_iff split: if_splits)

lemma onWorld_InrE: "onWorld m s = (Inr x, s') \<Longrightarrow> \<exists>w w'. m w = (Inr x, w')"
  by (auto simp: onWorld_def split: prod.splits)

lemma proof_result_good:
  assumes "proof_result T job coin tag s = (Inr res, s')"
  shows "prover_good T job res"
  using assms unfolding proof_result_def Let_def prover_good_def circuit_keys_def
  by (auto simp: bindIO_Inr_iff json_get_def split: if_splits dest!: assertVerified_Inr onWorld_InrE
      dest: buildTransferProof_verified buildDepositProof_verified buildNoteProof_verified)

lemma prove_job_good: "prove_job T job s = (Inr res, s') \<Longrightarrow> prover_good T job res"
  unfolding prove_job_def Let_def by (auto simp: bindIO_Inr_iff dest: proof_result_good)

interpretation prover: worker "prove_job T" "prover_good T" for T :: "'w Tools"
proof
  show "working (sj_job_id job) q q'" if "prove_job T job (q, w) = (r, q', w')" for job q w r q' w'
    using prove_job_tame [of job T] that unfolding tame_def by blast
  show "prover_good T job res" if "prove_job T job s = (Inr res, s')" for job s res s'
    using prove_job_good that .
qed

section \<open>Properties\<close>

text \<open>C34.  One turn of the prover: it takes the oldest proof job that is due and touches no other; the job
  ends \<open>ready\<close> only with proof bytes converted from the very files that the verifier accepted under the
  verification key of the job's circuit, and otherwise failed, to be retried while attempts are left.\<close>

theorem prover_turn:
  assumes "queue_inv q" "runProverOnce T now later (q, w) = (r, (q', w'))"
  shows "queue_inv q' \<and>
    (r = Inr False \<and> q' = q \<and> w' = w \<and> filter (claimable now Q_prover (Some PROOF_JOB_TYPES)) (jd_jobs q) = [] \<or>
     r = Inr True \<and> (\<exists>j j'. claimable now Q_prover (Some PROOF_JOB_TYPES) j \<and> getJob q (sj_job_id j) = Some j \<and>
       (\<forall>k \<in> set (jd_jobs q). claimable now Q_prover (Some PROOF_JOB_TYPES) k \<longrightarrow> sj_created_at j \<le> sj_created_at k) \<and>
       (\<forall>i. i \<noteq> sj_job_id j \<longrightarrow> getJob q' i = getJob q i) \<and> getJob q' (sj_job_id j) = Some j' \<and>
       job_identity j' = job_identity (claim_job j) \<and>
       (sj_status j' = ''ready'' \<and> (\<exists>res. sj_result j' = Some res \<and> prover_good T (claim_job j) res) \<or>
        sj_status j' = (if sj_attempts j + 1 \<ge> sj_max_attempts j then ''failed'' else ''failed_retry'') \<and> sj_error j' \<noteq> None)))"
  by (rule prover.turn [OF assms(1) assms(2) [unfolded runProverOnce_worker]])

definition demo_proof_job :: ServiceJob where
  "demo_proof_job = new_job ''j1'' 0 Q_prover ''withdraw_public'' (JObj [(''coinPath'', JStr ''c''), (''assocPath'', JStr ''a'')]) None"

lemma demo_files: "read_json demo_tools path w = (Inr (JObj [(''coin'', JObj []), (''stateRoot'', JNum 5)]), w)"
proof -
  have "json_parse ''{\"coin\":{},\"stateRoot\":5}'' = Inr (JObj [(''coin'', JObj []), (''stateRoot'', JNum 5)])" by code_simp
  then show ?thesis by (simp add: read_json_def demo_tools_def bindIO_def liftIO_def)
qed

lemma demo_circuit: "run_circuit demo_tools d i x p q w = (Inr ''OK!'', w)"
  by (simp add: run_circuit_def groth16_def snarkjs_def bindIO_def demo_tools_def)

lemma demo_bytes: "to_soroban demo_tools c p q w = (Inr (js_trim ''01'', js_trim ''02''), w)"
  by (simp add: to_soroban_def bindIO_def demo_tools_def returnIO_def)

lemma demo_write: "tl_writeFile demo_tools p t w = (Inr (), w)"
  and demo_exec: "tl_exec demo_tools c (''withdraw'' # a) w = (Inr ''OK!'', w)"
  by (simp_all add: demo_tools_def)

lemma demo_note_proof:
  "\<exists>h. buildNoteProof demo_tools coin cs scope scratch tag assoc b w =
    (Inr \<lparr>np_proofHex = js_trim ''01'', np_publicHex = js_trim ''02'', np_stateRootHex = h, np_locallyVerified = True\<rparr>, w)"
  by (simp add: buildNoteProof_def Let_def bindIO_def demo_files demo_circuit demo_bytes get_member_def hexRoot_def BigInt_json_def liftIO_def
      returnIO_def json_get_def verified_def starts_with_def demo_write demo_exec)

lemma demo_removal: "remove_witnesses demo_tools tag w = (Inr (), w)"
  by (simp add: remove_witnesses_def bindIO_def catchIO_def demo_tools_def returnIO_def)

lemma demo_prove:
  assumes "getJob q ''j1'' \<noteq> None"
  obtains res q' where "prove_job demo_tools (claim_job demo_proof_job) (q, w) = (Inr res, (q', w))" "getJob q' ''j1'' \<noteq> None"
proof -
  let ?j = "claim_job demo_proof_job"
  have id: "sj_job_id ?j = ''j1''" "sj_job_type ?j = ''withdraw_public''"
    "sj_payload ?j = JObj [(''coinPath'', JStr ''c''), (''assocPath'', JStr ''a'')]"
    by (simp_all add: claim_job_def demo_proof_job_def new_job_def)
  have coin: "\<exists>c. prover_coin demo_tools path w = (Inr c, w)" for path
    by (simp add: prover_coin_def bindIO_def demo_files get_member_def json_get_def liftIO_def returnIO_def)
  obtain q1 where q1: "setStatusIO ''j1'' ''building_witness'' (''withdraw_public'' @ '' witness'') (q, w) = (Inr (), (q1, w))" "getJob q1 ''j1'' \<noteq> None"
    by (rule setStatusIO_run [OF assms])
  obtain q2 where q2: "setStatusIO ''j1'' ''proving'' ''groth16 prove'' (q1, w) = (Inr (), (q2, w))" "getJob q2 ''j1'' \<noteq> None"
    by (rule setStatusIO_run [OF q1(2)])
  obtain q3 where q3: "setStatusIO ''j1'' ''verifying_locally'' ''snarkjs verify OK'' (q2, w) = (Inr (), (q3, w))" "getJob q3 ''j1'' \<noteq> None"
    by (rule setStatusIO_run [OF q2(2)])
  obtain q4 where q4: "setStatusIO ''j1'' ''converting_for_soroban'' ''circom2soroban bytes ready'' (q3, w) = (Inr (), (q4, w))" "getJob q4 ''j1'' \<noteq> None"
    by (rule setStatusIO_run [OF q3(2)])
  have "\<exists>res. proof_result demo_tools ?j c tag (q2, w) = (Inr res, (q3, w))" for c tag
  proof -
    obtain h where "buildNoteProof demo_tools c (texts_or (sj_payload ?j) ''commitmentsDecimal'' [gc_commitmentDecimal c])
        (text_or (sj_payload ?j) ''scope'' ''lumixprotocol'') (SCRATCH demo_tools) tag (text_or (sj_payload ?j) ''assocPath'' []) (binding_of (sj_payload ?j)) w =
      (Inr \<lparr>np_proofHex = js_trim ''01'', np_publicHex = js_trim ''02'', np_stateRootHex = h, np_locallyVerified = True\<rparr>, w)"
      using demo_note_proof by blast
    moreover have "\<not> json_falsy (json_get ''assocPath'' (sj_payload ?j))" by (simp add: id json_get_def json_falsy_def)
    ultimately show ?thesis
      using q3(1) by (simp add: proof_result_def Let_def id(1,2) bindIO_def onWorld_def assertVerified_def returnIO_def)
  qed
  then obtain res where res: "\<And>c tag. proof_result demo_tools ?j c tag (q2, w) = (Inr (res c tag), (q3, w))" by metis
  obtain c where "\<And>path. prover_coin demo_tools path w = (Inr (c path), w)" using coin by metis
  then have "\<exists>res. prove_job demo_tools ?j (q, w) = (Inr res, (q4, w))"
    using q1(1) q2(1) q4(1) by (simp add: prove_job_def Let_def id bindIO_def onWorld_def demo_removal returnIO_def res)
  then show thesis using that q4(2) by blast
qed

theorem prover_turn_witness:
  "\<exists>q q' j'. queue_inv q \<and> runProverOnce demo_tools 1 1 (q, 0) = (Inr True, (q', 0)) \<and> queue_inv q' \<and>
    getJob q' ''j1'' = Some j' \<and> sj_status j' = ''ready''"
proof -
  let ?j = demo_proof_job
  let ?q = "\<lparr>jd_jobs = [?j], jd_events = []\<rparr>"
  have inv: "queue_inv ?q" by (simp add: queue_inv_def job_keys_def new_job_ok demo_proof_job_def)
  have id: "sj_job_id ?j = ''j1''" "sj_job_id (claim_job ?j) = ''j1''" by (simp_all add: demo_proof_job_def new_job_def claim_job_def)
  have cl: "claimNext 1 Q_prover (Some PROOF_JOB_TYPES) ?q = (Some (claim_job ?j), update_job ''j1'' claim_job ?q)"
    by (simp add: claimNext_def claimable_def new_job_def demo_proof_job_def PROOF_JOB_TYPES_def)
  have "getJob (update_job ''j1'' claim_job ?q) ''j1'' \<noteq> None" by (simp add: getJob_def update_job_def id)
  then obtain res q1 where q1: "prove_job demo_tools (claim_job ?j) (update_job ''j1'' claim_job ?q, 0) = (Inr res, (q1, 0))" "getJob q1 ''j1'' \<noteq> None"
    by (rule demo_prove)
  obtain j1 where "getJob q1 ''j1'' = Some j1" using q1(2) by blast
  from complete_run [OF this, of res "''ready''"] obtain q' where q': "complete_job ''j1'' res ''ready'' q1 = Inr q'"
    "getJob q' ''j1'' = Some (j1\<lparr>sj_status := ''ready'', sj_result := Some res, sj_error := None\<rparr>)" by blast
  have run: "runProverOnce demo_tools 1 1 (?q, 0) = (Inr True, (q', 0))"
    using q1(1) q'(1) by (simp add: runProverOnce_worker run_worker_once_def cl bindIO_def catchIO_def onQueue_def id returnIO_def)
  show ?thesis using prover_turn [OF inv run] inv run q'(2)
    by (intro exI [of _ ?q] exI [of _ q'] exI conjI) auto
qed

end
