(* ===== verification/Note_Vault.thy ===== *)
theory Note_Vault
  imports Cctp Committee "HOL-Library.AList"
begin

text \<open>
  \<open>packages/note-vault/src/index.ts\<close> (of which \<open>frontend/lib/note-vault.ts\<close> is a copy): the encrypted vault of
  a user's notes, its envelope, the wrapped master keys, and the gates that keep secrets out of what is
  stored, sent and logged.  WebCrypto is the record \<open>WebCrypto\<close>; random bytes are arguments.  The members
  of a JSON object have distinct names.
\<close>

section \<open>Base64\<close>

definition b64_char :: "nat \<Rightarrow> char" where
  "b64_char n = char_of (if n < 26 then n + 65 else if n < 52 then n + 71 else if n < 62 then n - 4 else if n = 62 then 43 else 47)"

definition b64_value :: "char \<Rightarrow> nat option" where
  "b64_value c =
    (let k = (of_char c :: nat)
     in if 65 \<le> k \<and> k \<le> 90 then Some (k - 65) else if 97 \<le> k \<and> k \<le> 122 then Some (k - 71)
        else if 48 \<le> k \<and> k \<le> 57 then Some (k + 4) else if k = 43 then Some 62 else if k = 47 then Some 63 else None)"

text \<open>\<open>btoa\<close> of the string with these character codes.\<close>

fun toB64 :: "bytes \<Rightarrow> string" where
  "toB64 [] = []"
| "toB64 [a] = [b64_char (unat a div 4), b64_char (unat a mod 4 * 16), CHR ''='', CHR ''='']"
| "toB64 [a, b] = [b64_char (unat a div 4), b64_char (unat a mod 4 * 16 + unat b div 16), b64_char (unat b mod 16 * 4), CHR ''='']"
| "toB64 (a # b # c # r) =
    [b64_char (unat a div 4), b64_char (unat a mod 4 * 16 + unat b div 16), b64_char (unat b mod 16 * 4 + unat c div 64), b64_char (unat c mod 64)]
    @ toB64 r"

text \<open>\<open>atob\<close>: white space is removed, then up to two \<open>=\<close> when the length is a multiple of four; a length of
  \<open>4k + 1\<close> and any other character are errors; incomplete bytes are dropped.\<close>

fun b64_bytes :: "nat list \<Rightarrow> bytes" where
  "b64_bytes (w # x # y # z # r) = byte_of (w * 4 + x div 16) # byte_of (x mod 16 * 16 + y div 4) # byte_of (y mod 4 * 64 + z) # b64_bytes r"
| "b64_bytes [w, x, y] = [byte_of (w * 4 + x div 16), byte_of (x mod 16 * 16 + y div 4)]"
| "b64_bytes [w, x] = [byte_of (w * 4 + x div 16)]"
| "b64_bytes _ = []"

definition strip_padding :: "string \<Rightarrow> string" where
  "strip_padding s =
    (if length s mod 4 \<noteq> 0 \<or> s = [] \<or> last s \<noteq> CHR ''='' then s
     else let t = butlast s in if t \<noteq> [] \<and> last t = CHR ''='' then butlast t else t)"

definition ascii_space :: "char \<Rightarrow> bool" where
  "ascii_space c \<longleftrightarrow> (of_char c :: nat) \<in> {9, 10, 12, 13, 32}"

definition fromB64 :: "string \<Rightarrow> bytes result" where
  "fromB64 s =
    (let t = strip_padding (filter (\<lambda>c. \<not> ascii_space c) s)
     in if length t mod 4 = 1 \<or> None \<in> set (map b64_value t) then Inl (Js_Error ''InvalidCharacterError'')
        else Inr (b64_bytes (map (the \<circ> b64_value) t)))"

section \<open>Types\<close>

record NotePreimage =
  nm_owner_secret :: string
  nm_spend_secret :: string
  nm_blinding :: string
  nm_nonce :: string
  nm_memo_commitment :: string
  nm_compliance_tag :: string
  nm_source_context :: string

record VaultNote =
  vn_commitment :: string
  vn_asset_id :: string
  vn_amount_7dp :: string
  vn_note_preimage :: NotePreimage
  vn_deposit_id :: "string option"
  vn_status :: string
  vn_created_at :: string

record NoteVault =
  nv_vault_id :: string
  nv_created_at :: string
  nv_updated_at :: string
  nv_notes :: "VaultNote list"

datatype WrapperType = Passkey_Prf | Stellar_Ed25519_Signature | Recovery_File_Secret | Recovery_Kit_Password | Evm_Signature

fun wrapper_type_text :: "WrapperType \<Rightarrow> string" where
  "wrapper_type_text Passkey_Prf = ''passkey_prf''"
| "wrapper_type_text Stellar_Ed25519_Signature = ''stellar_ed25519_signature''"
| "wrapper_type_text Recovery_File_Secret = ''recovery_file_secret''"
| "wrapper_type_text Recovery_Kit_Password = ''recovery_kit_password''"
| "wrapper_type_text Evm_Signature = ''evm_signature''"

record VaultWrapper =
  vw_id :: string
  vw_type :: WrapperType
  vw_active :: bool
  vw_kdf :: string
  vw_salt :: string
  vw_wrapped_key :: string
  vw_diagnostic_only :: bool
  vw_metadata :: json

record VaultAad =
  va_app :: string
  va_origin :: string
  va_vault_id :: string
  va_privy_user_id :: string
  va_vault_version :: int

text \<open>What \<open>JSON.stringify\<close> makes of them.\<close>

definition preimage_json :: "NotePreimage \<Rightarrow> json" where
  "preimage_json n = JObj [(''owner_secret'', JStr (nm_owner_secret n)), (''spend_secret'', JStr (nm_spend_secret n)),
    (''blinding'', JStr (nm_blinding n)), (''nonce'', JStr (nm_nonce n)), (''memo_commitment'', JStr (nm_memo_commitment n)),
    (''compliance_tag'', JStr (nm_compliance_tag n)), (''source_context'', JStr (nm_source_context n))]"

definition note_json :: "VaultNote \<Rightarrow> json" where
  "note_json n = JObj ([(''commitment'', JStr (vn_commitment n)), (''asset_id'', JStr (vn_asset_id n)), (''amount_7dp'', JStr (vn_amount_7dp n)),
    (''note_preimage'', preimage_json (vn_note_preimage n))]
    @ (case vn_deposit_id n of None \<Rightarrow> [] | Some d \<Rightarrow> [(''deposit_id'', JStr d)])
    @ [(''status'', JStr (vn_status n)), (''created_at'', JStr (vn_created_at n))])"

definition vault_json :: "NoteVault \<Rightarrow> json" where
  "vault_json v = JObj [(''version'', JStr ''lumixprotocol-note-vault-v1''), (''vault_id'', JStr (nv_vault_id v)),
    (''created_at'', JStr (nv_created_at v)), (''updated_at'', JStr (nv_updated_at v)), (''notes'', JArr (map note_json (nv_notes v)))]"

definition wrapper_json :: "VaultWrapper \<Rightarrow> json" where
  "wrapper_json w = JObj ([(''id'', JStr (vw_id w)), (''type'', JStr (wrapper_type_text (vw_type w))),
    (''status'', JStr (if vw_active w then ''active'' else ''revoked'')), (''kdf'', JStr (vw_kdf w)), (''salt'', JStr (vw_salt w)),
    (''wrapped_key'', JStr (vw_wrapped_key w))] @ (if vw_diagnostic_only w then [(''diagnostic_only'', JBool True)] else [])
    @ [(''metadata'', vw_metadata w)])"

definition aad_json :: "VaultAad \<Rightarrow> json" where
  "aad_json a = JObj [(''app'', JStr (va_app a)), (''origin'', JStr (va_origin a)), (''vault_id'', JStr (va_vault_id a)),
    (''privy_user_id'', JStr (va_privy_user_id a)), (''vault_version'', JNum (va_vault_version a))]"

section \<open>Cryptography\<close>

record WebCrypto =
  wc_encrypt :: "bytes \<Rightarrow> bytes \<Rightarrow> bytes option \<Rightarrow> bytes \<Rightarrow> bytes result"
  wc_decrypt :: "bytes \<Rightarrow> bytes \<Rightarrow> bytes option \<Rightarrow> bytes \<Rightarrow> bytes result"
  wc_hkdf :: "bytes \<Rightarrow> bytes \<Rightarrow> bytes \<Rightarrow> bytes result"
  wc_pbkdf2 :: "bytes \<Rightarrow> bytes \<Rightarrow> nat \<Rightarrow> bytes result"
  wc_sha256 :: "bytes \<Rightarrow> bytes"

definition hkdf :: "WebCrypto \<Rightarrow> bytes \<Rightarrow> bytes \<Rightarrow> string \<Rightarrow> bytes result" where
  "hkdf W ikm salt info = wc_hkdf W ikm salt (utf8_encode info)"

definition pbkdf2 :: "WebCrypto \<Rightarrow> string \<Rightarrow> bytes \<Rightarrow> nat \<Rightarrow> bytes result" where
  "pbkdf2 W password salt iterations = wc_pbkdf2 W (utf8_encode password) salt iterations"

definition aesGcmEncrypt :: "WebCrypto \<Rightarrow> bytes \<Rightarrow> bytes \<Rightarrow> bytes \<Rightarrow> bytes option \<Rightarrow> (bytes \<times> bytes) result" where
  "aesGcmEncrypt W iv rawKey plaintext aad = bindR (wc_encrypt W rawKey iv aad plaintext) (\<lambda>ct. Inr (iv, ct))"

definition aesGcmDecrypt :: "WebCrypto \<Rightarrow> bytes \<Rightarrow> bytes \<Rightarrow> bytes \<Rightarrow> bytes option \<Rightarrow> bytes result" where
  "aesGcmDecrypt W rawKey iv ct aad = wc_decrypt W rawKey iv aad ct"

section \<open>The vault\<close>

definition generateNotePreimage :: "bytes list \<Rightarrow> NotePreimage" where
  "generateNotePreimage draws = \<lparr>nm_owner_secret = hex_encode (draws ! 0), nm_spend_secret = hex_encode (draws ! 1),
    nm_blinding = hex_encode (draws ! 2), nm_nonce = hex_encode (draws ! 3), nm_memo_commitment = hex_encode (draws ! 4),
    nm_compliance_tag = hex_encode (draws ! 5), nm_source_context = hex_encode (draws ! 6)\<rparr>"

definition buildNoteCommitment :: "WebCrypto \<Rightarrow> NotePreimage \<Rightarrow> string" where
  "buildNoteCommitment W preimage = ''0x'' @ hex_encode (wc_sha256 W (utf8_encode (stringify (preimage_json preimage))))"

definition createEmptyNoteVault :: "string \<Rightarrow> string \<Rightarrow> NoteVault" where
  "createEmptyNoteVault vaultId now = \<lparr>nv_vault_id = vaultId, nv_created_at = now, nv_updated_at = now, nv_notes = []\<rparr>"

definition addNoteToVault :: "NoteVault \<Rightarrow> VaultNote \<Rightarrow> string \<Rightarrow> NoteVault" where
  "addNoteToVault vault n now =
    vault\<lparr>nv_updated_at := now, nv_notes := filter (\<lambda>m. vn_commitment m \<noteq> vn_commitment n) (nv_notes vault) @ [n]\<rparr>"

definition AAD_BYTES :: "json option \<Rightarrow> bytes" where
  "AAD_BYTES aad = (case aad of None \<Rightarrow> [] | Some j \<Rightarrow> utf8_encode (stringify j))"

definition encryptNoteVault :: "WebCrypto \<Rightarrow> bytes \<Rightarrow> NoteVault \<Rightarrow> bytes \<Rightarrow> json option \<Rightarrow> (string \<times> string) result" where
  "encryptNoteVault W iv vault masterKey aad =
    bindR (aesGcmEncrypt W iv masterKey (utf8_encode (stringify (vault_json vault))) (Some (AAD_BYTES aad))) (\<lambda>(iv, ct).
    Inr (toB64 ct, toB64 iv))"

definition decryptNoteVault :: "WebCrypto \<Rightarrow> string \<Rightarrow> string \<Rightarrow> bytes \<Rightarrow> json option \<Rightarrow> json result" where
  "decryptNoteVault W ciphertext iv masterKey aad =
    bindR (fromB64 iv) (\<lambda>iv. bindR (fromB64 ciphertext) (\<lambda>ct.
    bindR (aesGcmDecrypt W masterKey iv ct (Some (AAD_BYTES aad))) parse_utf8_json))"

definition vault_aad :: "string \<Rightarrow> string \<Rightarrow> string \<Rightarrow> VaultAad" where
  "vault_aad origin vaultId privyUserId = \<lparr>va_app = ''LumixProtocol'', va_origin = origin, va_vault_id = vaultId,
    va_privy_user_id = privyUserId, va_vault_version = 1\<rparr>"

definition createVaultEnvelope :: "WebCrypto \<Rightarrow> bytes \<Rightarrow> NoteVault \<Rightarrow> bytes \<Rightarrow> string \<Rightarrow> string \<Rightarrow> VaultWrapper list \<Rightarrow> json result" where
  "createVaultEnvelope W iv vault masterKey privyUserId origin wrappers =
    (let aad = aad_json (vault_aad origin (nv_vault_id vault) privyUserId) in
    bindR (encryptNoteVault W iv vault masterKey (Some aad)) (\<lambda>(ciphertext, iv).
    Inr (JObj [(''version'', JStr ''lumixprotocol-encrypted-vault-v1''), (''vault_id'', JStr (nv_vault_id vault)), (''privy_user_id'', JStr privyUserId),
      (''cipher'', JObj [(''name'', JStr ''AES-256-GCM''), (''iv'', JStr iv), (''tagLength'', JNum 128)]), (''aad'', aad),
      (''ciphertext'', JStr ciphertext), (''wrappers'', JArr (map wrapper_json wrappers))])))"

section \<open>Gates\<close>

definition PLAINTEXT_FORBIDDEN :: "string list" where
  "PLAINTEXT_FORBIDDEN = [''owner_secret'', ''spend_secret'', ''blinding'', ''nonce'', ''note_preimage'', ''vault_master_key'',
    ''raw_signature'', ''private_key'', ''secret'']"

definition forbidden_error :: "string \<Rightarrow> js_error" where
  "forbidden_error k = Js_Error (''plaintext note field \"'' @ k @ ''\" is forbidden in stored/transmitted vault data'')"

fun assertNoPlaintextNoteFields :: "json \<Rightarrow> unit result"
  and assert_elems :: "json list \<Rightarrow> unit result"
  and assert_members :: "(string \<times> json) list \<Rightarrow> unit result" where
  "assertNoPlaintextNoteFields (JArr js) = assert_elems js"
| "assertNoPlaintextNoteFields (JObj ms) = assert_members ms"
| "assertNoPlaintextNoteFields _ = Inr ()"
| "assert_elems [] = Inr ()"
| "assert_elems (j # js) = bindR (assertNoPlaintextNoteFields j) (\<lambda>_. assert_elems js)"
| "assert_members [] = Inr ()"
| "assert_members ((k, v) # ms) =
    (if k \<in> set PLAINTEXT_FORBIDDEN then Inl (forbidden_error k)
     else bindR (assertNoPlaintextNoteFields v) (\<lambda>_. assert_members ms))"

definition redacted_key :: "string \<Rightarrow> bool" where
  "redacted_key k \<longleftrightarrow> k \<in> set PLAINTEXT_FORBIDDEN \<or> k = ''wrapped_key'' \<or> k = ''ciphertext''"

fun redactVaultForLogs :: "json \<Rightarrow> json" where
  "redactVaultForLogs (JArr js) = JArr (map redactVaultForLogs js)"
| "redactVaultForLogs (JObj ms) = JObj (map (\<lambda>(k, v). (k, if redacted_key k then JStr ''[REDACTED]'' else redactVaultForLogs v)) ms)"
| "redactVaultForLogs j = j"

definition validateVaultEnvelope :: "json \<Rightarrow> unit result" where
  "validateVaultEnvelope env =
    (if json_get ''version'' env \<noteq> Some (JStr ''lumixprotocol-encrypted-vault-v1'') then Inl (Js_Error ''bad envelope version'')
     else if json_falsy (json_get ''vault_id'' env) \<or> json_falsy (json_get ''privy_user_id'' env) \<or> json_falsy (json_get ''ciphertext'' env) \<or>
       Option.bind (json_get ''cipher'' env) (json_get ''name'') \<noteq> Some (JStr ''AES-256-GCM'') then Inl (Js_Error ''malformed envelope'')
     else (case json_get ''wrappers'' env of
             Some (JArr _) \<Rightarrow> assertNoPlaintextNoteFields env
           | _ \<Rightarrow> Inl (Js_Error ''envelope missing wrappers'')))"

definition parseVaultEnvelope :: "string \<Rightarrow> json result" where
  "parseVaultEnvelope text = bindR (json_parse text) (\<lambda>env. bindR (validateVaultEnvelope env) (\<lambda>_. Inr env))"

definition text_member :: "string \<Rightarrow> json \<Rightarrow> string result" where
  "text_member k j = (case json_get k j of Some (JStr s) \<Rightarrow> Inr s | _ \<Rightarrow> Inl (Type_Error (k @ '' is not a string'')))"

definition decryptEnvelope :: "WebCrypto \<Rightarrow> json \<Rightarrow> bytes \<Rightarrow> json result" where
  "decryptEnvelope W env masterKey =
    (case json_get ''cipher'' env of
       Some cipher \<Rightarrow>
         bindR (text_member ''ciphertext'' env) (\<lambda>ct. bindR (text_member ''iv'' cipher) (\<lambda>iv. decryptNoteVault W ct iv masterKey (json_get ''aad'' env)))
     | None \<Rightarrow> Inl (Type_Error ''Cannot read properties of undefined (reading iv)''))"

section \<open>Recovery\<close>

definition wrapWithKey :: "WebCrypto \<Rightarrow> bytes \<Rightarrow> bytes \<Rightarrow> bytes \<Rightarrow> string result" where
  "wrapWithKey W iv wrappingKey masterKey = bindR (aesGcmEncrypt W iv wrappingKey masterKey None) (\<lambda>(iv, ct). Inr (toB64 (iv @ ct)))"

definition unwrapWithKey :: "WebCrypto \<Rightarrow> bytes \<Rightarrow> string \<Rightarrow> bytes result" where
  "unwrapWithKey W wrappingKey wrapped = bindR (fromB64 wrapped) (\<lambda>blob. aesGcmDecrypt W wrappingKey (take 12 blob) (drop 12 blob) None)"

text \<open>The random bytes of a wrapper: salt (16), id (8) and initialization vector (12).\<close>

type_synonym wrap_draws = "bytes \<times> bytes \<times> bytes"

definition mk_wrapper :: "WebCrypto \<Rightarrow> wrap_draws \<Rightarrow> WrapperType \<Rightarrow> string \<Rightarrow> bytes \<Rightarrow> bytes \<Rightarrow> json \<Rightarrow> VaultWrapper result" where
  "mk_wrapper W draws ty kdf wk masterKey metadata =
    (case draws of (salt, i, iv) \<Rightarrow>
    bindR (wrapWithKey W iv wk masterKey) (\<lambda>wrapped.
    Inr \<lparr>vw_id = hex_encode i, vw_type = ty, vw_active = True, vw_kdf = kdf, vw_salt = toB64 salt, vw_wrapped_key = wrapped,
      vw_diagnostic_only = False, vw_metadata = metadata\<rparr>))"

definition hkdf_wrap :: "string \<Rightarrow> WrapperType \<Rightarrow> WebCrypto \<Rightarrow> wrap_draws \<Rightarrow> bytes \<Rightarrow> bytes \<Rightarrow> json \<Rightarrow> VaultWrapper result" where
  "hkdf_wrap info ty W draws masterKey ikm metadata =
    bindR (hkdf W ikm (fst draws) info) (\<lambda>wk. mk_wrapper W draws ty ''HKDF-SHA256'' wk masterKey metadata)"

definition hkdf_unwrap :: "string \<Rightarrow> WebCrypto \<Rightarrow> VaultWrapper \<Rightarrow> bytes \<Rightarrow> bytes result" where
  "hkdf_unwrap info W wrapper ikm =
    bindR (fromB64 (vw_salt wrapper)) (\<lambda>salt. bindR (hkdf W ikm salt info) (\<lambda>wk. unwrapWithKey W wk (vw_wrapped_key wrapper)))"

definition wrapVaultKeyWithPasskeyPrf :: "WebCrypto \<Rightarrow> wrap_draws \<Rightarrow> bytes \<Rightarrow> bytes \<Rightarrow> json \<Rightarrow> VaultWrapper result" where
  "wrapVaultKeyWithPasskeyPrf = hkdf_wrap ''lumixprotocol-vault-passkey-prf'' Passkey_Prf"
definition unwrapVaultKeyWithPasskeyPrf :: "WebCrypto \<Rightarrow> VaultWrapper \<Rightarrow> bytes \<Rightarrow> bytes result" where
  "unwrapVaultKeyWithPasskeyPrf = hkdf_unwrap ''lumixprotocol-vault-passkey-prf''"

definition wrapVaultKeyWithStellarSignature :: "WebCrypto \<Rightarrow> wrap_draws \<Rightarrow> bytes \<Rightarrow> bytes \<Rightarrow> json \<Rightarrow> VaultWrapper result" where
  "wrapVaultKeyWithStellarSignature = hkdf_wrap ''lumixprotocol-vault-stellar-ed25519'' Stellar_Ed25519_Signature"
definition unwrapVaultKeyWithStellarSignature :: "WebCrypto \<Rightarrow> VaultWrapper \<Rightarrow> bytes \<Rightarrow> bytes result" where
  "unwrapVaultKeyWithStellarSignature = hkdf_unwrap ''lumixprotocol-vault-stellar-ed25519''"

definition PBKDF2_ITERS :: nat where "PBKDF2_ITERS = 310000"

definition wrapVaultKeyWithRecoveryKitPassword :: "WebCrypto \<Rightarrow> wrap_draws \<Rightarrow> bytes \<Rightarrow> string \<Rightarrow> json \<Rightarrow> VaultWrapper result" where
  "wrapVaultKeyWithRecoveryKitPassword W draws masterKey password metadata =
    bindR (pbkdf2 W password (fst draws) PBKDF2_ITERS) (\<lambda>wk. mk_wrapper W draws Recovery_Kit_Password ''PBKDF2-SHA256'' wk masterKey metadata)"
definition unwrapVaultKeyWithRecoveryKitPassword :: "WebCrypto \<Rightarrow> VaultWrapper \<Rightarrow> string \<Rightarrow> bytes result" where
  "unwrapVaultKeyWithRecoveryKitPassword W wrapper password =
    bindR (fromB64 (vw_salt wrapper)) (\<lambda>salt. bindR (pbkdf2 W password salt PBKDF2_ITERS) (\<lambda>wk. unwrapWithKey W wk (vw_wrapped_key wrapper)))"

definition wrapVaultKeyWithRecoveryFileSecret :: "WebCrypto \<Rightarrow> wrap_draws \<Rightarrow> bytes \<Rightarrow> bytes \<Rightarrow> json \<Rightarrow> VaultWrapper result" where
  "wrapVaultKeyWithRecoveryFileSecret = hkdf_wrap ''lumixprotocol-vault-recovery-file'' Recovery_File_Secret"
definition unwrapVaultKeyWithRecoveryFileSecret :: "WebCrypto \<Rightarrow> VaultWrapper \<Rightarrow> bytes \<Rightarrow> bytes result" where
  "unwrapVaultKeyWithRecoveryFileSecret = hkdf_unwrap ''lumixprotocol-vault-recovery-file''"

record RecoveryFile =
  rf_vault_id :: string
  rf_created_at :: string
  rf_recovery_file_secret :: string
  rf_wrapper :: VaultWrapper

definition buildRecoveryFile :: "string \<Rightarrow> bytes \<Rightarrow> VaultWrapper \<Rightarrow> string \<Rightarrow> RecoveryFile" where
  "buildRecoveryFile vaultId secret wrapper now =
    \<lparr>rf_vault_id = vaultId, rf_created_at = now, rf_recovery_file_secret = toB64 secret, rf_wrapper = wrapper\<rparr>"

definition json_set :: "string \<Rightarrow> json \<Rightarrow> json \<Rightarrow> json" where
  "json_set k v j = (case j of JObj ms \<Rightarrow> JObj (AList.update k v ms) | _ \<Rightarrow> JObj [(k, v)])"

definition diagnosticWrapVaultKeyWithEvmSignature :: "WebCrypto \<Rightarrow> wrap_draws \<Rightarrow> bytes \<Rightarrow> bytes \<Rightarrow> json \<Rightarrow> VaultWrapper result" where
  "diagnosticWrapVaultKeyWithEvmSignature W draws masterKey sig metadata =
    bindR (hkdf_wrap ''lumixprotocol-vault-evm-diagnostic'' Evm_Signature W draws masterKey sig (json_set ''diagnostic_only'' (JBool True) metadata)) (\<lambda>w.
    Inr (w\<lparr>vw_diagnostic_only := True\<rparr>))"

definition diagnosticVerifyEvmSignatureStability :: "bytes \<Rightarrow> bytes \<Rightarrow> bool" where
  "diagnosticVerifyEvmSignatureStability a b \<longleftrightarrow> length a = length b \<and> list_all (\<lambda>(x, y). x = y) (zip a b)"

datatype RecoveryPolicyStatus = Insufficient | Sufficient | Strong

definition evaluateRecoveryPolicy :: "VaultWrapper list \<Rightarrow> bool \<Rightarrow> nat \<Rightarrow> bool \<Rightarrow> RecoveryPolicyStatus" where
  "evaluateRecoveryPolicy wrappers mainnet min_count allowEvmOnly =
    (let active = filter vw_active wrappers;
         nonEvm = filter (\<lambda>w. vw_type w \<noteq> Evm_Signature \<and> \<not> vw_diagnostic_only w) active;
         strong = list_ex (\<lambda>w. vw_type w = Passkey_Prf \<or> vw_type w = Stellar_Ed25519_Signature) active in
    if \<not> allowEvmOnly \<and> nonEvm = [] then Insufficient
    else if length nonEvm < min_count then Insufficient
    else if mainnet then (if length nonEvm \<ge> 2 \<and> strong then Strong else Insufficient)
    else if strong \<and> length nonEvm \<ge> 2 then Strong else Sufficient)"

section \<open>The order of recovery policies\<close>

fun policy_rank :: "RecoveryPolicyStatus \<Rightarrow> nat" where
  "policy_rank Insufficient = 0"
| "policy_rank Sufficient = 1"
| "policy_rank Strong = 2"

lemma policy_rank_inject: "policy_rank p = policy_rank q \<longleftrightarrow> p = q"
  by (cases p; cases q) simp_all

instantiation RecoveryPolicyStatus :: linorder
begin

definition less_eq_RecoveryPolicyStatus :: "RecoveryPolicyStatus \<Rightarrow> RecoveryPolicyStatus \<Rightarrow> bool" where
  "less_eq_RecoveryPolicyStatus p q \<longleftrightarrow> policy_rank p \<le> policy_rank q"

definition less_RecoveryPolicyStatus :: "RecoveryPolicyStatus \<Rightarrow> RecoveryPolicyStatus \<Rightarrow> bool" where
  "less_RecoveryPolicyStatus p q \<longleftrightarrow> policy_rank p < policy_rank q"

instance
  by standard (auto simp: less_eq_RecoveryPolicyStatus_def less_RecoveryPolicyStatus_def simp flip: policy_rank_inject)

end

lemma policy_order [simp]: "Insufficient \<le> p" "p \<le> Strong" "Sufficient \<le> p \<longleftrightarrow> p \<noteq> Insufficient"
  by (cases p; simp add: less_eq_RecoveryPolicyStatus_def)+

lemma count_mono: "mset ws \<subseteq># mset ws' \<Longrightarrow> length (filter Q ws) \<le> length (filter Q ws')"
  by (metis multiset_filter_mono mset_filter size_mset size_mset_mono)

text \<open>More recovery methods never make a vault's policy worse: with any further wrappers, in any order, the status stays
  or improves.\<close>

theorem policy_monotone:
  assumes "mset ws \<subseteq># mset ws'"
  shows "evaluateRecoveryPolicy ws mainnet least allowEvmOnly \<le> evaluateRecoveryPolicy ws' mainnet least allowEvmOnly"
proof -
  let ?non = "\<lambda>w. vw_active w \<and> vw_type w \<noteq> Evm_Signature \<and> \<not> vw_diagnostic_only w"
  let ?strong = "\<lambda>w. vw_active w \<and> (vw_type w = Passkey_Prf \<or> vw_type w = Stellar_Ed25519_Signature)"
  have "length (filter ?non ws) \<le> length (filter ?non ws')" by (rule count_mono [OF assms])
  moreover have "list_ex ?strong ws \<Longrightarrow> list_ex ?strong ws'" using set_mset_mono [OF assms] by (auto simp: list_ex_iff)
  moreover have "evaluateRecoveryPolicy us mainnet least allowEvmOnly =
    (let n = length (filter ?non us); strong = list_ex ?strong us in
      if \<not> allowEvmOnly \<and> n = 0 \<or> n < least then Insufficient else if n \<ge> 2 \<and> strong then Strong else if mainnet then Insufficient else Sufficient)" for us
    by (auto simp: evaluateRecoveryPolicy_def Let_def list_ex_iff conj_ac)
  ultimately show ?thesis by (auto simp: Let_def)
qed

section \<open>Base64 round trip\<close>

lemma b64_value_char: "n < 64 \<Longrightarrow> b64_value (b64_char n) = Some n"
  by (auto simp: b64_value_def b64_char_def Let_def)

lemma b64_char_plain: "n < 64 \<Longrightarrow> b64_char n \<noteq> CHR ''=''" "n < 64 \<Longrightarrow> \<not> ascii_space (b64_char n)"
proof -
  assume n: "n < 64"
  have "b64_value CHR ''='' = None" by (simp add: b64_value_def)
  then show "b64_char n \<noteq> CHR ''=''" using b64_value_char [OF n] by auto
  show "\<not> ascii_space (b64_char n)" using n by (auto simp: ascii_space_def b64_char_def)
qed

text \<open>The digits of an encoding, before padding.\<close>

fun b64_digits :: "bytes \<Rightarrow> nat list" where
  "b64_digits [] = []"
| "b64_digits [a] = [unat a div 4, unat a mod 4 * 16]"
| "b64_digits [a, b] = [unat a div 4, unat a mod 4 * 16 + unat b div 16, unat b mod 16 * 4]"
| "b64_digits (a # b # c # r) =
    [unat a div 4, unat a mod 4 * 16 + unat b div 16, unat b mod 16 * 4 + unat c div 64, unat c mod 64] @ b64_digits r"

lemma b64_sixbits:
  fixes x y :: nat
  assumes "x < 256" "y < 256"
  shows "x div 4 < 64" "x mod 4 * 16 < 64" "x mod 4 * 16 + y div 16 < 64" "x mod 16 * 4 < 64" "x mod 16 * 4 + y div 64 < 64" "x mod 64 < 64"
proof -
  have "x div 4 \<le> 63" "y div 16 \<le> 15" "y div 64 \<le> 3" using assms by auto
  moreover have "x mod 4 \<le> 3" "x mod 16 \<le> 15" by auto
  ultimately show "x div 4 < 64" "x mod 4 * 16 < 64" "x mod 4 * 16 + y div 16 < 64" "x mod 16 * 4 < 64" "x mod 16 * 4 + y div 64 < 64" "x mod 64 < 64"
    by (linarith | simp)+
qed

lemma byte_parts: "unat (c :: byte) div 4 < 64" "unat c div 64 div 4 = 0" "unat c div 64 mod 4 = unat c div 64"
  using unat_byte_lt [of c] by (auto simp: div_mult2_eq [symmetric])

lemma b64_digits_lt: "list_all (\<lambda>d. d < 64) (b64_digits bs)"
  by (induction bs rule: b64_digits.induct) (simp_all add: b64_sixbits byte_parts unat_byte_lt)

lemma b64_join:
  fixes x y z :: nat
  assumes "x < 256" "y < 256" "z < 256"
  shows "x div 4 * 4 + (x mod 4 * 16) div 16 = x" "x div 4 * 4 + (x mod 4 * 16 + y div 16) div 16 = x"
    "(x mod 4 * 16 + y div 16) mod 16 * 16 + (y mod 16 * 4) div 4 = y"
    "(x mod 4 * 16 + y div 16) mod 16 * 16 + (y mod 16 * 4 + z div 64) div 4 = y"
    "(y mod 16 * 4 + z div 64) mod 4 * 64 + z mod 64 = z"
proof -
  have q: "y div 16 < 16" "z div 64 < 4" using assms by auto
  then have "(x mod 4 * 16 + y div 16) div 16 = x mod 4" "(x mod 4 * 16 + y div 16) mod 16 = y div 16"
    "(y mod 16 * 4 + z div 64) div 4 = y mod 16" "(y mod 16 * 4 + z div 64) mod 4 = z div 64" by auto
  then show "x div 4 * 4 + (x mod 4 * 16) div 16 = x" "x div 4 * 4 + (x mod 4 * 16 + y div 16) div 16 = x"
    "(x mod 4 * 16 + y div 16) mod 16 * 16 + (y mod 16 * 4) div 4 = y"
    "(x mod 4 * 16 + y div 16) mod 16 * 16 + (y mod 16 * 4 + z div 64) div 4 = y"
    "(y mod 16 * 4 + z div 64) mod 4 * 64 + z mod 64 = z" by simp_all
qed

lemma b64_bytes_digits: "b64_bytes (b64_digits bs) = bs"
  by (induction bs rule: b64_digits.induct) (simp_all add: b64_join byte_parts unat_byte_lt)

lemma toB64_shape:
  "length (toB64 bs) mod 4 = 0 \<and> length (b64_digits bs) mod 4 \<noteq> 1 \<and>
    (\<exists>n. n \<in> {0, 1, 2} \<and> toB64 bs = map b64_char (b64_digits bs) @ replicate n CHR ''='')"
proof (induction bs rule: toB64.induct)
  case 1
  then show ?case by simp
next
  case (2 a)
  then show ?case by (auto intro!: exI [of _ 2] simp: numeral_2_eq_2)
next
  case (3 a b)
  then show ?case by (auto intro!: exI [of _ 1])
next
  case (4 a b c r)
  then show ?case by (auto simp: mod_Suc)
qed

lemma strip_padding_replicate:
  assumes "length (xs @ replicate n CHR ''='') mod 4 = 0" "n \<in> {0, 1, 2}" "CHR ''='' \<notin> set xs"
  shows "strip_padding (xs @ replicate n CHR ''='') = xs"
proof -
  have l: "last xs \<noteq> CHR ''=''" if "xs \<noteq> []" using assms(3) that by (metis last_in_set)
  consider "n = 0" | "n = 1" | "n = 2" using assms(2) by auto
  then show ?thesis
  proof cases
    case 1
    then show ?thesis using l by (auto simp: strip_padding_def)
  next
    case 2
    then show ?thesis using assms(1) l by (auto simp: strip_padding_def)
  next
    case 3
    then have "xs @ replicate n CHR ''='' = (xs @ [CHR ''='']) @ [CHR ''='']" by (simp add: numeral_2_eq_2)
    then show ?thesis using assms(1) unfolding strip_padding_def Let_def by (simp only: butlast_snoc last_snoc) simp
  qed
qed

lemma fromB64_toB64 [simp]: "fromB64 (toB64 bs) = Inr bs"
proof -
  let ?xs = "map b64_char (b64_digits bs)"
  obtain n where n: "n \<in> {0, 1, 2}" "toB64 bs = ?xs @ replicate n CHR ''=''" using toB64_shape by blast
  have lt: "d \<in> set (b64_digits bs) \<Longrightarrow> d < 64" for d using b64_digits_lt by (auto simp: list_all_iff)
  have "filter (\<lambda>c. \<not> ascii_space c) (toB64 bs) = toB64 bs"
    unfolding n(2) using lt b64_char_plain(2) by (auto simp: filter_id_conv ascii_space_def)
  moreover have "CHR ''='' \<notin> set ?xs" using lt b64_char_plain(1) by force
  then have "strip_padding (toB64 bs) = ?xs"
    using strip_padding_replicate [of ?xs n] n toB64_shape [of bs] by simp
  moreover have "map b64_value ?xs = map Some (b64_digits bs)" using lt b64_value_char by simp
  then have "None \<notin> set (map b64_value ?xs)" "map (the \<circ> b64_value) ?xs = b64_digits bs"
    by (auto simp: lt b64_value_char map_idI)
  ultimately show ?thesis
    using toB64_shape [of bs] by (simp add: fromB64_def Let_def b64_bytes_digits image_image)
qed

interpretation base64: codec toB64 "\<lambda>s. case fromB64 s of Inl _ \<Rightarrow> None | Inr bs \<Rightarrow> Some bs"
  by unfold_locales simp

section \<open>What the gates see\<close>

inductive occurs :: "string \<Rightarrow> json \<Rightarrow> json \<Rightarrow> bool" for k v where
  occurs_here: "(k, v) \<in> set ms \<Longrightarrow> occurs k v (JObj ms)"
| occurs_member: "(k', j) \<in> set ms \<Longrightarrow> occurs k v j \<Longrightarrow> occurs k v (JObj ms)"
| occurs_elem: "j \<in> set js \<Longrightarrow> occurs k v j \<Longrightarrow> occurs k v (JArr js)"

inductive_simps occurs_simps [simp]:
  "occurs k v JNull" "occurs k v (JBool b)" "occurs k v (JNum n)" "occurs k v (JStr s)"

inductive_simps occurs_arr: "occurs k v (JArr js)"
inductive_simps occurs_obj: "occurs k v (JObj ms)"

definition mentions :: "string set \<Rightarrow> json \<Rightarrow> bool" where
  "mentions K j \<longleftrightarrow> (\<exists>k v. k \<in> K \<and> occurs k v j)"

lemma mentions_arr: "mentions K (JArr js) \<longleftrightarrow> (\<exists>j \<in> set js. mentions K j)"
  by (auto simp: mentions_def occurs_arr)

lemma mentions_obj: "mentions K (JObj ms) \<longleftrightarrow> (\<exists>(k, v) \<in> set ms. k \<in> K \<or> mentions K v)"
proof
  assume "mentions K (JObj ms)"
  then obtain k v where "k \<in> K" "occurs k v (JObj ms)" by (auto simp: mentions_def)
  then show "\<exists>(k, v) \<in> set ms. k \<in> K \<or> mentions K v" unfolding mentions_def occurs_obj by blast
next
  assume "\<exists>(k, v) \<in> set ms. k \<in> K \<or> mentions K v"
  then obtain k v where "(k, v) \<in> set ms" "k \<in> K \<or> mentions K v" by blast
  then show "mentions K (JObj ms)" unfolding mentions_def by (blast intro: occurs_here occurs_member)
qed

lemma assert_gate:
  "assertNoPlaintextNoteFields j = Inr () \<longleftrightarrow> \<not> mentions (set PLAINTEXT_FORBIDDEN) j"
  "assert_elems js = Inr () \<longleftrightarrow> \<not> (\<exists>j \<in> set js. mentions (set PLAINTEXT_FORBIDDEN) j)"
  "assert_members ms = Inr () \<longleftrightarrow> \<not> (\<exists>(k, v) \<in> set ms. k \<in> set PLAINTEXT_FORBIDDEN \<or> mentions (set PLAINTEXT_FORBIDDEN) v)"
  by (induction j and js and ms rule: assertNoPlaintextNoteFields_assert_elems_assert_members.induct)
    (auto simp: mentions_arr mentions_obj bindR_Inr_iff mentions_def [of _ JNull] mentions_def [of _ "JBool _"] mentions_def [of _ "JNum _"]
      mentions_def [of _ "JStr _"])

lemma redact_occurs: "occurs k v (redactVaultForLogs j) \<Longrightarrow> redacted_key k \<Longrightarrow> v = JStr ''[REDACTED]''"
  by (induction j rule: redactVaultForLogs.induct) (auto simp: occurs_arr occurs_obj split: if_splits)

section \<open>Recovery methods\<close>

text \<open>AES-GCM: what was sealed opens under the same key, vector and associated data, and the tag has 16 bytes.\<close>

definition aead_correct :: "WebCrypto \<Rightarrow> bool" where
  "aead_correct W \<longleftrightarrow> (\<forall>key iv aad p ct. wc_encrypt W key iv aad p = Inr ct \<longrightarrow>
    wc_decrypt W key iv aad ct = Inr p \<and> length ct = length p + 16)"

lemma unwrap_wrapWithKey:
  "aead_correct W \<Longrightarrow> length iv = 12 \<Longrightarrow> wrapWithKey W iv wk key = Inr wrapped \<Longrightarrow> unwrapWithKey W wk wrapped = Inr key"
  by (auto simp: wrapWithKey_def unwrapWithKey_def aesGcmEncrypt_def aesGcmDecrypt_def bindR_Inr_iff aead_correct_def)

lemma mk_wrapper_ok:
  assumes "mk_wrapper W d ty kdf wk key m = Inr w"
  shows "vw_metadata w = m \<and> vw_salt w = toB64 (fst d) \<and> wrapWithKey W (snd (snd d)) wk key = Inr (vw_wrapped_key w)"
  using assms by (auto simp: mk_wrapper_def bindR_Inr_iff split: prod.splits)

lemma validate_created:
  assumes "createVaultEnvelope W iv vault key user origin ws = Inr env" "aead_correct W" "nv_vault_id vault \<noteq> []" "user \<noteq> []"
    "\<forall>w \<in> set ws. \<not> mentions (set PLAINTEXT_FORBIDDEN) (vw_metadata w)"
  shows "validateVaultEnvelope env = Inr ()" "decryptEnvelope W env key = Inr (vault_json vault)"
    "json_get ''wrappers'' env = Some (JArr (map wrapper_json ws))"
proof -
  let ?aad = "aad_json (vault_aad origin (nv_vault_id vault) user)"
  let ?p = "utf8_encode (stringify (vault_json vault))"
  obtain ct where ct: "wc_encrypt W key iv (Some (AAD_BYTES (Some ?aad))) ?p = Inr ct" and
    env: "env = JObj [(''version'', JStr ''lumixprotocol-encrypted-vault-v1''), (''vault_id'', JStr (nv_vault_id vault)), (''privy_user_id'', JStr user),
      (''cipher'', JObj [(''name'', JStr ''AES-256-GCM''), (''iv'', JStr (toB64 iv)), (''tagLength'', JNum 128)]), (''aad'', ?aad),
      (''ciphertext'', JStr (toB64 ct)), (''wrappers'', JArr (map wrapper_json ws))]"
    using assms(1) by (auto simp: createVaultEnvelope_def Let_def encryptNoteVault_def aesGcmEncrypt_def bindR_Inr_iff)
  have dec: "wc_decrypt W key iv (Some (AAD_BYTES (Some ?aad))) ct = Inr ?p" and len: "length ct = length ?p + 16"
    using assms(2) ct by (auto simp: aead_correct_def)
  have "toB64 ct \<noteq> []" using len by (cases ct rule: toB64.cases) auto
  moreover have "\<not> mentions (set PLAINTEXT_FORBIDDEN) (wrapper_json w)" if "w \<in> set ws" for w
    using assms(5) that by (auto simp: wrapper_json_def mentions_obj PLAINTEXT_FORBIDDEN_def) (auto simp: mentions_def)
  then have "\<not> mentions (set PLAINTEXT_FORBIDDEN) env"
    unfolding env by (auto simp: mentions_obj mentions_arr aad_json_def) (auto simp: PLAINTEXT_FORBIDDEN_def mentions_def)
  then have "assertNoPlaintextNoteFields env = Inr ()" by (simp add: assert_gate(1))
  moreover have "json_get ''version'' env = Some (JStr ''lumixprotocol-encrypted-vault-v1'')" "json_get ''vault_id'' env = Some (JStr (nv_vault_id vault))"
    "json_get ''privy_user_id'' env = Some (JStr user)" "json_get ''ciphertext'' env = Some (JStr (toB64 ct))"
    "Option.bind (json_get ''cipher'' env) (json_get ''name'') = Some (JStr ''AES-256-GCM'')"
    "json_get ''wrappers'' env = Some (JArr (map wrapper_json ws))"
    by (simp_all add: env json_get_def)
  ultimately show "validateVaultEnvelope env = Inr ()"
    using assms(3,4) by (simp add: validateVaultEnvelope_def json_falsy_def)
  show "decryptEnvelope W env key = Inr (vault_json vault)"
    using dec by (simp add: decryptEnvelope_def env json_get_def text_member_def decryptNoteVault_def aesGcmDecrypt_def)
  show "json_get ''wrappers'' env = Some (JArr (map wrapper_json ws))" by (simp add: env json_get_def)
qed

text \<open>The contract of a recovery method, and what every method gives.\<close>

locale key_wrap =
  fixes W :: WebCrypto
    and wrap :: "wrap_draws \<Rightarrow> bytes \<Rightarrow> 's \<Rightarrow> json \<Rightarrow> VaultWrapper result" and unwrap :: "VaultWrapper \<Rightarrow> 's \<Rightarrow> bytes result"
  assumes wrap_unwrap: "aead_correct W \<Longrightarrow> length (snd (snd d)) = 12 \<Longrightarrow> wrap d key s m = Inr w \<Longrightarrow> unwrap w s = Inr key"
    and wrap_metadata: "wrap d key s m = Inr w \<Longrightarrow> vw_metadata w = m"
begin

lemma restore:
  assumes "aead_correct W" "length (snd (snd d)) = 12" "wrap d key s m = Inr w" "\<not> mentions (set PLAINTEXT_FORBIDDEN) m"
    "createVaultEnvelope W iv vault key user origin (w # ws) = Inr env" "nv_vault_id vault \<noteq> []" "user \<noteq> []"
    "\<forall>w \<in> set ws. \<not> mentions (set PLAINTEXT_FORBIDDEN) (vw_metadata w)"
  shows "parseVaultEnvelope (stringify env) = Inr env \<and>
    json_get ''wrappers'' env = Some (JArr (map wrapper_json (w # ws))) \<and>
    bindR (unwrap w s) (decryptEnvelope W env) = Inr (vault_json vault)"
proof -
  have ws: "\<forall>x \<in> set (w # ws). \<not> mentions (set PLAINTEXT_FORBIDDEN) (vw_metadata x)"
    using assms(4,8) wrap_metadata [OF assms(3)] by simp
  note ok = validate_created [OF assms(5,1,6,7) ws]
  show ?thesis using ok wrap_unwrap [OF assms(1,2,3)] by (simp add: parseVaultEnvelope_def)
qed

end

lemma hkdf_wrap_unwrap:
  "aead_correct W \<Longrightarrow> length (snd (snd d)) = 12 \<Longrightarrow> hkdf_wrap info ty W d key s m = Inr w \<Longrightarrow> hkdf_unwrap info W w s = Inr key"
  by (auto simp: hkdf_wrap_def hkdf_unwrap_def bindR_Inr_iff dest!: mk_wrapper_ok intro: unwrap_wrapWithKey)

lemma hkdf_wrap_metadata: "hkdf_wrap info ty W d key s m = Inr w \<Longrightarrow> vw_metadata w = m"
  by (auto simp: hkdf_wrap_def bindR_Inr_iff dest!: mk_wrapper_ok)

interpretation passkey: key_wrap W "wrapVaultKeyWithPasskeyPrf W" "unwrapVaultKeyWithPasskeyPrf W" for W
  unfolding wrapVaultKeyWithPasskeyPrf_def unwrapVaultKeyWithPasskeyPrf_def
  by unfold_locales (auto intro: hkdf_wrap_unwrap hkdf_wrap_metadata)

interpretation stellar: key_wrap W "wrapVaultKeyWithStellarSignature W" "unwrapVaultKeyWithStellarSignature W" for W
  unfolding wrapVaultKeyWithStellarSignature_def unwrapVaultKeyWithStellarSignature_def
  by unfold_locales (auto intro: hkdf_wrap_unwrap hkdf_wrap_metadata)

interpretation recovery_file: key_wrap W "wrapVaultKeyWithRecoveryFileSecret W" "unwrapVaultKeyWithRecoveryFileSecret W" for W
  unfolding wrapVaultKeyWithRecoveryFileSecret_def unwrapVaultKeyWithRecoveryFileSecret_def
  by unfold_locales (auto intro: hkdf_wrap_unwrap hkdf_wrap_metadata)

interpretation password: key_wrap W "wrapVaultKeyWithRecoveryKitPassword W" "unwrapVaultKeyWithRecoveryKitPassword W" for W
  by unfold_locales
    (auto simp: wrapVaultKeyWithRecoveryKitPassword_def unwrapVaultKeyWithRecoveryKitPassword_def bindR_Inr_iff dest!: mk_wrapper_ok
      intro: unwrap_wrapWithKey)

section \<open>Properties\<close>

text \<open>C36.  A vault can be restored by any of its recovery methods: the envelope survives being printed,
  stored and parsed, passes its own validation, and whoever has the passkey output, the signature, the
  recovery file's secret or the password unwraps the master key and decrypts exactly the vault that was
  sealed.\<close>

theorem vault_restores:
  assumes "aead_correct W" "length (snd (snd d)) = 12" "\<not> mentions (set PLAINTEXT_FORBIDDEN) m"
    "(wrapVaultKeyWithPasskeyPrf W d key s m = Inr w \<and> unwrapped = unwrapVaultKeyWithPasskeyPrf W w s) \<or>
     (wrapVaultKeyWithStellarSignature W d key s m = Inr w \<and> unwrapped = unwrapVaultKeyWithStellarSignature W w s) \<or>
     (wrapVaultKeyWithRecoveryFileSecret W d key s m = Inr w \<and> unwrapped = unwrapVaultKeyWithRecoveryFileSecret W w s) \<or>
     (wrapVaultKeyWithRecoveryKitPassword W d key pw m = Inr w \<and> unwrapped = unwrapVaultKeyWithRecoveryKitPassword W w pw)"
    "createVaultEnvelope W iv vault key user origin (w # ws) = Inr env" "nv_vault_id vault \<noteq> []" "user \<noteq> []"
    "\<forall>w \<in> set ws. \<not> mentions (set PLAINTEXT_FORBIDDEN) (vw_metadata w)"
  shows "parseVaultEnvelope (stringify env) = Inr env \<and>
    json_get ''wrappers'' env = Some (JArr (map wrapper_json (w # ws))) \<and>
    bindR unwrapped (decryptEnvelope W env) = Inr (vault_json vault)"
  using assms(4)
proof (elim disjE conjE)
  assume "wrapVaultKeyWithPasskeyPrf W d key s m = Inr w" "unwrapped = unwrapVaultKeyWithPasskeyPrf W w s"
  then show ?thesis using passkey.restore [OF assms(1,2) _ assms(3,5-8)] by simp
next
  assume "wrapVaultKeyWithStellarSignature W d key s m = Inr w" "unwrapped = unwrapVaultKeyWithStellarSignature W w s"
  then show ?thesis using stellar.restore [OF assms(1,2) _ assms(3,5-8)] by simp
next
  assume "wrapVaultKeyWithRecoveryFileSecret W d key s m = Inr w" "unwrapped = unwrapVaultKeyWithRecoveryFileSecret W w s"
  then show ?thesis using recovery_file.restore [OF assms(1,2) _ assms(3,5-8)] by simp
next
  assume "wrapVaultKeyWithRecoveryKitPassword W d key pw m = Inr w" "unwrapped = unwrapVaultKeyWithRecoveryKitPassword W w pw"
  then show ?thesis using password.restore [OF assms(1,2) _ assms(3,5-8)] by simp
qed

definition plain_webcrypto :: WebCrypto where
  "plain_webcrypto = \<lparr>wc_encrypt = (\<lambda>k iv a p. Inr (p @ replicate 16 0)), wc_decrypt = (\<lambda>k iv a c. Inr (take (length c - 16) c)),
    wc_hkdf = (\<lambda>i s t. Inr i), wc_pbkdf2 = (\<lambda>p s n. Inr p), wc_sha256 = (\<lambda>b. b)\<rparr>"

theorem vault_restores_witness:
  "\<exists>w env. wrapVaultKeyWithPasskeyPrf plain_webcrypto ([1], [2], replicate 12 3) [7] [9] (JObj []) = Inr w \<and>
    createVaultEnvelope plain_webcrypto (replicate 12 4) (createEmptyNoteVault ''v'' ''t'') [7] ''u'' ''o'' [w] = Inr env \<and>
    bindR (unwrapVaultKeyWithPasskeyPrf plain_webcrypto w [9]) (decryptEnvelope plain_webcrypto env) = Inr (vault_json (createEmptyNoteVault ''v'' ''t''))"
proof -
  let ?d = "([1], [2], replicate 12 3) :: wrap_draws"
  have ok: "aead_correct plain_webcrypto" by (simp add: aead_correct_def plain_webcrypto_def)
  obtain w where w: "wrapVaultKeyWithPasskeyPrf plain_webcrypto ?d [7] [9] (JObj []) = Inr w"
    by (simp add: wrapVaultKeyWithPasskeyPrf_def hkdf_wrap_def hkdf_def mk_wrapper_def wrapWithKey_def aesGcmEncrypt_def plain_webcrypto_def)
  obtain env where env: "createVaultEnvelope plain_webcrypto (replicate 12 4) (createEmptyNoteVault ''v'' ''t'') [7] ''u'' ''o'' [w] = Inr env"
    by (simp add: createVaultEnvelope_def Let_def encryptNoteVault_def aesGcmEncrypt_def plain_webcrypto_def)
  have "nv_vault_id (createEmptyNoteVault ''v'' ''t'') \<noteq> []" by (simp add: createEmptyNoteVault_def)
  then show ?thesis
    using vault_restores [OF ok _ _ _ env, where d = ?d and m = "JObj []" and s = "[9]"
        and unwrapped = "unwrapVaultKeyWithPasskeyPrf plain_webcrypto w [9]"] w env
    by (auto simp: mentions_obj)
qed



text \<open>Adding a note: it replaces the note of the same commitment and keeps commitments distinct.\<close>

lemma addNoteToVault_notes:
  "vn_commitment n \<in> set (map vn_commitment (nv_notes (addNoteToVault v n now)))"
  "distinct (map vn_commitment (nv_notes v)) \<Longrightarrow> distinct (map vn_commitment (nv_notes (addNoteToVault v n now)))"
  "find (\<lambda>m. vn_commitment m = c) (nv_notes (addNoteToVault v n now)) =
    (if c = vn_commitment n then Some n else find (\<lambda>m. vn_commitment m = c) (nv_notes v))"
proof -
  show "vn_commitment n \<in> set (map vn_commitment (nv_notes (addNoteToVault v n now)))" by (simp add: addNoteToVault_def)
  show "distinct (map vn_commitment (nv_notes v)) \<Longrightarrow> distinct (map vn_commitment (nv_notes (addNoteToVault v n now)))"
    by (auto simp: addNoteToVault_def distinct_map_filter)
  have "find (\<lambda>m. vn_commitment m = c) (filter (\<lambda>m. vn_commitment m \<noteq> vn_commitment n) ns @ [n]) =
    (if c = vn_commitment n then Some n else find (\<lambda>m. vn_commitment m = c) ns)" for ns
    by (induction ns) auto
  then show "find (\<lambda>m. vn_commitment m = c) (nv_notes (addNoteToVault v n now)) =
    (if c = vn_commitment n then Some n else find (\<lambda>m. vn_commitment m = c) (nv_notes v))"
    by (simp add: addNoteToVault_def)
qed

text \<open>What an accepted recovery policy means.\<close>

lemma recovery_policy:
  assumes "evaluateRecoveryPolicy ws mainnet n evmOnly \<noteq> Insufficient" "mainnet \<or> 0 < n \<or> \<not> evmOnly"
  shows "\<exists>w \<in> set ws. vw_active w \<and> vw_type w \<noteq> Evm_Signature \<and> \<not> vw_diagnostic_only w"
proof -
  have "filter (\<lambda>w. vw_type w \<noteq> Evm_Signature \<and> \<not> vw_diagnostic_only w) (filter vw_active ws) \<noteq> []"
    using assms by (auto simp: evaluateRecoveryPolicy_def Let_def split: if_splits)
  then show ?thesis by (auto simp: filter_empty_conv)
qed

end
