(* ===== verification/Rfq.thy ===== *)
theory Rfq
  imports Proving Mpc_Keys Mpc_Session
begin

text \<open>
  \<open>packages/rfq\<close> (\<open>rfq.ts\<close>, \<open>remit.ts\<close>) and the solver service \<open>apps/solver/src/server.ts\<close>: intents, quotes and
  atomic swap terms with the hashes that bind them, prices, and the solver's quote and fill routes.
  SHA-256, the Stellar key library, AES-GCM, the collation of \<open>localeCompare\<close>, the EVM wallet and the
  random ids are parameters.
\<close>

section \<open>Canonical text\<close>

fun stable :: "(string \<Rightarrow> string \<Rightarrow> int) \<Rightarrow> json \<Rightarrow> string" where
  "stable cmp (JArr js) = ''['' @ js_join '','' (map (stable cmp) js) @ '']''"
| "stable cmp (JObj ms) = ''{'' @ js_join '','' (map (\<lambda>(k, s). json_quote k @ '':'' @ s)
    (js_sort (\<lambda>x y. cmp (fst x) (fst y)) (map (\<lambda>(k, v). (k, stable cmp v)) ms))) @ ''}''"
| "stable cmp j = stringify j"

text \<open>The libraries: hash, collation, and keys as secret to public key and signature.\<close>

record RfqLib =
  rl_sha256 :: "bytes \<Rightarrow> bytes"
  rl_localeCompare :: "string \<Rightarrow> string \<Rightarrow> int"
  rl_fromSecret :: "string \<Rightarrow> (bytes \<times> (bytes \<Rightarrow> bytes)) result"

definition sha256_text :: "RfqLib \<Rightarrow> string \<Rightarrow> string" where
  "sha256_text L s = hex_encode (rl_sha256 L (utf8_encode s))"

section \<open>Intents and quotes\<close>

record Intent =
  it_user_pubkey_commitment :: string
  it_input_asset :: string
  it_output_asset :: string
  it_amount_mode :: string
  it_amount :: string
  it_min_output :: string
  it_expiry_ledger :: int
  it_allowed_solvers_root :: string
  it_compliance_policy_id :: string
  it_destination :: string

record Quote =
  qt_quote_id :: string
  qt_intent_hash :: string
  qt_solver_id :: string
  qt_input_asset :: string
  qt_output_asset :: string
  qt_gross_input :: string
  qt_net_output :: string
  qt_fee :: string
  qt_valid_until_ledger :: json
  qt_solver_inventory_commitment :: string

definition intent_json :: "Intent \<Rightarrow> json" where
  "intent_json i = JObj [(''intent_type'', JStr ''PRIVATE_RFQ''), (''version'', JStr ''1.0''),
    (''user_pubkey_commitment'', JStr (it_user_pubkey_commitment i)), (''input_asset'', JStr (it_input_asset i)),
    (''output_asset'', JStr (it_output_asset i)), (''amount_mode'', JStr (it_amount_mode i)), (''amount'', JStr (it_amount i)),
    (''min_output'', JStr (it_min_output i)), (''expiry_ledger'', JNum (it_expiry_ledger i)),
    (''allowed_solvers_root'', JStr (it_allowed_solvers_root i)), (''compliance_policy_id'', JStr (it_compliance_policy_id i)),
    (''destination'', JStr (it_destination i)), (''replay_domain'', JStr ''lumixprotocol:stellar:testnet:rfq:v1'')]"

definition quote_json :: "Quote \<Rightarrow> json" where
  "quote_json q = JObj [(''quote_id'', JStr (qt_quote_id q)), (''intent_hash'', JStr (qt_intent_hash q)), (''solver_id'', JStr (qt_solver_id q)),
    (''input_asset'', JStr (qt_input_asset q)), (''output_asset'', JStr (qt_output_asset q)), (''gross_input'', JStr (qt_gross_input q)),
    (''net_output'', JStr (qt_net_output q)), (''fee'', JStr (qt_fee q)), (''valid_until_ledger'', qt_valid_until_ledger q),
    (''solver_inventory_commitment'', JStr (qt_solver_inventory_commitment q)), (''settlement_method'', JStr ''proof_of_fill'')]"

definition intentHash :: "RfqLib \<Rightarrow> Intent \<Rightarrow> string" where
  "intentHash L i = ''0x'' @ sha256_text L (stable (rl_localeCompare L) (intent_json i))"

definition quoteHash :: "RfqLib \<Rightarrow> Quote \<Rightarrow> string" where
  "quoteHash L q = ''0x'' @ sha256_text L (stable (rl_localeCompare L) (quote_json q))"

definition signQuoteStellar :: "RfqLib \<Rightarrow> string \<Rightarrow> string \<Rightarrow> (string \<times> string) result" where
  "signQuoteStellar L quoteHashHex stellarSecret =
    bindR (rl_fromSecret L stellarSecret) (\<lambda>(pk, sign).
    Inr (hex_encode (sign (hex_decode (strip0x quoteHashHex))), hex_encode pk))"

section \<open>Atomic swaps\<close>

definition PRICE_SCALE_RFQ :: int where
  "PRICE_SCALE_RFQ = 1000000000"

text \<open>The loop that writes byte 15 down to byte 0 and shifts: sixteen bytes of the two's complement.\<close>

fun i128_loop :: "nat \<Rightarrow> int \<Rightarrow> bytes \<Rightarrow> bytes" where
  "i128_loop 0 x acc = acc"
| "i128_loop (Suc n) x acc = i128_loop n (x div 256) (byte_of (nat (x mod 256)) # acc)"

definition i128beBytes :: "int \<Rightarrow> bytes" where
  "i128beBytes v = i128_loop 16 v []"

definition recipientHashBytes :: "RfqLib \<Rightarrow> string \<Rightarrow> bytes" where
  "recipientHashBytes L strkey = take 32 (0 # take 31 (rl_sha256 L (utf8_encode strkey)) @ replicate 31 0)"

record AtomicSwapTerms =
  as_quoteHashHex :: string
  as_outputAssetIdHex :: string
  as_quotedOutput :: int
  as_minOutput :: int
  as_priceScaled :: int
  as_recipientStrkey :: string

definition swap_bytes :: "RfqLib \<Rightarrow> AtomicSwapTerms \<Rightarrow> bytes" where
  "swap_bytes L t = hex_decode (strip0x (as_quoteHashHex t)) @ hex_decode (strip0x (as_outputAssetIdHex t)) @
    i128beBytes (as_quotedOutput t) @ i128beBytes (as_minOutput t) @ i128beBytes (as_priceScaled t) @ recipientHashBytes L (as_recipientStrkey t)"

definition atomicSwapHash :: "RfqLib \<Rightarrow> AtomicSwapTerms \<Rightarrow> string" where
  "atomicSwapHash L t = ''0x'' @ hex_encode (rl_sha256 L (swap_bytes L t))"

definition signAtomicSwap :: "RfqLib \<Rightarrow> AtomicSwapTerms \<Rightarrow> string \<Rightarrow> (string \<times> string \<times> string) result" where
  "signAtomicSwap L terms stellarSecret =
    (let swapHash = atomicSwapHash L terms in bindR (signQuoteStellar L swapHash stellarSecret) (\<lambda>(sig, pubkey). Inr (swapHash, sig, pubkey)))"

definition quotedFromPrice :: "int \<Rightarrow> int \<Rightarrow> int" where
  "quotedFromPrice inputAmount7dp priceScaled = (inputAmount7dp * priceScaled) sdiv PRICE_SCALE_RFQ"

definition pad_end :: "nat \<Rightarrow> char \<Rightarrow> string \<Rightarrow> string" where
  "pad_end n c s = s @ replicate (n - length s) c"

definition encryptIntent :: "RfqLib \<Rightarrow> Gcm \<Rightarrow> bytes \<Rightarrow> Intent \<Rightarrow> string \<Rightarrow> string \<times> string \<times> string" where
  "encryptIntent L G iv i masterKeyHex =
    (let key = hex_decode (take 64 (pad_end 64 (CHR ''0'') (strip0x masterKeyHex)));
         (ct, tag) = gcm_seal G key iv (utf8_encode (stable (rl_localeCompare L) (intent_json i)))
     in (hex_encode ct, hex_encode iv, hex_encode tag))"

section \<open>Prices\<close>

definition priceQuote :: "int \<Rightarrow> int \<Rightarrow> int \<times> int" where
  "priceQuote grossInput7dp feeBps = (let fee = (grossInput7dp * feeBps) sdiv 10000 in (grossInput7dp - fee, fee))"

text \<open>\<open>.replace(/^0+(\d)/, "$1")\<close>: the zeros go, but a digit stays in front of the point.\<close>

definition trim_zeros :: "string \<Rightarrow> string" where
  "trim_zeros s =
    (let z = takeWhile (\<lambda>c. c = CHR ''0'') s; r = dropWhile (\<lambda>c. c = CHR ''0'') s
     in if z = [] then s else if r \<noteq> [] \<and> ascii_digit (hd r) then r else CHR ''0'' # r)"

definition usdc7ToDecimal :: "int \<Rightarrow> string" where
  "usdc7ToDecimal v = (let s = pad_start 8 (CHR ''0'') (bigint_to_string v); n = length s - 7 in trim_zeros (take n s @ ''.'' @ drop n s))"

section \<open>Simulated remittance\<close>

record RemitQuote =
  rq_quoteId :: string
  rq_amount7dp :: string
  rq_payoutAmountMinor :: string
  rq_currency :: string
  rq_recipientMetadata :: string
  rq_anchorId :: string
  rq_policyId :: string
  rq_expiryLedger :: int

definition recipientMetadataCommitment :: "RfqLib \<Rightarrow> string \<Rightarrow> string \<Rightarrow> string" where
  "recipientMetadataCommitment L metadata blindingHex = ''0x'' @ sha256_text L (metadata @ ''|'' @ blindingHex)"

definition remit_json :: "RemitQuote \<Rightarrow> string \<Rightarrow> json" where
  "remit_json q mc = JObj [(''quoteId'', JStr (rq_quoteId q)), (''amount7dp'', JStr (rq_amount7dp q)), (''payoutAmountMinor'', JStr (rq_payoutAmountMinor q)),
    (''currency'', JStr (rq_currency q)), (''recipientMetadataCommitment'', JStr mc), (''anchorId'', JStr (rq_anchorId q)),
    (''policyId'', JStr (rq_policyId q)), (''expiryLedger'', JNum (rq_expiryLedger q)), (''simulated'', JBool True)]"

definition remitSettlementHash :: "RfqLib \<Rightarrow> RemitQuote \<Rightarrow> string \<Rightarrow> string" where
  "remitSettlementHash L q mc = ''0x'' @ sha256_text L (stringify (remit_json q mc))"

record RemitReceipt =
  rr_quoteId :: string
  rr_settlementHash :: string
  rr_payoutAmountMinor :: string
  rr_currency :: string
  rr_anchorId :: string

definition simulateRemitReceipt :: "RfqLib \<Rightarrow> RemitQuote \<Rightarrow> string \<Rightarrow> int \<Rightarrow> (string \<times> RemitReceipt) result" where
  "simulateRemitReceipt L q blinding currentLedger =
    (if currentLedger > rq_expiryLedger q then Inl (Js_Error ''remit quote expired'')
     else let mc = recipientMetadataCommitment L (rq_recipientMetadata q) blinding; settlementHash = remitSettlementHash L q mc
          in Inr (settlementHash, \<lparr>rr_quoteId = rq_quoteId q, rr_settlementHash = settlementHash, rr_payoutAmountMinor = rq_payoutAmountMinor q,
               rr_currency = rq_currency q, rr_anchorId = rq_anchorId q\<rparr>))"

definition receiptMatchesSettlement :: "RfqLib \<Rightarrow> RemitReceipt \<Rightarrow> RemitQuote \<Rightarrow> string \<Rightarrow> bool" where
  "receiptMatchesSettlement L receipt q blinding \<longleftrightarrow>
    rr_settlementHash receipt = remitSettlementHash L q (recipientMetadataCommitment L (rq_recipientMetadata q) blinding)"

section \<open>The solver\<close>

record ('w) SolverWorld =
  sw_env :: env
  sw_address :: string
  sw_balance :: "('w, int) io"
  sw_transfer :: "string \<Rightarrow> int \<Rightarrow> ('w, string) io"

definition missing_env :: "env \<Rightarrow> string list \<Rightarrow> string list" where
  "missing_env e keys = filter (\<lambda>k. e k = None \<or> e k = Some []) keys"

definition requireEnv :: "env \<Rightarrow> string list \<Rightarrow> ('w, 'a reply) io \<Rightarrow> ('w, 'a reply) io" where
  "requireEnv e keys rest =
    (if missing_env e keys \<noteq> [] then returnIO (Reply_Error 503 (''solver env required: '' @ js_join '', '' (missing_env e keys))) else rest)"

definition get_inventory :: "'w SolverWorld \<Rightarrow> ('w, (string \<times> string \<times> string) reply) io" where
  "get_inventory S =
    requireEnv (sw_env S) [''ARB_SOLVER_PRIVATE_KEY'', ''ARB_SEPOLIA_RPC_URL'', ''ARB_SEPOLIA_USDC_ADDRESS'', ''STELLAR_SOLVER_PUBLIC'']
      (bindIO (sw_balance S) (\<lambda>usdc6.
       returnIO (Reply (''stellar:'' @ js_string_opt (map_option JStr (sw_env S ''STELLAR_SOLVER_PUBLIC'')), sw_address S, bigint_to_string usdc6))))"

text \<open>\<open>Number(v)\<close>; the value that is not a number prints as \<open>null\<close>.\<close>

definition js_number :: "json \<Rightarrow> json" where
  "js_number j =
    (case j of
       JNum n \<Rightarrow> JNum n
     | JNull \<Rightarrow> JNum 0
     | JBool b \<Rightarrow> JNum (if b then 1 else 0)
     | JStr s \<Rightarrow> (case BigInt s of Inr n \<Rightarrow> JNum n | Inl _ \<Rightarrow> JNull)
     | _ \<Rightarrow> JNull)"

definition nullish_or :: "json option \<Rightarrow> json \<Rightarrow> json" where
  "nullish_or v d = (case v of None \<Rightarrow> d | Some JNull \<Rightarrow> d | Some j \<Rightarrow> j)"

record QuoteReply =
  qr_quote :: Quote
  qr_quote_hash :: string
  qr_solver_pubkey :: string
  qr_solver_sig :: string
  qr_fill_amount_6dp :: string

definition solver_quote :: "RfqLib \<Rightarrow> 'w SolverWorld \<Rightarrow> json \<Rightarrow> string \<Rightarrow> int \<Rightarrow> int \<Rightarrow> int \<Rightarrow> int \<Rightarrow> Quote" where
  "solver_quote L S body quoteId usdc6 gross7 net7 fee7 =
    \<lparr>qt_quote_id = quoteId, qt_intent_hash = js_string (nullish_or (json_get ''intent_hash'' body) (JStr [])),
     qt_solver_id = ''stellar:'' @ js_string_opt (map_option JStr (sw_env S ''STELLAR_SOLVER_PUBLIC'')),
     qt_input_asset = ''USDC:Stellar:SAC'', qt_output_asset = ''USDC:ArbitrumSepolia'', qt_gross_input = usdc7ToDecimal gross7,
     qt_net_output = usdc7ToDecimal net7, qt_fee = usdc7ToDecimal fee7,
     qt_valid_until_ledger = js_number (nullish_or (json_get ''expiry_ledger'' body) (JNum 999999999)),
     qt_solver_inventory_commitment = sha256_text L (sw_address S @ '':'' @ bigint_to_string usdc6)\<rparr>"

definition post_quote :: "RfqLib \<Rightarrow> 'w SolverWorld \<Rightarrow> string \<Rightarrow> json \<Rightarrow> ('w, QuoteReply reply) io" where
  "post_quote L S quoteId body =
    requireEnv (sw_env S) [''ARB_SOLVER_PRIVATE_KEY'', ''ARB_SEPOLIA_RPC_URL'', ''ARB_SEPOLIA_USDC_ADDRESS'', ''STELLAR_SOLVER_SECRET'', ''STELLAR_SOLVER_PUBLIC'']
      (bindIO (sw_balance S) (\<lambda>usdc6.
       bindIO (liftIO (BigInt (js_string (nullish_or (json_get ''amount'' body) (JStr ''0''))))) (\<lambda>gross7.
       if gross7 \<le> 0 then returnIO (Reply_Error 400 ''intent amount required (7dp)'')
       else bindIO (liftIO (BigInt (env_or (sw_env S) ''RFQ_FEE_BPS'' ''50''))) (\<lambda>feeBps.
       let (net7, fee7) = priceQuote gross7 feeBps; fillAmount6 = net7 sdiv 10 in
       if usdc6 < fillAmount6
       then returnIO (Reply_Error 409 (''insufficient inventory: have '' @ bigint_to_string usdc6 @ '' (6dp), need '' @ bigint_to_string fillAmount6))
       else let q = solver_quote L S body quoteId usdc6 gross7 net7 fee7; h = quoteHash L q in
         bindIO (liftIO (signQuoteStellar L h (env_or (sw_env S) ''STELLAR_SOLVER_SECRET'' []))) (\<lambda>(sig, pubkey).
         returnIO (Reply \<lparr>qr_quote = q, qr_quote_hash = h, qr_solver_pubkey = pubkey, qr_solver_sig = sig,
           qr_fill_amount_6dp = bigint_to_string fillAmount6\<rparr>))))))"

record FillReply =
  fr_fill_tx_hash :: string
  fr_fill_receipt_hash :: string
  fr_amount_6dp :: string
  fr_recipient :: string

definition post_fill :: "RfqLib \<Rightarrow> 'w SolverWorld \<Rightarrow> json \<Rightarrow> ('w, FillReply reply) io" where
  "post_fill L S body =
    requireEnv (sw_env S) [''ARB_SOLVER_PRIVATE_KEY'', ''ARB_SEPOLIA_RPC_URL'', ''ARB_SEPOLIA_USDC_ADDRESS'']
      (if json_falsy (json_get ''recipient'' body) \<or> json_falsy (json_get ''amount_6dp'' body)
       then returnIO (Reply_Error 400 ''recipient and amount_6dp required'')
       else bindIO (liftIO (BigInt_json (json_get ''amount_6dp'' body))) (\<lambda>amount6.
         bindIO (sw_balance S) (\<lambda>bal.
         if bal < amount6 then returnIO (Reply_Error 409 (''insufficient inventory: have '' @ bigint_to_string bal @ '', need '' @ bigint_to_string amount6))
         else bindIO (sw_transfer S (js_string_opt (json_get ''recipient'' body)) amount6) (\<lambda>h.
           returnIO (Reply \<lparr>fr_fill_tx_hash = h, fr_fill_receipt_hash = sha256_text L h, fr_amount_6dp = bigint_to_string amount6,
             fr_recipient = js_string_opt (json_get ''recipient'' body)\<rparr>)))))"

section \<open>The canonical text binds\<close>

lemma sort_insert_map: "sort_insert f (g x) (map g ys) = map g (sort_insert (\<lambda>a b. f (g a) (g b)) x ys)"
  by (induction ys) auto

lemma js_sort_map: "js_sort f (map g xs) = map g (js_sort (\<lambda>a b. f (g a) (g b)) xs)"
  by (induction xs) (auto simp: js_sort_def sort_insert_map)

lemma sort_insert_cong:
  "\<forall>a \<in> set (x # ys). \<forall>b \<in> set (x # ys). f a b = f' a b \<Longrightarrow> sort_insert f x ys = sort_insert f' x ys"
  by (induction ys) auto

lemma js_sort_cong: "\<forall>a \<in> set xs. \<forall>b \<in> set xs. f a b = f' a b \<Longrightarrow> js_sort f xs = js_sort f' xs"
proof (induction xs)
  case (Cons x xs)
  then have "js_sort f xs = js_sort f' xs" by simp
  then show ?case
    using Cons.prems set_js_sort [of f' xs] by (simp add: js_sort_def) (rule sort_insert_cong, simp add: js_sort_def [symmetric])
qed (simp add: js_sort_def)

lemma sorted_members_inject:
  assumes "map fst ms = map fst ms'" "js_sort (\<lambda>x y. cmp (fst x) (fst y)) ms = js_sort (\<lambda>x y. cmp (fst x) (fst y)) ms'"
  shows "ms = ms'"
proof -
  let ?n = "length ms" and ?c = "\<lambda>i j. cmp (map fst ms ! i) (map fst ms ! j)"
  have n: "length ms' = ?n" using assms(1) by (metis length_map)
  have "js_sort (\<lambda>x y. cmp (fst x) (fst y)) xs = map ((!) xs) (js_sort ?c [0..<?n])" if "map fst xs = map fst ms" for xs :: "('a \<times> 'b) list"
  proof -
    have len: "length xs = ?n" using that by (metis length_map)
    have "fst (xs ! i) = map fst ms ! i" if "i < ?n" for i using \<open>map fst xs = map fst ms\<close> that len by (metis nth_map)
    then have "js_sort (\<lambda>i j. cmp (fst (xs ! i)) (fst (xs ! j))) [0..<?n] = js_sort ?c [0..<?n]" by (intro js_sort_cong) auto
    then show ?thesis
      using js_sort_map [of "\<lambda>x y. cmp (fst x) (fst y)" "(!) xs" "[0..<?n]"] len by (simp add: map_nth [of xs, unfolded len])
  qed
  from this [of ms] this [of ms'] assms have "map ((!) ms) (js_sort ?c [0..<?n]) = map ((!) ms') (js_sort ?c [0..<?n])" by simp
  then have "\<forall>i \<in> set (js_sort ?c [0..<?n]). ms ! i = ms' ! i" by (simp add: map_eq_conv)
  then show ?thesis using n by (auto intro: nth_equalityI)
qed

fun plain_json :: "json \<Rightarrow> bool" where
  "plain_json (JArr _) \<longleftrightarrow> False"
| "plain_json (JObj _) \<longleftrightarrow> False"
| "plain_json _ \<longleftrightarrow> True"

lemma stable_plain: "plain_json v \<Longrightarrow> stable cmp v = stringify v"
  by (cases v) auto

lemma stable_flat:
  assumes "\<forall>(k, v) \<in> set ms. plain_json v"
  shows "stable cmp (JObj ms) = stringify (JObj (js_sort (\<lambda>x y. cmp (fst x) (fst y)) ms))"
proof -
  have "\<forall>x \<in> set ms. stable cmp (snd x) = stringify (snd x)" using assms stable_plain by fastforce
  then show ?thesis by (simp add: js_sort_map case_prod_beta comp_def cong: map_cong)
qed

lemma stable_flat_inject:
  assumes "\<forall>(k, v) \<in> set ms. plain_json v" "\<forall>(k, v) \<in> set ms'. plain_json v" "map fst ms = map fst ms'"
    "stable cmp (JObj ms) = stable cmp (JObj ms')"
  shows "ms = ms'"
proof -
  have "JObj (js_sort (\<lambda>x y. cmp (fst x) (fst y)) ms) = JObj (js_sort (\<lambda>x y. cmp (fst x) (fst y)) ms')"
    using assms(4) unfolding stable_flat [OF assms(1)] stable_flat [OF assms(2)] by (simp add: json_codec.enc_inject del: stringify.simps)
  then show ?thesis using sorted_members_inject [OF assms(3)] by simp
qed

text \<open>SHA-256 takes two given texts to the same hash although they differ.\<close>

definition collides :: "RfqLib \<Rightarrow> bytes \<Rightarrow> bytes \<Rightarrow> bool" where
  "collides L x y \<longleftrightarrow> x \<noteq> y \<and> rl_sha256 L x = rl_sha256 L y"

lemma sha256_text_inject: "sha256_text L s = sha256_text L t \<Longrightarrow> s = t \<or> collides L (utf8_encode s) (utf8_encode t)"
  by (auto simp: sha256_text_def hex.enc_inject collides_def utf8.enc_inject)

abbreviation intent_text :: "RfqLib \<Rightarrow> Intent \<Rightarrow> string" where
  "intent_text L i \<equiv> stable (rl_localeCompare L) (intent_json i)"

abbreviation quote_text :: "RfqLib \<Rightarrow> Quote \<Rightarrow> string" where
  "quote_text L q \<equiv> stable (rl_localeCompare L) (quote_json q)"

abbreviation remit_text :: "RfqLib \<Rightarrow> RemitQuote \<Rightarrow> string \<Rightarrow> string" where
  "remit_text L p b \<equiv> stringify (remit_json p (recipientMetadataCommitment L (rq_recipientMetadata p) b))"

lemma i128_loop_acc: "i128_loop n x acc = i128_loop n x [] @ acc"
proof (induction n arbitrary: x acc)
  case (Suc n)
  then show ?case by (metis append.assoc append_Cons append_Nil i128_loop.simps(2))
qed simp

lemma length_i128_loop [simp]: "length (i128_loop n x acc) = n + length acc"
  by (induction n arbitrary: x acc) auto

lemma i128_loop_inject: "i128_loop n x [] = i128_loop n y [] \<Longrightarrow> x mod 256 ^ n = y mod 256 ^ n"
proof (induction n arbitrary: x y)
  case (Suc n)
  have snoc: "i128_loop (Suc n) z [] = i128_loop n (z div 256) [] @ [byte_of (nat (z mod 256))]" for z
    using i128_loop_acc [of n "z div 256" "[byte_of (nat (z mod 256))]"] by simp
  from Suc.prems have "i128_loop n (x div 256) [] = i128_loop n (y div 256) []"
    and b: "byte_of (nat (x mod 256)) = byte_of (nat (y mod 256))"
    unfolding snoc by simp_all
  then have ih: "x div 256 mod 256 ^ n = y div 256 mod 256 ^ n" using Suc.IH by blast
  have byte: "unat (byte_of (nat (z mod 256))) = nat (z mod 256)" for z :: int by (rule unat_byte_of) (simp add: nat_less_iff)
  from b have "x mod 256 = y mod 256" using byte [of x] byte [of y] by (metis eq_nat_nat_iff pos_mod_sign zero_less_numeral)
  then show ?case using ih by (simp add: zmod_zmult2_eq)
qed simp

lemma i128beBytes_inject:
  assumes "i128beBytes x = i128beBytes y" "- (2 ^ 127) \<le> x" "x < 2 ^ 127" "- (2 ^ 127) \<le> y" "y < 2 ^ 127"
  shows "x = y"
proof -
  have "x mod 256 ^ 16 = y mod 256 ^ 16" using assms(1) i128_loop_inject unfolding i128beBytes_def by blast
  then have "(256 :: int) ^ 16 dvd x - y" by (simp only: mod_eq_dvd_iff)
  moreover have "\<bar>x - y\<bar> < 256 ^ 16" using assms(2-5) by simp
  ultimately show ?thesis using dvd_imp_le_int [of "x - y" "256 ^ 16"] by fastforce
qed

lemma length_i128beBytes [simp]: "length (i128beBytes x) = 16"
  by (simp add: i128beBytes_def)

section \<open>Properties\<close>

text \<open>Hashes bind what is signed: two intents, two quotes or two remittance settlements with the same
  hash are the same in every member, unless SHA-256 collides on their two texts.  Since members are sorted by name, this holds
  whatever the collation of the names.\<close>

theorem rfq_hashes_bind:
  "(intentHash L i = intentHash L i' \<longrightarrow> i = i' \<or> collides L (utf8_encode (intent_text L i)) (utf8_encode (intent_text L i'))) \<and>
   (quoteHash L q = quoteHash L q' \<and> plain_json (qt_valid_until_ledger q) \<and> plain_json (qt_valid_until_ledger q') \<longrightarrow>
      q = q' \<or> collides L (utf8_encode (quote_text L q)) (utf8_encode (quote_text L q'))) \<and>
   (receiptMatchesSettlement L r p b \<and> receiptMatchesSettlement L r p' b' \<longrightarrow>
      p\<lparr>rq_recipientMetadata := []\<rparr> = p'\<lparr>rq_recipientMetadata := []\<rparr> \<and>
        (rq_recipientMetadata p @ ''|'' @ b = rq_recipientMetadata p' @ ''|'' @ b' \<or>
         collides L (utf8_encode (rq_recipientMetadata p @ ''|'' @ b)) (utf8_encode (rq_recipientMetadata p' @ ''|'' @ b'))) \<or>
      collides L (utf8_encode (remit_text L p b)) (utf8_encode (remit_text L p' b')))"
proof (intro conjI impI)
  assume "intentHash L i = intentHash L i'"
  then have "sha256_text L (intent_text L i) = sha256_text L (intent_text L i')" by (simp add: intentHash_def)
  from sha256_text_inject [OF this] show "i = i' \<or> collides L (utf8_encode (intent_text L i)) (utf8_encode (intent_text L i'))"
  proof
    assume "intent_text L i = intent_text L i'"
    then have "intent_json i = intent_json i'" unfolding intent_json_def by (subst json.inject) (erule stable_flat_inject [rotated 3], simp_all)
    then show ?thesis by (cases i; cases i') (simp add: intent_json_def)
  qed blast
next
  assume a: "quoteHash L q = quoteHash L q' \<and> plain_json (qt_valid_until_ledger q) \<and> plain_json (qt_valid_until_ledger q')"
  then have "sha256_text L (quote_text L q) = sha256_text L (quote_text L q')" by (simp add: quoteHash_def)
  from sha256_text_inject [OF this] show "q = q' \<or> collides L (utf8_encode (quote_text L q)) (utf8_encode (quote_text L q'))"
  proof
    assume "quote_text L q = quote_text L q'"
    then have "quote_json q = quote_json q'" using a unfolding quote_json_def by (subst json.inject) (erule stable_flat_inject [rotated 3], simp_all)
    then show ?thesis by (cases q; cases q') (simp add: quote_json_def)
  qed blast
next
  assume "receiptMatchesSettlement L r p b \<and> receiptMatchesSettlement L r p' b'"
  then have "sha256_text L (remit_text L p b) = sha256_text L (remit_text L p' b')"
    by (auto simp: receiptMatchesSettlement_def remitSettlementHash_def)
  from sha256_text_inject [OF this] show "p\<lparr>rq_recipientMetadata := []\<rparr> = p'\<lparr>rq_recipientMetadata := []\<rparr> \<and>
        (rq_recipientMetadata p @ ''|'' @ b = rq_recipientMetadata p' @ ''|'' @ b' \<or>
         collides L (utf8_encode (rq_recipientMetadata p @ ''|'' @ b)) (utf8_encode (rq_recipientMetadata p' @ ''|'' @ b'))) \<or>
      collides L (utf8_encode (remit_text L p b)) (utf8_encode (remit_text L p' b'))"
  proof
    assume "remit_text L p b = remit_text L p' b'"
    then have j: "remit_json p (recipientMetadataCommitment L (rq_recipientMetadata p) b) =
        remit_json p' (recipientMetadataCommitment L (rq_recipientMetadata p') b')"
      by (simp only: json_codec.enc_inject)
    then have "sha256_text L (rq_recipientMetadata p @ ''|'' @ b) = sha256_text L (rq_recipientMetadata p' @ ''|'' @ b')"
      by (simp add: remit_json_def recipientMetadataCommitment_def)
    from sha256_text_inject [OF this] j show ?thesis by (cases p; cases p') (auto simp: remit_json_def)
  qed blast
qed


text \<open>A library whose hash keeps its input, for the witnesses: injective, and of 32 bytes on the swap texts used.\<close>

definition plain_lib :: RfqLib where
  "plain_lib = \<lparr>rl_sha256 = (\<lambda>b. b), rl_localeCompare = (\<lambda>a b. if a < b then - 1 else if b < a then 1 else 0), rl_fromSecret = (\<lambda>s. Inr ([1], \<lambda>m. m))\<rparr>"

definition demo_rfq_intent :: Intent where
  "demo_rfq_intent = \<lparr>it_user_pubkey_commitment = ''c'', it_input_asset = ''USDC'', it_output_asset = ''XLM'', it_amount_mode = ''exact_in'', it_amount = ''5'',
    it_min_output = ''4'', it_expiry_ledger = 9, it_allowed_solvers_root = ''r'', it_compliance_policy_id = ''p'', it_destination = ''d''\<rparr>"

theorem rfq_hashes_bind_witness:
  "intentHash plain_lib demo_rfq_intent \<noteq> intentHash plain_lib (demo_rfq_intent\<lparr>it_amount := ''6''\<rparr>)"
proof -
  have "\<not> collides plain_lib x y" for x y by (simp add: collides_def plain_lib_def)
  moreover have "demo_rfq_intent \<noteq> demo_rfq_intent\<lparr>it_amount := ''6''\<rparr>" by (simp add: demo_rfq_intent_def)
  ultimately show ?thesis using rfq_hashes_bind by blast
qed

definition padded_lib :: RfqLib where
  "padded_lib = plain_lib\<lparr>rl_sha256 := (\<lambda>b. take 32 (b @ replicate 32 0))\<rparr>"

definition demo_terms :: AtomicSwapTerms where
  "demo_terms = \<lparr>as_quoteHashHex = ''0x'' @ hex_encode (replicate 32 1), as_outputAssetIdHex = ''0x'' @ hex_encode (replicate 32 2), as_quotedOutput = 5, as_minOutput = - 4,
    as_priceScaled = 7, as_recipientStrkey = ''G''\<rparr>"



definition demo_solver :: "int SolverWorld" where
  "demo_solver = \<lparr>sw_env = (\<lambda>k. if k = ''RFQ_FEE_BPS'' then None else Some ''k''), sw_address = ''0xA'', sw_balance = (\<lambda>w. (Inr w, w)),
    sw_transfer = (\<lambda>to a w. (Inr ''0xT'', w - a))\<rparr>"


end
