(* ===== verification/Root_Auditor.thy ===== *)
theory Root_Auditor
  imports Proving
begin

text \<open>
  \<open>apps/root-auditor/src\<close> (\<open>audit.ts\<close>, \<open>run.ts\<close>): the auditor that recomputes the pool's Merkle root from the
  deposit events and compares it with the root on the chain.  The root tool, the event service, the
  command line and the database are parameters; the tables the auditor writes are the record \<open>AuditDb\<close>.
\<close>

record DepositLeaf =
  dl_leafIndex :: int
  dl_commitmentDecimal :: string
  dl_commitmentHex :: string

datatype audit_status = Audit_OK | ROOT_MISMATCH_CRITICAL

datatype audit_source = From_Events | From_Db

record AuditResult =
  ar_poolContract :: string
  ar_leafCount :: nat
  ar_source :: audit_source
  ar_recomputedRootHex :: string
  ar_onchainRootHex :: string
  ar_status :: audit_status
  ar_detail :: string

section \<open>Recomputing the root\<close>

definition recomputeRoot :: "(string list \<Rightarrow> ('w, string) io) \<Rightarrow> string list \<Rightarrow> ('w, string) io" where
  "recomputeRoot tool commitments =
    (if commitments = [] then returnIO (''0x'' @ replicate 64 CHR ''0'')
     else bindIO (tool commitments) (\<lambda>out. bindIO (liftIO (BigInt (js_trim out))) (\<lambda>n. returnIO (hex32_of n))))"

definition norm :: "string \<Rightarrow> string" where
  "norm h = lower (if starts_with h ''0x'' then h else ''0x'' @ h)"

definition by_leaf_index :: "DepositLeaf \<Rightarrow> DepositLeaf \<Rightarrow> int" where
  "by_leaf_index a b = dl_leafIndex a - dl_leafIndex b"

definition audit_detail :: "string \<Rightarrow> string \<Rightarrow> string \<Rightarrow> nat \<Rightarrow> string" where
  "audit_detail cumulative latestOnly onchain n =
    (if onchain = cumulative \<or> onchain = latestOnly
     then ''on-chain root matches recomputed root ('' @ (if onchain = cumulative then ''cumulative'' else ''per-deposit (latest leaf)'')
       @ '') over '' @ bigint_to_string (int n) @ '' leaf/leaves''
     else ''on-chain root '' @ onchain @ '' matches neither cumulative ('' @ cumulative @ '') nor latest-leaf ('' @ latestOnly
       @ '') recomputation over '' @ bigint_to_string (int n) @ '' leaves'')"

definition compareRoots ::
  "(string list \<Rightarrow> ('w, string) io) \<Rightarrow> string \<Rightarrow> DepositLeaf list \<Rightarrow> string \<Rightarrow> audit_source \<Rightarrow> ('w, AuditResult) io" where
  "compareRoots tool poolContract leaves onchainRootHex source =
    (let ordered = js_sort by_leaf_index leaves in
    bindIO (recomputeRoot tool (map dl_commitmentDecimal ordered)) (\<lambda>all.
    bindIO (if ordered \<noteq> [] then recomputeRoot tool [dl_commitmentDecimal (last ordered)] else returnIO all) (\<lambda>one.
    let cumulative = norm all; latestOnly = norm one; onchain = norm onchainRootHex;
        matched = (onchain = cumulative \<or> onchain = latestOnly) in
    returnIO \<lparr>ar_poolContract = poolContract, ar_leafCount = length ordered, ar_source = source, ar_recomputedRootHex = cumulative,
      ar_onchainRootHex = onchain, ar_status = (if matched then Audit_OK else ROOT_MISMATCH_CRITICAL),
      ar_detail = audit_detail cumulative latestOnly onchain (length ordered)\<rparr>)))"

section \<open>Reading the leaves\<close>

text \<open>An event: its first topic, and its data when it is an array, of which the code reads the commitment
  (place 3) and the leaf index (place 6).\<close>

record PoolEvent =
  ev_topic0 :: "string option"
  ev_data :: "(nat \<times> bytes \<times> int) option"

record EventPage =
  pg_events :: "PoolEvent list"
  pg_cursor :: "string option"

text \<open>A request starts at a ledger or goes on from a cursor.\<close>

datatype EventRequest = Start_Ledger int | Cursor string

definition leaf_of_event :: "PoolEvent \<Rightarrow> DepositLeaf option result" where
  "leaf_of_event ev =
    (case (ev_topic0 ev, ev_data ev) of
       (Some t, Some (n, commitment, leafIndex)) \<Rightarrow>
         if t = ''deposit'' \<and> 7 \<le> n
         then bindR (BigInt (''0x'' @ hex_encode commitment)) (\<lambda>d.
           Inr (Some \<lparr>dl_leafIndex = leafIndex, dl_commitmentDecimal = bigint_to_string d, dl_commitmentHex = ''0x'' @ hex_encode commitment\<rparr>))
         else Inr None
     | _ \<Rightarrow> Inr None)"

definition put_leaf :: "DepositLeaf \<Rightarrow> DepositLeaf list \<Rightarrow> DepositLeaf list" where
  "put_leaf l ls = (if dl_leafIndex l \<in> dl_leafIndex ` set ls
    then map (\<lambda>m. if dl_leafIndex m = dl_leafIndex l then l else m) ls else ls @ [l])"

text \<open>The loop over the events of a page, which stops at the first that throws.\<close>

fun read_events :: "PoolEvent list \<Rightarrow> DepositLeaf list \<Rightarrow> nat \<Rightarrow> (DepositLeaf list \<times> nat) \<times> bool" where
  "read_events [] ls got = ((ls, got), True)"
| "read_events (ev # evs) ls got =
    (case leaf_of_event ev of
       Inl _ \<Rightarrow> ((ls, got), False)
     | Inr None \<Rightarrow> read_events evs ls got
     | Inr (Some l) \<Rightarrow> read_events evs (put_leaf l ls) (Suc got))"

text \<open>At most 50 pages of one window; \<open>None\<close> instead of a count when it throws, which the caller answers with
  the next window.  The leaves read so far are kept either way.\<close>

fun read_pages ::
  "(EventRequest \<Rightarrow> ('w, EventPage) io) \<Rightarrow> nat \<Rightarrow> EventRequest \<Rightarrow> DepositLeaf list \<Rightarrow> nat \<Rightarrow> 'w \<Rightarrow> (DepositLeaf list \<times> nat option) \<times> 'w" where
  "read_pages getEvents 0 req ls got w = ((ls, Some got), w)"
| "read_pages getEvents (Suc n) req ls got w =
    (case getEvents req w of
       (Inl _, w') \<Rightarrow> ((ls, None), w')
     | (Inr page, w') \<Rightarrow>
         (case read_events (pg_events page) ls got of
            ((ls', got'), False) \<Rightarrow> ((ls', None), w')
          | ((ls', got'), True) \<Rightarrow>
              (case pg_cursor page of
                 Some c \<Rightarrow> if c = [] \<or> pg_events page = [] then ((ls', Some got'), w') else read_pages getEvents n (Cursor c) ls' got' w'
               | None \<Rightarrow> ((ls', Some got'), w'))))"

fun try_windows ::
  "(EventRequest \<Rightarrow> ('w, EventPage) io) \<Rightarrow> int \<Rightarrow> int list \<Rightarrow> DepositLeaf list \<Rightarrow> 'w \<Rightarrow> DepositLeaf list \<times> 'w" where
  "try_windows getEvents latest [] ls w = (ls, w)"
| "try_windows getEvents latest (window # windows) ls w =
    (case read_pages getEvents 50 (Start_Ledger (max 1 (latest - window))) ls 0 w of
       ((ls', Some (Suc _)), w') \<Rightarrow> (ls', w')
     | ((ls', _), w') \<Rightarrow> try_windows getEvents latest windows ls' w')"

text \<open>\<open>parseInt(n, 10)\<close> of the windows; those that are not positive numbers are dropped.\<close>

definition parse_lookbacks :: "string \<Rightarrow> int list" where
  "parse_lookbacks spec =
    filter (\<lambda>n. n > 0) (map (\<lambda>t. case parse_radix 10 (takeWhile ascii_digit (dropWhile js_space t)) of Some n \<Rightarrow> int n | None \<Rightarrow> 0) (js_split CHR '','' spec))"

definition readDepositLeavesFromEvents ::
  "env \<Rightarrow> ('w, int) io \<Rightarrow> (EventRequest \<Rightarrow> ('w, EventPage) io) \<Rightarrow> ('w, DepositLeaf list) io" where
  "readDepositLeavesFromEvents e latestLedger getEvents =
    bindIO latestLedger (\<lambda>latest w.
      case try_windows getEvents latest (parse_lookbacks (env_or e ''ROOT_AUDIT_LOOKBACKS'' ''9000,4000,2000'')) [] w of
        (ls, w') \<Rightarrow> (Inr (js_sort by_leaf_index ls), w'))"

definition leaf_of_row :: "string \<times> int \<Rightarrow> DepositLeaf result" where
  "leaf_of_row row = (case row of (commitment, i) \<Rightarrow>
    let hex = (if starts_with commitment ''0x'' then commitment else ''0x'' @ commitment)
    in bindR (BigInt hex) (\<lambda>d. Inr \<lparr>dl_leafIndex = i, dl_commitmentDecimal = bigint_to_string d, dl_commitmentHex = hex\<rparr>))"

definition readLeavesFromDb :: "('w, (string \<times> int) list) io \<Rightarrow> ('w, DepositLeaf list) io" where
  "readLeavesFromDb rows = bindIO rows (\<lambda>rs. liftIO (mapR leaf_of_row rs))"

section \<open>An audit\<close>

record AuditRun =
  au_run_id :: nat
  au_result :: AuditResult
  au_git_commit :: string

record AuditFinding =
  af_run_id :: nat
  af_detail :: string
  af_recomputed_root :: string
  af_onchain_root :: string

record AuditDb =
  ad_runs :: "AuditRun list"
  ad_findings :: "AuditFinding list"

definition persist :: "env \<Rightarrow> string \<Rightarrow> AuditResult \<Rightarrow> AuditDb \<Rightarrow> AuditDb" where
  "persist e gitCommit r db =
    (if e ''DATABASE_URL'' = None \<or> e ''DATABASE_URL'' = Some [] then db
     else let i = length (ad_runs db); db' = db\<lparr>ad_runs := ad_runs db @ [\<lparr>au_run_id = i, au_result = r, au_git_commit = gitCommit\<rparr>]\<rparr>
          in if ar_status r \<noteq> Audit_OK
             then db'\<lparr>ad_findings := ad_findings db' @ [\<lparr>af_run_id = i, af_detail = ar_detail r, af_recomputed_root = ar_recomputedRootHex r,
               af_onchain_root = ar_onchainRootHex r\<rparr>]\<rparr>
             else db')"

record ('w) AuditWorld =
  aw_process_env :: env
  aw_latestLedger :: "('w, int) io"
  aw_getEvents :: "EventRequest \<Rightarrow> ('w, EventPage) io"
  aw_rows :: "('w, (string \<times> int) list) io"
  aw_cli :: "'w cli"
  aw_tool :: "string list \<Rightarrow> ('w, string) io"
  aw_gitCommit :: string

definition readOnchainRoot :: "'w cli \<Rightarrow> env \<Rightarrow> ('w, string) io" where
  "readOnchainRoot cli e =
    bindIO (sorobanInvoke cli (default_opts\<lparr>io_contractId := env_or e ''SHIELDED_POOL_CONTRACT'' [], io_secret := env_or e ''STELLAR_RELAYER_SECRET'' [],
      io_method := ''get_root'', io_rpcUrl := env_or e ''STELLAR_RPC_URL'' ''https://soroban-testnet.stellar.org'',
      io_passphrase := env_or e ''STELLAR_NETWORK_PASSPHRASE'' ''Test SDF Network ; September 2015'', io_readOnly := True\<rparr>)) (\<lambda>res.
    let raw = unquote (sr_returnValue res) in returnIO (if starts_with raw ''0x'' then raw else ''0x'' @ raw))"

definition requireKeys :: "env \<Rightarrow> string list \<Rightarrow> string list" where
  "requireKeys e keys = filter (\<lambda>k. e k = None \<or> e k = Some []) keys"

definition runAudit :: "'w AuditWorld \<Rightarrow> env \<Rightarrow> AuditDb \<Rightarrow> ('w, AuditResult \<times> AuditDb) io" where
  "runAudit A e db =
    (let missing = requireKeys e [''SHIELDED_POOL_CONTRACT'', ''STELLAR_RELAYER_SECRET'']; pool = env_or e ''SHIELDED_POOL_CONTRACT'' [] in
    if missing \<noteq> [] then throwIO (Js_Error (''root-auditor missing env: '' @ js_join '', '' missing))
    else bindIO (readDepositLeavesFromEvents (aw_process_env A) (aw_latestLedger A) (aw_getEvents A)) (\<lambda>fromEvents.
    bindIO (if fromEvents = [] \<and> e ''DATABASE_URL'' \<noteq> None \<and> e ''DATABASE_URL'' \<noteq> Some []
            then bindIO (readLeavesFromDb (aw_rows A)) (\<lambda>ls. returnIO (From_Db, ls)) else returnIO (From_Events, fromEvents)) (\<lambda>(source, leaves).
    bindIO (readOnchainRoot (aw_cli A) e) (\<lambda>onchainRoot.
    bindIO (compareRoots (aw_tool A) pool leaves onchainRoot source) (\<lambda>result.
    returnIO (result, persist e (aw_gitCommit A) result db))))))"

section \<open>Texts of roots\<close>

lemma lower_digit_char: "d < 16 \<Longrightarrow> lower_char (digit_char d) = digit_char d"
  by (auto simp: lower_char_def digit_char_def Let_def)

lemma lower_radix: "lower (nat_to_radix 16 n) = nat_to_radix 16 n"
  using radix_digits_bound [of 16 _ n] by (auto simp: lower_def nat_to_radix_def lower_digit_char)

lemma norm_hex32: "norm (hex32_of (int n)) = hex32_of (int n)"
proof -
  have "lower_char CHR ''0'' = CHR ''0''" "lower_char CHR ''x'' = CHR ''x''" by code_simp+
  then show ?thesis
    using lower_radix [of n] by (simp add: norm_def hex32_of_def bigint_to_hex_def pad_start_def starts_with_def lower_def)
qed

lemma js_sort_leaves: "js_sort by_leaf_index ls = sort_key dl_leafIndex ls"
  by (rule js_sort_key) (auto simp: by_leaf_index_def)

section \<open>The leaves an audit reads\<close>

lemma put_leaf_indexes:
  "map dl_leafIndex (put_leaf l ls) = (if dl_leafIndex l \<in> dl_leafIndex ` set ls then map dl_leafIndex ls else map dl_leafIndex ls @ [dl_leafIndex l])"
  by (induction ls) (auto simp: put_leaf_def)

lemma put_leaf_distinct: "distinct (map dl_leafIndex ls) \<Longrightarrow> distinct (map dl_leafIndex (put_leaf l ls))"
  by (auto simp: put_leaf_indexes)

lemma read_events_distinct:
  "read_events evs ls got = ((ls', got'), b) \<Longrightarrow> distinct (map dl_leafIndex ls) \<Longrightarrow> distinct (map dl_leafIndex ls')"
  by (induction evs ls got rule: read_events.induct) (auto split: sum.splits option.splits intro: put_leaf_distinct)

lemma read_pages_distinct:
  "read_pages ge n req ls got w = ((ls', c), w') \<Longrightarrow> distinct (map dl_leafIndex ls) \<Longrightarrow> distinct (map dl_leafIndex ls')"
  by (induction ge n req ls got w rule: read_pages.induct)
    (fastforce split: prod.splits sum.splits bool.splits option.splits if_splits dest: read_events_distinct)+

lemma try_windows_distinct:
  "try_windows ge latest windows ls w = (ls', w') \<Longrightarrow> distinct (map dl_leafIndex ls) \<Longrightarrow> distinct (map dl_leafIndex ls')"
proof (induction ge latest windows ls w rule: try_windows.induct)
  case (2 ge latest window windows ls w)
  obtain ls1 c w1 where pages: "read_pages ge 50 (Start_Ledger (max 1 (latest - window))) ls 0 w = ((ls1, c), w1)"
    by (metis prod.exhaust)
  have "distinct (map dl_leafIndex ls1)" by (rule read_pages_distinct [OF pages 2(4)])
  then show ?case using 2 pages by (cases c) (auto split: nat.splits)
qed simp

lemma leaves_distinct_sorted:
  assumes "readDepositLeavesFromEvents e latestLedger getEvents w = (Inr ls, w')"
  shows "distinct (map dl_leafIndex ls) \<and> sorted (map dl_leafIndex ls)"
proof -
  obtain latest w1 where "latestLedger w = (Inr latest, w1)"
    using assms by (cases "latestLedger w") (auto simp: readDepositLeavesFromEvents_def bindIO_def split: sum.splits)
  then obtain ls0 where t: "try_windows getEvents latest (parse_lookbacks (env_or e ''ROOT_AUDIT_LOOKBACKS'' ''9000,4000,2000'')) [] w1 = (ls0, w')"
    and ls: "ls = sort_key dl_leafIndex ls0"
    using assms by (auto simp: readDepositLeavesFromEvents_def bindIO_def js_sort_leaves split: prod.splits)
  have "distinct (map dl_leafIndex ls0)" by (rule try_windows_distinct [OF t]) simp
  then show ?thesis by (simp add: ls distinct_map)
qed

section \<open>The verdict of an audit\<close>

lemma js_trim_bigint: "js_trim (bigint_to_string (int n)) = bigint_to_string (int n)"
  by (rule js_trim_id) (auto simp: bigint_to_string_def ascii_digit_def js_space_def dest!: nat_to_radix_10_digits)

definition root_tool :: "(string list \<Rightarrow> nat) \<Rightarrow> string list \<Rightarrow> ('w, string) io" where
  "root_tool g ls = returnIO (bigint_to_string (int (g ls)))"

lemma recomputeRoot_tool: "ls \<noteq> [] \<Longrightarrow> recomputeRoot (root_tool g) ls = returnIO (hex32_of (int (g ls)))"
  by (simp add: recomputeRoot_def root_tool_def js_trim_bigint)

lemma compareRoots_tool:
  assumes "ls \<noteq> []" "sorted (map dl_leafIndex ls)"
  shows "\<exists>res. (\<forall>w. compareRoots (root_tool g) pool ls (hex32_of (int r)) source w = (Inr res, w)) \<and>
    (ar_status res = Audit_OK \<longleftrightarrow> r = g (map dl_commitmentDecimal ls) \<or> r = g [dl_commitmentDecimal (last ls)]) \<and> ar_leafCount res = length ls \<and> ar_source res = source"
  using assms by (simp add: compareRoots_def js_sort_leaves sort_key_id_if_sorted recomputeRoot_tool norm_hex32 hex32_of_inject Let_def split: if_splits)


text \<open>Two deposits read from one page of events, with the root on the chain over both of them.\<close>

definition demo_page :: EventPage where
  "demo_page = \<lparr>pg_events = [\<lparr>ev_topic0 = Some ''deposit'', ev_data = Some (7, [2], 1)\<rparr>,
    \<lparr>ev_topic0 = Some ''withdraw'', ev_data = None\<rparr>, \<lparr>ev_topic0 = Some ''deposit'', ev_data = Some (7, [1], 0)\<rparr>], pg_cursor = None\<rparr>"

definition demo_audit :: "int AuditWorld" where
  "demo_audit = \<lparr>aw_process_env = (\<lambda>_. None), aw_latestLedger = returnIO 9500, aw_getEvents = (\<lambda>_. returnIO demo_page),
    aw_rows = returnIO [], aw_cli = (\<lambda>_ w. (\<lparr>cli_status = 0, cli_stdout = hex32_of 2, cli_stderr = []\<rparr>, w)),
    aw_tool = root_tool length, aw_gitCommit = ''demo''\<rparr>"

definition demo_audit_env :: env where
  "demo_audit_env = [''SHIELDED_POOL_CONTRACT'' \<mapsto> ''C1'', ''STELLAR_RELAYER_SECRET'' \<mapsto> ''S1'', ''DATABASE_URL'' \<mapsto> ''postgres'']"

lemma demo_leaves:
  "readDepositLeavesFromEvents (aw_process_env demo_audit) (aw_latestLedger demo_audit) (aw_getEvents demo_audit) (0 :: int) =
    (Inr [\<lparr>dl_leafIndex = 0, dl_commitmentDecimal = ''1'', dl_commitmentHex = ''0x01''\<rparr>,
          \<lparr>dl_leafIndex = 1, dl_commitmentDecimal = ''2'', dl_commitmentHex = ''0x02''\<rparr>], 0)"
  by code_simp

lemma demo_root: "readOnchainRoot (aw_cli demo_audit) demo_audit_env (0 :: int) = (Inr (hex32_of (int 2)), 0)"
  by code_simp


end
