(* ===== verification/Sdk.thy ===== *)
theory Sdk
  imports Note_Vault Proving
begin

text \<open>
  The client library \<open>packages/sdk/src\<close>: shares for the committee (\<open>mpc.ts\<close>), routes across chains (\<open>cctp.ts\<close>), the
  notes of a vault (\<open>notes.ts\<close>), wallet adapters (\<open>wallets.ts\<close>) and the client of the API (\<open>intents.ts\<close>).  The prime,
  \<open>modp\<close> and the evaluation of the polynomial are the same text as in \<open>packages/mpc-crypto\<close> and are taken from there.
  WebCrypto, tweetnacl, \<open>fetch\<close>, the clock and the wallets are parameters; random values are arguments.
\<close>

section \<open>Shares and commitments\<close>

text \<open>\<open>parseInt\<close> of two characters in base 16, as a byte: \<open>NaN\<close> becomes 0 and a sign is read.\<close>

definition parse_pair :: "char \<Rightarrow> char \<Rightarrow> byte" where
  "parse_pair a b =
    (case (char_digit 16 a, char_digit 16 b) of
       (Some x, Some y) \<Rightarrow> byte_of (16 * x + y)
     | (Some x, None) \<Rightarrow> byte_of x
     | (None, Some y) \<Rightarrow> if js_space a \<or> a = CHR ''+'' then byte_of y else if a = CHR ''-'' then - byte_of y else 0
     | _ \<Rightarrow> 0)"

text \<open>\<open>s.match(/.{2}/g)\<close>: the dot matches no line break.\<close>

definition line_break :: "char \<Rightarrow> bool" where
  "line_break c \<longleftrightarrow> (of_char c :: nat) \<in> {10, 13}"

fun hex_pairs :: "string \<Rightarrow> bytes" where
  "hex_pairs (a # b # r) =
    (if line_break a then hex_pairs (b # r) else if line_break b then hex_pairs r else parse_pair a b # hex_pairs r)"
| "hex_pairs _ = []"

definition fromHex :: "string \<Rightarrow> bytes" where
  "fromHex h = hex_pairs (strip0x h)"

definition sdk_randomFieldElement :: "bytes \<Rightarrow> int" where
  "sdk_randomFieldElement buf = modp (raw_draw buf)"

text \<open>Unlike the server's, this split checks neither the threshold nor the number of shares.\<close>

definition sdk_shamirSplit :: "bytes list \<Rightarrow> int \<Rightarrow> int \<Rightarrow> nat \<Rightarrow> Share list" where
  "sdk_shamirSplit draws secret threshold n_total = sharesOf (modp secret # map sdk_randomFieldElement (take (nat (threshold - 1)) draws)) n_total"

definition sdk_encryptShareForNode :: "Nacl \<Rightarrow> KeyPair \<Rightarrow> bytes \<Rightarrow> Share \<Rightarrow> string \<Rightarrow> string \<Rightarrow> EncryptedShare result" where
  "sdk_encryptShareForNode N ephemeralKp nonce share recipientPubkeyHex nodeId =
    (let plaintext = utf8_encode (stringify (JObj [(''x'', JStr (bigint_to_string (share_x share))), (''y'', JStr (bigint_to_string (share_y share)))]))
     in bindR (nacl_box N plaintext nonce (fromHex recipientPubkeyHex) (kp_secretKey ephemeralKp)) (\<lambda>ct.
        Inr \<lparr>es_nodeId = nodeId, es_ciphertext = hex_encode ct, es_nonce = hex_encode nonce, es_senderPubkey = hex_encode (kp_publicKey ephemeralKp)\<rparr>))"

definition splitAndEncryptAmount :: "Nacl \<Rightarrow> bytes list \<Rightarrow> (KeyPair \<times> bytes) list \<Rightarrow> int \<Rightarrow> CommitteeNodeInfo list \<Rightarrow> int \<Rightarrow> EncryptedShare list result" where
  "splitAndEncryptAmount N draws ephs amount7dp nodes threshold =
    mapR (\<lambda>(node, share, eph). sdk_encryptShareForNode N (fst eph) (snd eph) share (ni_encryptionPubkey node) (ni_nodeId node))
      (zip nodes (zip (sdk_shamirSplit draws amount7dp threshold (length nodes)) ephs))"

definition randomBlinding :: "bytes \<Rightarrow> string" where
  "randomBlinding draw = hex_encode draw"

definition buildValueCommitment :: "(bytes \<Rightarrow> bytes) \<Rightarrow> string \<Rightarrow> string \<Rightarrow> string" where
  "buildValueCommitment sha256 v blindingHex = ''0x'' @ hex_encode (sha256 (utf8_encode (v @ '':'' @ blindingHex)))"

definition buildAmountCommitment :: "(bytes \<Rightarrow> bytes) \<Rightarrow> int \<Rightarrow> string \<Rightarrow> string" where
  "buildAmountCommitment sha256 amount7dp blindingHex = ''0x'' @ hex_encode (sha256 (utf8_encode (bigint_to_string amount7dp @ '':'' @ blindingHex)))"

section \<open>Routes across chains\<close>

record DepositRoute =
  dr_tokenMessenger :: string
  dr_burnToken :: string
  dr_amount :: int
  dr_destinationDomain :: int
  dr_mintRecipient :: string
  dr_destinationCaller :: string
  dr_maxFee :: int
  dr_minFinalityThreshold :: int
  dr_hookData :: string
  dr_forwarder :: string
  dr_pool :: string
  dr_amount7dp :: int

record ExitRoute =
  er_pool :: string
  er_destinationDomain :: int
  er_destinationRecipient :: string
  er_maxFee :: int
  er_minFinalityThreshold :: int

record DepositRouteParams =
  dp_pool :: string
  dp_amount6 :: int
  dp_fast :: "bool option"
  dp_maxFee6 :: "int option"

record ExitRouteParams =
  ep_pool :: string
  ep_recipientEvm :: string
  ep_maxFee7 :: int
  ep_fast :: "bool option"

definition buildDepositRoute :: "StrKey \<Rightarrow> DepositRouteParams \<Rightarrow> DepositRoute result" where
  "buildDepositRoute K p =
    bindR (validateInboundRoute K \<lparr>cr_destinationDomain = stellarDomain, cr_mintRecipient = stellarCctpForwarder, cr_destinationCaller = stellarCctpForwarder,
      cr_forwardRecipient = dp_pool p\<rparr> stellarCctpForwarder) (\<lambda>_.
    bindR (stellarContractToBytes32 K stellarCctpForwarder) (\<lambda>mintRecipient.
    bindR (stellarContractToBytes32 K stellarCctpForwarder) (\<lambda>destinationCaller.
    bindR (encodeStellarForwardHook K (dp_pool p)) (\<lambda>hookData.
    let fast = opt_or (dp_fast p) True in
    Inr \<lparr>dr_tokenMessenger = arbitrumSepoliaTokenMessenger, dr_burnToken = arbitrumSepoliaUsdc, dr_amount = dp_amount6 p, dr_destinationDomain = stellarDomain,
      dr_mintRecipient = mintRecipient, dr_destinationCaller = destinationCaller, dr_maxFee = (if fast then opt_or (dp_maxFee6 p) (dp_amount6 p sdiv 1000) else 0),
      dr_minFinalityThreshold = (if fast then 1000 else 2000), dr_hookData = hookData, dr_forwarder = stellarCctpForwarder, dr_pool = dp_pool p,
      dr_amount7dp = usdc6ToStellar7 (dp_amount6 p)\<rparr>))))"

definition buildExitRoute :: "ExitRouteParams \<Rightarrow> ExitRoute" where
  "buildExitRoute p =
    \<lparr>er_pool = ep_pool p, er_destinationDomain = arbitrumSepoliaDomain,
     er_destinationRecipient = ''0x'' @ replicate 24 CHR ''0'' @ pad_start 40 CHR ''0'' (lower (drop 2 (ep_recipientEvm p))),
     er_maxFee = ep_maxFee7 p, er_minFinalityThreshold = (if opt_or (ep_fast p) True then 1000 else 2000)\<rparr>"

section \<open>The notes of a vault\<close>

record AddNoteParams =
  an_commitment :: string
  an_asset_id :: string
  an_amount_7dp :: string
  an_note_preimage :: "Note_Vault.NotePreimage"
  an_deposit_id :: "string option"

definition nm_createVault :: "bytes \<Rightarrow> string \<Rightarrow> NoteVault" where
  "nm_createVault draw now = createEmptyNoteVault (hex_encode draw) now"

definition nm_addNote :: "NoteVault \<Rightarrow> AddNoteParams \<Rightarrow> string \<Rightarrow> string \<Rightarrow> NoteVault" where
  "nm_addNote vault p created now = addNoteToVault vault \<lparr>vn_commitment = an_commitment p, vn_asset_id = an_asset_id p, vn_amount_7dp = an_amount_7dp p,
    vn_note_preimage = an_note_preimage p, vn_deposit_id = an_deposit_id p, vn_status = ''prepared'', vn_created_at = created\<rparr> now"

definition set_note_status :: "string \<Rightarrow> NoteVault \<Rightarrow> string \<Rightarrow> string \<Rightarrow> NoteVault" where
  "set_note_status st vault commitment now =
    vault\<lparr>nv_updated_at := now, nv_notes := map (\<lambda>n. if vn_commitment n = commitment then n\<lparr>vn_status := st\<rparr> else n) (nv_notes vault)\<rparr>"

definition nm_activate :: "NoteVault \<Rightarrow> string \<Rightarrow> string \<Rightarrow> NoteVault" where
  "nm_activate vault commitment now = set_note_status ''active'' vault commitment now"

definition nm_markSpent :: "NoteVault \<Rightarrow> string \<Rightarrow> string \<Rightarrow> NoteVault" where
  "nm_markSpent vault commitment now = set_note_status ''spent'' vault commitment now"

definition nm_list :: "NoteVault \<Rightarrow> string option \<Rightarrow> VaultNote list" where
  "nm_list vault st = (case st of Some s \<Rightarrow> if s = [] then nv_notes vault else filter (\<lambda>n. vn_status n = s) (nv_notes vault) | None \<Rightarrow> nv_notes vault)"

definition nm_find :: "NoteVault \<Rightarrow> string \<Rightarrow> VaultNote option" where
  "nm_find vault commitment = find (\<lambda>n. vn_commitment n = commitment) (nv_notes vault)"

definition totalActive7dp :: "NoteVault \<Rightarrow> int result" where
  "totalActive7dp vault = foldl (\<lambda>acc n. bindR acc (\<lambda>s. bindR (BigInt (vn_amount_7dp n)) (\<lambda>a. Inr (s + a)))) (Inr 0) (filter (\<lambda>n. vn_status n = ''active'') (nv_notes vault))"

section \<open>Wallets\<close>

text \<open>Freighter's answers come plain or wrapped in an object (\<open>Inr\<close>); older versions have no \<open>signMessage\<close>.\<close>

record ('w) FreighterApi =
  fr_getPublicKey :: "('w, string) io"
  fr_isConnected :: "('w, bool + bool) io"
  fr_signTransaction :: "string \<Rightarrow> string option \<Rightarrow> ('w, string + string) io"
  fr_signMessage :: "(string \<Rightarrow> ('w, string + bytes) io) option"

definition fr_connected :: "'w FreighterApi \<Rightarrow> ('w, bool) io" where
  "fr_connected F = bindIO (fr_isConnected F) (\<lambda>r. returnIO (case r of Inl b \<Rightarrow> b | Inr b \<Rightarrow> b))"

definition fr_signXdr :: "'w FreighterApi \<Rightarrow> string \<Rightarrow> string option \<Rightarrow> ('w, string) io" where
  "fr_signXdr F xdr networkPassphrase = bindIO (fr_signTransaction F xdr networkPassphrase) (\<lambda>r. returnIO (case r of Inl s \<Rightarrow> s | Inr s \<Rightarrow> s))"

definition fr_signMessageBytes :: "'w FreighterApi \<Rightarrow> string \<Rightarrow> ('w, bytes option) io" where
  "fr_signMessageBytes F message =
    (case fr_signMessage F of
       None \<Rightarrow> returnIO None
     | Some sign \<Rightarrow> bindIO (sign message) (\<lambda>r.
         case r of
           Inl s \<Rightarrow> if length s = 128 \<and> list_all (\<lambda>c. char_digit 16 c \<noteq> None) s then returnIO (Some (hex_decode s))
                    else bindIO (liftIO (fromB64 s)) (\<lambda>bs. returnIO (Some bs))
         | Inr bs \<Rightarrow> returnIO (Some bs)))"

record ('w) EvmSigner =
  ev_getAddress :: "('w, string) io"
  ev_signMessage :: "string \<Rightarrow> ('w, string) io"

definition verifyOwnership :: "'w EvmSigner \<Rightarrow> ('w, int) io \<Rightarrow> string \<Rightarrow> ('w, bool) io" where
  "verifyOwnership E now expectedAddress =
    bindIO now (\<lambda>t. let challenge = ''lumixprotocol:verify:'' @ bigint_to_string t in
    catchIO (bindIO (ev_signMessage E challenge) (\<lambda>sig. bindIO (ev_getAddress E) (\<lambda>addr.
      returnIO (lower addr = lower expectedAddress \<and> length sig > 0)))) (\<lambda>_. returnIO False))"

section \<open>The client of the API\<close>

record ('w) SdkWorld =
  sd_fetch :: "string \<Rightarrow> string \<Rightarrow> (string \<times> string) list \<Rightarrow> json option \<Rightarrow> ('w, HttpResponse) io"
  sd_now :: "('w, int) io"
  sd_delay :: "int \<Rightarrow> ('w, unit) io"
  sd_randomBytes :: "nat \<Rightarrow> ('w, bytes) io"
  sd_keyPair :: "('w, KeyPair) io"
  sd_sha256 :: "bytes \<Rightarrow> bytes"
  sd_nacl :: Nacl

record IntentClient =
  ic_apiBase :: string
  ic_authToken :: "string option"

definition sdk_headers :: "IntentClient \<Rightarrow> (string \<times> string) list" where
  "sdk_headers c = (''Content-Type'', ''application/json'') #
    (case ic_authToken c of Some t \<Rightarrow> if t = [] then [] else [(''Authorization'', ''Bearer '' @ t)] | None \<Rightarrow> [])"

definition http_ok :: "HttpResponse \<Rightarrow> bool" where
  "http_ok r \<longleftrightarrow> 200 \<le> hr_status r \<and> hr_status r < 300"

definition sdk_post :: "('w, 'z) SdkWorld_scheme \<Rightarrow> IntentClient \<Rightarrow> string \<Rightarrow> json \<Rightarrow> ('w, json) io" where
  "sdk_post S c path body =
    bindIO (sd_fetch S ''POST'' (ic_apiBase c @ path) (sdk_headers c) (Some body)) (\<lambda>res.
    if \<not> http_ok res then throwIO (Js_Error (''POST '' @ path @ '': '' @ bigint_to_string (hr_status res) @ '' '' @ hr_text res)) else liftIO (hr_json res))"

definition sdk_get :: "('w, 'z) SdkWorld_scheme \<Rightarrow> IntentClient \<Rightarrow> string \<Rightarrow> ('w, json) io" where
  "sdk_get S c path =
    bindIO (sd_fetch S ''GET'' (ic_apiBase c @ path) (sdk_headers c) None) (\<lambda>res.
    if \<not> http_ok res then throwIO (Js_Error (''GET '' @ path @ '': '' @ bigint_to_string (hr_status res) @ '' '' @ hr_text res)) else liftIO (hr_json res))"

text \<open>The committee's nodes as the API returned them; a key that is no text makes \<open>fromHex\<close> throw later on.\<close>

definition node_of_json :: "json \<Rightarrow> CommitteeNodeInfo result" where
  "node_of_json j =
    (case json_get ''encryptionPubkey'' j of
       Some (JStr k) \<Rightarrow> Inr \<lparr>ni_nodeId = js_string_opt (json_get ''nodeId'' j), ni_encryptionPubkey = k, ni_signingPubkey = js_string_opt (json_get ''signingPubkey'' j)\<rparr>
     | _ \<Rightarrow> Inl (Type_Error ''h.startsWith is not a function''))"

definition fetchCommittee :: "('w, 'z) SdkWorld_scheme \<Rightarrow> IntentClient \<Rightarrow> ('w, CommitteeNodeInfo list) io" where
  "fetchCommittee S c =
    bindIO (sdk_get S c ''/v1/mpc/committee'') (\<lambda>d.
    liftIO (case json_get ''nodes'' d of Some (JArr js) \<Rightarrow> mapR node_of_json js | _ \<Rightarrow> Inl (Type_Error ''nodes is not iterable'')))"

record IntentParams =
  ip_inputAsset :: string
  ip_outputAsset :: string
  ip_amountMode :: string
  ip_amount7dp :: string
  ip_minOutput7dp :: string
  ip_expiryLedger :: int
  ip_noteCommitment :: string
  ip_destination :: string
  ip_policyId :: "string option"
  ip_noteNullifier :: "string option"
  ip_recipientCommitment :: "string option"
  ip_encryptedShares :: "EncryptedShare list option"

record PrivateIntentBuildParams =
  pi_amount7dp :: int
  pi_minOutput7dp :: int
  pi_noteCommitment :: string
  pi_noteNullifier :: string
  pi_recipientCommitment :: string
  pi_destinationAddress :: string
  pi_inputAsset :: string
  pi_outputAsset :: string
  pi_expiryLedger :: int
  pi_policyId :: "string option"

record IntentBlindings =
  ib_amountBlinding :: string
  ib_minOutputBlinding :: string
  ib_destinationBlinding :: string

text \<open>The random values of the encryption: one coefficient, then a key pair and a nonce for every node.\<close>

fun draw_ephemerals :: "('w, 'z) SdkWorld_scheme \<Rightarrow> nat \<Rightarrow> ('w, (KeyPair \<times> bytes) list) io" where
  "draw_ephemerals S 0 = returnIO []"
| "draw_ephemerals S (Suc n) =
    bindIO (sd_keyPair S) (\<lambda>kp. bindIO (sd_randomBytes S 24) (\<lambda>nonce. bindIO (draw_ephemerals S n) (\<lambda>es. returnIO ((kp, nonce) # es))))"

definition buildPrivateIntent :: "('w, 'z) SdkWorld_scheme \<Rightarrow> IntentClient \<Rightarrow> PrivateIntentBuildParams \<Rightarrow> ('w, IntentParams \<times> IntentBlindings) io" where
  "buildPrivateIntent S c p =
    bindIO (fetchCommittee S c) (\<lambda>nodes.
    bindIO (sd_randomBytes S 32) (\<lambda>b1. bindIO (sd_randomBytes S 32) (\<lambda>b2. bindIO (sd_randomBytes S 32) (\<lambda>b3.
    bindIO (sd_randomBytes S 32) (\<lambda>coeff.
    bindIO (draw_ephemerals S (length nodes)) (\<lambda>ephs.
    bindIO (liftIO (splitAndEncryptAmount (sd_nacl S) [coeff] ephs (pi_amount7dp p) nodes 2)) (\<lambda>encryptedShares.
    let blindings = \<lparr>ib_amountBlinding = randomBlinding b1, ib_minOutputBlinding = randomBlinding b2, ib_destinationBlinding = randomBlinding b3\<rparr> in
    returnIO
     (\<lparr>ip_inputAsset = pi_inputAsset p, ip_outputAsset = pi_outputAsset p, ip_amountMode = ''exact_in'',
       ip_amount7dp = buildAmountCommitment (sd_sha256 S) (pi_amount7dp p) (ib_amountBlinding blindings),
       ip_minOutput7dp = buildAmountCommitment (sd_sha256 S) (pi_minOutput7dp p) (ib_minOutputBlinding blindings),
       ip_expiryLedger = pi_expiryLedger p, ip_noteCommitment = pi_noteCommitment p,
       ip_destination = buildValueCommitment (sd_sha256 S) (pi_destinationAddress p) (ib_destinationBlinding blindings),
       ip_policyId = pi_policyId p, ip_noteNullifier = Some (pi_noteNullifier p), ip_recipientCommitment = Some (pi_recipientCommitment p),
       ip_encryptedShares = Some encryptedShares\<rparr>, blindings))))))))"

definition share_json :: "EncryptedShare \<Rightarrow> json" where
  "share_json e = JObj [(''nodeId'', JStr (es_nodeId e)), (''ciphertext'', JStr (es_ciphertext e)), (''nonce'', JStr (es_nonce e)), (''senderPubkey'', JStr (es_senderPubkey e))]"

definition mpc_fields :: "IntentParams \<Rightarrow> (string \<times> json) list" where
  "mpc_fields p =
    (case (ip_encryptedShares p, ip_noteNullifier p) of
       (Some shares, Some n) \<Rightarrow>
         if shares = [] \<or> n = [] then []
         else [(''note_nullifier'', JStr n), (''note_commitment'', JStr (ip_noteCommitment p))] @
           (case ip_recipientCommitment p of Some r \<Rightarrow> [(''recipient_commitment'', JStr r)] | None \<Rightarrow> []) @ [(''encrypted_shares'', JArr (map share_json shares))]
     | _ \<Rightarrow> [])"

definition intent_body :: "IntentParams \<Rightarrow> json" where
  "intent_body p = JObj ([(''intent_type'', JStr ''PRIVATE_RFQ''), (''version'', JStr ''1.0''), (''user_pubkey_commitment'', JStr (ip_noteCommitment p)),
    (''input_asset'', JStr (ip_inputAsset p)), (''output_asset'', JStr (ip_outputAsset p)), (''amount_mode'', JStr (ip_amountMode p)),
    (''amount_commitment'', JStr (ip_amount7dp p)), (''min_output_commitment'', JStr (ip_minOutput7dp p)), (''expiry_ledger'', JNum (ip_expiryLedger p)),
    (''allowed_solvers_root'', JStr (''0x'' @ replicate 64 CHR ''0'')), (''compliance_policy_id'', JStr (opt_or (ip_policyId p) ''lumixprotocol:default-testnet-policy:v1'')),
    (''destination_commitment'', JStr (ip_destination p)), (''replay_domain'', JStr ''lumixprotocol:stellar:testnet:rfq:v1''),
    (''signature'', JStr (''0x'' @ replicate 128 CHR ''0''))] @ mpc_fields p)"

definition submit_intent :: "('w, 'z) SdkWorld_scheme \<Rightarrow> IntentClient \<Rightarrow> IntentParams \<Rightarrow> ('w, json) io" where
  "submit_intent S c p = sdk_post S c ''/v1/intents'' (intent_body p)"

definition acceptQuote :: "('w, 'z) SdkWorld_scheme \<Rightarrow> IntentClient \<Rightarrow> string \<Rightarrow> ('w, json) io" where
  "acceptQuote S c quoteId = sdk_post S c (''/v1/quotes/'' @ quoteId @ ''/accept'') (JObj [])"

text \<open>The loop of the three trackers: an attempt that throws counts as one without an answer, \<open>None\<close> is the
  timeout.  The fuel bounds the number of rounds; running out of it is an error of its own.\<close>

fun sdk_poll :: "('w, 'z) SdkWorld_scheme \<Rightarrow> int \<Rightarrow> int \<Rightarrow> ('w, 'a option) io \<Rightarrow> nat \<Rightarrow> ('w, 'a option) io" where
  "sdk_poll S deadline intervalMs attempt 0 = throwIO out_of_fuel"
| "sdk_poll S deadline intervalMs attempt (Suc n) =
    bindIO (sd_now S) (\<lambda>t.
    if t < deadline
    then bindIO (catchIO attempt (\<lambda>_. returnIO None)) (\<lambda>r.
      case r of
        Some x \<Rightarrow> returnIO (Some x)
      | None \<Rightarrow> bindIO (sd_delay S intervalMs) (\<lambda>_. sdk_poll S deadline intervalMs attempt n))
    else returnIO None)"

definition poll_rounds :: "int \<Rightarrow> int \<Rightarrow> nat" where
  "poll_rounds timeoutMs intervalMs = nat (timeoutMs div intervalMs) + 2"

definition sdk_poll_for :: "('w, 'z) SdkWorld_scheme \<Rightarrow> int \<Rightarrow> int \<Rightarrow> ('w, 'a option) io \<Rightarrow> ('w, 'a option) io" where
  "sdk_poll_for S timeoutMs intervalMs attempt = bindIO (sd_now S) (\<lambda>t. sdk_poll S (t + timeoutMs) intervalMs attempt (poll_rounds timeoutMs intervalMs))"

definition first_quote :: "json \<Rightarrow> json option" where
  "first_quote d = (case json_get ''quotes'' d of Some (JArr (q # _)) \<Rightarrow> if json_falsy (Some q) then None else Some q | _ \<Rightarrow> None)"

definition pollQuote :: "('w, 'z) SdkWorld_scheme \<Rightarrow> IntentClient \<Rightarrow> string \<Rightarrow> int \<Rightarrow> int \<Rightarrow> ('w, json) io" where
  "pollQuote S c intentId timeoutMs intervalMs =
    bindIO (sdk_poll_for S timeoutMs intervalMs (bindIO (sdk_get S c (''/v1/intents/'' @ intentId @ ''/quotes'')) (\<lambda>d. returnIO (first_quote d)))) (\<lambda>r.
    case r of Some q \<Rightarrow> returnIO q
    | None \<Rightarrow> throwIO (Js_Error (''pollQuote: no quote after '' @ bigint_to_string timeoutMs @ ''ms for intent '' @ intentId)))"

definition terminal_state :: "string list \<Rightarrow> json \<Rightarrow> string option" where
  "terminal_state terminal d = (case json_get ''state'' d of Some (JStr s) \<Rightarrow> if s \<noteq> [] \<and> s \<in> set terminal then Some s else None | _ \<Rightarrow> None)"

record SettlementStatus =
  ss_state :: string
  ss_txHash :: "json option"
  ss_detail :: "string option"

definition trackSettlement :: "('w, 'z) SdkWorld_scheme \<Rightarrow> IntentClient \<Rightarrow> string \<Rightarrow> int \<Rightarrow> int \<Rightarrow> ('w, SettlementStatus) io" where
  "trackSettlement S c intentId timeoutMs intervalMs =
    bindIO (sdk_poll_for S timeoutMs intervalMs (bindIO (sdk_get S c (''/v1/intents/'' @ intentId)) (\<lambda>d. returnIO
      (map_option (\<lambda>s. \<lparr>ss_state = s, ss_txHash = json_get ''tx_hash'' d, ss_detail = None\<rparr>) (terminal_state [''settled'', ''failed'', ''expired''] d))))) (\<lambda>r.
    returnIO (case r of Some s \<Rightarrow> s | None \<Rightarrow> \<lparr>ss_state = ''pending'', ss_txHash = None, ss_detail = Some (''not settled after '' @ bigint_to_string timeoutMs @ ''ms'')\<rparr>))"

definition trackDeposit :: "('w, 'z) SdkWorld_scheme \<Rightarrow> IntentClient \<Rightarrow> string \<Rightarrow> int \<Rightarrow> int \<Rightarrow> ('w, json) io" where
  "trackDeposit S c depositId timeoutMs intervalMs =
    bindIO (sdk_poll_for S timeoutMs intervalMs (bindIO (sdk_get S c (''/v1/deposits/'' @ depositId)) (\<lambda>d. returnIO
      (if terminal_state [''registered'', ''failed''] d = None then None else Some d)))) (\<lambda>r.
    returnIO (case r of Some d \<Rightarrow> d | None \<Rightarrow> JObj [(''state'', JStr ''pending'')]))"

section \<open>The shares are the committee's shares\<close>

lemma parse_pair_byte: "char_digit 16 a = Some x \<Longrightarrow> char_digit 16 b = Some y \<Longrightarrow> parse_pair a b = byte_of (16 * x + y)"
  by (simp add: parse_pair_def)

lemma digit_char_printable: "d < 16 \<Longrightarrow> \<not> line_break (digit_char d)"
  by (auto simp: line_break_def digit_char_def)

lemma hex_pairs_encode: "hex_pairs (hex_encode bs) = bs"
proof (induction bs)
  case (Cons b bs)
  have n: "unat b div 16 < 16" "unat b mod 16 < 16" using unat_byte_lt [of b] by simp_all
  have "hex_encode (b # bs) = digit_char (unat b div 16) # digit_char (unat b mod 16) # hex_encode bs"
    by (simp add: hex_encode_def byte_hex_def)
  then show ?case using Cons n digit_char_printable [OF n(1)] digit_char_printable [OF n(2)]
    by (simp add: parse_pair_def byte_nibbles)
qed (simp add: hex_encode_def)

lemma hex_encode_no_prefix: "\<not> starts_with (hex_encode bs) ''0x''"
proof -
  have "digit_char d \<noteq> CHR ''x''" if "d < 16" for d
  proof
    assume "digit_char d = CHR ''x''"
    then have "char_digit 16 (CHR ''x'') = Some d" using char_digit_digit_char [of 16 d] that by simp
    then show False by (simp add: char_digit_def)
  qed
  then show ?thesis by (cases bs) (auto simp: starts_with_def hex_encode_def byte_hex_def)
qed

lemma fromHex_encode [simp]: "fromHex (hex_encode bs) = bs"
  by (simp add: fromHex_def strip0x_def hex_encode_no_prefix hex_pairs_encode)

lemma sdk_encrypt_same: "sdk_encryptShareForNode N kp nonce share (hex_encode pk) nodeId = encryptShareForNode N kp nonce (encodeShare share) (hex_encode pk) nodeId"
  by (simp add: sdk_encryptShareForNode_def encryptShareForNode_def encodeShare_def)

lemma mapR_cong: "(\<And>x. x \<in> set xs \<Longrightarrow> f x = g x) \<Longrightarrow> mapR f xs = mapR g xs"
  by (induction xs) auto

lemma sdk_split_same:
  "splitAndEncryptAmount N draws ephs amount (map nodePublicInfo kps) threshold =
    mapR (\<lambda>(node, share, eph). encryptShareForNode N (fst eph) (snd eph) (encodeShare share) (ni_encryptionPubkey node) (ni_nodeId node))
      (zip (map nodePublicInfo kps) (zip (sdk_shamirSplit draws amount threshold (length kps)) ephs))"
  unfolding splitAndEncryptAmount_def length_map
  by (rule mapR_cong) (auto simp: nodePublicInfo_def sdk_encrypt_same dest!: set_zip_leftD)

text \<open>C6. The client's shares are the committee's shares.  An amount split and encrypted by the client library for a
  committee of up to 255 nodes gives every node its share, and any \<open>threshold\<close> nodes that decrypt with the
  committee's code reconstruct exactly the amount (modulo the prime): the two implementations agree.\<close>
theorem client_shares_reconstruct:
  assumes "1 \<le> threshold" "length kps \<le> 255" "nat threshold - 1 \<le> length draws" "length ephs = length kps"
    and "\<And>i. i < length kps \<Longrightarrow> box_correct N (fst (ephs ! i)) (ck_encryptionKeyPair (kps ! i)) (snd (ephs ! i))"
  shows "\<exists>shares. splitAndEncryptAmount N draws ephs amount (map nodePublicInfo kps) threshold = Inr shares \<and> length shares = length kps \<and>
    (\<forall>idx. distinct idx \<and> set idx \<subseteq> {..<length kps} \<and> nat threshold \<le> length idx \<longrightarrow>
      bindR (mapR (\<lambda>i. decryptShare N (shares ! i) (kp_secretKey (ck_encryptionKeyPair (kps ! i)))) idx) reconstructAmount = Inr (amount mod P))"
proof -
  define cs where "cs = modp amount # map sdk_randomFieldElement (take (nat (threshold - 1)) draws)"
  have raw: "sdk_shamirSplit draws amount threshold (length kps) = sharesOf cs (length kps)" by (simp add: sdk_shamirSplit_def cs_def)
  have len: "length cs = nat threshold" using assms(1,3) by (simp add: cs_def min_def nat_diff_distrib)
  obtain shares where shares: "splitAndEncryptAmount N draws ephs amount (map nodePublicInfo kps) threshold = Inr shares" "length shares = length kps"
    and dec: "\<And>i. i < length kps \<Longrightarrow> decryptShare N (shares ! i) (kp_secretKey (ck_encryptionKeyPair (kps ! i))) = Inr (encodeShare (sharesOf cs (length kps) ! i))"
    using encrypt_all_shares [where raw = "sharesOf cs (length kps)", OF assms(4) length_sharesOf assms(5)] unfolding sdk_split_same raw length_sharesOf by blast
  have "evalShare cs 0 = amount mod P" by (simp add: evalShare_peval cs_def)
  then show ?thesis using shares decrypt_reconstruct [OF assms(2) refl, of _ cs, OF _ _ _ dec] len by auto
qed

theorem client_shares_reconstruct_witness:
  "\<exists>shares. splitAndEncryptAmount plain_nacl [replicate 32 7] (replicate 3 (\<lparr>kp_publicKey = [1], kp_secretKey = [1]\<rparr>, [])) 1000 (map nodePublicInfo (map plain_kp [0, 1, 2])) 2 = Inr shares \<and>
    bindR (mapR (\<lambda>i. decryptShare plain_nacl (shares ! i) (kp_secretKey (ck_encryptionKeyPair (map plain_kp [0, 1, 2] ! i)))) [2, 0]) reconstructAmount = Inr (1000 mod P)"
proof -
  let ?kps = "map plain_kp [0, 1, 2]"
  obtain shares where shares: "splitAndEncryptAmount plain_nacl [replicate 32 7] (replicate 3 (\<lparr>kp_publicKey = [1], kp_secretKey = [1]\<rparr>, [])) 1000 (map nodePublicInfo ?kps) 2 = Inr shares"
    and rec: "\<And>idx. distinct idx \<and> set idx \<subseteq> {..<length ?kps} \<and> nat 2 \<le> length idx \<Longrightarrow>
      bindR (mapR (\<lambda>i. decryptShare plain_nacl (shares ! i) (kp_secretKey (ck_encryptionKeyPair (?kps ! i)))) idx) reconstructAmount = Inr (1000 mod P)"
    using client_shares_reconstruct [of 2 ?kps "[replicate 32 7]" "replicate 3 (\<lparr>kp_publicKey = [1], kp_secretKey = [1]\<rparr>, [])" plain_nacl 1000] by (auto simp del: list.map)
  have "distinct [2, 0 :: nat] \<and> set [2, 0] \<subseteq> {..<length ?kps} \<and> nat 2 \<le> length [2, 0 :: nat]" by auto
  from rec [OF this] shares show ?thesis by blast
qed

section \<open>The coefficients are not uniform\<close>

text \<open>The client's random coefficients are biased.  Reducing 32 random bytes modulo the prime makes every field
  element below \<open>2^256 mod P\<close>, more than a quarter of the field, the result of six byte strings and every other
  one of five, where the committee's rejection sampling gives five for each.\<close>
theorem sdk_randomFieldElement_biased:
  assumes "0 \<le> r" "r < P"
  shows "card {buf. length buf = 32 \<and> sdk_randomFieldElement buf = r} = (if r < 2 ^ 256 mod P then 6 else 5)"
proof -
  define M :: int where "M = 2 ^ 256"
  let ?S = "{v \<in> {0..<M}. v mod P = r}"
  define m where "m = M mod P"
  have bound: "M = 5 * P + m" "m < P" "0 \<le> m" by (simp_all add: P_def M_def m_def)
  define n where "n = (if r < m then 6 else 5 :: int)"
  have "?S = (\<lambda>k. r + k * P) ` {0..<n}"
  proof
    show "?S \<subseteq> (\<lambda>k. r + k * P) ` {0..<n}"
    proof
      fix v assume v: "v \<in> ?S"
      have eq: "v = r + v div P * P" using v div_mult_mod_eq [of v P] by simp
      have "v div P < n"
      proof (rule ccontr)
        assume "\<not> v div P < n"
        then have "n * P \<le> v div P * P" by (intro mult_right_mono) auto
        then have "r + n * P \<le> v" using eq by linarith
        moreover have "v < M" using v by simp
        ultimately show False using bound assms by (cases "r < m") (simp_all add: n_def)
      qed
      then show "v \<in> (\<lambda>k. r + k * P) ` {0..<n}" using eq v by (intro image_eqI [of _ _ "v div P"]) (auto simp: pos_imp_zdiv_nonneg_iff)
    qed
    show "(\<lambda>k. r + k * P) ` {0..<n} \<subseteq> ?S"
    proof
      fix v assume "v \<in> (\<lambda>k. r + k * P) ` {0..<n}"
      then obtain k where k: "0 \<le> k" "k < n" "v = r + k * P" by auto
      have "k * P \<le> (n - 1) * P" using k by (intro mult_right_mono) auto
      then have "v \<le> r + (n - 1) * P" using k(3) by linarith
      moreover have "r + (n - 1) * P < M"
      proof (cases "r < m")
        case True
        then have n: "n = 6" by (simp add: n_def)
        show ?thesis unfolding n using True bound(1) by simp
      next
        case False
        then have n: "n = 5" by (simp add: n_def)
        show ?thesis unfolding n using assms(2) bound(1,3) by simp
      qed
      ultimately have "v < M" by linarith
      then show "v \<in> ?S" using k assms by simp
    qed
  qed
  then have "card ?S = nat n" by (simp add: card_image inj_on_def)
  moreover have "{buf. length buf = 32 \<and> sdk_randomFieldElement buf = r} = {buf. length buf = 32 \<and> raw_draw buf \<in> ?S}"
    using raw_draw_bij by (auto simp: sdk_randomFieldElement_def bij_betw_def M_def)
  moreover have "card {buf. length buf = 32 \<and> raw_draw buf \<in> ?S} = card ?S" by (rule card_raw_draw) (auto simp: M_def)
  ultimately have "card {buf. length buf = 32 \<and> sdk_randomFieldElement buf = r} = nat n" by simp
  then show ?thesis by (simp add: n_def m_def M_def)
qed

theorem sdk_randomFieldElement_biased_witness:
  "card {buf. length buf = 32 \<and> sdk_randomFieldElement buf = 42} = 6 \<and> card {buf. length buf = 32 \<and> sdk_randomFieldElement buf = P - 1} = 5"
  using sdk_randomFieldElement_biased [of 42] sdk_randomFieldElement_biased [of "P - 1"] by (simp add: P_def)

section \<open>Waiting ends\<close>

text \<open>A clock that never runs backwards, that the delay advances by at least its argument.\<close>

definition sdk_clocked :: "('w, 'z) SdkWorld_scheme \<Rightarrow> ('w \<Rightarrow> int) \<Rightarrow> bool" where
  "sdk_clocked S clk \<longleftrightarrow>
    (\<forall>w. fst (sd_now S w) = Inr (clk w) \<and> clk w \<le> clk (snd (sd_now S w))) \<and>
    (\<forall>ms w. fst (sd_delay S ms w) = Inr () \<and> clk w + ms \<le> clk (snd (sd_delay S ms w))) \<and>
    (\<forall>v u h b w. clk w \<le> clk (snd (sd_fetch S v u h b w)))"

lemma sdk_get_clocked: "sdk_clocked S clk \<Longrightarrow> clk w \<le> clk (snd (sdk_get S c path w))"
  unfolding sdk_get_def bindIO_def sdk_clocked_def by (auto simp: throwIO_def liftIO_def split: prod.splits sum.splits) (metis snd_conv)+

lemma sdk_poll_ends:
  assumes S: "sdk_clocked S clk" and attempt: "\<And>w. clk w \<le> clk (snd (attempt w))" and i: "0 < intervalMs"
  shows "deadline - clk w < int n * intervalMs \<Longrightarrow> \<exists>r. fst (sdk_poll S deadline intervalMs attempt (Suc n) w) = Inr r"
proof (induction n arbitrary: w)
  case 0
  obtain w1 where "sd_now S w = (Inr (clk w), w1)" using S unfolding sdk_clocked_def by (metis prod.collapse)
  then show ?case using 0 by (simp add: bindIO_def returnIO_def)
next
  case (Suc n)
  obtain w1 where now: "sd_now S w = (Inr (clk w), w1)" "clk w \<le> clk w1" using S unfolding sdk_clocked_def by (metis prod.collapse)
  obtain r w2 where run: "catchIO attempt (\<lambda>_. returnIO None) w1 = (Inr r, w2)" "clk w1 \<le> clk w2"
    using attempt [of w1] by (cases "attempt w1"; cases "fst (attempt w1)") (auto simp: catchIO_def returnIO_def)
  obtain w3 where delay: "sd_delay S intervalMs w2 = (Inr (), w3)" "clk w2 + intervalMs \<le> clk w3" using S unfolding sdk_clocked_def by (metis prod.collapse)
  have "deadline - clk w3 < int n * intervalMs" using Suc.prems now(2) run(2) delay(2) by (simp add: distrib_right)
  from Suc.IH [OF this] obtain r' where next_round: "fst (sdk_poll S deadline intervalMs attempt (Suc n) w3) = Inr r'" by blast
  show ?case
  proof (cases "clk w < deadline")
    case True
    then show ?thesis using now run delay next_round by (cases r) (auto simp: bindIO_def returnIO_def)
  qed (use now in \<open>simp add: bindIO_def returnIO_def\<close>)
qed

lemma sdk_poll_for_ends:
  assumes "sdk_clocked S clk" "\<And>w. clk w \<le> clk (snd (attempt w))" "0 < intervalMs"
  shows "\<exists>r. fst (sdk_poll_for S timeoutMs intervalMs attempt w) = Inr r"
proof -
  obtain w1 where now: "sd_now S w = (Inr (clk w), w1)" "clk w \<le> clk w1" using assms(1) unfolding sdk_clocked_def by (metis prod.collapse)
  have "timeoutMs < (timeoutMs div intervalMs + 1) * intervalMs" using assms(3) by (metis add.commute div_mult_mod_eq distrib_right mult_1 add_strict_left_mono pos_mod_bound)
  also have "\<dots> \<le> int (Suc (nat (timeoutMs div intervalMs))) * intervalMs" using assms(3) by (intro mult_right_mono) auto
  finally have "clk w + timeoutMs - clk w1 < int (Suc (nat (timeoutMs div intervalMs))) * intervalMs" using now(2) by linarith
  from sdk_poll_ends [OF assms this] now(1) show ?thesis by (simp add: sdk_poll_for_def bindIO_def poll_rounds_def del: sdk_poll.simps)
qed

lemma attempt_clocked: "sdk_clocked S clk \<Longrightarrow> clk w \<le> clk (snd (bindIO (sdk_get S c path) (\<lambda>d. returnIO (f d)) w))"
  using sdk_get_clocked [of S clk w c path] by (auto simp: bindIO_def returnIO_def split: prod.splits sum.splits)

lemma get_poll_ends:
  assumes "sdk_clocked S clk" "0 < intervalMs"
  obtains r w' where "sdk_poll_for S timeoutMs intervalMs (bindIO (sdk_get S c path) (\<lambda>d. returnIO (f d))) w = (Inr r, w')"
  using sdk_poll_for_ends [where attempt = "bindIO (sdk_get S c path) (\<lambda>d. returnIO (f d))", OF assms(1) attempt_clocked assms(2)] assms(1) by (metis prod.collapse)

text \<open>The client's trackers end.  With a clock that the delay advances and a positive interval, waiting for a quote
  ends with a quote or the timeout error, and waiting for a settlement or a deposit always returns a status.\<close>
theorem trackers_end:
  assumes "sdk_clocked S clk" "0 < intervalMs"
  shows "(case fst (pollQuote S c i timeoutMs intervalMs w) of
      Inr q \<Rightarrow> True | Inl e \<Rightarrow> e = Js_Error (''pollQuote: no quote after '' @ bigint_to_string timeoutMs @ ''ms for intent '' @ i)) \<and>
    (\<exists>st. fst (trackSettlement S c i timeoutMs intervalMs w) = Inr st) \<and> (\<exists>st. fst (trackDeposit S c i timeoutMs intervalMs w) = Inr st)"
proof (intro conjI)
  have run: "m w = (Inr x, w') \<Longrightarrow> bindIO m f w = f x w'" for m :: "('w, 'x) io" and f :: "'x \<Rightarrow> ('w, 'y) io" and w x w' by (simp add: bindIO_def)
  obtain r w' where "sdk_poll_for S timeoutMs intervalMs (bindIO (sdk_get S c (''/v1/intents/'' @ i @ ''/quotes'')) (\<lambda>d. returnIO (first_quote d))) w = (Inr r, w')"
    by (rule get_poll_ends [OF assms])
  then show "case fst (pollQuote S c i timeoutMs intervalMs w) of
      Inr q \<Rightarrow> True | Inl e \<Rightarrow> e = Js_Error (''pollQuote: no quote after '' @ bigint_to_string timeoutMs @ ''ms for intent '' @ i)"
    unfolding pollQuote_def by (cases r) (simp_all only: run option.case, simp_all add: returnIO_def throwIO_def)
  obtain r w' where "sdk_poll_for S timeoutMs intervalMs (bindIO (sdk_get S c (''/v1/intents/'' @ i)) (\<lambda>d. returnIO
      (map_option (\<lambda>s. \<lparr>ss_state = s, ss_txHash = json_get ''tx_hash'' d, ss_detail = None\<rparr>) (terminal_state [''settled'', ''failed'', ''expired''] d)))) w = (Inr r, w')"
    by (rule get_poll_ends [OF assms])
  then show "\<exists>st. fst (trackSettlement S c i timeoutMs intervalMs w) = Inr st" unfolding trackSettlement_def by (simp only: run) (simp add: returnIO_def)
  obtain r w' where "sdk_poll_for S timeoutMs intervalMs (bindIO (sdk_get S c (''/v1/deposits/'' @ i)) (\<lambda>d. returnIO
      (if terminal_state [''registered'', ''failed''] d = None then None else Some d))) w = (Inr r, w')"
    by (rule get_poll_ends [OF assms])
  then show "\<exists>st. fst (trackDeposit S c i timeoutMs intervalMs w) = Inr st" unfolding trackDeposit_def by (simp only: run) (simp add: returnIO_def)
qed

definition demo_sdk :: "int SdkWorld" where
  "demo_sdk = \<lparr>sd_fetch = (\<lambda>_ _ _ _. throwIO (Js_Error ''offline'')), sd_now = (\<lambda>t. (Inr t, t)), sd_delay = (\<lambda>ms t. (Inr (), t + ms)),
    sd_randomBytes = (\<lambda>n. returnIO (replicate n 7)), sd_keyPair = returnIO \<lparr>kp_publicKey = [1], kp_secretKey = [1]\<rparr>, sd_sha256 = (\<lambda>b. b), sd_nacl = plain_nacl\<rparr>"

theorem trackers_end_witness:
  "\<exists>st. fst (trackSettlement demo_sdk \<lparr>ic_apiBase = ''http://api'', ic_authToken = None\<rparr> ''i'' 300000 5000 0) = Inr st"
proof -
  have "sdk_clocked demo_sdk (\<lambda>t. t)" by (simp add: sdk_clocked_def demo_sdk_def throwIO_def)
  from trackers_end [OF this, of 5000] show ?thesis by simp
qed

section \<open>Balances\<close>

lemma totalActive_sum:
  "(\<forall>n \<in> set ns. \<exists>a. BigInt (vn_amount_7dp n) = Inr a) \<Longrightarrow>
    foldl (\<lambda>acc n. bindR acc (\<lambda>s. bindR (BigInt (vn_amount_7dp n)) (\<lambda>a. Inr (s + a)))) (Inr s0) ns = Inr (s0 + (\<Sum>n\<leftarrow>ns. projr (BigInt (vn_amount_7dp n))))"
  by (induction ns arbitrary: s0) (auto simp: add.assoc)

abbreviation amounts_ok :: "NoteVault \<Rightarrow> bool" where
  "amounts_ok v \<equiv> \<forall>n \<in> set (nv_notes v). \<exists>a. BigInt (vn_amount_7dp n) = Inr a"

abbreviation amount_of :: "VaultNote \<Rightarrow> int" where
  "amount_of n \<equiv> projr (BigInt (vn_amount_7dp n))"

lemma totalActive_value: "amounts_ok v \<Longrightarrow> totalActive7dp v = Inr (\<Sum>n\<leftarrow>filter (\<lambda>n. vn_status n = ''active'') (nv_notes v). amount_of n)"
  unfolding totalActive7dp_def by (subst totalActive_sum) auto

lemma status_sum:
  assumes "distinct (map vn_commitment ns)" "n \<in> set ns" "vn_commitment n = c"
  shows "(\<Sum>m\<leftarrow>filter (\<lambda>m. vn_status m = ''active'') (map (\<lambda>m. if vn_commitment m = c then m\<lparr>vn_status := st\<rparr> else m) ns). amount_of m) =
    (\<Sum>m\<leftarrow>filter (\<lambda>m. vn_status m = ''active'') ns. amount_of m) + (if st = ''active'' then amount_of n else 0) - (if vn_status n = ''active'' then amount_of n else 0)"
  using assms
proof (induction ns)
  case (Cons m ns)
  show ?case
  proof (cases "vn_commitment m = c")
    case True
    then have "m = n" using Cons.prems by (auto simp: image_iff)
    moreover have "map (\<lambda>m. if vn_commitment m = c then m\<lparr>vn_status := st\<rparr> else m) ns = ns" using Cons.prems True by (intro map_idI) (auto simp: image_iff)
    ultimately show ?thesis using True by simp
  next
    case False
    then show ?thesis using Cons by auto
  qed
qed simp

definition vault_ok :: "NoteVault \<Rightarrow> bool" where
  "vault_ok v \<longleftrightarrow> distinct (map vn_commitment (nv_notes v)) \<and> amounts_ok v"

lemma set_status_total:
  assumes "vault_ok v" "n \<in> set (nv_notes v)" "totalActive7dp v = Inr t"
  shows "totalActive7dp (set_note_status st v (vn_commitment n) now) =
      Inr (t + (if st = ''active'' then amount_of n else 0) - (if vn_status n = ''active'' then amount_of n else 0))"
    and "vault_ok (set_note_status st v c now)"
proof -
  have ok: "vault_ok (set_note_status st v c now)" for c
    using assms(1) by (auto simp: vault_ok_def set_note_status_def comp_def if_distrib cong: if_cong)
  then show "vault_ok (set_note_status st v c now)" .
  have "t = (\<Sum>n\<leftarrow>filter (\<lambda>n. vn_status n = ''active'') (nv_notes v). amount_of n)" using assms(1,3) totalActive_value [of v] by (simp add: vault_ok_def)
  then show "totalActive7dp (set_note_status st v (vn_commitment n) now) =
      Inr (t + (if st = ''active'' then amount_of n else 0) - (if vn_status n = ''active'' then amount_of n else 0))"
    using ok [of "vn_commitment n"] assms(1,2) status_sum [of "nv_notes v" n "vn_commitment n" st]
    by (subst totalActive_value) (simp_all add: vault_ok_def set_note_status_def)
qed

lemma addNote_total:
  assumes "vault_ok v" "an_commitment p \<notin> vn_commitment ` set (nv_notes v)" "BigInt (an_amount_7dp p) = Inr a" "totalActive7dp v = Inr t"
  shows "totalActive7dp (nm_addNote v p created now) = Inr t" "vault_ok (nm_addNote v p created now)"
proof -
  have keep: "filter (\<lambda>m. vn_commitment m \<noteq> an_commitment p) (nv_notes v) = nv_notes v" using assms(2) by (auto simp: filter_id_conv image_iff)
  then show ok: "vault_ok (nm_addNote v p created now)" using assms(1-3) by (auto simp: vault_ok_def nm_addNote_def addNoteToVault_def)
  show "totalActive7dp (nm_addNote v p created now) = Inr t"
    using assms(1,4) totalActive_value [of v] ok keep by (subst totalActive_value) (simp_all add: vault_ok_def nm_addNote_def addNoteToVault_def)
qed

text \<open>A vault's balance follows its notes.  In a vault whose commitments are distinct and whose amounts are numbers,
  activating a note adds its amount to the active total and spending it takes exactly that amount away, each
  only once; a fresh note counts from its activation to its spending, and every step keeps the vault so.\<close>
theorem vault_balance:
  assumes "vault_ok v" "totalActive7dp v = Inr t" "n \<in> set (nv_notes v)"
    and "an_commitment p \<notin> vn_commitment ` set (nv_notes v)" "BigInt (an_amount_7dp p) = Inr a"
  shows "totalActive7dp (nm_activate v (vn_commitment n) now) = Inr (if vn_status n = ''active'' then t else t + amount_of n) \<and>
    totalActive7dp (nm_markSpent v (vn_commitment n) now) = Inr (if vn_status n = ''active'' then t - amount_of n else t) \<and>
    vault_ok (nm_activate v c now) \<and> vault_ok (nm_markSpent v c now) \<and>
    (let v1 = nm_addNote v p created now; v2 = nm_activate v1 (an_commitment p) now; v3 = nm_markSpent v2 (an_commitment p) now
     in totalActive7dp v1 = Inr t \<and> totalActive7dp v2 = Inr (t + a) \<and> totalActive7dp v3 = Inr t \<and> vault_ok v3)"
proof -
  define v1 where "v1 = nm_addNote v p created now"
  define v2 where "v2 = nm_activate v1 (an_commitment p) now"
  note add = addNote_total [OF assms(1,4,5,2), of created now, folded v1_def]
  obtain n1 where n1: "n1 \<in> set (nv_notes v1)" "vn_commitment n1 = an_commitment p" "vn_status n1 = ''prepared''" "amount_of n1 = a"
    using assms(5) by (auto simp: v1_def nm_addNote_def addNoteToVault_def)
  have v2: "totalActive7dp v2 = Inr (t + a)" "vault_ok v2"
    using set_status_total [OF add(2) n1(1) add(1), of "''active''"] n1 by (simp_all add: v2_def nm_activate_def)
  have n2: "n1\<lparr>vn_status := ''active''\<rparr> \<in> set (nv_notes v2)"
    unfolding v2_def nm_activate_def set_note_status_def using imageI [OF n1(1), of "\<lambda>m. if vn_commitment m = an_commitment p then m\<lparr>vn_status := ''active''\<rparr> else m"] n1(2) by simp
  have v3: "totalActive7dp (nm_markSpent v2 (an_commitment p) now) = Inr t" "vault_ok (nm_markSpent v2 (an_commitment p) now)"
    using set_status_total [OF v2(2) n2 v2(1), of "''spent''"] n1 by (simp_all add: nm_markSpent_def)
  show ?thesis
    using set_status_total [OF assms(1,3,2)] add(1) v2(1) v3 by (simp add: nm_activate_def nm_markSpent_def Let_def v1_def v2_def)
qed

definition demo_note_of :: "string \<Rightarrow> string \<Rightarrow> string \<Rightarrow> VaultNote" where
  "demo_note_of c amount st = \<lparr>vn_commitment = c, vn_asset_id = ''USDC'', vn_amount_7dp = amount, vn_note_preimage = Note_Vault.generateNotePreimage (replicate 7 [1]),
    vn_deposit_id = None, vn_status = st, vn_created_at = ''t''\<rparr>"

definition demo_vault :: NoteVault where
  "demo_vault = \<lparr>nv_vault_id = ''v'', nv_created_at = ''t'', nv_updated_at = ''t'', nv_notes = [demo_note_of ''a'' ''5'' ''active'', demo_note_of ''b'' ''7'' ''prepared'']\<rparr>"

theorem vault_balance_witness: "totalActive7dp (nm_activate demo_vault ''b'' ''t'') = Inr 12 \<and> totalActive7dp (nm_markSpent demo_vault ''b'' ''t'') = Inr 5"
proof -
  have n: "BigInt ''5'' = Inr 5" "BigInt ''7'' = Inr 7" "BigInt ''9'' = Inr 9" by code_simp+
  have ok: "vault_ok demo_vault" by (simp add: vault_ok_def demo_vault_def demo_note_of_def n)
  have t: "totalActive7dp demo_vault = Inr 5" by (simp add: totalActive7dp_def demo_vault_def demo_note_of_def n)
  let ?p = "\<lparr>an_commitment = ''c'', an_asset_id = ''USDC'', an_amount_7dp = ''9'', an_note_preimage = Note_Vault.generateNotePreimage (replicate 7 [1]), an_deposit_id = None\<rparr>"
  have "demo_note_of ''b'' ''7'' ''prepared'' \<in> set (nv_notes demo_vault)" "an_commitment ?p \<notin> vn_commitment ` set (nv_notes demo_vault)" "BigInt (an_amount_7dp ?p) = Inr 9"
    by (simp_all add: demo_vault_def demo_note_of_def n)
  from vault_balance [OF ok t this] show ?thesis by (simp add: demo_note_of_def n)
qed

end
