(* ===== verification/Api_Store.thy ===== *)
theory Api_Store
  imports Job_Queue Cctp "HOL-Library.AList"
begin

text \<open>
  \<open>apps/api/src/db.ts\<close>: the class \<open>Store\<close> over the tables of \<open>db/migrations\<close>.  A table is the list of its
  rows in the order of insertion, a row maps column names to values, and a column without an entry is null.
  The SQL statements of the class are \<open>sql_insert\<close>, \<open>sql_update\<close>, \<open>sql_delete\<close> and filters; an insert fails as the
  database does, on an unknown column, a null in a required column, a key that is taken or a reference to no
  row.  Numbers keep the form in which they were written.  The clock and the ids that the database draws are
  part of the state; the queue's tables lie in the same database.
\<close>

section \<open>Tables\<close>

type_synonym Row = "(string \<times> json) list"

datatype sql_default = D_uuid | D_now | D_value json

record Table =
  tb_columns :: "string list"
  tb_required :: "string list"
  tb_unique :: "string list list"
  tb_refs :: "(string \<times> string \<times> string) list"
  tb_defaults :: "(string \<times> sql_default) list"

record Store =
  st_tables :: "string \<Rightarrow> Row list"
  st_now :: int
  st_uuid :: "nat \<Rightarrow> string"
  st_drawn :: nat
  st_jobs :: JobDb

definition row_get :: "string \<Rightarrow> Row \<Rightarrow> json" where
  "row_get c r = (case map_of r c of None \<Rightarrow> JNull | Some v \<Rightarrow> v)"

definition table_sql :: "string list \<Rightarrow> string list \<Rightarrow> string list list \<Rightarrow> (string \<times> string \<times> string) list \<Rightarrow> (string \<times> sql_default) list \<Rightarrow> Table" where
  "table_sql required optional uniques refs defaults =
    \<lparr>tb_columns = required @ optional @ map fst defaults, tb_required = required @ map fst defaults, tb_unique = uniques, tb_refs = refs, tb_defaults = defaults\<rparr>"

definition id_now :: "(string \<times> sql_default) list" where
  "id_now = [(''id'', D_uuid), (''created_at'', D_now)]"

abbreviation owner_ref :: "string \<times> string \<times> string" where
  "owner_ref \<equiv> (''user_id'', ''users'', ''id'')"

text \<open>The tables the class touches, from \<open>001_initial.sql\<close> to \<open>012_view_key_reports.sql\<close>.\<close>

definition cctp_deposits_table :: Table where
  "cctp_deposits_table = table_sql
      [''deposit_id'', ''idempotency_key'', ''source_domain'', ''destination_domain'', ''asset_id'', ''amount_usdc_6dp'', ''amount_usdc_7dp'',
      ''commitment'', ''encrypted_note_payload_hash'', ''policy_id'', ''state'']
      [''source_tx_hash'', ''cctp_nonce'', ''message_hash'', ''attestation_status'', ''stellar_mint_tx_hash'', ''vault_deposit_tx_hash'', ''user_id'',
      ''source_wallet_address'', ''vault_id'', ''source_chain'', ''coin_path'']
      [[''deposit_id''], [''idempotency_key'']] [owner_ref] [(''created_at'', D_now), (''updated_at'', D_now)]"

definition note_commitments_table :: Table where
  "note_commitments_table = table_sql [''commitment'', ''asset_id'', ''amount_usdc_7dp'', ''policy_id'', ''status'']
      [''deposit_id'', ''leaf_index'', ''root'', ''user_id''] [[''commitment'']] [(''deposit_id'', ''cctp_deposits'', ''deposit_id''), owner_ref]
      [(''created_at'', D_now)]"

definition nullifier_spends_table :: Table where
  "nullifier_spends_table = table_sql [''nullifier''] [''settlement_id'', ''spent_tx_hash''] [[''nullifier'']] [] [(''created_at'', D_now)]"

definition proof_jobs_table :: Table where
  "proof_jobs_table = table_sql [''proof_job_id'', ''idempotency_key'', ''proof_type'', ''public_inputs_hash'', ''status'']
      [''artifact_path'', ''error'', ''user_id''] [[''proof_job_id''], [''idempotency_key'']] [owner_ref] [(''created_at'', D_now), (''updated_at'', D_now)]"

definition withdrawals_table :: Table where
  "withdrawals_table = table_sql [''withdrawal_id'', ''idempotency_key'', ''nullifier'', ''amount_usdc_7dp'', ''recipient'', ''relayer_fee'', ''deadline_ledger'', ''state'']
      [''proof_job_id'', ''tx_hash'', ''user_id''] [[''withdrawal_id''], [''idempotency_key'']]
      [(''proof_job_id'', ''proof_jobs'', ''proof_job_id''), owner_ref] [(''created_at'', D_now)]"

definition cctp_exits_table :: Table where
  "cctp_exits_table = table_sql [''exit_id'', ''idempotency_key'', ''nullifier'', ''destination_domain'', ''destination_recipient'', ''amount_usdc_7dp'', ''relayer_fee'', ''state'']
      [''proof_job_id'', ''burn_tx_hash'', ''mint_tx_hash'', ''user_id''] [[''exit_id''], [''idempotency_key'']]
      [(''proof_job_id'', ''proof_jobs'', ''proof_job_id''), owner_ref] [(''created_at'', D_now)]"

definition state_transitions_table :: Table where
  "state_transitions_table = table_sql [''entity_type'', ''entity_id'', ''to_state''] [''from_state'', ''reason'', ''tx_hash''] [[''transition_id'']] []
      [(''transition_id'', D_uuid), (''metadata'', D_value (JObj [])), (''created_at'', D_now)]"

definition root_audit_findings_table :: Table where
  "root_audit_findings_table = table_sql [''run_id'', ''severity'', ''code'', ''detail''] [''recomputed_root'', ''onchain_root''] [[''id'']] [] id_now"

definition protocol_tables :: "(string \<times> Table) list" where
  "protocol_tables =
   [(''cctp_deposits'', cctp_deposits_table), (''note_commitments'', note_commitments_table), (''nullifier_spends'', nullifier_spends_table),
    (''proof_jobs'', proof_jobs_table), (''withdrawals'', withdrawals_table), (''cctp_exits'', cctp_exits_table),
    (''state_transitions'', state_transitions_table), (''root_audit_findings'', root_audit_findings_table)]"

definition intents_table :: Table where
  "intents_table = table_sql [''intent_hash'', ''idempotency_key'', ''encrypted_payload'', ''public_commitment'', ''expiry_ledger'', ''policy_id'', ''user_signature'', ''state'']
      [''user_id'', ''mpc_session_id''] [[''intent_hash''], [''idempotency_key'']] [owner_ref, (''mpc_session_id'', ''mpc_sessions'', ''session_id'')] [(''created_at'', D_now)]"

definition quotes_table :: Table where
  "quotes_table = table_sql [''quote_id'', ''intent_hash'', ''quote_hash'', ''solver_id'', ''payload'', ''quote_signature'', ''valid_until_ledger'', ''state''] []
      [[''quote_id''], [''quote_hash'']] [(''intent_hash'', ''intents'', ''intent_hash'')] [(''created_at'', D_now)]"

definition quote_acceptances_table :: Table where
  "quote_acceptances_table = table_sql [''acceptance_id'', ''quote_id'', ''intent_hash'', ''user_signature_hash''] [''user_id'']
      [[''acceptance_id''], [''quote_id'']] [(''quote_id'', ''quotes'', ''quote_id''), (''intent_hash'', ''intents'', ''intent_hash''), owner_ref] [(''accepted_at'', D_now)]"

definition solver_inventory_locks_table :: Table where
  "solver_inventory_locks_table = table_sql [''lock_id'', ''quote_id'', ''solver_id'', ''lock_hash'', ''amount'', ''asset'', ''expires_at_ledger'', ''state''] []
      [[''lock_id'']] [(''quote_id'', ''quotes'', ''quote_id'')] [(''created_at'', D_now)]"

definition fills_table :: Table where
  "fills_table = table_sql [''fill_id'', ''quote_id'', ''fill_receipt_hash'', ''amount'', ''recipient'', ''state''] [''destination_tx_hash'']
      [[''fill_id'']] [(''quote_id'', ''quotes'', ''quote_id'')] [(''created_at'', D_now)]"

definition settlements_table :: Table where
  "settlements_table = table_sql [''settlement_id'', ''intent_hash'', ''quote_id'', ''nullifier'', ''state''] [''fill_id'', ''proof_job_id'', ''stellar_tx_hash'', ''user_id'']
      [[''settlement_id'']] [(''intent_hash'', ''intents'', ''intent_hash''), (''quote_id'', ''quotes'', ''quote_id''), (''fill_id'', ''fills'', ''fill_id''),
      (''proof_job_id'', ''proof_jobs'', ''proof_job_id''), owner_ref] [(''created_at'', D_now)]"

definition mpc_sessions_table :: Table where
  "mpc_sessions_table = table_sql [''session_id''] [''closed_at''] [[''session_id'']] []
      [(''status'', D_value (JStr ''open'')), (''started_at'', D_now), (''intent_count'', D_value (JNum 0)), (''match_count'', D_value (JNum 0)), (''created_at'', D_now), (''updated_at'', D_now)]"

definition mpc_intents_table :: Table where
  "mpc_intents_table = table_sql [''intent_id'', ''session_id'', ''input_asset'', ''output_asset'', ''expiry_ledger'', ''policy_id'', ''note_nullifier'', ''note_commitment'', ''recipient_commitment'']
      [''user_id'', ''matched_with'', ''matched_amount_7dp''] [[''intent_id'']] [(''session_id'', ''mpc_sessions'', ''session_id''), (''matched_with'', ''mpc_intents'', ''intent_id'')]
      [(''status'', D_value (JStr ''pending'')), (''submitted_at'', D_now), (''updated_at'', D_now)]"

definition mpc_intent_shares_table :: Table where
  "mpc_intent_shares_table = table_sql [''intent_id'', ''node_id'', ''ciphertext'', ''nonce'', ''sender_pubkey''] [] [[''id''], [''intent_id'', ''node_id'']]
      [(''intent_id'', ''mpc_intents'', ''intent_id'')] [(''id'', D_uuid), (''delivered'', D_value (JBool False)), (''created_at'', D_now)]"

definition anchor_payouts_table :: Table where
  "anchor_payouts_table = table_sql [''user_id'', ''quote_id'', ''settlement_id''] [''anchor_transaction_id'', ''raw''] [[''payout_id'']] []
      [(''payout_id'', D_uuid), (''status'', D_value (JStr ''pending'')), (''created_at'', D_now), (''updated_at'', D_now)]"

definition rfq_tables :: "(string \<times> Table) list" where
  "rfq_tables =
   [(''intents'', intents_table), (''quotes'', quotes_table), (''quote_acceptances'', quote_acceptances_table),
    (''solver_inventory_locks'', solver_inventory_locks_table), (''fills'', fills_table), (''settlements'', settlements_table),
    (''mpc_sessions'', mpc_sessions_table), (''mpc_intents'', mpc_intents_table), (''mpc_intent_shares'', mpc_intent_shares_table),
    (''anchor_payouts'', anchor_payouts_table)]"

definition users_table :: Table where
  "users_table = table_sql [] [''display_name'', ''email'', ''avatar_url'', ''last_login_at'', ''privy_user_id'', ''primary_auth_method''] [[''id''], [''privy_user_id'']] []
      (id_now @ [(''testnet_only'', D_value (JBool True)), (''updated_at'', D_now)])"

definition user_profiles_table :: Table where
  "user_profiles_table = table_sql [''user_id''] [] [[''user_id'']] [owner_ref]
      [(''preferences'', D_value (JObj [])), (''risk_flags'', D_value (JObj [])), (''created_at'', D_now), (''updated_at'', D_now)]"

definition auth_nonces_table :: Table where
  "auth_nonces_table = table_sql [''wallet_type'', ''address'', ''nonce'', ''message'', ''expires_at''] [''consumed_at''] [[''id'']] [] id_now"

definition user_wallets_table :: Table where
  "user_wallets_table = table_sql [''user_id'', ''wallet_type'', ''chain'', ''address''] [''verified_at'', ''privy_user_id'', ''wallet_source'', ''privy_wallet_id'']
      [[''id''], [''wallet_type'', ''address'']] [owner_ref] (id_now @ [(''is_primary'', D_value (JBool False))])"

definition user_sessions_table :: Table where
  "user_sessions_table = table_sql [''user_id'', ''session_hash'', ''expires_at''] [''revoked_at''] [[''id''], [''session_hash'']] [owner_ref] id_now"

definition encrypted_note_backups_table :: Table where
  "encrypted_note_backups_table = table_sql [''user_id'', ''commitment'', ''encrypted_payload''] [] [[''id''], [''user_id'', ''commitment'']] [owner_ref]
      (id_now @ [(''encryption_version'', D_value (JStr ''v1''))])"

definition user_activity_table :: Table where
  "user_activity_table = table_sql [''event_type''] [''user_id'', ''entity_type'', ''entity_id'', ''tx_hash''] [[''id'']] [owner_ref] (id_now @ [(''metadata'', D_value (JObj []))])"

definition note_vaults_table :: Table where
  "note_vaults_table = table_sql [''user_id'', ''privy_user_id'', ''vault_id'', ''envelope'', ''ciphertext'', ''aad'']
      [''last_backup_verified_at'', ''last_restored_at'', ''last_backup_verification''] [[''id''], [''vault_id'']] [owner_ref]
      (id_now @ [(''backup_status'', D_value (JStr ''created'')), (''recovery_policy_status'', D_value (JStr ''insufficient'')), (''updated_at'', D_now)])"

definition note_vault_wrappers_table :: Table where
  "note_vault_wrappers_table = table_sql [''vault_id'', ''user_id'', ''wrapper_type''] [''last_used_at''] [[''id'']] [(''vault_id'', ''note_vaults'', ''vault_id''), owner_ref]
      (id_now @ [(''wrapper_status'', D_value (JStr ''active'')), (''metadata'', D_value (JObj []))])"

definition view_key_reports_table :: Table where
  "view_key_reports_table = table_sql [''user_id'', ''service_pubkey'', ''service_signature''] [''time_range_from'', ''time_range_to'', ''quote_id'', ''policy_id'', ''anchor_id'', ''encrypted_attachment'']
      [[''report_id'']] [owner_ref] [(''report_id'', D_uuid), (''note_commitments'', D_value (JArr [])), (''disclosed_nullifiers'', D_value (JArr [])),
      (''amount_disclosed'', D_value (JBool False)), (''proof_links'', D_value (JArr [])), (''created_at'', D_now)]"

definition user_tables :: "(string \<times> Table) list" where
  "user_tables =
   [(''users'', users_table), (''user_profiles'', user_profiles_table), (''auth_nonces'', auth_nonces_table),
    (''user_wallets'', user_wallets_table), (''user_sessions'', user_sessions_table), (''encrypted_note_backups'', encrypted_note_backups_table),
    (''user_activity'', user_activity_table), (''note_vaults'', note_vaults_table), (''note_vault_wrappers'', note_vault_wrappers_table),
    (''view_key_reports'', view_key_reports_table)]"

definition schema :: "string \<Rightarrow> Table option" where
  "schema t = map_of (protocol_tables @ rfq_tables @ user_tables) t"

lemmas table_defs = cctp_deposits_table_def note_commitments_table_def nullifier_spends_table_def proof_jobs_table_def withdrawals_table_def cctp_exits_table_def state_transitions_table_def root_audit_findings_table_def intents_table_def quotes_table_def quote_acceptances_table_def solver_inventory_locks_table_def fills_table_def settlements_table_def mpc_sessions_table_def mpc_intents_table_def mpc_intent_shares_table_def anchor_payouts_table_def users_table_def user_profiles_table_def auth_nonces_table_def user_wallets_table_def user_sessions_table_def encrypted_note_backups_table_def user_activity_table_def note_vaults_table_def note_vault_wrappers_table_def view_key_reports_table_def table_sql_def id_now_def

lemmas schema_defs = schema_def protocol_tables_def rfq_tables_def user_tables_def

lemma schema_simps:
  "schema ''cctp_deposits'' = Some cctp_deposits_table" "schema ''note_commitments'' = Some note_commitments_table" "schema ''nullifier_spends'' = Some nullifier_spends_table"
  "schema ''proof_jobs'' = Some proof_jobs_table" "schema ''withdrawals'' = Some withdrawals_table" "schema ''cctp_exits'' = Some cctp_exits_table"
  "schema ''state_transitions'' = Some state_transitions_table" "schema ''root_audit_findings'' = Some root_audit_findings_table" "schema ''intents'' = Some intents_table"
  "schema ''quotes'' = Some quotes_table" "schema ''quote_acceptances'' = Some quote_acceptances_table" "schema ''solver_inventory_locks'' = Some solver_inventory_locks_table"
  "schema ''fills'' = Some fills_table" "schema ''settlements'' = Some settlements_table" "schema ''mpc_sessions'' = Some mpc_sessions_table"
  "schema ''mpc_intents'' = Some mpc_intents_table" "schema ''mpc_intent_shares'' = Some mpc_intent_shares_table" "schema ''anchor_payouts'' = Some anchor_payouts_table"
  "schema ''users'' = Some users_table" "schema ''user_profiles'' = Some user_profiles_table" "schema ''auth_nonces'' = Some auth_nonces_table"
  "schema ''user_wallets'' = Some user_wallets_table" "schema ''user_sessions'' = Some user_sessions_table" "schema ''encrypted_note_backups'' = Some encrypted_note_backups_table"
  "schema ''user_activity'' = Some user_activity_table" "schema ''note_vaults'' = Some note_vaults_table" "schema ''note_vault_wrappers'' = Some note_vault_wrappers_table"
  "schema ''view_key_reports'' = Some view_key_reports_table"
  by (simp_all add: schema_defs)

section \<open>Statements\<close>

text \<open>What an insert does when a key is taken: fail, nothing whatever the key, nothing or an update for one key.\<close>

datatype on_conflict = Fail | Ignore_Any | Ignore_On "string list" | Update_On "string list" "string list"

fun add_defaults :: "Store \<Rightarrow> (string \<times> sql_default) list \<Rightarrow> Row \<Rightarrow> Row" where
  "add_defaults db [] r = r"
| "add_defaults db ((c, d) # ds) r =
    (if c \<in> fst ` set r then add_defaults db ds r
     else (c, case d of D_uuid \<Rightarrow> JStr (st_uuid db (st_drawn db)) | D_now \<Rightarrow> JNum (st_now db) | D_value v \<Rightarrow> v) # add_defaults db ds r)"

definition same_key :: "string list \<Rightarrow> Row \<Rightarrow> Row \<Rightarrow> bool" where
  "same_key K r r' = list_all (\<lambda>c. row_get c r \<noteq> JNull \<and> row_get c r = row_get c r') K"

definition key_taken :: "Row list \<Rightarrow> Row \<Rightarrow> string list \<Rightarrow> bool" where
  "key_taken rows r K = list_ex (same_key K r) rows"

definition refs_ok :: "Store \<Rightarrow> Table \<Rightarrow> Row \<Rightarrow> bool" where
  "refs_ok db T r = list_all (\<lambda>(c, t, c'). row_get c r = JNull \<or> list_ex (\<lambda>r'. row_get c' r' = row_get c r) (st_tables db t)) (tb_refs T)"

definition nulls_ok :: "Table \<Rightarrow> Row \<Rightarrow> bool" where
  "nulls_ok T r = list_all (\<lambda>c. row_get c r \<noteq> JNull) (tb_required T)"

definition assign :: "Row \<Rightarrow> Row \<Rightarrow> Row" where
  "assign sets r = foldl (\<lambda>r (c, v). AList.update c v r) r sets"

definition set_rows :: "string \<Rightarrow> Row list \<Rightarrow> Store \<Rightarrow> Store" where
  "set_rows t rows db = db\<lparr>st_tables := (st_tables db)(t := rows)\<rparr>"

definition sql_error :: "string \<Rightarrow> string \<Rightarrow> js_error" where
  "sql_error t what = Js_Error (t @ '': '' @ what)"

text \<open>The row stored, \<open>None\<close> when the statement did nothing.  \<open>Update_On K cs\<close> copies the columns \<open>cs\<close> of the new
  row, the program's \<open>excluded\<close>, to the row in place.\<close>

definition sql_insert :: "string \<Rightarrow> Row \<Rightarrow> on_conflict \<Rightarrow> (Store, Row option) io" where
  "sql_insert t row oc db =
    (case schema t of
       None \<Rightarrow> (Inl (sql_error t ''no such table''), db)
     | Some T \<Rightarrow>
         let r = add_defaults db (tb_defaults T) row; rows = st_tables db t; taken = filter (key_taken rows r) (tb_unique T);
             db1 = db\<lparr>st_drawn := Suc (st_drawn db)\<rparr>;
             store = (if refs_ok db T r then (Inr (Some r), set_rows t (rows @ [r]) db1) else (Inl (sql_error t ''foreign key''), db1))
         in if \<not> list_all (\<lambda>(c, _). c \<in> set (tb_columns T)) row then (Inl (sql_error t ''no such column''), db)
            else if \<not> nulls_ok T r then (Inl (sql_error t ''null in a required column''), db1)
            else case oc of
                Fail \<Rightarrow> if taken = [] then store else (Inl (sql_error t ''duplicate key''), db1)
              | Ignore_Any \<Rightarrow> if taken = [] then store else (Inr None, db1)
              | Ignore_On K \<Rightarrow> if K \<in> set taken then (Inr None, db1) else if taken = [] then store else (Inl (sql_error t ''duplicate key''), db1)
              | Update_On K cs \<Rightarrow>
                  if K \<in> set taken
                  then let sets = map (\<lambda>c. (c, row_get c r)) cs; rows' = map (\<lambda>r'. if same_key K r r' then assign sets r' else r') rows
                       in if list_all (\<lambda>r. nulls_ok T r \<and> refs_ok db T r) rows' then (Inr (find (same_key K r) rows'), set_rows t rows' db1) else (Inl (sql_error t ''foreign key''), db1)
                  else if taken = [] then store else (Inl (sql_error t ''duplicate key''), db1))"

text \<open>An update assigns columns in the rows that satisfy the condition and counts them; the program never updates
  a key.\<close>

definition sql_update :: "string \<Rightarrow> (Row \<Rightarrow> bool) \<Rightarrow> Row \<Rightarrow> (Store, nat) io" where
  "sql_update t cond sets db =
    (case schema t of
       None \<Rightarrow> (Inl (sql_error t ''no such table''), db)
     | Some T \<Rightarrow>
         let rows = map (\<lambda>r. if cond r then assign sets r else r) (st_tables db t)
         in if \<not> list_all (\<lambda>(c, _). c \<in> set (tb_columns T)) sets then (Inl (sql_error t ''no such column''), db)
            else if \<not> list_all (\<lambda>r. nulls_ok T r \<and> refs_ok db T r) rows then (Inl (sql_error t ''constraint''), db)
            else (Inr (length (filter cond (st_tables db t))), set_rows t rows db))"

definition sql_delete :: "string \<Rightarrow> (Row \<Rightarrow> bool) \<Rightarrow> (Store, nat) io" where
  "sql_delete t cond db =
    (Inr (length (filter cond (st_tables db t))), set_rows t (filter (\<lambda>r. \<not> cond r) (st_tables db t)) db)"

definition sql_select :: "string \<Rightarrow> (Row \<Rightarrow> bool) \<Rightarrow> (Store, Row list) io" where
  "sql_select t cond db = (Inr (filter cond (st_tables db t)), db)"

definition is_text :: "string \<Rightarrow> string \<Rightarrow> Row \<Rightarrow> bool" where
  "is_text c v r \<longleftrightarrow> row_get c r = JStr v"

definition created_at :: "Row \<Rightarrow> int" where
  "created_at r = (case row_get ''created_at'' r of JNum n \<Rightarrow> n | _ \<Rightarrow> 0)"

definition newest_first :: "Row list \<Rightarrow> Row list" where
  "newest_first rows = sort_key (\<lambda>r. - created_at r) (rev rows)"

definition first_row :: "Row list \<Rightarrow> Row option" where
  "first_row rows = (case rows of [] \<Rightarrow> None | r # _ \<Rightarrow> Some r)"

definition or_null :: "string option \<Rightarrow> json" where
  "or_null x = (case x of None \<Rightarrow> JNull | Some s \<Rightarrow> JStr s)"

definition columns_of :: "string list \<Rightarrow> Row \<Rightarrow> Row" where
  "columns_of cs r = map (\<lambda>c. (c, row_get c r)) cs"

definition nowIO :: "(Store, int) io" where
  "nowIO db = (Inr (st_now db), db)"

definition star :: "string \<Rightarrow> Row \<Rightarrow> Row" where
  "star t r = (case schema t of None \<Rightarrow> r | Some T \<Rightarrow> columns_of (tb_columns T) r)"

section \<open>The operations of the store\<close>

record StateTransition =
  tr_entityType :: string
  tr_entityId :: string
  tr_fromState :: "string option"
  tr_toState :: string
  tr_reason :: "string option"
  tr_txHash :: "string option"
  tr_metadata :: "json option"

definition transition :: "StateTransition \<Rightarrow> (Store, unit) io" where
  "transition tr = bindIO (sql_insert ''state_transitions''
    [(''entity_type'', JStr (tr_entityType tr)), (''entity_id'', JStr (tr_entityId tr)), (''from_state'', or_null (tr_fromState tr)), (''to_state'', JStr (tr_toState tr)),
     (''reason'', or_null (tr_reason tr)), (''tx_hash'', or_null (tr_txHash tr)), (''metadata'', case tr_metadata tr of Some v \<Rightarrow> v | None \<Rightarrow> JObj [])] Fail) (\<lambda>_. returnIO ())"

record DepositInput =
  di_depositId :: string
  di_idempotencyKey :: string
  di_sourceDomain :: int
  di_destinationDomain :: int
  di_assetId :: string
  di_amount6 :: string
  di_amount7 :: string
  di_commitment :: string
  di_encryptedNotePayloadHash :: string
  di_policyId :: string
  di_state :: string

definition upsertDeposit :: "DepositInput \<Rightarrow> (Store, unit) io" where
  "upsertDeposit i = bindIO (sql_insert ''cctp_deposits''
    [(''deposit_id'', JStr (di_depositId i)), (''idempotency_key'', JStr (di_idempotencyKey i)), (''source_domain'', JNum (di_sourceDomain i)),
     (''destination_domain'', JNum (di_destinationDomain i)), (''asset_id'', JStr (di_assetId i)), (''amount_usdc_6dp'', JStr (di_amount6 i)),
     (''amount_usdc_7dp'', JStr (di_amount7 i)), (''commitment'', JStr (di_commitment i)), (''encrypted_note_payload_hash'', JStr (di_encryptedNotePayloadHash i)),
     (''policy_id'', JStr (di_policyId i)), (''state'', JStr (di_state i))] (Ignore_On [''idempotency_key''])) (\<lambda>_. returnIO ())"

text \<open>The findings of the root auditor; a missing table counts as none.\<close>

definition criticalRootMismatchCount :: "(Store, nat) io" where
  "criticalRootMismatchCount = bindIO (sql_select ''root_audit_findings'' (is_text ''code'' ''ROOT_MISMATCH_CRITICAL'')) (\<lambda>rows. returnIO (length rows))"

record UserDeposit =
  ud_depositId :: string
  ud_idempotencyKey :: string
  ud_userId :: string
  ud_sourceChain :: string
  ud_sourceWalletAddress :: string
  ud_vaultId :: string
  ud_sourceDomain :: int
  ud_destinationDomain :: int
  ud_assetId :: string
  ud_amount6 :: string
  ud_amount7Max :: string
  ud_commitment :: string
  ud_encryptedNotePayloadHash :: string
  ud_policyId :: string

definition deposit_row :: "UserDeposit \<Rightarrow> Row" where
  "deposit_row i =
    [(''deposit_id'', JStr (ud_depositId i)), (''idempotency_key'', JStr (ud_idempotencyKey i)), (''user_id'', JStr (ud_userId i)),
     (''source_chain'', JStr (ud_sourceChain i)), (''source_wallet_address'', JStr (ud_sourceWalletAddress i)), (''vault_id'', JStr (ud_vaultId i)),
     (''source_domain'', JNum (ud_sourceDomain i)), (''destination_domain'', JNum (ud_destinationDomain i)), (''asset_id'', JStr (ud_assetId i)),
     (''amount_usdc_6dp'', JStr (ud_amount6 i)), (''amount_usdc_7dp'', JStr (ud_amount7Max i)), (''commitment'', JStr (ud_commitment i)),
     (''encrypted_note_payload_hash'', JStr (ud_encryptedNotePayloadHash i)), (''policy_id'', JStr (ud_policyId i)), (''state'', JStr ''prepared'')]"

definition createUserDeposit :: "UserDeposit \<Rightarrow> (Store, unit) io" where
  "createUserDeposit i = bindIO (sql_insert ''cctp_deposits'' (deposit_row i) (Ignore_On [''deposit_id''])) (\<lambda>_. returnIO ())"

definition getDepositForUser :: "string \<Rightarrow> string \<Rightarrow> (Store, Row option) io" where
  "getDepositForUser userId depositId =
    bindIO (sql_select ''cctp_deposits'' (\<lambda>r. is_text ''deposit_id'' depositId r \<and> is_text ''user_id'' userId r)) (\<lambda>rows. returnIO (first_row rows))"

definition setDepositBurnTx :: "string \<Rightarrow> string \<Rightarrow> (Store, unit) io" where
  "setDepositBurnTx depositId burnTxHash = bindIO nowIO (\<lambda>now.
    bindIO (sql_update ''cctp_deposits'' (is_text ''deposit_id'' depositId)
      [(''source_tx_hash'', JStr burnTxHash), (''state'', JStr ''burn_submitted''), (''updated_at'', JNum now)]) (\<lambda>_. returnIO ()))"

definition readable_tables :: "string list" where
  "readable_tables = [''cctp_deposits'', ''proof_jobs'', ''withdrawals'', ''intents'', ''quotes'', ''settlements'', ''cctp_exits'', ''note_commitments'']"

definition getById :: "string \<Rightarrow> string \<Rightarrow> string \<Rightarrow> (Store, Row option) io" where
  "getById table idColumn i =
    (if table \<notin> set readable_tables then throwIO (Js_Error (''unsafe table '' @ table))
     else bindIO (sql_select table (is_text idColumn i)) (\<lambda>rows. returnIO (map_option (star table) (first_row rows))))"

definition writable_tables :: "string list" where
  "writable_tables = [''proof_jobs'', ''withdrawals'', ''intents'', ''quotes'', ''quote_acceptances'', ''solver_inventory_locks'', ''fills'', ''settlements'', ''cctp_exits'']"

definition insertGeneric :: "string \<Rightarrow> Row \<Rightarrow> (Store, unit) io" where
  "insertGeneric table row =
    (if table \<notin> set writable_tables then throwIO (Js_Error (''unsafe table '' @ table))
     else bindIO (sql_insert table row Ignore_Any) (\<lambda>_. returnIO ()))"

text \<open>The id of a row that was inserted or found.\<close>

definition id_of :: "Row option \<Rightarrow> string" where
  "id_of r = (case r of Some r' \<Rightarrow> (case row_get ''id'' r' of JStr i \<Rightarrow> i | _ \<Rightarrow> []) | None \<Rightarrow> [])"

definition user_of :: "Row \<Rightarrow> string" where
  "user_of r = (case row_get ''user_id'' r of JStr u \<Rightarrow> u | _ \<Rightarrow> [])"

definition touch_user :: "string \<Rightarrow> (Store, unit) io" where
  "touch_user u = bindIO nowIO (\<lambda>now. bindIO (sql_update ''users'' (is_text ''id'' u) [(''last_login_at'', JNum now), (''updated_at'', JNum now)]) (\<lambda>_. returnIO ()))"

definition upsertUserByPrivyId :: "string \<Rightarrow> string option \<Rightarrow> string option \<Rightarrow> (Store, string) io" where
  "upsertUserByPrivyId privyUserId email primaryAuthMethod =
    bindIO (sql_select ''users'' (is_text ''privy_user_id'' privyUserId)) (\<lambda>existing.
    case existing of
      r # _ \<Rightarrow> bindIO (touch_user (id_of (Some r))) (\<lambda>_. returnIO (id_of (Some r)))
    | [] \<Rightarrow> bindIO nowIO (\<lambda>now.
        bindIO (sql_insert ''users'' [(''privy_user_id'', JStr privyUserId), (''email'', or_null email), (''primary_auth_method'', JStr (case primaryAuthMethod of Some a \<Rightarrow> a | None \<Rightarrow> ''privy'')), (''last_login_at'', JNum now)] Fail) (\<lambda>u.
        bindIO (sql_insert ''user_profiles'' [(''user_id'', JStr (id_of u))] Ignore_Any) (\<lambda>_. returnIO (id_of u)))))"

definition userOwnsWallet :: "string \<Rightarrow> string \<Rightarrow> string option \<Rightarrow> (Store, bool) io" where
  "userOwnsWallet userId address chain =
    bindIO (sql_select ''user_wallets'' (\<lambda>r. is_text ''user_id'' userId r \<and> (case row_get ''address'' r of JStr a \<Rightarrow> lower a = lower address | _ \<Rightarrow> False) \<and>
      (case chain of Some c \<Rightarrow> c = [] \<or> is_text ''chain'' c r | None \<Rightarrow> True)))
      (\<lambda>rows. returnIO (rows \<noteq> []))"

abbreviation own_vault :: "string \<Rightarrow> string \<Rightarrow> Row \<Rightarrow> bool" where
  "own_vault userId vaultId r \<equiv> is_text ''user_id'' userId r \<and> is_text ''vault_id'' vaultId r"

definition userOwnsVault :: "string \<Rightarrow> string \<Rightarrow> (Store, bool) io" where
  "userOwnsVault userId vaultId = bindIO (sql_select ''note_vaults'' (own_vault userId vaultId)) (\<lambda>rows. returnIO (rows \<noteq> []))"

record VaultInput =
  vi_envelope :: json
  vi_ciphertext :: json
  vi_aad :: json
  vi_recoveryPolicyStatus :: string

definition createNoteVault :: "string \<Rightarrow> string \<Rightarrow> string \<Rightarrow> VaultInput \<Rightarrow> (Store, unit) io" where
  "createNoteVault userId privyUserId vaultId i = bindIO nowIO (\<lambda>now.
    bindIO (sql_insert ''note_vaults''
      [(''user_id'', JStr userId), (''privy_user_id'', JStr privyUserId), (''vault_id'', JStr vaultId), (''envelope'', vi_envelope i), (''ciphertext'', vi_ciphertext i),
       (''aad'', vi_aad i), (''backup_status'', JStr ''created''), (''recovery_policy_status'', JStr (vi_recoveryPolicyStatus i)), (''updated_at'', JNum now)]
      (Update_On [''vault_id''] [''envelope'', ''ciphertext'', ''aad'', ''recovery_policy_status'', ''updated_at''])) (\<lambda>_. returnIO ()))"

definition listNoteVaults :: "string \<Rightarrow> (Store, Row list) io" where
  "listNoteVaults userId = bindIO (sql_select ''note_vaults'' (is_text ''user_id'' userId)) (\<lambda>rows. returnIO (map (columns_of
    [''vault_id'', ''backup_status'', ''recovery_policy_status'', ''last_backup_verified_at'', ''last_restored_at'', ''created_at'', ''updated_at'']) (newest_first rows)))"

definition getNoteVault :: "string \<Rightarrow> string \<Rightarrow> (Store, Row option) io" where
  "getNoteVault userId vaultId = bindIO (sql_select ''note_vaults'' (own_vault userId vaultId)) (\<lambda>rows. returnIO (map_option (star ''note_vaults'') (first_row rows)))"

definition updateNoteVault :: "string \<Rightarrow> string \<Rightarrow> VaultInput \<Rightarrow> (Store, bool) io" where
  "updateNoteVault userId vaultId i = bindIO nowIO (\<lambda>now.
    bindIO (sql_update ''note_vaults'' (own_vault userId vaultId)
      [(''envelope'', vi_envelope i), (''ciphertext'', vi_ciphertext i), (''aad'', vi_aad i), (''recovery_policy_status'', JStr (vi_recoveryPolicyStatus i)), (''updated_at'', JNum now)])
      (\<lambda>n. returnIO (0 < n)))"

text \<open>The program only sets the status \<open>restored\<close> with this operation.\<close>

definition setVaultBackupStatus :: "string \<Rightarrow> string \<Rightarrow> string \<Rightarrow> (Store, bool) io" where
  "setVaultBackupStatus userId vaultId status = bindIO nowIO (\<lambda>now.
    bindIO (sql_update ''note_vaults'' (own_vault userId vaultId)
      ([(''backup_status'', JStr status)] @
       (if status = ''verified'' then [(''last_backup_verified_at'', JNum now)] else if status = ''restored'' then [(''last_restored_at'', JNum now)] else []) @
       [(''updated_at'', JNum now)])) (\<lambda>n. returnIO (0 < n)))"

definition setVaultBackupVerified :: "string \<Rightarrow> string \<Rightarrow> json \<Rightarrow> (Store, bool) io" where
  "setVaultBackupVerified userId vaultId verification = bindIO nowIO (\<lambda>now.
    bindIO (sql_update ''note_vaults'' (own_vault userId vaultId)
      [(''backup_status'', JStr ''verified''), (''last_backup_verified_at'', JNum now), (''last_backup_verification'', verification), (''updated_at'', JNum now)])
      (\<lambda>n. returnIO (0 < n)))"

definition setVaultRecoveryPolicy :: "string \<Rightarrow> string \<Rightarrow> (Store, unit) io" where
  "setVaultRecoveryPolicy vaultId status = bindIO nowIO (\<lambda>now.
    bindIO (sql_update ''note_vaults'' (is_text ''vault_id'' vaultId) [(''recovery_policy_status'', JStr status), (''updated_at'', JNum now)]) (\<lambda>_. returnIO ()))"

record DepositReady =
  dr_ready :: bool
  dr_backup_status :: json
  dr_recovery_policy_status :: json

definition deposit_ready :: "Row \<Rightarrow> DepositReady" where
  "deposit_ready r =
    \<lparr>dr_ready = (is_text ''backup_status'' ''verified'' r \<and> (is_text ''recovery_policy_status'' ''sufficient'' r \<or> is_text ''recovery_policy_status'' ''strong'' r)),
     dr_backup_status = row_get ''backup_status'' r, dr_recovery_policy_status = row_get ''recovery_policy_status'' r\<rparr>"

definition vaultDepositReady :: "string \<Rightarrow> string \<Rightarrow> (Store, DepositReady option) io" where
  "vaultDepositReady userId vaultId = bindIO (sql_select ''note_vaults'' (own_vault userId vaultId)) (\<lambda>rows. returnIO (map_option deposit_ready (first_row rows)))"

definition addVaultWrapper :: "string \<Rightarrow> string \<Rightarrow> json \<Rightarrow> json \<Rightarrow> (Store, string) io" where
  "addVaultWrapper userId vaultId wrapperType metadata =
    bindIO (sql_insert ''note_vault_wrappers'' [(''vault_id'', JStr vaultId), (''user_id'', JStr userId), (''wrapper_type'', wrapperType),
      (''metadata'', if metadata = JNull then JObj [] else metadata)] Fail) (\<lambda>r. returnIO (id_of r))"

definition deleteVaultWrapper :: "string \<Rightarrow> string \<Rightarrow> string \<Rightarrow> (Store, bool) io" where
  "deleteVaultWrapper userId vaultId wrapperId =
    bindIO (sql_delete ''note_vault_wrappers'' (\<lambda>r. is_text ''id'' wrapperId r \<and> is_text ''vault_id'' vaultId r \<and> is_text ''user_id'' userId r)) (\<lambda>n. returnIO (0 < n))"

definition listVaultWrappers :: "string \<Rightarrow> (Store, Row list) io" where
  "listVaultWrappers vaultId = bindIO (sql_select ''note_vault_wrappers'' (is_text ''vault_id'' vaultId))
    (\<lambda>rows. returnIO (map (columns_of [''wrapper_type'', ''wrapper_status'', ''metadata'']) rows))"

section \<open>Users, sessions and wallets\<close>

definition createNonce :: "string \<Rightarrow> string \<Rightarrow> string \<Rightarrow> string \<Rightarrow> int \<Rightarrow> (Store, unit) io" where
  "createNonce walletType address nonce message expiresAt =
    bindIO (sql_insert ''auth_nonces'' [(''wallet_type'', JStr walletType), (''address'', JStr address), (''nonce'', JStr nonce), (''message'', JStr message),
      (''expires_at'', JNum expiresAt)] Fail) (\<lambda>_. returnIO ())"

definition after_now :: "string \<Rightarrow> int \<Rightarrow> Row \<Rightarrow> bool" where
  "after_now c now r = (case row_get c r of JNum t \<Rightarrow> now < t | _ \<Rightarrow> False)"

definition live_nonce :: "string \<Rightarrow> string \<Rightarrow> string \<Rightarrow> int \<Rightarrow> Row \<Rightarrow> bool" where
  "live_nonce walletType address nonce now r \<longleftrightarrow>
    is_text ''wallet_type'' walletType r \<and> is_text ''address'' address r \<and> is_text ''nonce'' nonce r \<and> row_get ''consumed_at'' r = JNull \<and> after_now ''expires_at'' now r"

definition consumeNonce :: "string \<Rightarrow> string \<Rightarrow> string \<Rightarrow> (Store, string option) io" where
  "consumeNonce walletType address nonce = bindIO nowIO (\<lambda>now.
    bindIO (sql_select ''auth_nonces'' (live_nonce walletType address nonce now)) (\<lambda>rows.
    case newest_first rows of
      [] \<Rightarrow> returnIO None
    | r # _ \<Rightarrow> bindIO (sql_update ''auth_nonces'' (is_text ''id'' (id_of (Some r))) [(''consumed_at'', JNum now)]) (\<lambda>_.
        returnIO (case row_get ''message'' r of JStr m \<Rightarrow> Some m | _ \<Rightarrow> None))))"

definition upsertUserByWallet :: "string \<Rightarrow> string \<Rightarrow> string \<Rightarrow> (Store, string) io" where
  "upsertUserByWallet walletType chain address =
    bindIO (sql_select ''user_wallets'' (\<lambda>r. is_text ''wallet_type'' walletType r \<and> is_text ''address'' address r)) (\<lambda>existing.
    case existing of
      r # _ \<Rightarrow> bindIO (touch_user (user_of r)) (\<lambda>_. returnIO (user_of r))
    | [] \<Rightarrow> bindIO nowIO (\<lambda>now.
        bindIO (sql_insert ''users'' [(''last_login_at'', JNum now)] Fail) (\<lambda>u.
        bindIO (sql_insert ''user_profiles'' [(''user_id'', JStr (id_of u))] Ignore_Any) (\<lambda>_.
        bindIO (sql_insert ''user_wallets'' [(''user_id'', JStr (id_of u)), (''wallet_type'', JStr walletType), (''chain'', JStr chain), (''address'', JStr address),
          (''is_primary'', JBool True), (''verified_at'', JNum now)] Fail) (\<lambda>_. returnIO (id_of u))))))"

definition createSession_store :: "string \<Rightarrow> string \<Rightarrow> int \<Rightarrow> (Store, unit) io" where
  "createSession_store userId sessionHash expiresAt =
    bindIO (sql_insert ''user_sessions'' [(''user_id'', JStr userId), (''session_hash'', JStr sessionHash), (''expires_at'', JNum expiresAt)] Fail) (\<lambda>_. returnIO ())"

definition live_session :: "string \<Rightarrow> int \<Rightarrow> Row \<Rightarrow> bool" where
  "live_session sessionHash now r \<longleftrightarrow> is_text ''session_hash'' sessionHash r \<and> row_get ''revoked_at'' r = JNull \<and> after_now ''expires_at'' now r"

definition userIdForSession :: "string \<Rightarrow> (Store, string option) io" where
  "userIdForSession sessionHash = bindIO nowIO (\<lambda>now.
    bindIO (sql_select ''user_sessions'' (live_session sessionHash now)) (\<lambda>rows. returnIO (map_option user_of (first_row rows))))"

definition revokeSession :: "string \<Rightarrow> (Store, unit) io" where
  "revokeSession sessionHash = bindIO nowIO (\<lambda>now.
    bindIO (sql_update ''user_sessions'' (is_text ''session_hash'' sessionHash) [(''revoked_at'', JNum now)]) (\<lambda>_. returnIO ()))"

definition listWallets :: "string \<Rightarrow> (Store, Row list) io" where
  "listWallets userId = bindIO (sql_select ''user_wallets'' (is_text ''user_id'' userId)) (\<lambda>rows. returnIO (map (columns_of
    [''id'', ''wallet_type'', ''chain'', ''address'', ''is_primary'', ''verified_at'', ''created_at'']) (sort_key created_at rows)))"

definition getUser :: "string \<Rightarrow> (Store, json) io" where
  "getUser userId =
    bindIO (sql_select ''users'' (is_text ''id'' userId)) (\<lambda>us.
    case us of
      [] \<Rightarrow> returnIO JNull
    | u # _ \<Rightarrow>
        bindIO (sql_select ''user_profiles'' (is_text ''user_id'' userId)) (\<lambda>ps.
        bindIO (listWallets userId) (\<lambda>ws.
        returnIO (JObj (columns_of [''id'', ''privy_user_id'', ''display_name'', ''email'', ''avatar_url'', ''testnet_only'', ''created_at'', ''last_login_at''] u @
          (case ps of p # _ \<Rightarrow> columns_of [''preferences'', ''risk_flags''] p | [] \<Rightarrow> [(''preferences'', JNull), (''risk_flags'', JNull)]) @
          [(''wallets'', JArr (map JObj ws))])))))"

record LinkedWallet =
  lw_wallet_type :: string
  lw_wallet_source :: "string option"
  lw_chain :: string
  lw_address :: string
  lw_privy_wallet_id :: "string option"

definition wallet_row :: "string \<Rightarrow> string \<Rightarrow> int \<Rightarrow> LinkedWallet \<Rightarrow> Row" where
  "wallet_row userId privyUserId now w =
    [(''user_id'', JStr userId), (''privy_user_id'', JStr privyUserId), (''wallet_type'', JStr (lw_wallet_type w)),
     (''wallet_source'', JStr (case lw_wallet_source w of None \<Rightarrow> ''external'' | Some s \<Rightarrow> s)), (''chain'', JStr (lw_chain w)), (''address'', JStr (lw_address w)),
     (''privy_wallet_id'', or_null (lw_privy_wallet_id w)), (''verified_at'', JNum now)]"

fun syncPrivyWallets :: "string \<Rightarrow> string \<Rightarrow> LinkedWallet list \<Rightarrow> (Store, nat) io" where
  "syncPrivyWallets userId privyUserId [] = returnIO 0"
| "syncPrivyWallets userId privyUserId (w # ws) = bindIO nowIO (\<lambda>now.
    bindIO (sql_insert ''user_wallets'' (wallet_row userId privyUserId now w)
      (Update_On [''wallet_type'', ''address''] [''user_id'', ''privy_user_id'', ''wallet_source'', ''chain'', ''privy_wallet_id'', ''verified_at''])) (\<lambda>_.
    bindIO (syncPrivyWallets userId privyUserId ws) (\<lambda>n. returnIO (Suc n))))"

definition given :: "string list \<Rightarrow> json \<Rightarrow> Row" where
  "given cs body = concat (map (\<lambda>c. case json_get c body of None \<Rightarrow> [] | Some v \<Rightarrow> [(c, v)]) cs)"

definition updateUser :: "string \<Rightarrow> json \<Rightarrow> (Store, unit) io" where
  "updateUser userId changes = bindIO nowIO (\<lambda>now.
    let sets = given [''display_name'', ''email'', ''avatar_url''] changes in
    bindIO (if sets \<noteq> [] then bindIO (sql_update ''users'' (is_text ''id'' userId) (sets @ [(''updated_at'', JNum now)])) (\<lambda>_. returnIO ()) else returnIO ()) (\<lambda>_.
    case json_get ''preferences'' changes of
      None \<Rightarrow> returnIO ()
    | Some p \<Rightarrow> bindIO (sql_update ''user_profiles'' (is_text ''user_id'' userId) [(''preferences'', p), (''updated_at'', JNum now)]) (\<lambda>_. returnIO ())))"

definition addWallet :: "string \<Rightarrow> string \<Rightarrow> string \<Rightarrow> string \<Rightarrow> (Store, string) io" where
  "addWallet userId walletType chain address =
    bindIO (sql_insert ''user_wallets'' [(''user_id'', JStr userId), (''wallet_type'', JStr walletType), (''chain'', JStr chain), (''address'', JStr address)]
      (Update_On [''wallet_type'', ''address''] [''chain''])) (\<lambda>r. returnIO (id_of r))"

definition deleteWallet :: "string \<Rightarrow> string \<Rightarrow> (Store, bool) io" where
  "deleteWallet userId walletId =
    bindIO (sql_delete ''user_wallets'' (\<lambda>r. is_text ''id'' walletId r \<and> is_text ''user_id'' userId r \<and> row_get ''is_primary'' r = JBool False)) (\<lambda>n. returnIO (0 < n))"

definition logActivity :: "string option \<Rightarrow> string \<Rightarrow> Row \<Rightarrow> (Store, unit) io" where
  "logActivity userId event_type details =
    bindIO (sql_insert ''user_activity'' [(''user_id'', or_null userId), (''event_type'', JStr event_type), (''entity_type'', row_get ''entity_type'' details),
      (''entity_id'', row_get ''entity_id'' details), (''tx_hash'', row_get ''tx_hash'' details),
      (''metadata'', if row_get ''metadata'' details = JNull then JObj [] else row_get ''metadata'' details)] Fail) (\<lambda>_. returnIO ())"

definition listActivity :: "string \<Rightarrow> nat \<Rightarrow> (Store, Row list) io" where
  "listActivity userId limit = bindIO (sql_select ''user_activity'' (is_text ''user_id'' userId)) (\<lambda>rows. returnIO (take limit (map (columns_of
    [''event_type'', ''entity_type'', ''entity_id'', ''tx_hash'', ''metadata'', ''created_at'']) (newest_first rows))))"

definition user_readable :: "string list" where
  "user_readable = [''cctp_deposits'', ''note_commitments'', ''withdrawals'', ''intents'', ''settlements'', ''cctp_exits'', ''encrypted_note_backups'']"

definition listByUser :: "string \<Rightarrow> string \<Rightarrow> (Store, Row list) io" where
  "listByUser table userId =
    (if table \<notin> set user_readable then throwIO (Js_Error (''unsafe table '' @ table))
     else bindIO (sql_select table (is_text ''user_id'' userId)) (\<lambda>rows. returnIO (take 200 (map (star table) (newest_first rows)))))"

definition listNoteVaultsForRecovery :: "string \<Rightarrow> string option \<Rightarrow> (Store, Row list) io" where
  "listNoteVaultsForRecovery userId vaultId =
    bindIO (sql_select ''note_vaults'' (\<lambda>r. is_text ''user_id'' userId r \<and> (vaultId = None \<or> vaultId = Some [] \<or> is_text ''vault_id'' (the vaultId) r)))
      (\<lambda>rows. returnIO (map (columns_of [''vault_id'', ''envelope'', ''ciphertext'', ''aad'', ''backup_status'', ''recovery_policy_status'', ''created_at'', ''updated_at''])
        (newest_first rows)))"

definition addNoteBackup :: "string \<Rightarrow> json \<Rightarrow> json \<Rightarrow> json \<Rightarrow> (Store, unit) io" where
  "addNoteBackup userId commitment encryptedPayload version =
    bindIO (sql_insert ''encrypted_note_backups'' [(''user_id'', JStr userId), (''commitment'', commitment), (''encrypted_payload'', encryptedPayload), (''encryption_version'', version)]
      (Update_On [''user_id'', ''commitment''] [''encrypted_payload''])) (\<lambda>_. returnIO ())"

section \<open>Requests for quotation and reports\<close>

record RfqLifecycle =
  lc_intent :: "Row option"
  lc_quote :: "Row option"
  lc_accepted :: bool
  lc_fill :: "Row option"

definition rfqLifecycle :: "string \<Rightarrow> string \<Rightarrow> (Store, RfqLifecycle) io" where
  "rfqLifecycle intentHash quoteId =
    bindIO (sql_select ''intents'' (is_text ''intent_hash'' intentHash)) (\<lambda>is.
    bindIO (sql_select ''quotes'' (is_text ''quote_id'' quoteId)) (\<lambda>qs.
    bindIO (sql_select ''quote_acceptances'' (is_text ''quote_id'' quoteId)) (\<lambda>as.
    bindIO (sql_select ''fills'' (is_text ''quote_id'' quoteId)) (\<lambda>fs.
    returnIO \<lparr>lc_intent = first_row is, lc_quote = first_row qs, lc_accepted = (as \<noteq> []), lc_fill = first_row (newest_first fs)\<rparr>))))"

definition isNullifierSpent :: "string \<Rightarrow> (Store, bool) io" where
  "isNullifierSpent nullifier = bindIO (sql_select ''nullifier_spends'' (is_text ''nullifier'' nullifier)) (\<lambda>rows. returnIO (rows \<noteq> []))"

definition listQuotesByIntent :: "string \<Rightarrow> (Store, Row list) io" where
  "listQuotesByIntent intentHash = bindIO (sql_select ''quotes'' (is_text ''intent_hash'' intentHash)) (\<lambda>rows. returnIO (map (columns_of
    [''quote_id'', ''intent_hash'', ''quote_hash'', ''solver_id'', ''payload'', ''valid_until_ledger'', ''state'']) (sort_key created_at rows)))"

definition executeFill :: "string \<Rightarrow> json \<Rightarrow> (Store, bool) io" where
  "executeFill fillId destinationTxHash =
    bindIO (sql_update ''fills'' (is_text ''fill_id'' fillId) [(''destination_tx_hash'', destinationTxHash), (''state'', JStr ''EXECUTED'')]) (\<lambda>n. returnIO (0 < n))"

definition setRowUser :: "string \<Rightarrow> string \<Rightarrow> string \<Rightarrow> string \<Rightarrow> (Store, unit) io" where
  "setRowUser table idColumn i userId =
    (if table \<notin> set [''cctp_deposits'', ''withdrawals'', ''intents'', ''settlements'', ''cctp_exits''] then returnIO ()
     else bindIO (sql_update table (is_text idColumn i) [(''user_id'', JStr userId)]) (\<lambda>_. returnIO ()))"

definition owned_among :: "string \<Rightarrow> string \<Rightarrow> string list \<Rightarrow> Row \<Rightarrow> bool" where
  "owned_among userId c ids r \<longleftrightarrow> is_text ''user_id'' userId r \<and> list_ex (\<lambda>i. is_text c i r) ids"

definition getOwnedSettlements :: "string \<Rightarrow> string list \<Rightarrow> (Store, Row list) io" where
  "getOwnedSettlements userId ids =
    (if ids = [] then returnIO []
     else bindIO (sql_select ''settlements'' (owned_among userId ''settlement_id'' ids)) (\<lambda>rows. returnIO (map (columns_of
       [''settlement_id'', ''intent_hash'', ''quote_id'', ''nullifier'', ''stellar_tx_hash'', ''state'', ''created_at'']) rows)))"

definition getOwnedNoteCommitments :: "string \<Rightarrow> string list \<Rightarrow> (Store, Row list) io" where
  "getOwnedNoteCommitments userId commitments =
    (if commitments = [] then returnIO []
     else bindIO (sql_select ''note_commitments'' (owned_among userId ''commitment'' commitments)) (\<lambda>rows. returnIO (map (columns_of
       [''commitment'', ''policy_id'', ''amount_usdc_7dp'', ''status'', ''created_at'']) rows)))"

definition getAnchorIdsForSettlements :: "string list \<Rightarrow> (Store, json list) io" where
  "getAnchorIdsForSettlements ids =
    (if ids = [] then returnIO []
     else bindIO (sql_select ''anchor_payouts'' (\<lambda>r. list_ex (\<lambda>i. is_text ''settlement_id'' i r) ids \<and> row_get ''anchor_transaction_id'' r \<noteq> JNull))
       (\<lambda>rows. returnIO (remdups (map (row_get ''anchor_transaction_id'') rows))))"

definition insertViewKeyReport :: "Row \<Rightarrow> (Store, unit) io" where
  "insertViewKeyReport row = bindIO (sql_insert ''view_key_reports'' row Fail) (\<lambda>_. returnIO ())"

definition getViewKeyReport :: "string \<Rightarrow> string \<Rightarrow> (Store, Row option) io" where
  "getViewKeyReport userId reportId =
    bindIO (sql_select ''view_key_reports'' (\<lambda>r. is_text ''report_id'' reportId r \<and> is_text ''user_id'' userId r)) (\<lambda>rows.
    returnIO (map_option (star ''view_key_reports'') (first_row rows)))"

text \<open>\<open>queue.enqueue\<close>: the queue's tables lie in the same database.\<close>

definition queue_enqueue :: "QueueName \<Rightarrow> string \<Rightarrow> json \<Rightarrow> string option \<Rightarrow> (Store, ServiceJob) io" where
  "queue_enqueue q jobType payload key db =
    (case enqueue (st_uuid db (st_drawn db)) (st_now db) q jobType payload key (st_jobs db) of
       Inl e \<Rightarrow> (Inl e, db)
     | Inr (j, jobs) \<Rightarrow> (Inr j, db\<lparr>st_jobs := jobs, st_drawn := Suc (st_drawn db)\<rparr>))"

section \<open>Well-formed databases\<close>

text \<open>Every row has only columns of its table, the required ones, and references that exist; no two rows share a key.\<close>

definition row_wf :: "Store \<Rightarrow> Table \<Rightarrow> Row \<Rightarrow> bool" where
  "row_wf db T r \<longleftrightarrow> fst ` set r \<subseteq> set (tb_columns T) \<and> nulls_ok T r \<and> refs_ok db T r"

definition keys_wf :: "Table \<Rightarrow> Row list \<Rightarrow> bool" where
  "keys_wf T rows \<longleftrightarrow> (\<forall>K \<in> set (tb_unique T). sorted_wrt (\<lambda>r r'. \<not> same_key K r r') rows)"

definition store_wf :: "Store \<Rightarrow> bool" where
  "store_wf db \<longleftrightarrow> (\<forall>t T. schema t = Some T \<longrightarrow> (\<forall>r \<in> set (st_tables db t). row_wf db T r) \<and> keys_wf T (st_tables db t))"

text \<open>Facts of the schema: default columns are columns, and the references point to a few identifiers.\<close>

definition referenced :: "(string \<times> string) list" where
  "referenced = [(''users'', ''id''), (''cctp_deposits'', ''deposit_id''), (''proof_jobs'', ''proof_job_id''), (''intents'', ''intent_hash''), (''quotes'', ''quote_id''),
     (''fills'', ''fill_id''), (''mpc_sessions'', ''session_id''), (''mpc_intents'', ''intent_id''), (''note_vaults'', ''vault_id'')]"

lemma schema_checks:
  assumes "schema t = Some T"
  shows "fst ` set (tb_defaults T) \<subseteq> set (tb_columns T)" "\<forall>(c, t', c') \<in> set (tb_refs T). (t', c') \<in> set referenced"
proof -
  have member: "(t, T) \<in> set (protocol_tables @ rfq_tables @ user_tables)" using assms unfolding schema_def by (rule map_of_SomeD)
  have "list_all (\<lambda>(t, T). fst ` set (tb_defaults T) \<subseteq> set (tb_columns T)) (protocol_tables @ rfq_tables @ user_tables)"
    by (simp add: protocol_tables_def rfq_tables_def user_tables_def table_defs)
  from bspec [OF this [unfolded list_all_iff] member] show "fst ` set (tb_defaults T) \<subseteq> set (tb_columns T)" by (simp only: prod.case)
  have "list_all (\<lambda>(t, T). \<forall>(c, t', c') \<in> set (tb_refs T). (t', c') \<in> set referenced) (protocol_tables @ rfq_tables @ user_tables)"
    by (simp add: protocol_tables_def rfq_tables_def user_tables_def table_defs referenced_def)
  from bspec [OF this [unfolded list_all_iff] member] show "\<forall>(c, t', c') \<in> set (tb_refs T). (t', c') \<in> set referenced" by (simp only: prod.case)
qed

lemma tables_set_rows [simp]: "st_tables (set_rows t rows db) u = (if u = t then rows else st_tables db u)"
  by (simp add: set_rows_def)

lemma same_key_sym: "same_key K r r' \<longleftrightarrow> same_key K r' r"
  by (auto simp: same_key_def list_all_iff)

lemma row_get_assign: "row_get c (assign sets r) = (if c \<in> fst ` set sets then row_get c (assign sets []) else row_get c r)"
proof (induction sets arbitrary: r rule: rev_induct)
  case (snoc s sets)
  obtain k v where s: "s = (k, v)" by fastforce
  show ?case using snoc [of r] by (auto simp: assign_def s row_get_def update_conv')
qed (simp add: assign_def)

lemma columns_assign: "fst ` set (assign sets r) = fst ` set r \<union> fst ` set sets"
proof (induction sets rule: rev_induct)
  case (snoc s sets)
  then show ?case by (cases s) (auto simp: assign_def dom_update)
qed (simp add: assign_def)

lemma same_key_assign:
  assumes "set K \<inter> fst ` set sets = {}"
  shows "same_key K (if b then assign sets r else r) (if b' then assign sets r' else r') \<longleftrightarrow> same_key K r r'"
  using assms by (auto simp: same_key_def list_all_iff row_get_assign disjoint_iff)

lemma columns_defaults: "fst ` set (add_defaults db ds r) \<subseteq> fst ` set r \<union> fst ` set ds"
  by (induction db ds r rule: add_defaults.induct) (auto split: if_splits)

text \<open>References survive whatever keeps the key columns of every row.\<close>

lemma refs_ok_mono:
  assumes "schema t = Some T" "refs_ok db T r"
    and "\<And>u c v. (u, c) \<in> set referenced \<Longrightarrow> v \<noteq> JNull \<Longrightarrow> \<exists>r \<in> set (st_tables db u). row_get c r = v \<Longrightarrow> \<exists>r \<in> set (st_tables db' u). row_get c r = v"
  shows "refs_ok db' T r"
  unfolding refs_ok_def list_all_iff
proof (intro ballI, clarify)
  fix c u c' assume ref: "(c, u, c') \<in> set (tb_refs T)" and ex: "\<not> list_ex (\<lambda>r'. row_get c' r' = row_get c r) (st_tables db' u)"
  have key: "(u, c') \<in> set referenced" using schema_checks(2) [OF assms(1)] ref by fast
  show "row_get c r = JNull"
  proof (rule ccontr)
    assume nn: "row_get c r \<noteq> JNull"
    then have "\<exists>r' \<in> set (st_tables db u). row_get c' r' = row_get c r" using assms(2) ref by (fastforce simp: refs_ok_def list_all_iff list_ex_iff)
    from assms(3) [OF key nn this] show False using ex by (auto simp: list_ex_iff)
  qed
qed

section \<open>Statements keep the database well-formed\<close>

definition keeps :: "('s \<Rightarrow> bool) \<Rightarrow> ('s, 'a) io \<Rightarrow> bool" where
  "keeps I m \<longleftrightarrow> (\<forall>s. I s \<longrightarrow> I (snd (m s)))"

text \<open>Assignments that touch neither a key nor an identifier that is referred to, nor the proof jobs and findings.\<close>

definition safe_sets :: "string \<Rightarrow> string list \<Rightarrow> bool" where
  "safe_sets t cs \<longleftrightarrow> t \<notin> {''proof_jobs'', ''root_audit_findings''} \<and> (\<forall>T. schema t = Some T \<longrightarrow> (\<forall>K \<in> set (tb_unique T). set K \<inter> set cs = {}) \<and> set cs \<subseteq> set (tb_columns T)) \<and>
     (\<forall>c \<in> set cs. (t, c) \<notin> set referenced)"

definition safe_conflict :: "string \<Rightarrow> on_conflict \<Rightarrow> bool" where
  "safe_conflict t oc = (case oc of Update_On K cs \<Rightarrow> safe_sets t cs | _ \<Rightarrow> True)"

lemma store_wf_drawn [simp]: "store_wf (db\<lparr>st_drawn := n\<rparr>) = store_wf db" "store_wf (db\<lparr>st_now := m\<rparr>) = store_wf db" "store_wf (db\<lparr>st_jobs := q\<rparr>) = store_wf db"
  by (simp_all add: store_wf_def row_wf_def refs_ok_def)

lemma set_rows_wf:
  assumes wf: "store_wf db" and t: "schema t = Some T"
    and rows: "\<forall>r \<in> set rows. fst ` set r \<subseteq> set (tb_columns T) \<and> nulls_ok T r \<and> refs_ok db T r" "keys_wf T rows"
    and refs: "\<And>c v. (t, c) \<in> set referenced \<Longrightarrow> v \<noteq> JNull \<Longrightarrow> \<exists>r \<in> set (st_tables db t). row_get c r = v \<Longrightarrow> \<exists>r \<in> set rows. row_get c r = v"
  shows "store_wf (set_rows t rows db)"
proof -
  have mono: "schema u = Some U \<Longrightarrow> refs_ok db U r \<Longrightarrow> refs_ok (set_rows t rows db) U r" for u U r
    by (rule refs_ok_mono) (use refs in auto)
  show ?thesis unfolding store_wf_def
  proof (intro allI impI conjI ballI)
    fix u U r assume u: "schema u = Some U" and r: "r \<in> set (st_tables (set_rows t rows db) u)"
    show "row_wf (set_rows t rows db) U r"
      using wf t rows(1) u r mono [OF u] by (auto simp: row_wf_def store_wf_def split: if_splits)
  next
    fix u U assume u: "schema u = Some U"
    show "keys_wf U (st_tables (set_rows t rows db) u)" using wf t rows(2) u by (auto simp: store_wf_def)
  qed
qed

lemma keys_wf_assign:
  assumes "\<forall>K \<in> set (tb_unique T). set K \<inter> fst ` set sets = {}"
  shows "keys_wf T (map (\<lambda>r. if cond r then assign sets r else r) rows) = keys_wf T rows"
  unfolding keys_wf_def sorted_wrt_map using assms by (auto simp: same_key_assign)

lemma keys_wf_append: "keys_wf T rows \<Longrightarrow> filter (key_taken rows r) (tb_unique T) = [] \<Longrightarrow> keys_wf T (rows @ [r])"
  by (auto simp: keys_wf_def sorted_wrt_append filter_empty_conv key_taken_def list_ex_iff same_key_sym)

lemma assign_rows_wf:
  assumes wf: "store_wf db" and t: "schema t = Some T" and safe: "safe_sets t (map fst sets)"
    and ok: "list_all (\<lambda>r. nulls_ok T r \<and> refs_ok db T r) (map (\<lambda>r. if cond r then assign sets r else r) (st_tables db t))"
  shows "store_wf (set_rows t (map (\<lambda>r. if cond r then assign sets r else r) (st_tables db t)) db)"
proof (rule set_rows_wf [OF wf t])
  have "keys_wf T (st_tables db t)" using wf t by (auto simp: store_wf_def)
  then show "keys_wf T (map (\<lambda>r. if cond r then assign sets r else r) (st_tables db t))"
    using safe t by (subst keys_wf_assign) (auto simp: safe_sets_def)
  have "fst ` set sets \<subseteq> set (tb_columns T)" using safe t by (simp add: safe_sets_def)
  moreover have "r \<in> set (st_tables db t) \<Longrightarrow> fst ` set r \<subseteq> set (tb_columns T)" for r using wf t by (simp add: store_wf_def row_wf_def)
  ultimately have "r \<in> set (st_tables db t) \<Longrightarrow> fst ` set (if cond r then assign sets r else r) \<subseteq> set (tb_columns T)" for r by (simp add: columns_assign)
  then show "\<forall>r \<in> set (map (\<lambda>r. if cond r then assign sets r else r) (st_tables db t)). fst ` set r \<subseteq> set (tb_columns T) \<and> nulls_ok T r \<and> refs_ok db T r"
    using ok unfolding list_all_iff set_map by blast
  fix c v assume "(t, c) \<in> set referenced" and ex: "\<exists>r \<in> set (st_tables db t). row_get c r = v"
  then have "c \<notin> fst ` set sets" using safe by (auto simp: safe_sets_def)
  then have "row_get c (if cond r then assign sets r else r) = row_get c r" for r by (simp add: row_get_assign)
  then show "\<exists>r \<in> set (map (\<lambda>r. if cond r then assign sets r else r) (st_tables db t)). row_get c r = v"
    using ex unfolding set_map bex_simps(7) by simp
qed

lemma sql_update_wf: "safe_sets t (map fst sets) \<Longrightarrow> keeps store_wf (sql_update t cond sets)"
  unfolding keeps_def sql_update_def by (auto simp: Let_def split: option.splits intro: assign_rows_wf)

lemma append_row_wf:
  assumes wf: "store_wf db" and t: "schema t = Some T" and cols: "list_all (\<lambda>(c, _). c \<in> set (tb_columns T)) row"
    and r: "r = add_defaults db (tb_defaults T) row" "nulls_ok T r" "refs_ok db T r" "filter (key_taken (st_tables db t) r) (tb_unique T) = []"
  shows "store_wf (set_rows t (st_tables db t @ [r]) db)"
proof (rule set_rows_wf [OF wf t])
  have "fst ` set row \<subseteq> set (tb_columns T)" using cols by (auto simp: list_all_iff)
  then have "fst ` set r \<subseteq> set (tb_columns T)"
    using columns_defaults [of db "tb_defaults T" row] schema_checks(1) [OF t] unfolding r(1) by blast
  then show "\<forall>r \<in> set (st_tables db t @ [r]). fst ` set r \<subseteq> set (tb_columns T) \<and> nulls_ok T r \<and> refs_ok db T r"
    using wf t r by (auto simp: store_wf_def row_wf_def)
  show "keys_wf T (st_tables db t @ [r])" using wf t r(4) by (auto simp: store_wf_def intro: keys_wf_append)
qed auto

lemma set_rows_drawn: "set_rows t rows (db\<lparr>st_drawn := n\<rparr>) = (set_rows t rows db)\<lparr>st_drawn := n\<rparr>"
  by (simp add: set_rows_def)

lemma sql_insert_wf:
  assumes "safe_conflict t oc"
  shows "keeps store_wf (sql_insert t row oc)"
  unfolding keeps_def
proof (intro allI impI)
  fix db assume wf: "store_wf db"
  show "store_wf (snd (sql_insert t row oc db))"
  proof (cases "schema t")
    case None
    then show ?thesis using wf by (simp add: sql_insert_def)
  next
    case (Some T)
    let ?r = "add_defaults db (tb_defaults T) row"
    have new: "store_wf (set_rows t (st_tables db t @ [?r]) (db\<lparr>st_drawn := Suc (st_drawn db)\<rparr>))"
      if "list_all (\<lambda>(c, _). c \<in> set (tb_columns T)) row" "nulls_ok T ?r" "refs_ok db T ?r" "filter (key_taken (st_tables db t) ?r) (tb_unique T) = []"
      using append_row_wf [OF wf Some that(1) refl that(2-4)] by (simp add: set_rows_drawn)
    have upd: "store_wf (set_rows t (map (\<lambda>r'. if same_key K ?r r' then assign (map (\<lambda>c. (c, row_get c ?r)) cs) r' else r') (st_tables db t)) (db\<lparr>st_drawn := Suc (st_drawn db)\<rparr>))"
      if "oc = Update_On K cs" "list_all (\<lambda>r. nulls_ok T r \<and> refs_ok db T r) (map (\<lambda>r'. if same_key K ?r r' then assign (map (\<lambda>c. (c, row_get c ?r)) cs) r' else r') (st_tables db t))" for K cs
    proof -
      have "safe_sets t (map fst (map (\<lambda>c. (c, row_get c ?r)) cs))" using assms that(1) by (simp add: safe_conflict_def comp_def)
      from assign_rows_wf [OF wf Some this that(2)] show ?thesis by (simp add: set_rows_drawn)
    qed
    show ?thesis using wf new upd Some by (cases oc) (auto simp: sql_insert_def Let_def)
  qed
qed

lemma sql_delete_wf:
  assumes "t \<in> {''user_wallets'', ''note_vault_wrappers''}"
  shows "keeps store_wf (sql_delete t cond)"
  unfolding keeps_def
proof (intro allI impI)
  fix db assume wf: "store_wf db"
  have "t \<in> fst ` set user_tables" using assms by (auto simp: user_tables_def)
  then have "schema t \<noteq> None" unfolding schema_def map_of_eq_None_iff by auto
  then obtain T where T: "schema t = Some T" by blast
  have "store_wf (set_rows t (filter (\<lambda>r. \<not> cond r) (st_tables db t)) db)"
  proof (rule set_rows_wf [OF wf T])
    show "keys_wf T (filter (\<lambda>r. \<not> cond r) (st_tables db t))" using wf T by (auto simp: store_wf_def keys_wf_def sorted_wrt_filter)
    fix c v assume "(t, c) \<in> set referenced"
    then show "\<exists>r \<in> set (filter (\<lambda>r. \<not> cond r) (st_tables db t)). row_get c r = v" using assms by (auto simp: referenced_def)
  qed (use wf T in \<open>auto simp: store_wf_def row_wf_def\<close>)
  then show "store_wf (snd (sql_delete t cond db))" by (simp add: sql_delete_def)
qed

section \<open>What every operation keeps\<close>

named_theorems keeps_intro

lemma keeps_basic [keeps_intro]: "keeps I (returnIO x)" "keeps I (throwIO e)" "keeps I (liftIO r)" "keeps I (guardIO b msg)"
  by (auto simp: keeps_def returnIO_def throwIO_def liftIO_def guardIO_def)

lemma keeps_bind [keeps_intro]: "keeps I m \<Longrightarrow> (\<And>x. keeps I (f x)) \<Longrightarrow> keeps I (bindIO m f)"
  by (fastforce simp: keeps_def bindIO_def split: prod.splits sum.splits)

lemma keeps_catch [keeps_intro]: "keeps I m \<Longrightarrow> (\<And>e. keeps I (h e)) \<Longrightarrow> keeps I (catchIO m h)"
  by (fastforce simp: keeps_def catchIO_def split: prod.splits sum.splits)

lemma keeps_if [keeps_intro]: "(b \<Longrightarrow> keeps I m) \<Longrightarrow> (\<not> b \<Longrightarrow> keeps I m') \<Longrightarrow> keeps I (if b then m else m')"
  by simp

lemma keeps_option [keeps_intro]: "keeps I n \<Longrightarrow> (\<And>x. keeps I (s x)) \<Longrightarrow> keeps I (case y of None \<Rightarrow> n | Some x \<Rightarrow> s x)"
  by (cases y) auto

lemma keeps_list [keeps_intro]: "keeps I n \<Longrightarrow> (\<And>x xs. keeps I (s x xs)) \<Longrightarrow> keeps I (case ys of [] \<Rightarrow> n | x # xs \<Rightarrow> s x xs)"
  by (cases ys) auto

lemma keeps_let [keeps_intro]: "(\<And>x. keeps I (f x)) \<Longrightarrow> keeps I (let x = y in f x)"
  by simp

lemma keeps_read [keeps_intro]: "keeps I (sql_select t cond)" "keeps I nowIO"
  by (simp_all add: keeps_def sql_select_def nowIO_def)

text \<open>A property of the database that the statements of the program keep: inserts that create proof jobs only as
  queued, updates of other tables that leave the keys alone, deletes from two tables, and the queue.\<close>

locale store_invariant =
  fixes I :: "Store \<Rightarrow> bool"
  assumes insert: "\<And>t row oc. safe_conflict t oc \<Longrightarrow> (t = ''proof_jobs'' \<longrightarrow> is_text ''status'' ''queued'' row) \<Longrightarrow> keeps I (sql_insert t row oc)"
    and update: "\<And>t cond sets. safe_sets t (map fst sets) \<Longrightarrow> keeps I (sql_update t cond sets)"
    and delete: "\<And>t cond. t \<in> {''user_wallets'', ''note_vault_wrappers''} \<Longrightarrow> keeps I (sql_delete t cond)"
    and jobs: "\<And>db q. I db \<Longrightarrow> I (db\<lparr>st_jobs := q\<rparr>)"
    and drawn: "\<And>db n. I db \<Longrightarrow> I (db\<lparr>st_drawn := n\<rparr>)"
    and clock: "\<And>db t. I db \<Longrightarrow> I (db\<lparr>st_now := t\<rparr>)"

interpretation wf: store_invariant store_wf
  by unfold_locales (auto intro: sql_insert_wf sql_update_wf sql_delete_wf)

text \<open>No proof job is anything but queued: the table has no other writer.\<close>

definition proofs_queued :: "Store \<Rightarrow> bool" where
  "proofs_queued db \<longleftrightarrow> (\<forall>r \<in> set (st_tables db ''proof_jobs''). is_text ''status'' ''queued'' r)"

lemma is_text_defaults: "is_text c v r \<Longrightarrow> is_text c v (add_defaults db ds r)"
proof (induction db ds r rule: add_defaults.induct)
  case (2 db c' d ds r)
  have "c \<in> fst ` set r" using 2(3) by (auto simp: is_text_def row_get_def image_iff split: option.splits dest!: map_of_SomeD) force
  then show ?case using 2 by (auto simp: is_text_def row_get_def)
qed simp

lemma proofs_queued_rows: "proofs_queued (set_rows t rows db) \<longleftrightarrow> (if t = ''proof_jobs'' then (\<forall>r \<in> set rows. is_text ''status'' ''queued'' r) else proofs_queued db)"
  by (simp add: proofs_queued_def)

lemma proofs_queued_state [simp]: "proofs_queued (db\<lparr>st_drawn := n\<rparr>) = proofs_queued db" "proofs_queued (db\<lparr>st_now := m\<rparr>) = proofs_queued db"
  "proofs_queued (db\<lparr>st_jobs := q\<rparr>) = proofs_queued db"
  by (simp_all add: proofs_queued_def)

lemma proofs_queued_tables: "proofs_queued db \<Longrightarrow> r \<in> set (st_tables db ''proof_jobs'') \<Longrightarrow> is_text ''status'' ''queued'' r"
  by (simp add: proofs_queued_def)

lemma sql_insert_queued:
  assumes "safe_conflict t oc" "t = ''proof_jobs'' \<longrightarrow> is_text ''status'' ''queued'' row"
  shows "keeps proofs_queued (sql_insert t row oc)"
proof (cases "t = ''proof_jobs''")
  case False
  then show ?thesis
    by (auto simp: keeps_def sql_insert_def Let_def proofs_queued_rows split: option.splits on_conflict.splits)
next
  case True
  then have "\<not> (\<exists>K cs. oc = Update_On K cs)" using assms(1) by (auto simp: safe_conflict_def safe_sets_def)
  then show ?thesis using True assms(2)
    by (auto simp: keeps_def sql_insert_def Let_def proofs_queued_rows intro: is_text_defaults proofs_queued_tables split: option.splits on_conflict.splits)
qed

interpretation queued: store_invariant proofs_queued
proof
  show "keeps proofs_queued (sql_update t cond sets)" if "safe_sets t (map fst sets)" for t cond sets
    using that by (auto simp: keeps_def sql_update_def Let_def proofs_queued_rows safe_sets_def split: option.splits)
  show "keeps proofs_queued (sql_delete t cond)" if "t \<in> {''user_wallets'', ''note_vault_wrappers''}" for t cond
    using that by (auto simp: keeps_def sql_delete_def proofs_queued_rows)
qed (auto intro: sql_insert_queued)

text \<open>A finding of the root auditor stays: no statement updates or deletes one.\<close>

definition finding_kept :: "Row \<Rightarrow> Store \<Rightarrow> bool" where
  "finding_kept r db \<longleftrightarrow> r \<in> set (st_tables db ''root_audit_findings'')"

lemma finding_kept_simps [simp]:
  "finding_kept r (set_rows t rows db) \<longleftrightarrow> (if t = ''root_audit_findings'' then r \<in> set rows else finding_kept r db)"
  "finding_kept r (db\<lparr>st_drawn := n\<rparr>) = finding_kept r db" "finding_kept r (db\<lparr>st_now := m\<rparr>) = finding_kept r db" "finding_kept r (db\<lparr>st_jobs := q\<rparr>) = finding_kept r db"
  by (simp_all add: finding_kept_def)

lemma finding_kept_tables: "finding_kept r db \<Longrightarrow> r \<in> set (st_tables db ''root_audit_findings'')"
  by (simp add: finding_kept_def)

interpretation kept: store_invariant "finding_kept r" for r
proof
  show "keeps (finding_kept r) (sql_insert t row oc)" if "safe_conflict t oc" for t row oc
    using that by (auto simp: keeps_def sql_insert_def Let_def safe_conflict_def safe_sets_def intro: finding_kept_tables split: option.splits on_conflict.splits)
  show "keeps (finding_kept r) (sql_update t cond sets)" if "safe_sets t (map fst sets)" for t cond sets
    using that by (auto simp: keeps_def sql_update_def Let_def safe_sets_def split: option.splits)
  show "keeps (finding_kept r) (sql_delete t cond)" if "t \<in> {''user_wallets'', ''note_vault_wrappers''}" for t cond
    using that by (auto simp: keeps_def sql_delete_def)
qed auto

lemma safe_program_sets [simp, intro]:
  "safe_sets ''cctp_deposits'' [''source_tx_hash'', ''state'', ''updated_at'']"
  "safe_sets ''users'' [''last_login_at'', ''updated_at'']"
  "safe_sets ''note_vaults'' [''envelope'', ''ciphertext'', ''aad'', ''recovery_policy_status'', ''updated_at'']"
  "safe_sets ''note_vaults'' [''backup_status'', ''last_backup_verified_at'', ''updated_at'']"
  "safe_sets ''note_vaults'' [''backup_status'', ''last_restored_at'', ''updated_at'']"
  "safe_sets ''note_vaults'' [''backup_status'', ''updated_at'']"
  "safe_sets ''note_vaults'' [''backup_status'', ''last_backup_verified_at'', ''last_backup_verification'', ''updated_at'']"
  "safe_sets ''note_vaults'' [''recovery_policy_status'', ''updated_at'']"
  "safe_sets ''auth_nonces'' [''consumed_at'']"
  "safe_sets ''user_sessions'' [''revoked_at'']"
  "safe_sets ''user_profiles'' [''preferences'', ''updated_at'']"
  "safe_sets ''fills'' [''destination_tx_hash'', ''state'']"
  "safe_sets ''mpc_intents'' [''session_id'', ''updated_at'']"
  "safe_sets ''intents'' [''mpc_session_id'']"
  "safe_sets ''user_wallets'' [''user_id'', ''privy_user_id'', ''wallet_source'', ''chain'', ''privy_wallet_id'', ''verified_at'']"
  "safe_sets ''user_wallets'' [''chain'']"
  "safe_sets ''encrypted_note_backups'' [''encrypted_payload'']"
  "safe_sets ''cctp_deposits'' [''user_id'']" "safe_sets ''withdrawals'' [''user_id'']" "safe_sets ''intents'' [''user_id'']"
  "safe_sets ''settlements'' [''user_id'']" "safe_sets ''cctp_exits'' [''user_id'']"
  by (simp_all add: safe_sets_def schema_simps table_defs referenced_def)

lemma safe_sets_mono: "safe_sets t cs \<Longrightarrow> set cs' \<subseteq> set cs \<Longrightarrow> safe_sets t cs'"
  unfolding safe_sets_def by (intro conjI) (simp, blast, blast)

lemma safe_user_sets: "set cs \<subseteq> {''display_name'', ''email'', ''avatar_url'', ''updated_at''} \<Longrightarrow> safe_sets ''users'' cs"
proof (rule safe_sets_mono)
  show "safe_sets ''users'' [''display_name'', ''email'', ''avatar_url'', ''updated_at'']"
    by (simp add: safe_sets_def schema_simps table_defs referenced_def)
qed simp

lemma given_columns: "fst ` set (given cs body) \<subseteq> set cs"
  by (auto simp: given_def split: option.splits)

lemma safe_conflict_simps [simp]: "safe_conflict t Fail" "safe_conflict t Ignore_Any" "safe_conflict t (Ignore_On K)" "safe_conflict t (Update_On K cs) = safe_sets t cs"
  by (simp_all add: safe_conflict_def)

context store_invariant
begin

lemma insert_other: "t \<noteq> ''proof_jobs'' \<Longrightarrow> safe_conflict t oc \<Longrightarrow> keeps I (sql_insert t row oc)"
  by (rule insert) auto

lemma insertGeneric_keeps: "(t = ''proof_jobs'' \<longrightarrow> is_text ''status'' ''queued'' row) \<Longrightarrow> keeps I (insertGeneric t row)"
  unfolding insertGeneric_def by (intro keeps_intro insert) auto

lemma deposit_keeps: "keeps I (transition tr)" "keeps I (createUserDeposit ud)" "keeps I (upsertDeposit d)" "keeps I (setDepositBurnTx i h)"
    "keeps I (getDepositForUser u i)" "keeps I criticalRootMismatchCount" "keeps I (getById t c i)"
  unfolding transition_def createUserDeposit_def upsertDeposit_def setDepositBurnTx_def getDepositForUser_def criticalRootMismatchCount_def getById_def
  by (intro keeps_intro insert_other update; simp)+

lemma user_keeps: "keeps I (touch_user u)" "keeps I (upsertUserByPrivyId p em am)" "keeps I (upsertUserByWallet wt c a)" "keeps I (createSession_store u h e)"
    "keeps I (userIdForSession h)" "keeps I (revokeSession h)" "keeps I (createNonce wt a n m e)" "keeps I (consumeNonce wt a n)"
  unfolding touch_user_def upsertUserByPrivyId_def upsertUserByWallet_def createSession_store_def userIdForSession_def revokeSession_def createNonce_def consumeNonce_def
  by (intro keeps_intro insert_other update; simp)+

lemma vault_keeps: "keeps I (userOwnsVault u v)" "keeps I (userOwnsWallet u a ch)" "keeps I (createNoteVault u p v i)" "keeps I (listNoteVaults u)" "keeps I (getNoteVault u v)"
    "keeps I (updateNoteVault u v i)" "keeps I (setVaultBackupStatus u v s)" "keeps I (setVaultBackupVerified u v j)" "keeps I (setVaultRecoveryPolicy v s)"
    "keeps I (vaultDepositReady u v)" "keeps I (addVaultWrapper u v j k)" "keeps I (deleteVaultWrapper u v w)" "keeps I (listVaultWrappers v)"
    "keeps I (listNoteVaultsForRecovery u vo)" "keeps I (addNoteBackup u c e ve)"
  unfolding userOwnsVault_def userOwnsWallet_def createNoteVault_def listNoteVaults_def getNoteVault_def updateNoteVault_def setVaultBackupStatus_def
    setVaultBackupVerified_def setVaultRecoveryPolicy_def vaultDepositReady_def addVaultWrapper_def deleteVaultWrapper_def listVaultWrappers_def
    listNoteVaultsForRecovery_def addNoteBackup_def
  by (intro keeps_intro insert_other update delete; simp)+

lemma updateUser_keeps: "keeps I (updateUser u changes)"
proof -
  have "safe_sets ''users'' (map fst (given [''display_name'', ''email'', ''avatar_url''] changes @ [(''updated_at'', JNum now)]))" for now
    using given_columns [of "[''display_name'', ''email'', ''avatar_url'']" changes] by (intro safe_user_sets) auto
  then show ?thesis unfolding updateUser_def Let_def by (intro keeps_intro update) simp_all
qed

lemma syncPrivyWallets_keeps: "keeps I (syncPrivyWallets u p ws)"
  by (induction ws) (auto intro!: keeps_intro insert_other)

lemma profile_keeps: "keeps I (listWallets u)" "keeps I (getUser u)" "keeps I (addWallet u wt c a)" "keeps I (deleteWallet u w)" "keeps I (logActivity uo ev d)"
    "keeps I (listActivity u n)" "keeps I (listByUser t u)"
  unfolding getUser_def listWallets_def addWallet_def deleteWallet_def logActivity_def listActivity_def listByUser_def
  by (intro keeps_intro insert_other update delete; simp)+

lemma rfq_keeps: "keeps I (rfqLifecycle i q)" "keeps I (isNullifierSpent n)" "keeps I (listQuotesByIntent i)" "keeps I (executeFill f h)" "keeps I (setRowUser t c i u)"
    "keeps I (getOwnedSettlements u ids)" "keeps I (getOwnedNoteCommitments u cs)" "keeps I (getAnchorIdsForSettlements ids)" "keeps I (insertViewKeyReport row)"
    "keeps I (getViewKeyReport u ri)"
  unfolding rfqLifecycle_def isNullifierSpent_def listQuotesByIntent_def executeFill_def setRowUser_def getOwnedSettlements_def getOwnedNoteCommitments_def
    getAnchorIdsForSettlements_def insertViewKeyReport_def getViewKeyReport_def
  by (intro keeps_intro insert_other update delete; auto)+

lemma queue_keeps: "keeps I (queue_enqueue q ty p key)"
  by (auto simp: keeps_def queue_enqueue_def split: sum.splits intro: jobs drawn)

lemmas store_keeps = queue_keeps insertGeneric_keeps deposit_keeps user_keeps vault_keeps updateUser_keeps syncPrivyWallets_keeps profile_keeps rfq_keeps

end

end
