(* ===== verification/Note_Crypto.thy ===== *)
theory Note_Crypto
  imports Proving
begin

text \<open>
  Note commitments and nullifiers of \<open>packages/note-crypto/src/index.ts\<close>.  A note is the object the caller passes,
  as parsed; the Poseidon permutation of \<open>@iden3/js-crypto\<close> and SHA-256 are parameters.
\<close>

section \<open>The code\<close>

definition FIELD_MODULUS :: int where
  "FIELD_MODULUS = 21888242871839275222246405745257275088548364400416034343698204186575808495617"

text \<open>\<open>createHash("sha256").update(value)\<close> throws for anything but text.\<close>

definition fieldFromString :: "(bytes \<Rightarrow> bytes) \<Rightarrow> json option \<Rightarrow> int result" where
  "fieldFromString sha256 v =
    (case v of
       Some (JStr s) \<Rightarrow> bindR (BigInt (''0x'' @ hex_encode (sha256 (utf8_encode s)))) (\<lambda>n. Inr (n smod FIELD_MODULUS))
     | _ \<Rightarrow> Inl (Type_Error ''The data argument must be of type string''))"

definition fieldFromHex :: "json option \<Rightarrow> int result" where
  "fieldFromHex v = bindR (BigInt_json v) (\<lambda>n. Inr (n smod FIELD_MODULUS))"

definition noteToFields :: "(bytes \<Rightarrow> bytes) \<Rightarrow> json \<Rightarrow> int list result" where
  "noteToFields H note =
    bindR (fieldFromString H (json_get ''assetId'' note)) (\<lambda>asset.
    bindR (BigInt_json (json_get ''amount7dp'' note)) (\<lambda>amount.
    bindR (fieldFromString H (json_get ''ownerPublicKey'' note)) (\<lambda>owner.
    bindR (fieldFromString H (json_get ''spendPublicKey'' note)) (\<lambda>spend.
    bindR (fieldFromHex (json_get ''blinding'' note)) (\<lambda>blinding.
    bindR (fieldFromHex (json_get ''nonce'' note)) (\<lambda>nonce.
    bindR (fieldFromString H (json_get ''complianceTag'' note)) (\<lambda>tag.
    bindR (fieldFromString H (json_get ''sourceContext'' note)) (\<lambda>ctxt.
    bindR (fieldFromString H (json_get ''memoCommitment'' note)) (\<lambda>memo.
    Inr [asset, amount, owner, spend, blinding, nonce, tag, ctxt, memo])))))))))"

definition poseidonCommitment :: "(int list \<Rightarrow> int result) \<Rightarrow> (bytes \<Rightarrow> bytes) \<Rightarrow> json \<Rightarrow> string result" where
  "poseidonCommitment poseidon H note = bindR (noteToFields H note) (\<lambda>fs. bindR (poseidon fs) (\<lambda>digest. Inr (hex32_of digest)))"

definition nullifier_domain :: string where
  "nullifier_domain = ''lumixprotocol:nullifier:v1''"

definition deriveNullifier :: "(int list \<Rightarrow> int result) \<Rightarrow> (bytes \<Rightarrow> bytes) \<Rightarrow> json \<Rightarrow> string \<Rightarrow> string result" where
  "deriveNullifier poseidon H note domain =
    bindR (fieldFromString H (Some (JStr domain))) (\<lambda>d.
    bindR (fieldFromHex (json_get ''nonce'' note)) (\<lambda>nonce.
    bindR (fieldFromHex (json_get ''blinding'' note)) (\<lambda>blinding.
    bindR (fieldFromString H (json_get ''ownerPublicKey'' note)) (\<lambda>owner.
    bindR (poseidon [d, nonce, blinding, owner]) (\<lambda>digest. Inr (hex32_of digest))))))"

text \<open>\<open>{...input, blinding, nonce}\<close> with two draws of 32 random bytes.\<close>

definition generateNotePreimage :: "(string \<times> json) list \<Rightarrow> bytes \<Rightarrow> bytes \<Rightarrow> json" where
  "generateNotePreimage input r1 r2 =
    JObj (filter (\<lambda>(k, _). k \<noteq> ''blinding'' \<and> k \<noteq> ''nonce'') input @ [(''blinding'', JStr (''0x'' @ hex_encode r1)), (''nonce'', JStr (''0x'' @ hex_encode r2))])"

section \<open>Commitments bind\<close>

lemma hex32_of_inject_int: "0 \<le> a \<Longrightarrow> 0 \<le> b \<Longrightarrow> hex32_of a = hex32_of b \<longleftrightarrow> a = b"
  using hex32_of_inject [of "nat a" "nat b"] by auto

lemma noteToFields_amount: "noteToFields H note = Inr fs \<Longrightarrow> BigInt_json (json_get ''amount7dp'' note) = Inr (fs ! 1) \<and> length fs = 9"
  by (auto simp: noteToFields_def bindR_Inr_iff)

text \<open>A commitment binds its note.  Two notes with the same commitment have the same nine field elements, the amount
  unreduced among them, unless Poseidon collides on the two lists of field elements.\<close>
theorem commitment_binds:
  assumes "\<And>fs d. poseidon fs = Inr d \<Longrightarrow> 0 \<le> d"
    and "poseidonCommitment poseidon H note = Inr c" "poseidonCommitment poseidon H note' = Inr c"
  shows "\<exists>fs fs'. noteToFields H note = Inr fs \<and> noteToFields H note' = Inr fs' \<and>
    (fs = fs' \<and> BigInt_json (json_get ''amount7dp'' note) = BigInt_json (json_get ''amount7dp'' note') \<or> fs \<noteq> fs' \<and> poseidon fs = poseidon fs')"
proof -
  obtain fs d where n: "noteToFields H note = Inr fs" "poseidon fs = Inr d" "c = hex32_of d" using assms(2) by (auto simp: poseidonCommitment_def bindR_Inr_iff)
  obtain fs' d' where n': "noteToFields H note' = Inr fs'" "poseidon fs' = Inr d'" "c = hex32_of d'" using assms(3) by (auto simp: poseidonCommitment_def bindR_Inr_iff)
  have "d = d'" using hex32_of_inject_int [of d d'] assms(1) n n' by auto
  then show ?thesis using n n' noteToFields_amount [OF n(1)] noteToFields_amount [OF n'(1)] by auto
qed

definition demo_note :: json where
  "demo_note = JObj [(''assetId'', JStr ''USDC''), (''amount7dp'', JStr ''5''), (''ownerPublicKey'', JStr ''o''), (''spendPublicKey'', JStr ''s''), (''blinding'', JStr ''0x1''),
    (''nonce'', JStr ''0x2''), (''complianceTag'', JStr ''t''), (''sourceContext'', JStr ''c''), (''memoCommitment'', JStr ''m'')]"

definition sum_poseidon :: "int list \<Rightarrow> int result" where
  "sum_poseidon fs = Inr \<bar>sum_list fs\<bar>"

lemma demo_fields: "noteToFields (\<lambda>_. [1]) demo_note = Inr [1, 5, 1, 1, 1, 2, 1, 1, 1]"
proof -
  have numbers: "BigInt (''0x'' @ hex_encode [1]) = Inr 1" "BigInt ''0x1'' = Inr 1" "BigInt ''0x2'' = Inr 2" "BigInt ''5'' = Inr 5" by code_simp+
  have small: "1 smod FIELD_MODULUS = 1" "2 smod FIELD_MODULUS = 2" by (simp_all add: FIELD_MODULUS_def signed_modulo_int_def signed_divide_int_def)
  have hashed: "fieldFromString (\<lambda>_. [1]) (Some (JStr s)) = Inr 1" for s by (simp only: fieldFromString_def option.case json.case numbers bindR_simps small)
  show ?thesis by (simp add: noteToFields_def demo_note_def json_get_def hashed fieldFromHex_def BigInt_json_def numbers small)
qed

theorem commitment_binds_witness: "\<exists>c. poseidonCommitment sum_poseidon (\<lambda>_. [1]) demo_note = Inr c \<and>
    (\<exists>fs. noteToFields (\<lambda>_. [1]) demo_note = Inr fs \<and> BigInt_json (json_get ''amount7dp'' demo_note) = Inr 5)"
proof -
  have "\<And>fs d. sum_poseidon fs = Inr d \<Longrightarrow> 0 \<le> d" by (simp add: sum_poseidon_def)
  moreover have run: "poseidonCommitment sum_poseidon (\<lambda>_. [1]) demo_note = Inr (hex32_of 14)" by (simp add: poseidonCommitment_def demo_fields sum_poseidon_def)
  ultimately obtain fs where "noteToFields (\<lambda>_. [1]) demo_note = Inr fs" using commitment_binds [of sum_poseidon "\<lambda>_. [1]" demo_note "hex32_of 14" demo_note] by blast
  then show ?thesis using run noteToFields_amount [OF demo_fields] by simp
qed

end
