(* ===== verification/Api_Auth.thy ===== *)
theory Api_Auth
  imports Api_Store Rfq Note_Vault Note_Crypto
begin

text \<open>
  Requests to the API and who makes them: \<open>apps/api/src/schemas.ts\<close>, \<open>apps/api/src/auth.ts\<close>,
  \<open>packages/auth-privy/src/index.ts\<close>, \<open>packages/shared-types/src/ids.ts\<close> and the error handler of \<open>server.ts\<close>.
  The schemas are data; the validating library, the signature checks and the key of the identity provider are
  parameters.  A handler works on the database and an outside world, and ends with a status code and a body.
\<close>

section \<open>Schemas\<close>

datatype text_format = Any_Text | Min nat | Max nat | Digits | Hex0x nat | Hex nat | Decimal | Uuid | Email nat | Url nat | Datetime | Wallet_Address

datatype presence = Required | Optional | Default json

datatype zod = Z_text text_format | Z_int | Z_pos_int | Z_bool | Z_literal json | Z_enum "string list" | Z_record
  | Z_array zod nat "nat option" | Z_object "(string \<times> presence \<times> zod) list"

abbreviation req :: "string \<Rightarrow> zod \<Rightarrow> string \<times> presence \<times> zod" where "req k z \<equiv> (k, Required, z)"
abbreviation opt :: "string \<Rightarrow> zod \<Rightarrow> string \<times> presence \<times> zod" where "opt k z \<equiv> (k, Optional, z)"
abbreviation text1 :: zod where "text1 \<equiv> Z_text (Min 1)"

definition idempotencyHeader :: zod where "idempotencyHeader = Z_object [req ''idempotency-key'' (Z_text (Min 8))]"

definition prepareDepositSchema :: zod where
  "prepareDepositSchema = Z_object [req ''amount_usdc_6dp'' (Z_text Digits), req ''asset_id'' text1, req ''owner_public_key'' text1, req ''spend_public_key'' text1,
    req ''compliance_tag'' text1, req ''source_context'' text1, req ''memo_commitment'' text1, req ''encrypted_note_payload_hash'' text1, req ''policy_id'' text1,
    req ''lumixprotocol_vault_contract'' text1]"

definition proofRequestSchema :: zod where
  "proofRequestSchema = Z_object [req ''proof_type'' (Z_enum [''deposit_note_mint'', ''withdraw_public'', ''withdraw_cctp'', ''rfq_settlement'', ''private_transfer'']),
    req ''public_inputs'' Z_record, opt ''witness'' Z_record]"

definition withdrawalSchema :: zod where
  "withdrawalSchema = Z_object [req ''root'' text1, req ''nullifier'' text1, req ''asset_id'' text1, req ''amount_public'' (Z_text Digits), req ''recipient'' text1,
    req ''relayer_fee'' (Z_text Digits), req ''deadline_ledger'' Z_pos_int, req ''policy_id'' text1, req ''pool_id'' text1, req ''chain_id'' text1]"

definition quoteAcceptanceSchema :: zod where
  "quoteAcceptanceSchema = Z_object [req ''intent_hash'' text1, req ''user_signature_hash'' text1]"

definition lockSchema :: zod where
  "lockSchema = Z_object [req ''solver_id'' text1, req ''lock_hash'' text1, req ''amount'' text1, req ''asset'' text1, req ''expires_at_ledger'' Z_pos_int]"

definition fillSchema :: zod where
  "fillSchema = Z_object [req ''quote_id'' (Z_text Uuid), req ''fill_receipt_hash'' text1, opt ''destination_tx_hash'' (Z_text Any_Text), req ''amount'' text1, req ''recipient'' text1]"

definition settlementSchema :: zod where
  "settlementSchema = Z_object [req ''intent_hash'' text1, req ''quote_id'' (Z_text Uuid), opt ''fill_id'' (Z_text Any_Text), opt ''fill_receipt_hash'' (Z_text Any_Text),
    req ''proof_job_id'' text1, req ''nullifier'' text1]"

definition cctpExitSchema :: zod where
  "cctpExitSchema = Z_object [req ''nullifier'' text1, req ''destination_domain'' Z_int, req ''destination_recipient'' text1, req ''amount_usdc_7dp'' (Z_text Digits),
    req ''relayer_fee'' (Z_text Digits)]"

definition wallet_types :: zod where "wallet_types = Z_enum [''EVM'', ''STELLAR'']"

definition authNonceSchema :: zod where "authNonceSchema = Z_object [req ''wallet_type'' wallet_types, req ''address'' text1]"

definition authVerifySchema :: zod where "authVerifySchema = Z_object [req ''address'' text1, req ''signature'' text1, req ''nonce'' text1]"

definition updateMeSchema :: zod where
  "updateMeSchema = Z_object [opt ''display_name'' (Z_text (Max 100)), opt ''email'' (Z_text (Email 200)), opt ''avatar_url'' (Z_text (Url 500)), opt ''preferences'' Z_record]"

definition addWalletSchema :: zod where
  "addWalletSchema = Z_object [req ''wallet_type'' wallet_types, req ''address'' text1, req ''signature'' text1, req ''nonce'' text1]"

definition noteBackupSchema :: zod where
  "noteBackupSchema = Z_object [req ''commitment'' text1, req ''encrypted_payload'' text1, (''encryption_version'', Default (JStr ''v1''), Z_text Any_Text)]"

definition requestQuotesSchema :: zod where
  "requestQuotesSchema = Z_object [req ''amount'' (Z_text Digits), opt ''expiry_ledger'' Z_pos_int]"

definition vaultWrapperSchema :: zod where
  "vaultWrapperSchema = Z_object [req ''id'' (Z_text Any_Text),
    req ''type'' (Z_enum [''passkey_prf'', ''stellar_ed25519_signature'', ''recovery_file_secret'', ''recovery_kit_password'', ''evm_signature'']),
    req ''status'' (Z_enum [''active'', ''revoked'']), req ''kdf'' (Z_enum [''HKDF-SHA256'', ''PBKDF2-SHA256'']), req ''salt'' (Z_text Any_Text),
    req ''wrapped_key'' (Z_text Any_Text), opt ''diagnostic_only'' Z_bool, req ''metadata'' Z_record]"

definition encryptedVaultEnvelopeSchema :: zod where
  "encryptedVaultEnvelopeSchema = Z_object [req ''version'' (Z_literal (JStr ''lumixprotocol-encrypted-vault-v1'')), req ''vault_id'' text1, req ''privy_user_id'' text1,
    req ''cipher'' (Z_object [req ''name'' (Z_literal (JStr ''AES-256-GCM'')), req ''iv'' (Z_text Any_Text), req ''tagLength'' (Z_literal (JNum 128))]), req ''aad'' Z_record,
    req ''ciphertext'' text1, req ''wrappers'' (Z_array vaultWrapperSchema 0 None)]"

definition addWrapperSchema :: zod where
  "addWrapperSchema = Z_object [req ''wrapper'' vaultWrapperSchema, req ''envelope'' encryptedVaultEnvelopeSchema]"

definition userDepositPrepareSchema :: zod where
  "userDepositPrepareSchema = Z_object [req ''amount_usdc_6dp'' (Z_text Digits), req ''source_chain'' text1, req ''source_wallet_address'' (Z_text (Hex0x 40)),
    req ''vault_id'' text1, req ''commitment'' text1, req ''encrypted_note_payload_hash'' text1, req ''policy_id'' text1]"

definition burnSubmittedSchema :: zod where
  "burnSubmittedSchema = Z_object [req ''burn_tx_hash'' (Z_text (Hex0x 64)), req ''source_chain'' text1, req ''source_wallet_address'' (Z_text (Hex0x 40))]"

definition syncPrivyWalletsSchema :: zod where
  "syncPrivyWalletsSchema = Z_object [req ''wallets'' (Z_array (Z_object [req ''wallet_type'' wallet_types,
    opt ''wallet_source'' (Z_enum [''privy_embedded'', ''external'', ''freighter'', ''legacy'']), req ''chain'' text1, req ''address'' (Z_text Wallet_Address),
    opt ''privy_wallet_id'' (Z_text Any_Text)]) 1 None)]"

definition noteRecoverSchema :: zod where "noteRecoverSchema = Z_object [opt ''vault_id'' text1]"

definition verifyBackupSchema :: zod where
  "verifyBackupSchema = Z_object [req ''verification'' (Z_object [req ''vault_id'' text1, req ''decrypted_vault_hash'' (Z_text (Min 8)), req ''commitments_hash'' text1,
    req ''method'' (Z_enum [''stellar_ed25519_signature'', ''recovery_file_secret'', ''recovery_kit_password'', ''passkey_prf'']), req ''verified_at_client'' text1])]"

definition viewKeyReportSchema :: zod where
  "viewKeyReportSchema = Z_object [(''settlement_ids'', Default (JArr []), Z_array text1 0 (Some 200)), (''note_commitments'', Default (JArr []), Z_array text1 0 (Some 200)),
    opt ''time_range_from'' (Z_text Datetime), opt ''time_range_to'' (Z_text Datetime), opt ''quote_id'' text1, opt ''policy_id'' text1, opt ''anchor_id'' text1,
    (''disclose_amounts'', Default (JBool False), Z_bool), opt ''attachment_recipient_pubkey'' (Z_text (Hex 64))]"

definition intentSchema :: zod where
  "intentSchema = Z_object [req ''intent_type'' (Z_literal (JStr ''PRIVATE_RFQ'')), req ''version'' (Z_literal (JStr ''1.0'')), req ''user_pubkey_commitment'' text1,
    req ''input_asset'' text1, req ''output_asset'' text1, req ''amount_mode'' (Z_enum [''exact_in'', ''exact_out'', ''max_in'']), req ''amount_commitment'' text1,
    req ''min_output_commitment'' text1, req ''expiry_ledger'' Z_pos_int, req ''allowed_solvers_root'' text1, req ''compliance_policy_id'' text1,
    req ''destination_commitment'' text1, req ''replay_domain'' (Z_literal (JStr ''lumixprotocol:stellar:testnet:rfq:v1'')), req ''signature'' text1,
    opt ''note_nullifier'' text1, opt ''note_commitment'' text1, opt ''recipient_commitment'' text1,
    opt ''encrypted_shares'' (Z_array (Z_object [req ''nodeId'' text1, req ''ciphertext'' text1, req ''nonce'' text1, req ''senderPubkey'' text1]) 0 None)]"

definition quoteSchema :: zod where
  "quoteSchema = Z_object [req ''quote_id'' (Z_text Uuid), req ''intent_hash'' text1, req ''solver_id'' text1, req ''input_asset'' text1, req ''output_asset'' text1,
    req ''gross_input'' (Z_text Decimal), req ''net_output'' (Z_text Decimal), req ''fee'' (Z_text Decimal), req ''valid_until_ledger'' Z_pos_int,
    req ''solver_inventory_commitment'' text1, req ''settlement_method'' (Z_enum [''private_note'', ''stellar_payout'', ''cctp_exit'', ''proof_of_fill'']), req ''quote_signature'' text1]"

text \<open>What the library promises of a value it accepts; the formats of addresses of mail, pages and dates are not
  spelled out.\<close>

definition is_hex :: "string \<Rightarrow> bool" where
  "is_hex s = list_all (\<lambda>c. char_digit 16 c \<noteq> None) s"

fun has_format :: "text_format \<Rightarrow> string \<Rightarrow> bool" where
  "has_format (Min n) s = (n \<le> length s)"
| "has_format (Max n) s = (length s \<le> n)"
| "has_format Digits s = (s \<noteq> [] \<and> list_all ascii_digit s)"
| "has_format (Hex0x n) s = (length s = n + 2 \<and> take 2 s = ''0x'' \<and> is_hex (drop 2 s))"
| "has_format (Hex n) s = (length s = n \<and> is_hex s)"
| "has_format (Email n) s = (length s \<le> n)"
| "has_format (Url n) s = (length s \<le> n)"
| "has_format _ s = True"

fun conforms :: "zod \<Rightarrow> json \<Rightarrow> bool" where
  "conforms (Z_text f) j = (case j of JStr s \<Rightarrow> has_format f s | _ \<Rightarrow> False)"
| "conforms Z_int j = (case j of JNum _ \<Rightarrow> True | _ \<Rightarrow> False)"
| "conforms Z_pos_int j = (case j of JNum n \<Rightarrow> 0 < n | _ \<Rightarrow> False)"
| "conforms Z_bool j = (case j of JBool _ \<Rightarrow> True | _ \<Rightarrow> False)"
| "conforms (Z_literal l) j = (j = l)"
| "conforms (Z_enum vs) j = (case j of JStr s \<Rightarrow> s \<in> set vs | _ \<Rightarrow> False)"
| "conforms Z_record j = (case j of JObj _ \<Rightarrow> True | _ \<Rightarrow> False)"
| "conforms (Z_array z lo hi) j = (case j of JArr js \<Rightarrow> lo \<le> length js \<and> (case hi of None \<Rightarrow> True | Some n \<Rightarrow> length js \<le> n) \<and> list_all (conforms z) js | _ \<Rightarrow> False)"
| "conforms (Z_object fs) j =
    (case j of
       JObj ms \<Rightarrow> list_all (\<lambda>(k, p, z). case json_get k j of Some v \<Rightarrow> conforms z v | None \<Rightarrow> p = Optional) fs \<and> set (map fst ms) \<subseteq> set (map fst fs) \<and> distinct (map fst ms)
     | _ \<Rightarrow> False)"

section \<open>Requests and replies\<close>

record Request =
  rq_headers :: "string \<Rightarrow> string option"
  rq_params :: "string \<Rightarrow> string"
  rq_body :: "json option"

text \<open>The parameters: environment, libraries, clock, random bytes, and the services on the other side of \<open>fetch\<close>,
  called with method, address, authorization and body.  \<open>ap_parse\<close> is \<open>schema.parse\<close>, \<open>None\<close> when it throws.\<close>

record ('w) Api =
  ap_env :: env
  ap_parse :: "zod \<Rightarrow> json option \<Rightarrow> json option"
  ap_lib :: RfqLib
  ap_strkey :: StrKey
  ap_poseidon :: "int list \<Rightarrow> int result"
  ap_getAddress :: "string \<Rightarrow> string result"
  ap_verifyMessage :: "string \<Rightarrow> string \<Rightarrow> string result"
  ap_verifyEd25519 :: "string \<Rightarrow> bytes \<Rightarrow> bytes \<Rightarrow> bool result"
  ap_verificationKey :: "string option \<Rightarrow> ('w, bytes \<Rightarrow> bytes \<Rightarrow> bool) io"
  ap_now :: "('w, int) io"
  ap_randomBytes :: "nat \<Rightarrow> ('w, bytes) io"
  ap_randomUUID :: "('w, string) io"
  ap_fetch :: "string \<Rightarrow> string \<Rightarrow> string option \<Rightarrow> json option \<Rightarrow> ('w, HttpResponse) io"

type_synonym ('w, 'a) api = "(Store \<times> 'w, 'a) io"

definition onStore :: "(Store, 'a) io \<Rightarrow> ('w, 'a) api" where
  "onStore m s = (case s of (db, w) \<Rightarrow> (case m db of (r, db') \<Rightarrow> (r, (db', w))))"

definition onOut :: "('w, 'a) io \<Rightarrow> ('w, 'a) api" where
  "onOut m s = (case s of (db, w) \<Rightarrow> (case m w of (r, w') \<Rightarrow> (r, (db, w'))))"

type_synonym reply = "nat \<times> json"

text \<open>\<open>return {...}\<close>, \<open>reply.code(c); return {error: m}\<close>, and an error thrown with a status.\<close>

definition reply :: "(string \<times> json) list \<Rightarrow> ('w, reply) api" where
  "reply ms = returnIO (200, JObj ms)"

definition coded :: "nat \<Rightarrow> string \<Rightarrow> ('w, reply) api" where
  "coded c m = returnIO (c, JObj [(''error'', JStr m)])"

definition fail :: "nat \<Rightarrow> string \<Rightarrow> ('w, 'a) api" where
  "fail c m = throwIO (Status_Error c m)"

definition parse_with :: "'w Api \<Rightarrow> zod \<Rightarrow> json option \<Rightarrow> ('w, json) api" where
  "parse_with A z j = (case ap_parse A z j of Some v \<Rightarrow> returnIO v | None \<Rightarrow> fail 400 ''invalid request body'')"

text \<open>The error handler: a thrown status is the status of the reply, everything else is 500.\<close>

fun error_reply :: "js_error \<Rightarrow> reply" where
  "error_reply (Status_Error c m) = (c, JObj [(''error'', JStr m)])"
| "error_reply e = (500, JObj [(''error'', JStr (err_message e))])"

definition served :: "('w, reply) api \<Rightarrow> Store \<times> 'w \<Rightarrow> reply \<times> (Store \<times> 'w)" where
  "served h s = (case h s of (Inr r, s') \<Rightarrow> (r, s') | (Inl e, s') \<Rightarrow> (error_reply e, s'))"

text \<open>A member that the schema makes a text; other members as they are, \<open>undefined\<close> as null.\<close>

definition text_of :: "string \<Rightarrow> json \<Rightarrow> string" where
  "text_of k b = (case json_get k b of Some (JStr s) \<Rightarrow> s | _ \<Rightarrow> [])"

definition opt_text :: "string \<Rightarrow> json \<Rightarrow> string option" where
  "opt_text k b = (case json_get k b of Some (JStr s) \<Rightarrow> Some s | _ \<Rightarrow> None)"

definition member :: "string \<Rightarrow> json \<Rightarrow> json" where
  "member k b = (case json_get k b of Some v \<Rightarrow> v | None \<Rightarrow> JNull)"

definition members :: "json \<Rightarrow> Row" where
  "members b = (case b of JObj ms \<Rightarrow> ms | _ \<Rightarrow> [])"

text \<open>\<open>{...a, ...b}\<close>: a member of \<open>b\<close> replaces the member of that name.\<close>

definition spread :: "Row \<Rightarrow> Row \<Rightarrow> Row" where
  "spread a b = foldl (\<lambda>r (k, v). AList.update k v r) a b"

section \<open>Identifiers\<close>

definition NUL :: string where "NUL = [CHR 0x00]"

definition deterministicId :: "RfqLib \<Rightarrow> string \<Rightarrow> string list \<Rightarrow> string" where
  "deterministicId L namespace parts = namespace @ ''_'' @ take 32 (sha256_text L (namespace @ NUL @ js_join NUL parts))"

definition hashJson :: "RfqLib \<Rightarrow> json \<Rightarrow> string" where
  "hashJson L v = ''0x'' @ sha256_text L (stable (rl_localeCompare L) v)"

section \<open>Wallet sessions\<close>

definition SESSION_TTL_MS :: int where "SESSION_TTL_MS = 1000 * 60 * 60 * 24 * 7"
definition NONCE_TTL_MS :: int where "NONCE_TTL_MS = 1000 * 60 * 10"
definition COOKIE :: string where "COOKIE = ''lumixprotocol_session''"

definition authMessage :: "string \<Rightarrow> string \<Rightarrow> string \<Rightarrow> string" where
  "authMessage walletType address nonce =
    ''LumixProtocol Testnet wants you to sign in with your '' @ walletType @ '' wallet:'' @ [CHR 0x0A] @ address @ [CHR 0x0A, CHR 0x0A] @ ''Nonce: '' @ nonce"

definition normalizeAddress :: "'w Api \<Rightarrow> string \<Rightarrow> string \<Rightarrow> string result" where
  "normalizeAddress A walletType address = (if walletType = ''EVM'' then ap_getAddress A address else Inr address)"

text \<open>\<open>Buffer.from(s, "base64")\<close> reads both alphabets and skips every other character.\<close>

definition std_b64 :: "char \<Rightarrow> char" where
  "std_b64 c = (if c = CHR ''-'' then CHR ''+'' else if c = CHR ''_'' then CHR ''/'' else c)"

definition buffer_base64 :: "string \<Rightarrow> bytes" where
  "buffer_base64 s = b64_bytes (List.map_filter (b64_value \<circ> std_b64) s)"

definition stellar_signature :: "string \<Rightarrow> bytes" where
  "stellar_signature s =
    (if s \<noteq> [] \<and> is_hex s \<and> length s = 128 then hex_decode s else buffer_base64 s)"

definition verifyWalletSignature :: "'w Api \<Rightarrow> string \<Rightarrow> string \<Rightarrow> string \<Rightarrow> string \<Rightarrow> bool" where
  "verifyWalletSignature A walletType address message signature =
    (case (if walletType = ''EVM''
           then bindR (ap_verifyMessage A message signature) (\<lambda>recovered. bindR (ap_getAddress A recovered) (\<lambda>r. bindR (ap_getAddress A address) (\<lambda>a. Inr (r = a))))
           else ap_verifyEd25519 A address (utf8_encode message) (stellar_signature signature)) of
       Inr b \<Rightarrow> b
     | Inl _ \<Rightarrow> False)"

fun percent_decode :: "string \<Rightarrow> bytes option" where
  "percent_decode [] = Some []"
| "percent_decode (c # s) =
    (if c = CHR ''%'' then
       (case s of
          h # l # r \<Rightarrow> (case parse_radix 16 [h, l] of Some n \<Rightarrow> map_option ((#) (byte_of n)) (percent_decode r) | None \<Rightarrow> None)
        | _ \<Rightarrow> None)
     else map_option ((@) (utf8_char c)) (percent_decode s))"

definition decodeURIComponent :: "string \<Rightarrow> string result" where
  "decodeURIComponent s =
    (case Option.bind (percent_decode s) utf8_decode of Some t \<Rightarrow> Inr t | None \<Rightarrow> Inl (Js_Error ''URI malformed''))"

text \<open>The bearer token, or the named cookie.\<close>

fun find_cookie :: "string \<Rightarrow> string list \<Rightarrow> string option result" where
  "find_cookie name [] = Inr None"
| "find_cookie name (part # ps) =
    (case js_split CHR ''='' (js_trim part) of
       k # v # _ \<Rightarrow> if k = name \<and> v \<noteq> [] then bindR (decodeURIComponent v) (\<lambda>t. Inr (Some t)) else find_cookie name ps
     | _ \<Rightarrow> find_cookie name ps)"

definition read_token :: "string \<Rightarrow> Request \<Rightarrow> string option result" where
  "read_token name rq =
    (case rq_headers rq ''authorization'' of
       Some a \<Rightarrow> if starts_with a ''Bearer '' then Inr (Some (js_trim (drop 7 a)))
                 else find_cookie name (case rq_headers rq ''cookie'' of Some c \<Rightarrow> js_split CHR '';'' c | None \<Rightarrow> [])
     | None \<Rightarrow> find_cookie name (case rq_headers rq ''cookie'' of Some c \<Rightarrow> js_split CHR '';'' c | None \<Rightarrow> []))"

definition readSessionToken :: "Request \<Rightarrow> string option result" where
  "readSessionToken rq = read_token COOKIE rq"

definition no_token :: "string option \<Rightarrow> bool" where
  "no_token t \<longleftrightarrow> t = None \<or> t = Some []"

definition requireUser :: "'w Api \<Rightarrow> Request \<Rightarrow> ('w, string) api" where
  "requireUser A rq =
    bindIO (liftIO (readSessionToken rq)) (\<lambda>token.
    if no_token token then fail 401 ''authentication required''
    else bindIO (onStore (userIdForSession (sha256_text (ap_lib A) (the token)))) (\<lambda>u.
      case u of Some userId \<Rightarrow> returnIO userId | None \<Rightarrow> fail 401 ''invalid or expired session''))"

definition optionalUser :: "'w Api \<Rightarrow> Request \<Rightarrow> ('w, string option) api" where
  "optionalUser A rq =
    bindIO (liftIO (readSessionToken rq)) (\<lambda>token.
    if no_token token then returnIO None else onStore (userIdForSession (sha256_text (ap_lib A) (the token))))"

definition newSessionToken :: "'w Api \<Rightarrow> ('w, string) api" where
  "newSessionToken A = bindIO (onOut (ap_randomBytes A 32)) (\<lambda>bs. returnIO (hex_encode bs))"

section \<open>Tokens of the identity provider\<close>

record PrivyClaims =
  pc_userId :: string
  pc_appId :: json
  pc_issuer :: json
  pc_issuedAt :: json
  pc_expiration :: json
  pc_sessionId :: json

definition b64urlToBytes :: "string \<Rightarrow> bytes result" where
  "b64urlToBytes s =
    fromB64 (map std_b64 s @ drop ((length s + 3) mod 4) ''==='')"

definition extractPrivyAccessToken :: "Request \<Rightarrow> string option result" where
  "extractPrivyAccessToken rq = read_token ''privy-token'' rq"

text \<open>\<open>JSON.parse(decode(bytes))\<close>; the decoder is lenient, and text outside Latin-1 is not modelled.\<close>

definition parse_part :: "string \<Rightarrow> json result" where
  "parse_part b64 = bindR (b64urlToBytes b64) (\<lambda>bs. case utf8_decode bs of Some s \<Rightarrow> json_parse s | None \<Rightarrow> Inl (Syntax_Error ''Unexpected token''))"

definition expired :: "json \<Rightarrow> int \<Rightarrow> bool" where
  "expired e now = (case e of JNum t \<Rightarrow> t \<le> now | JNull \<Rightarrow> 0 \<le> now | JStr s \<Rightarrow> (case BigInt s of Inr t \<Rightarrow> t \<le> now | Inl _ \<Rightarrow> False) | _ \<Rightarrow> False)"

definition check_claims :: "env \<Rightarrow> int \<Rightarrow> json \<Rightarrow> PrivyClaims result" where
  "check_claims e now payload =
    (if json_get ''iss'' payload \<noteq> Some (JStr ''privy.io'') then Inl (Js_Error ''bad issuer'')
     else if (case nonempty_env e ''PRIVY_APP_ID'' of Some appId \<Rightarrow> json_get ''aud'' payload \<noteq> Some (JStr appId) | None \<Rightarrow> False) then Inl (Js_Error ''audience mismatch'')
     else if json_get ''exp'' payload \<noteq> None \<and> expired (member ''exp'' payload) now then Inl (Js_Error ''token expired'')
     else Inr \<lparr>pc_userId = text_of ''sub'' payload, pc_appId = member ''aud'' payload, pc_issuer = member ''iss'' payload, pc_issuedAt = member ''iat'' payload,
       pc_expiration = member ''exp'' payload, pc_sessionId = member ''sid'' payload\<rparr>)"

definition verifyPrivyAccessToken :: "'w Api \<Rightarrow> string \<Rightarrow> ('w, PrivyClaims) io" where
  "verifyPrivyAccessToken A token =
    (case js_split CHR ''.'' token of
       [headerB64, payloadB64, sigB64] \<Rightarrow>
         bindIO (liftIO (parse_part headerB64)) (\<lambda>header.
         if json_get ''alg'' header \<noteq> Some (JStr ''ES256'') then throwIO (Js_Error (''unexpected alg '' @ js_string_opt (json_get ''alg'' header)))
         else bindIO (liftIO (b64urlToBytes sigB64)) (\<lambda>sig.
         bindIO (ap_verificationKey A (opt_text ''kid'' header)) (\<lambda>verify.
         if \<not> verify (utf8_encode (headerB64 @ ''.'' @ payloadB64)) sig then throwIO (Js_Error ''invalid token signature'')
         else bindIO (liftIO (parse_part payloadB64)) (\<lambda>payload.
         bindIO (ap_now A) (\<lambda>ms. liftIO (check_claims (ap_env A) (ms div 1000) payload))))))
     | _ \<Rightarrow> throwIO (Js_Error ''malformed JWT''))"

definition requirePrivyUser :: "'w Api \<Rightarrow> Request \<Rightarrow> ('w, string \<times> string) api" where
  "requirePrivyUser A rq =
    bindIO (liftIO (extractPrivyAccessToken rq)) (\<lambda>token.
    if no_token token then fail 401 ''Privy authentication required''
    else bindIO (catchIO (onOut (verifyPrivyAccessToken A (the token))) (\<lambda>e. fail 401 (''invalid Privy token: '' @ err_message e))) (\<lambda>claims.
      bindIO (onStore (upsertUserByPrivyId (pc_userId claims) None None)) (\<lambda>userId. returnIO (userId, pc_userId claims))))"

definition optionalPrivyUser :: "'w Api \<Rightarrow> Request \<Rightarrow> ('w, string option) api" where
  "optionalPrivyUser A rq =
    bindIO (liftIO (extractPrivyAccessToken rq)) (\<lambda>token.
    if no_token token then returnIO None
    else catchIO (bindIO (onOut (verifyPrivyAccessToken A (the token))) (\<lambda>claims.
      bindIO (onStore (upsertUserByPrivyId (pc_userId claims) None None)) (\<lambda>userId. returnIO (Some userId)))) (\<lambda>_. returnIO None))"

definition syncPrivyUserToDb :: "string \<Rightarrow> string option \<Rightarrow> string option \<Rightarrow> (Store, string) io" where
  "syncPrivyUserToDb i email primaryAuthMethod = upsertUserByPrivyId i email primaryAuthMethod"

definition requireUserOwnedWallet :: "string \<Rightarrow> string \<Rightarrow> string option \<Rightarrow> ('w, unit) api" where
  "requireUserOwnedWallet userId walletAddress chain = bindIO (onStore (userOwnsWallet userId walletAddress chain)) (\<lambda>ok.
    if ok then returnIO () else fail 403 ''wallet is not linked to the authenticated user'')"

definition requireUserOwnedVault :: "string \<Rightarrow> string \<Rightarrow> ('w, unit) api" where
  "requireUserOwnedVault userId vaultId = bindIO (onStore (userOwnsVault userId vaultId)) (\<lambda>ok.
    if ok then returnIO () else fail 403 ''vault does not belong to the authenticated user'')"

definition privyEnabled :: "env \<Rightarrow> bool" where
  "privyEnabled e \<longleftrightarrow> nonempty_env e ''PRIVY_APP_ID'' \<noteq> None \<or> nonempty_env e ''PRIVY_JWT_VERIFICATION_KEY'' \<noteq> None"

definition legacyWalletAuth :: "env \<Rightarrow> bool" where
  "legacyWalletAuth e \<longleftrightarrow> e ''ENABLE_LEGACY_WALLET_AUTH'' = Some ''true''"

definition authedUser :: "'w Api \<Rightarrow> Request \<Rightarrow> ('w, string) api" where
  "authedUser A rq =
    (if privyEnabled (ap_env A) then bindIO (requirePrivyUser A rq) (\<lambda>(userId, _). returnIO userId)
     else if legacyWalletAuth (ap_env A) then requireUser A rq
     else fail 401 ''authentication not configured (set PRIVY_APP_ID or ENABLE_LEGACY_WALLET_AUTH)'')"

definition authedUserOptional :: "'w Api \<Rightarrow> Request \<Rightarrow> ('w, string option) api" where
  "authedUserOptional A rq =
    (if privyEnabled (ap_env A) then optionalPrivyUser A rq
     else if legacyWalletAuth (ap_env A) then optionalUser A rq else returnIO None)"

end
