(* ===== verification/Api_Routes.thy ===== *)
theory Api_Routes
  imports Api_Auth
begin

text \<open>
  \<open>apps/api/src/routes.ts\<close>, the routes for identity, wallets, deposits, notes and vaults.  A route is a function of
  the request, named after its method and path; reading the request's members follows the source, and so does
  the order of checks and statements.
\<close>

section \<open>Helpers\<close>

definition wrapper_type_of :: "string \<Rightarrow> WrapperType" where
  "wrapper_type_of s = (if s = ''passkey_prf'' then Passkey_Prf else if s = ''stellar_ed25519_signature'' then Stellar_Ed25519_Signature
    else if s = ''recovery_file_secret'' then Recovery_File_Secret else if s = ''evm_signature'' then Evm_Signature else Recovery_Kit_Password)"

definition wrapper_of :: "json \<Rightarrow> VaultWrapper" where
  "wrapper_of j = \<lparr>vw_id = text_of ''id'' j, vw_type = wrapper_type_of (text_of ''type'' j), vw_active = (text_of ''status'' j = ''active''), vw_kdf = text_of ''kdf'' j,
    vw_salt = text_of ''salt'' j, vw_wrapped_key = text_of ''wrapped_key'' j, vw_diagnostic_only = (json_get ''diagnostic_only'' j = Some (JBool True)), vw_metadata = member ''metadata'' j\<rparr>"

definition wrappers_of :: "json \<Rightarrow> json list" where
  "wrappers_of env = (case json_get ''wrappers'' env of Some (JArr ws) \<Rightarrow> ws | _ \<Rightarrow> [])"

fun policy_text :: "RecoveryPolicyStatus \<Rightarrow> string" where
  "policy_text Insufficient = ''insufficient''"
| "policy_text Sufficient = ''sufficient''"
| "policy_text Strong = ''strong''"

text \<open>\<open>Number(text)\<close> used as a lower bound: what is no number bounds nothing.\<close>

definition count_of :: "string \<Rightarrow> nat" where
  "count_of s = (case BigInt s of Inr n \<Rightarrow> nat n | Inl _ \<Rightarrow> 0)"

definition recoveryPolicyFor :: "env \<Rightarrow> json list \<Rightarrow> string" where
  "recoveryPolicyFor e wrappers =
    (let mainnet = (env_or e ''LUMIXPROTOCOL_NETWORK_MODE'' ''testnet'' = ''mainnet'');
         min_count = count_of (if mainnet then env_or e ''LUMIXPROTOCOL_MIN_RECOVERY_WRAPPERS_MAINNET'' ''2'' else env_or e ''LUMIXPROTOCOL_MIN_RECOVERY_WRAPPERS_TESTNET'' ''1'');
         allowEvmOnly = (e ''ALLOW_EVM_SIGNATURE_ONLY_RECOVERY'' = Some ''true'')
     in policy_text (evaluateRecoveryPolicy (map wrapper_of wrappers) mainnet min_count allowEvmOnly))"

definition chain_for :: "string \<Rightarrow> string" where
  "chain_for walletType = (if walletType = ''EVM'' then ''arbitrum-sepolia'' else ''stellar-testnet'')"

definition randomNonce :: "'w Api \<Rightarrow> ('w, string) api" where
  "randomNonce A = bindIO (onOut (ap_randomUUID A)) (\<lambda>u. returnIO (filter (\<lambda>c. c \<noteq> CHR ''-'') u))"

definition requireDevRoutes :: "env \<Rightarrow> ('w, unit) api" where
  "requireDevRoutes e = (if e ''ENABLE_DEV_ROUTES'' \<noteq> Some ''true'' then fail 404 ''dev route disabled (set ENABLE_DEV_ROUTES=true)'' else returnIO ())"

definition idem :: "'w Api \<Rightarrow> Request \<Rightarrow> ('w, string) api" where
  "idem A rq = bindIO (parse_with A idempotencyHeader (Some (JObj (case rq_headers rq ''idempotency-key'' of Some k \<Rightarrow> [(''idempotency-key'', JStr k)] | None \<Rightarrow> []))))
    (\<lambda>h. returnIO (text_of ''idempotency-key'' h))"

definition env_default :: "env \<Rightarrow> string \<Rightarrow> string \<Rightarrow> string" where
  "env_default e k d = (case nonempty_env e k of Some v \<Rightarrow> v | None \<Rightarrow> d)"

definition assertRootHealthy :: "('w, unit) api" where
  "assertRootHealthy = bindIO (onStore criticalRootMismatchCount) (\<lambda>critical.
    if critical > 0 then fail 409 (''ROOT_MISMATCH_CRITICAL: '' @ bigint_to_string (int critical) @ '' unresolved root-audit finding(s); spends are blocked'')
    else returnIO ())"

definition found_json :: "Row option \<Rightarrow> json" where
  "found_json r = (case r of Some ms \<Rightarrow> JObj ms | None \<Rightarrow> JNull)"

definition rows_json :: "Row list \<Rightarrow> json" where
  "rows_json rows = JArr (map JObj rows)"

definition activity :: "string \<Rightarrow> string \<Rightarrow> Row \<Rightarrow> ('w, unit) api" where
  "activity userId event details = onStore (logActivity (Some userId) event details)"

section \<open>Identity\<close>

definition get_health :: "('w, reply) api" where
  "get_health = reply [(''ok'', JBool True)]"

definition LOCKED_CCTP :: "(string \<times> json) list" where
  "LOCKED_CCTP =
    [(''cctpVersion'', JStr ''v2''), (''arbitrumSepoliaDomain'', JNum arbitrumSepoliaDomain), (''stellarDomain'', JNum stellarDomain),
     (''arbitrumSepoliaUsdc'', JStr arbitrumSepoliaUsdc), (''arbitrumSepoliaTokenMessenger'', JStr arbitrumSepoliaTokenMessenger),
     (''arbitrumSepoliaMessageTransmitter'', JStr ''0xE737e5cEBEEBa77EFE34D4aa090756590b1CE275''), (''stellarCctpForwarder'', JStr stellarCctpForwarder),
     (''stellarMessageTransmitter'', JStr ''CBJ6MTCKKZG73PMDZCJMSFRD7DQEMI4FKDH7CGDSV4W6FHCRBCQAVVJY''),
     (''stellarTokenMessengerMinter'', JStr ''CDNG7HXAPBWICI2E3AUBP3YZWZELJLYSB6F5CC7WLDTLTHVM74SLRTHP''),
     (''stellarUsdcAsset'', JStr ''USDC-GBBD47IF6LWK7P7MDEVSCWR7DPUWV3NY3DTQEVFL4NAT4AQH3ZLLFLA5'')]"

definition get_config :: "('w, reply) api" where
  "get_config = reply LOCKED_CCTP"

definition get_balances :: "('w, reply) api" where
  "get_balances = reply [(''status'', JStr ''requires setup:testnet for live balances'')]"

definition post_setup_validate :: "('w, reply) api" where
  "post_setup_validate = reply [(''status'', JStr ''run npm run setup:testnet'')]"

definition get_health_full :: "'w Api \<Rightarrow> ('w, reply) api" where
  "get_health_full A = reply [(''ok'', JBool True), (''db'', JBool True), (''pool'', or_null (nonempty_env (ap_env A) ''SHIELDED_POOL_CONTRACT'')),
    (''network'', JStr (env_or (ap_env A) ''STELLAR_NETWORK_PASSPHRASE'' ''testnet''))]"

definition env_member :: "env \<Rightarrow> string \<times> string \<Rightarrow> Row" where
  "env_member e kv = (case e (snd kv) of Some v \<Rightarrow> [(fst kv, JStr v)] | None \<Rightarrow> [])"

definition get_contracts :: "'w Api \<Rightarrow> ('w, reply) api" where
  "get_contracts A = reply (concat (map (env_member (ap_env A)) [(''lumixprotocolPool'', ''SHIELDED_POOL_CONTRACT''), (''nullifierRegistry'', ''NULLIFIER_REGISTRY_CONTRACT''),
      (''verifierWithdraw'', ''VERIFIER_WITHDRAW_CONTRACT''), (''verifierTransfer'', ''TRANSFER_VERIFIER_CONTRACT''), (''verifierDepositNoteMint'', ''VERIFIER_DEPOSIT_NOTE_MINT_CONTRACT''),
      (''cctpForwarder'', ''STELLAR_CCTP_FORWARDER_CONTRACT''), (''usdcSac'', ''STELLAR_TESTNET_USDC_SAC_CONTRACT'')]) @
    [(''deprecated'', JObj (concat (map (env_member (ap_env A)) [(''lumixprotocolVault'', ''LUMIXPROTOCOL_VAULT_CONTRACT''), (''commitmentTree'', ''COMMITMENT_TREE_CONTRACT''),
      (''complianceRegistry'', ''COMPLIANCE_REGISTRY_CONTRACT''), (''intentEscrow'', ''INTENT_ESCROW_CONTRACT'')])))])"

definition post_auth_nonce :: "'w Api \<Rightarrow> Request \<Rightarrow> ('w, reply) api" where
  "post_auth_nonce A rq =
    bindIO (parse_with A authNonceSchema (rq_body rq)) (\<lambda>body. let walletType = text_of ''wallet_type'' body in
    bindIO (liftIO (normalizeAddress A walletType (text_of ''address'' body))) (\<lambda>address.
    bindIO (randomNonce A) (\<lambda>nonce. let message = authMessage walletType address nonce in
    bindIO (onOut (ap_now A)) (\<lambda>now.
    bindIO (onStore (createNonce walletType address nonce message (now + NONCE_TTL_MS))) (\<lambda>_.
    reply [(''wallet_type'', JStr walletType), (''address'', JStr address), (''nonce'', JStr nonce), (''message'', JStr message)])))))"

definition verifyHandler :: "'w Api \<Rightarrow> string \<Rightarrow> Request \<Rightarrow> ('w, reply) api" where
  "verifyHandler A walletType rq =
    bindIO (parse_with A authVerifySchema (rq_body rq)) (\<lambda>body.
    bindIO (liftIO (normalizeAddress A walletType (text_of ''address'' body))) (\<lambda>address.
    bindIO (onStore (consumeNonce walletType address (text_of ''nonce'' body))) (\<lambda>message.
    case message of
      None \<Rightarrow> coded 401 ''invalid or expired nonce''
    | Some m \<Rightarrow>
        if m = [] then coded 401 ''invalid or expired nonce''
        else if \<not> verifyWalletSignature A walletType address m (text_of ''signature'' body) then coded 401 ''signature verification failed''
        else bindIO (onStore (upsertUserByWallet walletType (chain_for walletType) address)) (\<lambda>userId.
          bindIO (newSessionToken A) (\<lambda>token.
          bindIO (onOut (ap_now A)) (\<lambda>now.
          bindIO (onStore (createSession_store userId (sha256_text (ap_lib A) token) (now + SESSION_TTL_MS))) (\<lambda>_.
          bindIO (activity userId ''auth.login'' [(''entity_type'', JStr ''wallet''), (''entity_id'', JStr address), (''metadata'', JObj [(''walletType'', JStr walletType)])]) (\<lambda>_.
          reply [(''user_id'', JStr userId), (''session_token'', JStr token), (''wallet_type'', JStr walletType), (''address'', JStr address)])))))))) "

definition get_auth_session :: "'w Api \<Rightarrow> Request \<Rightarrow> ('w, reply) api" where
  "get_auth_session A rq = bindIO (authedUserOptional A rq) (\<lambda>userId. reply [(''authenticated'', JBool (\<not> no_token userId)), (''user_id'', or_null userId)])"

definition post_auth_logout :: "'w Api \<Rightarrow> Request \<Rightarrow> ('w, reply) api" where
  "post_auth_logout A rq =
    bindIO (liftIO (readSessionToken rq)) (\<lambda>token.
    bindIO (if no_token token then returnIO () else onStore (revokeSession (sha256_text (ap_lib A) (the token)))) (\<lambda>_.
    reply [(''ok'', JBool True)]))"

section \<open>Profile and wallets\<close>

definition get_me :: "'w Api \<Rightarrow> Request \<Rightarrow> ('w, reply) api" where
  "get_me A rq = bindIO (authedUser A rq) (\<lambda>userId. bindIO (onStore (getUser userId)) (\<lambda>u. returnIO (200, u)))"

definition patch_me :: "'w Api \<Rightarrow> Request \<Rightarrow> ('w, reply) api" where
  "patch_me A rq =
    bindIO (authedUser A rq) (\<lambda>userId.
    bindIO (parse_with A updateMeSchema (rq_body rq)) (\<lambda>body.
    bindIO (onStore (updateUser userId body)) (\<lambda>_.
    bindIO (onStore (getUser userId)) (\<lambda>u. returnIO (200, u)))))"

definition get_me_wallets :: "'w Api \<Rightarrow> Request \<Rightarrow> ('w, reply) api" where
  "get_me_wallets A rq = bindIO (authedUser A rq) (\<lambda>userId. bindIO (onStore (listWallets userId)) (\<lambda>ws. reply [(''wallets'', rows_json ws)]))"

definition linked_wallet :: "json \<Rightarrow> LinkedWallet" where
  "linked_wallet w = \<lparr>lw_wallet_type = text_of ''wallet_type'' w, lw_wallet_source = opt_text ''wallet_source'' w, lw_chain = text_of ''chain'' w,
    lw_address = text_of ''address'' w, lw_privy_wallet_id = opt_text ''privy_wallet_id'' w\<rparr>"

definition elements :: "string \<Rightarrow> json \<Rightarrow> json list" where
  "elements k b = (case json_get k b of Some (JArr js) \<Rightarrow> js | _ \<Rightarrow> [])"

definition post_wallets_sync_privy :: "'w Api \<Rightarrow> Request \<Rightarrow> ('w, reply) api" where
  "post_wallets_sync_privy A rq =
    bindIO (requirePrivyUser A rq) (\<lambda>(userId, privyUserId).
    bindIO (parse_with A syncPrivyWalletsSchema (rq_body rq)) (\<lambda>body.
    bindIO (onStore (syncPrivyWallets userId privyUserId (map linked_wallet (elements ''wallets'' body)))) (\<lambda>n.
    bindIO (activity userId ''wallet.sync_privy'' [(''metadata'', JObj [(''count'', JNum (int n))])]) (\<lambda>_.
    bindIO (onStore (listWallets userId)) (\<lambda>ws. reply [(''synced'', JNum (int n)), (''wallets'', rows_json ws)])))))"

definition post_me_wallets :: "'w Api \<Rightarrow> Request \<Rightarrow> ('w, reply) api" where
  "post_me_wallets A rq =
    bindIO (authedUser A rq) (\<lambda>userId.
    bindIO (parse_with A addWalletSchema (rq_body rq)) (\<lambda>body. let walletType = text_of ''wallet_type'' body in
    bindIO (liftIO (normalizeAddress A walletType (text_of ''address'' body))) (\<lambda>address.
    bindIO (onStore (consumeNonce walletType address (text_of ''nonce'' body))) (\<lambda>message.
    if no_token message \<or> \<not> verifyWalletSignature A walletType address (the message) (text_of ''signature'' body) then coded 401 ''wallet signature verification failed''
    else bindIO (onStore (addWallet userId walletType (chain_for walletType) address)) (\<lambda>walletId.
      bindIO (activity userId ''wallet.add'' [(''entity_type'', JStr ''wallet''), (''entity_id'', JStr address)]) (\<lambda>_.
      reply [(''wallet_id'', JStr walletId)]))))))"

definition delete_me_wallet :: "'w Api \<Rightarrow> Request \<Rightarrow> ('w, reply) api" where
  "delete_me_wallet A rq =
    bindIO (authedUser A rq) (\<lambda>userId.
    bindIO (onStore (deleteWallet userId (rq_params rq ''wallet_id''))) (\<lambda>ok.
    if \<not> ok then coded 409 ''cannot delete (not found or primary)'' else reply [(''ok'', JBool True)]))"

text \<open>The six lists \<open>GET /v1/me/...\<close> of a user's rows.\<close>

definition get_me_rows :: "'w Api \<Rightarrow> string \<Rightarrow> string \<Rightarrow> Request \<Rightarrow> ('w, reply) api" where
  "get_me_rows A key table rq = bindIO (authedUser A rq) (\<lambda>userId. bindIO (onStore (listByUser table userId)) (\<lambda>rows. reply [(key, rows_json rows)]))"

section \<open>Deposits signed by the user\<close>

definition unless :: "bool \<Rightarrow> nat \<Rightarrow> string \<Rightarrow> ('w, unit) api" where
  "unless ok c m = (if ok then returnIO () else fail c m)"

definition ready_text :: "DepositReady option \<Rightarrow> (DepositReady \<Rightarrow> json) \<Rightarrow> string" where
  "ready_text r f = js_string_opt (map_option f r)"

definition max_fee :: "int \<Rightarrow> string" where
  "max_fee amount6 = bigint_to_string (if amount6 sdiv 1000 > 0 then amount6 sdiv 1000 else 1)"

definition approve_abi :: string where "approve_abi = ''function approve(address,uint256)''"
definition burn_abi :: string where "burn_abi = ''function depositForBurnWithHook(uint256,uint32,bytes32,address,bytes32,uint256,uint32,bytes)''"

definition prepare_reply :: "string \<Rightarrow> string \<Rightarrow> string \<Rightarrow> int \<Rightarrow> string \<Rightarrow> string \<Rightarrow> string \<Rightarrow> (string \<times> json) list" where
  "prepare_reply depositId usdcAddress tokenMessenger amount6 mintRecipient hookData pool =
    [(''deposit_id'', JStr depositId),
     (''approval_tx_request'', JObj [(''to'', JStr usdcAddress), (''abi'', JStr approve_abi), (''args'', JArr [JStr tokenMessenger, JStr (bigint_to_string amount6)])]),
     (''burn_tx_request'', JObj [(''to'', JStr tokenMessenger), (''abi'', JStr burn_abi),
       (''args'', JArr [JStr (bigint_to_string amount6), JNum stellarDomain, JStr mintRecipient, JStr usdcAddress, JStr mintRecipient, JStr (max_fee amount6),
          JNum FINALITY_THRESHOLD_CONFIRMED, JStr hookData])]),
     (''usdc_address'', JStr usdcAddress), (''token_messenger_address'', JStr tokenMessenger), (''destination_domain'', JNum stellarDomain),
     (''mint_recipient'', JStr mintRecipient), (''destination_caller'', JStr mintRecipient), (''hook_data'', JStr hookData), (''forward_recipient'', JStr pool),
     (''max_fee'', JStr (max_fee amount6)), (''finality_threshold'', JNum FINALITY_THRESHOLD_CONFIRMED),
     (''expected_amount_7dp_max'', JStr (bigint_to_string (usdc6ToStellar7 amount6)))]"

definition prepared_deposit :: "json \<Rightarrow> string \<Rightarrow> string \<Rightarrow> string \<Rightarrow> string \<Rightarrow> int \<Rightarrow> UserDeposit" where
  "prepared_deposit body depositId key userId usdcAddress amount6 =
    \<lparr>ud_depositId = depositId, ud_idempotencyKey = key, ud_userId = userId, ud_sourceChain = text_of ''source_chain'' body,
     ud_sourceWalletAddress = text_of ''source_wallet_address'' body, ud_vaultId = text_of ''vault_id'' body, ud_sourceDomain = arbitrumSepoliaDomain,
     ud_destinationDomain = stellarDomain, ud_assetId = usdcAddress, ud_amount6 = bigint_to_string amount6, ud_amount7Max = bigint_to_string (usdc6ToStellar7 amount6),
     ud_commitment = text_of ''commitment'' body, ud_encryptedNotePayloadHash = text_of ''encrypted_note_payload_hash'' body, ud_policyId = text_of ''policy_id'' body\<rparr>"

definition post_deposits_prepare :: "'w Api \<Rightarrow> Request \<Rightarrow> ('w, reply) api" where
  "post_deposits_prepare A rq =
    bindIO (requirePrivyUser A rq) (\<lambda>(userId, _).
    bindIO (parse_with A userDepositPrepareSchema (rq_body rq)) (\<lambda>body.
    bindIO (idem A rq) (\<lambda>idempotencyKey.
    bindIO (unless (text_of ''source_chain'' body = ''arbitrum-sepolia'') 400 ''unsupported source_chain'') (\<lambda>_.
    bindIO (liftIO (BigInt (text_of ''amount_usdc_6dp'' body))) (\<lambda>amount6.
    bindIO (unless (amount6 > 0) 400 ''amount must be positive'') (\<lambda>_.
    bindIO (onStore (userOwnsWallet userId (text_of ''source_wallet_address'' body) None)) (\<lambda>ownsWallet.
    bindIO (unless ownsWallet 403 ''source wallet not linked to user'') (\<lambda>_.
    bindIO (onStore (userOwnsVault userId (text_of ''vault_id'' body))) (\<lambda>ownsVault.
    bindIO (unless ownsVault 403 ''vault not owned by user'') (\<lambda>_.
    bindIO (onStore (vaultDepositReady userId (text_of ''vault_id'' body))) (\<lambda>ready.
    bindIO (unless (case ready of Some r \<Rightarrow> dr_ready r | None \<Rightarrow> False) 409 (''vault not deposit-ready (backup='' @ ready_text ready dr_backup_status @ '', policy='' @
      ready_text ready dr_recovery_policy_status @ '')'')) (\<lambda>_.
    bindIO assertRootHealthy (\<lambda>_.
    let e = ap_env A; usdcAddress = env_default e ''ARB_SEPOLIA_USDC_ADDRESS'' arbitrumSepoliaUsdc;
        tokenMessenger = env_default e ''ARB_SEPOLIA_CCTP_TOKEN_MESSENGER'' arbitrumSepoliaTokenMessenger;
        forwarder = env_default e ''STELLAR_CCTP_FORWARDER_CONTRACT'' stellarCctpForwarder; pool = env_default e ''SHIELDED_POOL_CONTRACT'' [];
        depositId = deterministicId (ap_lib A) ''udep'' [idempotencyKey, text_of ''commitment'' body] in
    bindIO (liftIO (stellarContractToBytes32 (ap_strkey A) forwarder)) (\<lambda>mintRecipient.
    bindIO (liftIO (encodeStellarForwardHook (ap_strkey A) pool)) (\<lambda>hookData.
    bindIO (onStore (createUserDeposit (prepared_deposit body depositId idempotencyKey userId usdcAddress amount6))) (\<lambda>_.
    bindIO (activity userId ''deposit.prepare'' [(''entity_type'', JStr ''deposit''), (''entity_id'', JStr depositId)]) (\<lambda>_.
    reply (prepare_reply depositId usdcAddress tokenMessenger amount6 mintRecipient hookData pool))))))))))))))))))"

text \<open>The deposit's row has no maximum fee, so none is passed on.\<close>

definition burn_payload :: "string \<Rightarrow> json \<Rightarrow> Row \<Rightarrow> json" where
  "burn_payload depositId body dep = JObj ([(''deposit_id'', JStr depositId), (''burn_tx_hash'', member ''burn_tx_hash'' body),
    (''source_wallet_address'', member ''source_wallet_address'' body), (''expected_amount6'', row_get ''amount_usdc_6dp'' dep), (''commitment'', row_get ''commitment'' dep),
    (''vault_id'', row_get ''vault_id'' dep), (''expected_finality'', JNum FINALITY_THRESHOLD_CONFIRMED)] @
    (if row_get ''max_fee'' dep = JNull then [] else [(''expected_max_fee6'', row_get ''max_fee'' dep)]) @
    [(''encryptedNotePayloadHashHex'', row_get ''encrypted_note_payload_hash'' dep), (''policyIdHex'', row_get ''policy_id'' dep)])"

definition post_burn_submitted :: "'w Api \<Rightarrow> Request \<Rightarrow> ('w, reply) api" where
  "post_burn_submitted A rq =
    bindIO (requirePrivyUser A rq) (\<lambda>(userId, _). let depositId = rq_params rq ''deposit_id'' in
    bindIO (parse_with A burnSubmittedSchema (rq_body rq)) (\<lambda>body.
    bindIO (onStore (getDepositForUser userId depositId)) (\<lambda>dep.
    case dep of
      None \<Rightarrow> coded 404 ''deposit not found''
    | Some d \<Rightarrow>
        if lower (js_string (row_get ''source_wallet_address'' d)) \<noteq> lower (text_of ''source_wallet_address'' body) then coded 403 ''wallet mismatch''
        else bindIO (onStore (setDepositBurnTx depositId (text_of ''burn_tx_hash'' body))) (\<lambda>_.
          bindIO (onStore (queue_enqueue Q_relayer ''CCTP_INBOUND_AFTER_USER_BURN'' (burn_payload depositId body d) (Some (''user-burn:'' @ depositId)))) (\<lambda>job.
          bindIO (activity userId ''deposit.burn_submitted'' [(''entity_type'', JStr ''deposit''), (''entity_id'', JStr depositId), (''tx_hash'', member ''burn_tx_hash'' body)]) (\<lambda>_.
          reply [(''deposit_id'', JStr depositId), (''job_id'', JStr (sj_job_id job)), (''status'', JStr ''queued'')]))))))"

definition get_row :: "string \<Rightarrow> string \<Rightarrow> string \<Rightarrow> Request \<Rightarrow> ('w, reply) api" where
  "get_row table column param rq = bindIO (onStore (getById table column (rq_params rq param))) (\<lambda>r. returnIO (200, found_json r))"

text \<open>The steps of a deposit: no authentication, and the body's own \<open>deposit_id\<close> wins.\<close>

definition depositStep :: "string \<Rightarrow> Request \<Rightarrow> ('w, reply) api" where
  "depositStep jobType rq = (let depositId = rq_params rq ''deposit_id'' in
    bindIO (onStore (queue_enqueue Q_relayer jobType (JObj (spread [(''deposit_id'', JStr depositId)] (case rq_body rq of Some b \<Rightarrow> members b | None \<Rightarrow> [])))
      (Some (jobType @ '':'' @ depositId)))) (\<lambda>job.
    reply [(''deposit_id'', JStr depositId), (''job_id'', JStr (sj_job_id job)), (''status'', JStr ''queued'')]))"

section \<open>Notes and vaults\<close>

text \<open>Without a body the member access of the first field throws.\<close>

definition post_note_commitment :: "'w Api \<Rightarrow> Request \<Rightarrow> ('w, reply) api" where
  "post_note_commitment A rq =
    (case rq_body rq of
       Some JNull \<Rightarrow> throwIO (Type_Error ''Cannot read properties of null'')
     | None \<Rightarrow> throwIO (Type_Error ''Cannot read properties of undefined'')
     | Some b \<Rightarrow> bindIO (liftIO (poseidonCommitment (ap_poseidon A) (rl_sha256 (ap_lib A)) b)) (\<lambda>c. reply [(''commitment'', JStr c)]))"

definition post_encrypted_backup :: "'w Api \<Rightarrow> Request \<Rightarrow> ('w, reply) api" where
  "post_encrypted_backup A rq =
    bindIO (authedUser A rq) (\<lambda>userId.
    bindIO (parse_with A noteBackupSchema (rq_body rq)) (\<lambda>body.
    bindIO (onStore (addNoteBackup userId (member ''commitment'' body) (member ''encrypted_payload'' body) (member ''encryption_version'' body))) (\<lambda>_.
    bindIO (activity userId ''note.backup'' [(''entity_type'', JStr ''note''), (''entity_id'', member ''commitment'' body)]) (\<lambda>_.
    reply [(''ok'', JBool True), (''commitment'', member ''commitment'' body)]))))"

fun check_plaintext :: "json list \<Rightarrow> unit result" where
  "check_plaintext [] = Inr ()"
| "check_plaintext (j # js) = bindR (assertNoPlaintextNoteFields j) (\<lambda>_. check_plaintext js)"

definition post_notes_recover :: "'w Api \<Rightarrow> (int \<Rightarrow> string) \<Rightarrow> Request \<Rightarrow> ('w, reply) api" where
  "post_notes_recover A toISOString rq =
    bindIO (requirePrivyUser A rq) (\<lambda>(userId, _).
    bindIO (parse_with A noteRecoverSchema (Some (case rq_body rq of None \<Rightarrow> JObj [] | Some JNull \<Rightarrow> JObj [] | Some b \<Rightarrow> b))) (\<lambda>body.
    bindIO (onStore (listNoteVaultsForRecovery userId (opt_text ''vault_id'' body))) (\<lambda>vaults.
    bindIO (liftIO (check_plaintext (map (row_get ''envelope'') vaults))) (\<lambda>_.
    bindIO (onStore (listByUser ''encrypted_note_backups'' userId)) (\<lambda>noteBackups.
    bindIO (activity userId ''notes.recover'' [(''metadata'', JObj [(''vault_count'', JNum (int (length vaults))), (''backup_count'', JNum (int (length noteBackups))),
      (''vault_id'', member ''vault_id'' body)])]) (\<lambda>_.
    bindIO (onOut (ap_now A)) (\<lambda>now.
    reply [(''vaults'', rows_json (map (columns_of [''vault_id'', ''envelope'', ''backup_status'', ''recovery_policy_status'', ''created_at'']) vaults)),
      (''note_backups'', rows_json noteBackups), (''recovery_started_at'', JStr (toISOString now))])))))))"

definition ingestEnvelope :: "env \<Rightarrow> json \<Rightarrow> string result" where
  "ingestEnvelope e env = bindR (validateVaultEnvelope env) (\<lambda>_. bindR (assertNoPlaintextNoteFields env) (\<lambda>_. Inr (recoveryPolicyFor e (wrappers_of env))))"

definition vault_input :: "json \<Rightarrow> string \<Rightarrow> VaultInput" where
  "vault_input env policy = \<lparr>vi_envelope = env, vi_ciphertext = member ''ciphertext'' env, vi_aad = member ''aad'' env, vi_recoveryPolicyStatus = policy\<rparr>"

fun add_wrappers :: "string \<Rightarrow> string \<Rightarrow> json list \<Rightarrow> (Store, unit) io" where
  "add_wrappers userId vaultId [] = returnIO ()"
| "add_wrappers userId vaultId (w # ws) = bindIO (addVaultWrapper userId vaultId (member ''type'' w) (member ''metadata'' w)) (\<lambda>_. add_wrappers userId vaultId ws)"

definition body_json :: "Request \<Rightarrow> json" where
  "body_json rq = (case rq_body rq of Some b \<Rightarrow> b | None \<Rightarrow> JNull)"

text \<open>\<open>(request.body as {envelope}).envelope\<close> throws on a missing body.\<close>

definition body_envelope :: "Request \<Rightarrow> json option result" where
  "body_envelope rq = (case rq_body rq of None \<Rightarrow> Inl (Type_Error ''Cannot read properties of undefined'') | Some JNull \<Rightarrow> Inl (Type_Error ''Cannot read properties of null'')
    | Some b \<Rightarrow> Inr (json_get ''envelope'' b))"

definition post_note_vaults :: "'w Api \<Rightarrow> Request \<Rightarrow> ('w, reply) api" where
  "post_note_vaults A rq =
    bindIO (requirePrivyUser A rq) (\<lambda>(userId, privyUserId).
    bindIO (liftIO (assertNoPlaintextNoteFields (body_json rq))) (\<lambda>_.
    bindIO (liftIO (body_envelope rq)) (\<lambda>raw.
    bindIO (parse_with A encryptedVaultEnvelopeSchema raw) (\<lambda>env. let vaultId = text_of ''vault_id'' env in
    bindIO (unless (text_of ''privy_user_id'' env = privyUserId) 403 ''envelope privy_user_id mismatch'') (\<lambda>_.
    bindIO (liftIO (ingestEnvelope (ap_env A) env)) (\<lambda>policy.
    bindIO (onStore (createNoteVault userId privyUserId vaultId (vault_input env policy))) (\<lambda>_.
    bindIO (onStore (add_wrappers userId vaultId (wrappers_of env))) (\<lambda>_.
    bindIO (activity userId ''vault.create'' [(''entity_type'', JStr ''vault''), (''entity_id'', JStr vaultId), (''metadata'', JObj [(''recovery_policy_status'', JStr policy)])]) (\<lambda>_.
    reply [(''vault_id'', JStr vaultId), (''backup_status'', JStr ''created''), (''recovery_policy_status'', JStr policy)])))))))))"

definition get_note_vaults :: "'w Api \<Rightarrow> Request \<Rightarrow> ('w, reply) api" where
  "get_note_vaults A rq = bindIO (requirePrivyUser A rq) (\<lambda>(userId, _). bindIO (onStore (listNoteVaults userId)) (\<lambda>rows. reply [(''vaults'', rows_json rows)]))"

definition get_note_vault :: "'w Api \<Rightarrow> Request \<Rightarrow> ('w, reply) api" where
  "get_note_vault A rq =
    bindIO (requirePrivyUser A rq) (\<lambda>(userId, _).
    bindIO (onStore (getNoteVault userId (rq_params rq ''vault_id''))) (\<lambda>v.
    case v of None \<Rightarrow> fail 404 ''vault not found'' | Some r \<Rightarrow> returnIO (200, JObj r)))"

definition put_note_vault :: "'w Api \<Rightarrow> Request \<Rightarrow> ('w, reply) api" where
  "put_note_vault A rq =
    bindIO (requirePrivyUser A rq) (\<lambda>(userId, privyUserId).
    bindIO (liftIO (assertNoPlaintextNoteFields (body_json rq))) (\<lambda>_. let vaultId = rq_params rq ''vault_id'' in
    bindIO (liftIO (body_envelope rq)) (\<lambda>raw.
    bindIO (parse_with A encryptedVaultEnvelopeSchema raw) (\<lambda>env.
    bindIO (unless (text_of ''vault_id'' env = vaultId \<and> text_of ''privy_user_id'' env = privyUserId) 403 ''vault id / identity mismatch'') (\<lambda>_.
    bindIO (liftIO (ingestEnvelope (ap_env A) env)) (\<lambda>policy.
    bindIO (onStore (updateNoteVault userId vaultId (vault_input env policy))) (\<lambda>ok.
    bindIO (unless ok 404 ''vault not found'') (\<lambda>_.
    reply [(''vault_id'', JStr vaultId), (''recovery_policy_status'', JStr policy)]))))))))"

definition ready_json :: "DepositReady option \<Rightarrow> Row" where
  "ready_json r = (case r of None \<Rightarrow> [] | Some d \<Rightarrow> [(''ready'', JBool (dr_ready d)), (''backup_status'', dr_backup_status d), (''recovery_policy_status'', dr_recovery_policy_status d)])"

definition post_verify_backup :: "'w Api \<Rightarrow> Request \<Rightarrow> ('w, reply) api" where
  "post_verify_backup A rq =
    bindIO (requirePrivyUser A rq) (\<lambda>(userId, _). let vaultId = rq_params rq ''vault_id'' in
    bindIO (parse_with A verifyBackupSchema (rq_body rq)) (\<lambda>body. let verification = member ''verification'' body in
    if text_of ''vault_id'' verification \<noteq> vaultId then coded 400 ''verification vault_id mismatch''
    else bindIO (onStore (getNoteVault userId vaultId)) (\<lambda>vault.
    case vault of
      None \<Rightarrow> coded 404 ''vault not found''
    | Some v \<Rightarrow>
        if row_get ''recovery_policy_status'' v \<noteq> JStr ''sufficient'' \<and> row_get ''recovery_policy_status'' v \<noteq> JStr ''strong''
        then coded 409 (''recovery policy insufficient ('' @ js_string (row_get ''recovery_policy_status'' v) @ '')'')
        else bindIO (onStore (setVaultBackupVerified userId vaultId verification)) (\<lambda>_.
          bindIO (activity userId ''vault.backup_verified'' [(''entity_type'', JStr ''vault''), (''entity_id'', JStr vaultId),
            (''metadata'', JObj [(''method'', member ''method'' verification)])]) (\<lambda>_.
          bindIO (onStore (vaultDepositReady userId vaultId)) (\<lambda>ready.
          reply (spread [(''vault_id'', JStr vaultId), (''backup_status'', JStr ''verified'')] (ready_json ready))))))))"

definition post_mark_restored :: "'w Api \<Rightarrow> Request \<Rightarrow> ('w, reply) api" where
  "post_mark_restored A rq =
    bindIO (requirePrivyUser A rq) (\<lambda>(userId, _). let vaultId = rq_params rq ''vault_id'' in
    bindIO (onStore (setVaultBackupStatus userId vaultId ''restored'')) (\<lambda>ok.
    if \<not> ok then coded 404 ''vault not found''
    else bindIO (activity userId ''vault.restored'' [(''entity_type'', JStr ''vault''), (''entity_id'', JStr vaultId)]) (\<lambda>_.
      reply [(''vault_id'', JStr vaultId), (''backup_status'', JStr ''restored'')])))"

definition post_vault_wrappers :: "'w Api \<Rightarrow> Request \<Rightarrow> ('w, reply) api" where
  "post_vault_wrappers A rq =
    bindIO (requirePrivyUser A rq) (\<lambda>(userId, _).
    bindIO (liftIO (assertNoPlaintextNoteFields (body_json rq))) (\<lambda>_. let vaultId = rq_params rq ''vault_id'' in
    bindIO (parse_with A addWrapperSchema (rq_body rq)) (\<lambda>body. let env = member ''envelope'' body; wrapper = member ''wrapper'' body in
    bindIO (unless (text_of ''vault_id'' env = vaultId) 403 ''vault id mismatch'') (\<lambda>_.
    bindIO (liftIO (ingestEnvelope (ap_env A) env)) (\<lambda>policy.
    bindIO (onStore (updateNoteVault userId vaultId (vault_input env policy))) (\<lambda>_.
    bindIO (onStore (addVaultWrapper userId vaultId (member ''type'' wrapper) (member ''metadata'' wrapper))) (\<lambda>wrapperId.
    reply [(''wrapper_id'', JStr wrapperId), (''recovery_policy_status'', JStr policy)])))))))"

definition delete_vault_wrapper :: "'w Api \<Rightarrow> Request \<Rightarrow> ('w, reply) api" where
  "delete_vault_wrapper A rq =
    bindIO (requirePrivyUser A rq) (\<lambda>(userId, _).
    bindIO (onStore (deleteVaultWrapper userId (rq_params rq ''vault_id'') (rq_params rq ''wrapper_id''))) (\<lambda>ok.
    if \<not> ok then coded 404 ''wrapper not found'' else reply [(''ok'', JBool True)]))"

end
