(* ===== verification/Api_Rfq.thy ===== *)
theory Api_Rfq
  imports Api_Routes
begin

text \<open>
  The remaining routes of \<open>apps/api/src/routes.ts\<close> (proofs, withdrawals, intents, quotes, fills, settlement,
  disclosure reports, exits, activity, the committee proxies, anchors) and \<open>apps/api/src/lumixprotocol-view.ts\<close>.
\<close>

section \<open>Disclosure reports\<close>

record ViewKeyReportInput =
  vr_userId :: string
  vr_timeRangeFrom :: json
  vr_timeRangeTo :: json
  vr_noteCommitments :: "string list"
  vr_disclosedNullifiers :: "string list"
  vr_quoteId :: json
  vr_policyId :: json
  vr_anchorId :: json
  vr_amountsDisclosed :: "json option"
  vr_proofLinks :: "string list"

record SignedViewKeyReport = ViewKeyReportInput +
  vr_reportId :: string
  vr_generatedAt :: string
  vr_servicePubkeyHex :: string
  vr_serviceSignatureHex :: string

definition texts :: "string list \<Rightarrow> json" where
  "texts ss = JArr (map JStr ss)"

definition canonicalReportPayload :: "('a ViewKeyReportInput_scheme) \<Rightarrow> string \<Rightarrow> string \<Rightarrow> string" where
  "canonicalReportPayload r reportId generatedAt = stringify (JObj
    [(''reportId'', JStr reportId), (''userId'', JStr (vr_userId r)), (''generatedAt'', JStr generatedAt), (''timeRangeFrom'', vr_timeRangeFrom r),
     (''timeRangeTo'', vr_timeRangeTo r), (''noteCommitments'', texts (sort (vr_noteCommitments r))), (''disclosedNullifiers'', texts (sort (vr_disclosedNullifiers r))),
     (''quoteId'', vr_quoteId r), (''policyId'', vr_policyId r), (''anchorId'', vr_anchorId r),
     (''amountsDisclosed'', case vr_amountsDisclosed r of Some a \<Rightarrow> a | None \<Rightarrow> JArr []), (''proofLinks'', texts (sort (vr_proofLinks r)))])"

definition signViewKeyReport :: "RfqLib \<Rightarrow> ViewKeyReportInput \<Rightarrow> string \<Rightarrow> string \<Rightarrow> string \<Rightarrow> SignedViewKeyReport result" where
  "signViewKeyReport L r reportId serviceSecret generatedAt =
    bindR (rl_fromSecret L serviceSecret) (\<lambda>(pk, sign).
    Inr (ViewKeyReportInput.extend r \<lparr>vr_reportId = reportId, vr_generatedAt = generatedAt, vr_servicePubkeyHex = hex_encode pk,
      vr_serviceSignatureHex = hex_encode (sign (rl_sha256 L (utf8_encode (canonicalReportPayload r reportId generatedAt))))\<rparr>))"

text \<open>The key library's check under a public key given as bytes.\<close>

definition verifyViewKeyReport :: "RfqLib \<Rightarrow> (bytes \<Rightarrow> bytes \<Rightarrow> bytes \<Rightarrow> bool) \<Rightarrow> SignedViewKeyReport \<Rightarrow> bool" where
  "verifyViewKeyReport L verify r =
    verify (hex_decode (vr_servicePubkeyHex r)) (rl_sha256 L (utf8_encode (canonicalReportPayload r (vr_reportId r) (vr_generatedAt r)))) (hex_decode (vr_serviceSignatureHex r))"

definition report_json :: "SignedViewKeyReport \<Rightarrow> json" where
  "report_json r = JObj ([(''userId'', JStr (vr_userId r)), (''timeRangeFrom'', vr_timeRangeFrom r), (''timeRangeTo'', vr_timeRangeTo r),
    (''noteCommitments'', texts (vr_noteCommitments r)), (''disclosedNullifiers'', texts (vr_disclosedNullifiers r)), (''quoteId'', vr_quoteId r),
    (''policyId'', vr_policyId r), (''anchorId'', vr_anchorId r)] @ (case vr_amountsDisclosed r of Some a \<Rightarrow> [(''amountsDisclosed'', a)] | None \<Rightarrow> []) @
    [(''proofLinks'', texts (vr_proofLinks r)), (''reportId'', JStr (vr_reportId r)), (''generatedAt'', JStr (vr_generatedAt r)),
     (''servicePubkeyHex'', JStr (vr_servicePubkeyHex r)), (''serviceSignatureHex'', JStr (vr_serviceSignatureHex r))])"

definition encryptReportAttachment :: "Nacl \<Rightarrow> KeyPair \<Rightarrow> bytes \<Rightarrow> SignedViewKeyReport \<Rightarrow> string \<Rightarrow> json result" where
  "encryptReportAttachment N ephemeral nonce report recipientPubkeyHex =
    bindR (nacl_box N (utf8_encode (stringify (report_json report))) nonce (hex_decode recipientPubkeyHex) (kp_secretKey ephemeral)) (\<lambda>ct.
    Inr (JObj [(''ciphertext'', JStr (hex_encode ct)), (''nonce'', JStr (hex_encode nonce)), (''senderPubkey'', JStr (hex_encode (kp_publicKey ephemeral)))]))"

section \<open>Proofs, jobs and withdrawals\<close>

definition moved :: "string \<Rightarrow> string \<Rightarrow> string \<Rightarrow> ('w, unit) api" where
  "moved entityType entityId toState = onStore (transition \<lparr>tr_entityType = entityType, tr_entityId = entityId, tr_fromState = None, tr_toState = toState, tr_reason = None, tr_txHash = None, tr_metadata = None\<rparr>)"

definition body_members :: "Request \<Rightarrow> Row" where
  "body_members rq = (case rq_body rq of Some b \<Rightarrow> members b | None \<Rightarrow> [])"

definition post_proof_request :: "'w Api \<Rightarrow> Request \<Rightarrow> ('w, reply) api" where
  "post_proof_request A rq =
    bindIO (authedUser A rq) (\<lambda>userId.
    bindIO (parse_with A proofRequestSchema (Some (JObj (spread (body_members rq) [(''proof_type'', JStr (rq_params rq ''kind''))])))) (\<lambda>body.
    bindIO (idem A rq) (\<lambda>idempotencyKey. let L = ap_lib A; proofType = text_of ''proof_type'' body; inputsHash = hashJson L (member ''public_inputs'' body);
      proofJobId = deterministicId L ''proof'' [idempotencyKey, proofType, inputsHash] in
    bindIO (onStore (insertGeneric ''proof_jobs'' [(''proof_job_id'', JStr proofJobId), (''idempotency_key'', JStr idempotencyKey), (''proof_type'', JStr proofType),
      (''public_inputs_hash'', JStr inputsHash), (''user_id'', JStr userId), (''status'', JStr ''queued'')])) (\<lambda>_.
    bindIO (moved ''proof_job'' proofJobId ''queued'') (\<lambda>_.
    bindIO (onStore (queue_enqueue Q_prover proofType (JObj (spread (members (member ''witness'' body)) [(''user_id'', JStr userId)])) (Some (''proof:'' @ proofJobId)))) (\<lambda>job.
    reply [(''proof_job_id'', JStr proofJobId), (''job_id'', JStr (sj_job_id job)), (''status'', JStr ''queued'')]))))))"

definition get_proof :: "'w Api \<Rightarrow> Request \<Rightarrow> ('w, reply) api" where
  "get_proof A rq =
    bindIO (authedUser A rq) (\<lambda>userId.
    bindIO (onStore (getById ''proof_jobs'' ''proof_job_id'' (rq_params rq ''proof_job_id''))) (\<lambda>pj.
    bindIO (unless (case pj of Some r \<Rightarrow> row_get ''user_id'' r = JNull \<or> row_get ''user_id'' r = JStr userId | None \<Rightarrow> True) 403 ''not your proof job'') (\<lambda>_.
    returnIO (200, found_json pj))))"

definition queue_text :: "QueueName \<Rightarrow> string" where
  "queue_text q = (case q of Q_prover \<Rightarrow> ''prover'' | Q_relayer \<Rightarrow> ''relayer'')"

definition event_json :: "ServiceEvent \<Rightarrow> json" where
  "event_json e = JObj [(''status'', JStr (ev_status e)), (''detail'', or_null (ev_detail e))]"

definition get_job_route :: "'w Api \<Rightarrow> Request \<Rightarrow> ('w, reply) api" where
  "get_job_route A rq =
    bindIO (authedUser A rq) (\<lambda>_. let i = rq_params rq ''job_id'' in
    bindIO (onStore (\<lambda>db. (Inr (getJob (st_jobs db) i, getEvents (st_jobs db) i), db))) (\<lambda>(job, events).
    case job of
      None \<Rightarrow> fail 404 ''job not found''
    | Some j \<Rightarrow> reply [(''job_id'', JStr (sj_job_id j)), (''type'', JStr (sj_job_type j)), (''queue'', JStr (queue_text (sj_queue j))), (''status'', JStr (sj_status j)),
        (''attempts'', JNum (int (sj_attempts j))), (''result'', case sj_result j of Some r \<Rightarrow> r | None \<Rightarrow> JNull), (''error'', or_null (sj_error j)), (''events'', JArr (map event_json events))]))"

definition createWithdrawal :: "'w Api \<Rightarrow> Request \<Rightarrow> string \<Rightarrow> ('w, reply) api" where
  "createWithdrawal A rq userId =
    bindIO (parse_with A withdrawalSchema (rq_body rq)) (\<lambda>body.
    bindIO (idem A rq) (\<lambda>idempotencyKey. let withdrawalId = deterministicId (ap_lib A) ''wd'' [idempotencyKey, text_of ''nullifier'' body] in
    bindIO (onStore (insertGeneric ''withdrawals'' [(''withdrawal_id'', JStr withdrawalId), (''idempotency_key'', JStr idempotencyKey), (''nullifier'', member ''nullifier'' body),
      (''amount_usdc_7dp'', member ''amount_public'' body), (''recipient'', member ''recipient'' body), (''relayer_fee'', member ''relayer_fee'' body),
      (''deadline_ledger'', member ''deadline_ledger'' body), (''user_id'', JStr userId), (''state'', JStr ''prepared'')])) (\<lambda>_.
    bindIO (moved ''withdrawal'' withdrawalId ''prepared'') (\<lambda>_.
    bindIO (activity userId ''withdrawal.prepare'' [(''entity_type'', JStr ''withdrawal''), (''entity_id'', JStr withdrawalId)]) (\<lambda>_.
    reply [(''withdrawal_id'', JStr withdrawalId)])))))"

definition post_withdrawals_prepare :: "'w Api \<Rightarrow> Request \<Rightarrow> ('w, reply) api" where
  "post_withdrawals_prepare A rq = bindIO (authedUser A rq) (\<lambda>userId. bindIO assertRootHealthy (\<lambda>_. createWithdrawal A rq userId))"

definition submit_key :: "string \<Rightarrow> json \<Rightarrow> string option" where
  "submit_key prefix b = (if json_falsy (json_get ''idempotency_key'' b) then None else Some (prefix @ js_string_opt (json_get ''idempotency_key'' b)))"

definition queued_reply :: "ServiceJob \<Rightarrow> ('w, reply) api" where
  "queued_reply job = reply [(''job_id'', JStr (sj_job_id job)), (''status'', JStr ''queued'')]"

definition post_withdrawals_submit :: "'w Api \<Rightarrow> Request \<Rightarrow> ('w, reply) api" where
  "post_withdrawals_submit A rq =
    bindIO (authedUser A rq) (\<lambda>_.
    bindIO assertRootHealthy (\<lambda>_. let b = JObj (body_members rq) in
    bindIO (onStore (queue_enqueue Q_relayer ''WITHDRAW_PUBLIC_SUBMIT'' b (submit_key ''wd-submit:'' b))) queued_reply))"

section \<open>Intents\<close>

definition mpcUrl :: "env \<Rightarrow> string" where
  "mpcUrl e = env_or e ''MPC_COMMITTEE_URL'' ''http://localhost:8090''"

definition response_ok :: "HttpResponse \<Rightarrow> bool" where
  "response_ok r \<longleftrightarrow> 200 \<le> hr_status r \<and> hr_status r < 300"

definition routed_session :: "json \<Rightarrow> json" where
  "routed_session reply_data = nullish_or (json_get ''sessionId'' reply_data) (nullish_or (json_get ''session_id'' reply_data) JNull)"

definition zero_commitment :: string where
  "zero_commitment = ''0x'' @ replicate 64 CHR ''0''"

definition mpc_intent_json :: "string \<Rightarrow> string \<Rightarrow> json \<Rightarrow> int \<Rightarrow> json" where
  "mpc_intent_json intentId userId body now = JObj [(''intentId'', JStr intentId), (''userId'', JStr userId), (''inputAsset'', member ''input_asset'' body),
    (''outputAsset'', member ''output_asset'' body), (''expiryLedger'', member ''expiry_ledger'' body), (''policyId'', member ''compliance_policy_id'' body),
    (''noteNullifier'', member ''note_nullifier'' body), (''noteCommitment'', member ''note_commitment'' body),
    (''recipientCommitment'', nullish_or (json_get ''recipient_commitment'' body) (JStr zero_commitment)), (''encryptedShares'', member ''encrypted_shares'' body),
    (''submittedAt'', JNum now)]"

fun insert_shares :: "string \<Rightarrow> json list \<Rightarrow> (Store, unit) io" where
  "insert_shares intentId [] = returnIO ()"
| "insert_shares intentId (s # ss) =
    bindIO (sql_insert ''mpc_intent_shares'' [(''intent_id'', JStr intentId), (''node_id'', member ''nodeId'' s), (''ciphertext'', member ''ciphertext'' s),
      (''nonce'', member ''nonce'' s), (''sender_pubkey'', member ''senderPubkey'' s)] (Ignore_On [''intent_id'', ''node_id''])) (\<lambda>_. insert_shares intentId ss)"

definition ensure_session :: "json \<Rightarrow> (Store, unit) io" where
  "ensure_session sid = (if json_falsy (Some sid) then returnIO ()
    else bindIO (sql_insert ''mpc_sessions'' [(''session_id'', sid)] Ignore_Any) (\<lambda>_. returnIO ()))"

definition upsert_mpc_intent :: "Row \<Rightarrow> (Store, unit) io" where
  "upsert_mpc_intent row = bindIO nowIO (\<lambda>now.
    bindIO (sql_insert ''mpc_intents'' (row @ [(''status'', JStr ''pending''), (''updated_at'', JNum now)]) (Update_On [''intent_id''] [''session_id'', ''updated_at''])) (\<lambda>_.
    returnIO ()))"

text \<open>What the route stores once the committee has taken the intent.\<close>

definition store_routed :: "string \<Rightarrow> string \<Rightarrow> json \<Rightarrow> json \<Rightarrow> (Store, unit) io" where
  "store_routed ihash userId body sid =
    bindIO (ensure_session sid) (\<lambda>_.
    bindIO (upsert_mpc_intent [(''intent_id'', JStr ihash), (''session_id'', if sid = JNull then JStr ''unknown'' else sid), (''user_id'', JStr userId),
      (''input_asset'', member ''input_asset'' body), (''output_asset'', member ''output_asset'' body), (''expiry_ledger'', member ''expiry_ledger'' body),
      (''policy_id'', member ''compliance_policy_id'' body), (''note_nullifier'', member ''note_nullifier'' body), (''note_commitment'', member ''note_commitment'' body),
      (''recipient_commitment'', nullish_or (json_get ''recipient_commitment'' body) (JStr []))]) (\<lambda>_.
    bindIO (insert_shares ihash (elements ''encrypted_shares'' body)) (\<lambda>_.
    bindIO (sql_update ''intents'' (is_text ''intent_hash'' ihash) [(''mpc_session_id'', sid)]) (\<lambda>_.
    logActivity (Some userId) ''mpc.intent.routed'' [(''entity_type'', JStr ''intent''), (''entity_id'', JStr ihash), (''metadata'', JObj [(''mpcSessionId'', sid)])]))))"

text \<open>The committee's session for the intent, null when it was not reached or refused; what fails afterwards is
  only logged, and the session counts as routed.\<close>

definition route_to_committee :: "'w Api \<Rightarrow> string \<Rightarrow> string \<Rightarrow> json \<Rightarrow> ('w, json) api" where
  "route_to_committee A ihash userId body =
    bindIO (onOut (ap_now A)) (\<lambda>now.
    bindIO (catchIO (bindIO (onOut (ap_fetch A ''POST'' (mpcUrl (ap_env A) @ ''/v1/mpc/intents'') None (Some (JObj [(''intent'', mpc_intent_json ihash userId body now)])))) (\<lambda>resp.
        bindIO (liftIO (hr_json resp)) (\<lambda>reply_data. returnIO (if response_ok resp then Some (routed_session reply_data) else None)))) (\<lambda>_. returnIO None)) (\<lambda>taken.
    case taken of
      None \<Rightarrow> returnIO JNull
    | Some sid \<Rightarrow> bindIO (catchIO (onStore (store_routed ihash userId body sid)) (\<lambda>_. returnIO ())) (\<lambda>_. returnIO sid)))"

definition has_mpc_fields :: "json \<Rightarrow> bool" where
  "has_mpc_fields body \<longleftrightarrow> elements ''encrypted_shares'' body \<noteq> [] \<and> \<not> json_falsy (json_get ''note_nullifier'' body) \<and> \<not> json_falsy (json_get ''note_commitment'' body)"

definition post_intents :: "'w Api \<Rightarrow> Request \<Rightarrow> ('w, reply) api" where
  "post_intents A rq =
    bindIO (authedUser A rq) (\<lambda>userId.
    bindIO (parse_with A intentSchema (rq_body rq)) (\<lambda>body.
    bindIO (idem A rq) (\<lambda>idempotencyKey. let ihash = hashJson (ap_lib A) body in
    bindIO (onStore (insertGeneric ''intents'' [(''intent_hash'', JStr ihash), (''idempotency_key'', JStr idempotencyKey),
      (''encrypted_payload'', JStr (stringify (JObj [(''ciphertext'', JStr ''client-encrypted-payload-required'')]))), (''public_commitment'', body),
      (''expiry_ledger'', member ''expiry_ledger'' body), (''policy_id'', member ''compliance_policy_id'' body), (''user_signature'', member ''signature'' body),
      (''user_id'', JStr userId), (''state'', JStr ''INTENT_CREATED'')])) (\<lambda>_.
    bindIO (moved ''intent'' ihash ''INTENT_CREATED'') (\<lambda>_.
    bindIO (activity userId ''intent.create'' [(''entity_type'', JStr ''intent''), (''entity_id'', JStr ihash)]) (\<lambda>_.
    bindIO (if has_mpc_fields body then route_to_committee A ihash userId body else returnIO JNull) (\<lambda>sid.
    reply ([(''intent_hash'', JStr ihash), (''mpc_routed'', JBool (\<not> json_falsy (Some sid)))] @
      (if json_falsy (Some sid) then [] else [(''mpc_session_id'', sid)])))))))))"

definition requireOwned :: "string \<Rightarrow> string \<Rightarrow> string \<Rightarrow> string \<Rightarrow> string \<Rightarrow> ('w, unit) api" where
  "requireOwned what table column userId i =
    bindIO (onStore (getById table column i)) (\<lambda>row.
    case row of
      None \<Rightarrow> fail 404 (what @ '' not found'')
    | Some r \<Rightarrow> unless (row_get ''user_id'' r = JNull \<or> row_get ''user_id'' r = JStr userId) 403 (what @ '' not owned by user''))"

definition requireOwnedIntent :: "string \<Rightarrow> string \<Rightarrow> ('w, unit) api" where
  "requireOwnedIntent userId ihash = requireOwned ''intent'' ''intents'' ''intent_hash'' userId ihash"

definition requireOwnedExit :: "string \<Rightarrow> string \<Rightarrow> ('w, unit) api" where
  "requireOwnedExit userId exitId = requireOwned ''exit'' ''cctp_exits'' ''exit_id'' userId exitId"

section \<open>Quotes and fills\<close>

definition opt_entry :: "string \<Rightarrow> json option \<Rightarrow> Row" where
  "opt_entry k v = (case v of None \<Rightarrow> [] | Some j \<Rightarrow> [(k, j)])"

definition quote_row :: "string \<Rightarrow> json \<Rightarrow> (Row) result" where
  "quote_row ihash sq =
    bindR (get_member ''quote_id'' (json_get ''quote'' sq)) (\<lambda>quoteId.
    let q = member ''quote'' sq; value_of = (\<lambda>v. case v of Some j \<Rightarrow> j | None \<Rightarrow> JNull) in
    Inr [(''quote_id'', value_of quoteId), (''intent_hash'', JStr ihash), (''quote_hash'', member ''quote_hash'' sq), (''solver_id'', member ''solver_id'' q), (''payload'', q),
      (''quote_signature'', member ''solver_sig'' sq), (''valid_until_ledger'', member ''valid_until_ledger'' q), (''state'', JStr ''QUOTE_RECEIVED'')])"

definition post_request_quotes :: "'w Api \<Rightarrow> Request \<Rightarrow> ('w, reply) api" where
  "post_request_quotes A rq =
    bindIO (authedUser A rq) (\<lambda>userId. let ihash = rq_params rq ''intent_hash'' in
    bindIO (requireOwnedIntent userId ihash) (\<lambda>_.
    bindIO (parse_with A requestQuotesSchema (rq_body rq)) (\<lambda>body.
    case nonempty_env (ap_env A) ''SOLVER_URL'' of
      Some url \<Rightarrow>
        bindIO (onOut (ap_fetch A ''POST'' (url @ ''/v1/quote'') None (Some (JObj ([(''intent_hash'', JStr ihash), (''amount'', member ''amount'' body)] @
          opt_entry ''expiry_ledger'' (json_get ''expiry_ledger'' body)))))) (\<lambda>resp.
        bindIO (unless (response_ok resp) 502 (''solver responded '' @ bigint_to_string (hr_status resp))) (\<lambda>_.
        bindIO (liftIO (hr_json resp)) (\<lambda>sq.
        bindIO (liftIO (quote_row ihash sq)) (\<lambda>row.
        bindIO (onStore (insertGeneric ''quotes'' row)) (\<lambda>_.
        reply [(''requested'', JBool True), (''quote_id'', row_get ''quote_id'' row)])))))
    | None \<Rightarrow> bindIO (onStore (listQuotesByIntent ihash)) (\<lambda>qs.
        reply [(''requested'', JBool False), (''reason'', JStr ''SOLVER_URL not configured''), (''quotes'', rows_json qs)]))))"

definition get_intent_quotes :: "Request \<Rightarrow> ('w, reply) api" where
  "get_intent_quotes rq = bindIO (onStore (listQuotesByIntent (rq_params rq ''intent_hash''))) (\<lambda>qs. reply [(''quotes'', rows_json qs)])"

definition post_solver_quotes :: "'w Api \<Rightarrow> Request \<Rightarrow> ('w, reply) api" where
  "post_solver_quotes A rq =
    bindIO (parse_with A quoteSchema (rq_body rq)) (\<lambda>body. let qhash = hashJson (ap_lib A) body in
    bindIO (onStore (insertGeneric ''quotes'' [(''quote_id'', member ''quote_id'' body), (''intent_hash'', member ''intent_hash'' body), (''quote_hash'', JStr qhash),
      (''solver_id'', member ''solver_id'' body), (''payload'', body), (''quote_signature'', member ''quote_signature'' body),
      (''valid_until_ledger'', member ''valid_until_ledger'' body), (''state'', JStr ''QUOTE_RECEIVED'')])) (\<lambda>_.
    bindIO (moved ''quote'' (text_of ''quote_id'' body) ''QUOTE_RECEIVED'') (\<lambda>_.
    reply [(''quote_id'', member ''quote_id'' body), (''quote_hash'', JStr qhash)])))"

definition post_quote_accept :: "'w Api \<Rightarrow> Request \<Rightarrow> ('w, reply) api" where
  "post_quote_accept A rq =
    bindIO (authedUser A rq) (\<lambda>userId.
    bindIO (parse_with A quoteAcceptanceSchema (rq_body rq)) (\<lambda>body. let quoteId = rq_params rq ''quote_id''; ihash = text_of ''intent_hash'' body in
    bindIO (requireOwnedIntent userId ihash) (\<lambda>_.
    bindIO (onStore (rfqLifecycle ihash quoteId)) (\<lambda>lc.
    case lc_quote lc of
      None \<Rightarrow> fail 404 ''quote not found''
    | Some q \<Rightarrow>
        bindIO (unless (row_get ''intent_hash'' q = JStr ihash) 409 ''quote does not belong to intent'') (\<lambda>_.
        bindIO (unless (\<not> lc_accepted lc) 409 ''a quote is already accepted for this intent (immutable)'') (\<lambda>_.
        let acceptanceId = deterministicId (ap_lib A) ''accept'' [quoteId, text_of ''user_signature_hash'' body] in
        bindIO (onStore (insertGeneric ''quote_acceptances'' [(''acceptance_id'', JStr acceptanceId), (''quote_id'', JStr quoteId), (''intent_hash'', JStr ihash),
          (''user_signature_hash'', member ''user_signature_hash'' body), (''user_id'', JStr userId)])) (\<lambda>_.
        bindIO (moved ''quote'' quoteId ''QUOTE_ACCEPTED'') (\<lambda>_. reply [(''acceptance_id'', JStr acceptanceId)])))))))) "

definition post_quote_lock :: "'w Api \<Rightarrow> Request \<Rightarrow> ('w, reply) api" where
  "post_quote_lock A rq =
    bindIO (parse_with A lockSchema (rq_body rq)) (\<lambda>body. let quoteId = rq_params rq ''quote_id''; lockId = deterministicId (ap_lib A) ''lock'' [quoteId, text_of ''lock_hash'' body] in
    bindIO (onStore (insertGeneric ''solver_inventory_locks'' (spread (spread [(''lock_id'', JStr lockId), (''quote_id'', JStr quoteId)] (members body)) [(''state'', JStr ''SOLVER_INVENTORY_LOCKED'')]))) (\<lambda>_.
    bindIO (moved ''quote'' quoteId ''SOLVER_INVENTORY_LOCKED'') (\<lambda>_. reply [(''lock_id'', JStr lockId)])))"

definition post_fills :: "'w Api \<Rightarrow> Request \<Rightarrow> ('w, reply) api" where
  "post_fills A rq =
    bindIO (parse_with A fillSchema (rq_body rq)) (\<lambda>body. let fillId = deterministicId (ap_lib A) ''fill'' [text_of ''quote_id'' body, text_of ''fill_receipt_hash'' body] in
    bindIO (onStore (insertGeneric ''fills'' (spread (spread [(''fill_id'', JStr fillId)] (members body)) [(''state'', JStr ''FILL_CREATED'')]))) (\<lambda>_.
    bindIO (moved ''fill'' fillId ''FILL_CREATED'') (\<lambda>_. reply [(''fill_id'', JStr fillId)])))"

definition post_fill_execute :: "Request \<Rightarrow> ('w, reply) api" where
  "post_fill_execute rq = (let fillId = rq_params rq ''fill_id''; h = json_get ''destination_tx_hash'' (JObj (body_members rq)) in
    if json_falsy h then coded 400 ''destination_tx_hash required''
    else bindIO (onStore (executeFill fillId (the h))) (\<lambda>ok.
      if \<not> ok then coded 404 ''fill not found''
      else bindIO (onStore (transition \<lparr>tr_entityType = ''fill'', tr_entityId = fillId, tr_fromState = None, tr_toState = ''FILL_EXECUTED'', tr_reason = None, tr_txHash = Some (js_string (the h)), tr_metadata = None\<rparr>)) (\<lambda>_.
        reply [(''fill_id'', JStr fillId), (''state'', JStr ''EXECUTED''), (''destination_tx_hash'', the h)])))"

section \<open>Settlement\<close>

definition mpc_matched :: "string \<Rightarrow> (Store, bool) io" where
  "mpc_matched ihash = bindIO (sql_select ''mpc_intents'' (\<lambda>r. is_text ''intent_id'' ihash r \<and> is_text ''status'' ''matched'' r)) (\<lambda>rows. returnIO (rows \<noteq> []))"

definition check_lifecycle :: "string \<Rightarrow> json \<Rightarrow> RfqLifecycle \<Rightarrow> ('w, unit) api" where
  "check_lifecycle userId body lc =
    (case lc_intent lc of
       None \<Rightarrow> fail 404 ''intent not found''
     | Some i \<Rightarrow>
         bindIO (unless (row_get ''user_id'' i = JNull \<or> row_get ''user_id'' i = JStr userId) 403 ''authenticated user does not own this intent'') (\<lambda>_.
         case lc_quote lc of
           None \<Rightarrow> fail 404 ''quote not found''
         | Some q \<Rightarrow>
             bindIO (unless (row_get ''intent_hash'' q = JStr (text_of ''intent_hash'' body)) 409 ''quote does not belong to intent'') (\<lambda>_.
             bindIO (unless (lc_accepted lc) 409 ''quote is not accepted'') (\<lambda>_.
             case lc_fill lc of
               None \<Rightarrow> fail 409 ''fill not found for quote''
             | Some f \<Rightarrow>
                 bindIO (unless (is_text ''state'' ''EXECUTED'' f) 409 ''fill is not executed'') (\<lambda>_.
                 unless (json_falsy (json_get ''fill_receipt_hash'' body) \<or> json_get ''fill_receipt_hash'' body = Some (row_get ''fill_receipt_hash'' f)) 409
                   ''fill receipt hash mismatch'')))))"

definition rfq_settle_as :: "'w Api \<Rightarrow> Request \<Rightarrow> string \<Rightarrow> ('w, reply) api" where
  "rfq_settle_as A rq userId =
    bindIO assertRootHealthy (\<lambda>_.
    bindIO (parse_with A settlementSchema (rq_body rq)) (\<lambda>body. let ihash = text_of ''intent_hash'' body; nullifier = text_of ''nullifier'' body in
    bindIO (onStore (rfqLifecycle ihash (text_of ''quote_id'' body))) (\<lambda>lc.
    bindIO (check_lifecycle userId body lc) (\<lambda>_.
    bindIO (onStore (getById ''proof_jobs'' ''proof_job_id'' (text_of ''proof_job_id'' body))) (\<lambda>proofReady.
    bindIO (unless (case proofReady of Some r \<Rightarrow> is_text ''status'' ''ready'' r | None \<Rightarrow> False) 409 ''proof job is not ready'') (\<lambda>_.
    bindIO (onStore (isNullifierSpent nullifier)) (\<lambda>spent.
    bindIO (unless (\<not> spent) 409 ''nullifier already spent'') (\<lambda>_.
    bindIO (onStore (getById ''intents'' ''intent_hash'' ihash)) (\<lambda>intentRow.
    bindIO (if (case intentRow of Some r \<Rightarrow> json_falsy (Some (row_get ''mpc_session_id'' r)) | None \<Rightarrow> True) then returnIO ()
            else bindIO (onStore (mpc_matched ihash)) (\<lambda>m. unless m 409 ''MPC match not yet confirmed'')) (\<lambda>_.
    let settlementId = deterministicId (ap_lib A) ''settle'' [ihash, text_of ''quote_id'' body, nullifier] in
    bindIO (onStore (insertGeneric ''settlements'' (spread (spread [(''settlement_id'', JStr settlementId)] (members body)) [(''state'', JStr ''SETTLEMENT_SUBMITTED'')]))) (\<lambda>_.
    bindIO (moved ''settlement'' settlementId ''SETTLEMENT_SUBMITTED'') (\<lambda>_.
    bindIO (onStore (setRowUser ''settlements'' ''settlement_id'' settlementId userId)) (\<lambda>_.
    bindIO (activity userId ''rfq.settle'' [(''entity_type'', JStr ''settlement''), (''entity_id'', JStr settlementId)]) (\<lambda>_.
    reply [(''settlement_id'', JStr settlementId), (''lifecycle_verified'', JBool True)]))))))))))))))"

definition post_rfq_settle :: "'w Api \<Rightarrow> Request \<Rightarrow> ('w, reply) api" where
  "post_rfq_settle A rq = bindIO (authedUser A rq) (rfq_settle_as A rq)"

section \<open>Disclosure\<close>

definition text_list :: "string \<Rightarrow> json \<Rightarrow> string list" where
  "text_list k b = map js_string (elements k b)"

definition tx_links :: "Row list \<Rightarrow> string list" where
  "tx_links settlements = concat (map (\<lambda>s. case row_get ''stellar_tx_hash'' s of
     JStr h \<Rightarrow> if h = [] then [] else [''https://stellar.expert/explorer/testnet/tx/'' @ h] | _ \<Rightarrow> []) settlements)"

definition report_input :: "string \<Rightarrow> json \<Rightarrow> Row list \<Rightarrow> Row list \<Rightarrow> json list \<Rightarrow> ViewKeyReportInput" where
  "report_input userId body settlements commitments anchorIds =
    \<lparr>vr_userId = userId, vr_timeRangeFrom = member ''time_range_from'' body, vr_timeRangeTo = member ''time_range_to'' body,
     vr_noteCommitments = map (\<lambda>c. js_string (row_get ''commitment'' c)) commitments,
     vr_disclosedNullifiers = filter (\<lambda>n. n \<noteq> []) (map (\<lambda>s. js_string (row_get ''nullifier'' s)) settlements),
     vr_quoteId = nullish_or (json_get ''quote_id'' body) (case settlements of s # _ \<Rightarrow> row_get ''quote_id'' s | [] \<Rightarrow> JNull),
     vr_policyId = nullish_or (json_get ''policy_id'' body) (case commitments of c # _ \<Rightarrow> row_get ''policy_id'' c | [] \<Rightarrow> JNull),
     vr_anchorId = (case anchorIds of a # _ \<Rightarrow> a | [] \<Rightarrow> JNull),
     vr_amountsDisclosed = (if member ''disclose_amounts'' body = JBool True
       then Some (JArr (map (\<lambda>c. JObj [(''commitment'', JStr (js_string (row_get ''commitment'' c))), (''amount7dp'', JStr (js_string (row_get ''amount_usdc_7dp'' c))),
         (''currency'', JStr ''USDC'')]) commitments)) else None),
     vr_proofLinks = tx_links settlements\<rparr>"

definition report_row :: "string \<Rightarrow> string \<Rightarrow> json \<Rightarrow> SignedViewKeyReport \<Rightarrow> json \<Rightarrow> Row" where
  "report_row reportId userId body r attachment =
    [(''report_id'', JStr reportId), (''user_id'', JStr userId), (''time_range_from'', member ''time_range_from'' body), (''time_range_to'', member ''time_range_to'' body),
     (''note_commitments'', texts (vr_noteCommitments r)), (''disclosed_nullifiers'', texts (vr_disclosedNullifiers r)), (''quote_id'', vr_quoteId r),
     (''policy_id'', vr_policyId r), (''anchor_id'', vr_anchorId r), (''amount_disclosed'', member ''disclose_amounts'' body), (''proof_links'', texts (vr_proofLinks r)),
     (''service_pubkey'', JStr (vr_servicePubkeyHex r)), (''service_signature'', JStr (vr_serviceSignatureHex r)), (''encrypted_attachment'', attachment)]"

text \<open>The box library and its ephemeral key pair, the printing of dates, and the builder of unsigned withdrawal
  transactions (source and contract, recipient, proof and public inputs).\<close>

record ('w) ViewLib =
  vl_nacl :: Nacl
  vl_keyPair :: "('w, KeyPair) io"
  vl_toISOString :: "int \<Rightarrow> string"
  vl_withdrawXdr :: "string \<Rightarrow> string \<Rightarrow> string \<Rightarrow> string \<Rightarrow> ('w, string) io"

definition attachment_of :: "'w Api \<Rightarrow> 'w ViewLib \<Rightarrow> SignedViewKeyReport \<Rightarrow> json \<Rightarrow> ('w, json) api" where
  "attachment_of A V r body =
    (case opt_text ''attachment_recipient_pubkey'' body of
       Some pk \<Rightarrow>
         bindIO (onOut (vl_keyPair V)) (\<lambda>kp. bindIO (onOut (ap_randomBytes A 24)) (\<lambda>nonce. liftIO (encryptReportAttachment (vl_nacl V) kp nonce r pk)))
     | None \<Rightarrow> returnIO JNull)"

definition post_view_key :: "'w Api \<Rightarrow> 'w ViewLib \<Rightarrow> Request \<Rightarrow> ('w, reply) api" where
  "post_view_key A V rq =
    bindIO (authedUser A rq) (\<lambda>userId.
    bindIO (parse_with A viewKeyReportSchema (rq_body rq)) (\<lambda>body.
    case nonempty_env (ap_env A) ''LUMIXPROTOCOL_VIEW_SIGNING_SECRET'' of
      None \<Rightarrow> coded 503 ''LumixProtocol View service not configured (LUMIXPROTOCOL_VIEW_SIGNING_SECRET unset)''
    | Some serviceSecret \<Rightarrow>
        bindIO (onStore (getOwnedSettlements userId (text_list ''settlement_ids'' body))) (\<lambda>settlements.
        bindIO (onStore (getOwnedNoteCommitments userId (text_list ''note_commitments'' body))) (\<lambda>commitments.
        bindIO (case opt_text ''anchor_id'' body of Some a \<Rightarrow> returnIO [JStr a]
                | None \<Rightarrow> onStore (getAnchorIdsForSettlements (map (\<lambda>s. js_string (row_get ''settlement_id'' s)) settlements))) (\<lambda>anchorIds.
        bindIO (onOut (ap_randomUUID A)) (\<lambda>reportId.
        bindIO (onOut (ap_now A)) (\<lambda>now.
        bindIO (liftIO (signViewKeyReport (ap_lib A) (report_input userId body settlements commitments anchorIds) reportId serviceSecret (vl_toISOString V now))) (\<lambda>signed.
        bindIO (attachment_of A V signed body) (\<lambda>attachment.
        bindIO (onStore (insertViewKeyReport (report_row reportId userId body signed attachment))) (\<lambda>_.
        bindIO (activity userId ''lumixprotocol_view.report.generate'' [(''entity_type'', JStr ''view_key_report''), (''entity_id'', JStr reportId)]) (\<lambda>_.
        reply [(''report'', report_json signed), (''encrypted_attachment'', attachment)])))))))))))"

definition get_view_key :: "'w Api \<Rightarrow> Request \<Rightarrow> ('w, reply) api" where
  "get_view_key A rq =
    bindIO (authedUser A rq) (\<lambda>userId.
    bindIO (onStore (getViewKeyReport userId (rq_params rq ''report_id''))) (\<lambda>row.
    case row of None \<Rightarrow> coded 404 ''report not found'' | Some r \<Rightarrow> returnIO (200, JObj r)))"

section \<open>Unsigned withdrawals\<close>

definition post_build_xdr :: "'w Api \<Rightarrow> 'w ViewLib \<Rightarrow> Request \<Rightarrow> ('w, reply) api" where
  "post_build_xdr A V rq =
    bindIO (authedUser A rq) (\<lambda>_.
    bindIO assertRootHealthy (\<lambda>_. let b = JObj (body_members rq) in
    bindIO (unless (\<not> json_falsy (json_get ''to'' b) \<and> \<not> json_falsy (json_get ''proofHex'' b) \<and> \<not> json_falsy (json_get ''publicHex'' b)) 400 ''to, proofHex, publicHex required'') (\<lambda>_.
    bindIO (onOut (vl_withdrawXdr V (text_of ''to'' b) (env_or (ap_env A) ''SHIELDED_POOL_CONTRACT'' []) (text_of ''proofHex'' b) (text_of ''publicHex'' b))) (\<lambda>xdr.
    reply [(''unsigned_xdr'', JStr xdr), (''sign_with'', JStr ''stellar_wallet''), (''submit_to'', JStr ''/v1/withdrawals/submit (signedXdr)'')]))))"

section \<open>Exits and activity\<close>

definition post_outbound_prepare :: "'w Api \<Rightarrow> Request \<Rightarrow> ('w, reply) api" where
  "post_outbound_prepare A rq =
    bindIO (authedUser A rq) (\<lambda>userId.
    bindIO assertRootHealthy (\<lambda>_.
    bindIO (parse_with A cctpExitSchema (rq_body rq)) (\<lambda>body.
    bindIO (idem A rq) (\<lambda>idempotencyKey. let exitId = deterministicId (ap_lib A) ''exit'' [idempotencyKey, text_of ''nullifier'' body] in
    bindIO (onStore (insertGeneric ''cctp_exits'' (spread (spread [(''exit_id'', JStr exitId), (''idempotency_key'', JStr idempotencyKey)] (members body))
      [(''user_id'', JStr userId), (''state'', JStr ''prepared'')]))) (\<lambda>_.
    bindIO (moved ''cctp_exit'' exitId ''prepared'') (\<lambda>_.
    bindIO (activity userId ''cctp_exit.prepare'' [(''entity_type'', JStr ''cctp_exit''), (''entity_id'', JStr exitId)]) (\<lambda>_.
    reply [(''exit_id'', JStr exitId)])))))))"

definition post_outbound_submit :: "'w Api \<Rightarrow> Request \<Rightarrow> ('w, reply) api" where
  "post_outbound_submit A rq =
    bindIO (authedUser A rq) (\<lambda>userId.
    bindIO assertRootHealthy (\<lambda>_. let b = JObj (body_members rq) in
    bindIO (if json_falsy (json_get ''exit_id'' b) then returnIO () else requireOwnedExit userId (js_string_opt (json_get ''exit_id'' b))) (\<lambda>_.
    bindIO (onStore (queue_enqueue Q_relayer ''WITHDRAW_CCTP_BURN'' b (submit_key ''exit-submit:'' b))) queued_reply)))"

text \<open>\<open>fetch-attestation\<close> and \<open>complete-mint\<close>.\<close>

definition outboundStep :: "'w Api \<Rightarrow> string \<Rightarrow> Request \<Rightarrow> ('w, reply) api" where
  "outboundStep A jobType rq =
    bindIO (authedUser A rq) (\<lambda>userId. let exitId = rq_params rq ''exit_id'' in
    bindIO (requireOwnedExit userId exitId) (\<lambda>_.
    bindIO (onStore (queue_enqueue Q_relayer jobType (JObj (spread [(''exit_id'', JStr exitId)] (body_members rq))) (Some (jobType @ '':'' @ exitId)))) (\<lambda>job.
    reply [(''exit_id'', JStr exitId), (''job_id'', JStr (sj_job_id job)), (''status'', JStr ''queued'')])))"

definition get_activity :: "'w Api \<Rightarrow> Request \<Rightarrow> ('w, reply) api" where
  "get_activity A rq = bindIO (authedUser A rq) (\<lambda>userId. bindIO (onStore (listActivity userId 100)) (\<lambda>rows. reply [(''activity'', rows_json rows)]))"

text \<open>The first message of \<open>GET /v1/activity/stream\<close>; the later ones repeat it when it changes.\<close>

definition get_activity_stream :: "'w Api \<Rightarrow> Request \<Rightarrow> ('w, reply) api" where
  "get_activity_stream A rq = bindIO (authedUser A rq) (\<lambda>userId. bindIO (onStore (listActivity userId 20)) (\<lambda>rows. returnIO (200, rows_json rows)))"

section \<open>The committee\<close>

text \<open>\<open>GET /v1/mpc/committee\<close>, \<open>/batches\<close> and \<open>POST /batches/verify\<close>: what the committee answers, or 502, or 503.\<close>

definition proxy_committee :: "'w Api \<Rightarrow> string \<Rightarrow> string \<Rightarrow> json option \<Rightarrow> string \<Rightarrow> ('w, reply) api" where
  "proxy_committee A verb path body unreachable =
    catchIO (bindIO (onOut (ap_fetch A verb (mpcUrl (ap_env A) @ path) None body)) (\<lambda>resp.
      if \<not> response_ok resp then coded 502 ''committee unavailable''
      else bindIO (liftIO (hr_json resp)) (\<lambda>j. returnIO (200, j)))) (\<lambda>_. coded 503 unreachable)"

definition get_mpc_session :: "'w Api \<Rightarrow> Request \<Rightarrow> ('w, reply) api" where
  "get_mpc_session A rq =
    catchIO (bindIO (onOut (ap_fetch A ''GET'' (mpcUrl (ap_env A) @ ''/v1/mpc/sessions/'' @ rq_params rq ''session_id'') None None)) (\<lambda>resp.
      bindIO (liftIO (hr_json resp)) (\<lambda>j. returnIO (if response_ok resp then 200 else nat (hr_status resp), j)))) (\<lambda>_. coded 503 ''MPC committee unreachable'')"

definition post_mpc_match :: "'w Api \<Rightarrow> Request \<Rightarrow> ('w, reply) api" where
  "post_mpc_match A rq =
    catchIO (bindIO (onOut (ap_fetch A ''POST'' (mpcUrl (ap_env A) @ ''/v1/mpc/sessions/'' @ rq_params rq ''session_id'' @ ''/match'') None None)) (\<lambda>resp.
      bindIO (liftIO (hr_json resp)) (\<lambda>j. returnIO (if response_ok resp then 200 else 502, j)))) (\<lambda>_. coded 503 ''MPC committee unreachable'')"

text \<open>\<open>a ?? b ?? d\<close> over members of the body.\<close>

fun first_of :: "json \<Rightarrow> string list \<Rightarrow> json \<Rightarrow> json" where
  "first_of b [] d = d"
| "first_of b (k # ks) d = nullish_or (json_get k b) (first_of b ks d)"

definition mpc_row :: "string \<Rightarrow> string option \<Rightarrow> json \<Rightarrow> json \<Rightarrow> Row" where
  "mpc_row intentId userId body sid =
    [(''intent_id'', JStr intentId), (''session_id'', if sid = JNull then JStr ''unknown'' else sid), (''user_id'', or_null userId),
     (''input_asset'', first_of body [''inputAsset'', ''input_asset''] JNull), (''output_asset'', first_of body [''outputAsset'', ''output_asset''] JNull),
     (''expiry_ledger'', first_of body [''expiryLedger'', ''expiry_ledger''] (JNum 0)), (''policy_id'', first_of body [''policyId'', ''policy_id''] (JStr ''default'')),
     (''note_nullifier'', first_of body [''noteNullifier'', ''note_nullifier''] (JStr [])), (''note_commitment'', first_of body [''noteCommitment'', ''note_commitment''] (JStr [])),
     (''recipient_commitment'', first_of body [''recipientCommitment'', ''recipient_commitment''] (JStr []))]"

definition store_mpc_intent :: "string \<Rightarrow> string option \<Rightarrow> json \<Rightarrow> json \<Rightarrow> (Store, unit) io" where
  "store_mpc_intent intentId userId body sid =
    bindIO (ensure_session sid) (\<lambda>_.
    bindIO (upsert_mpc_intent (mpc_row intentId userId body sid)) (\<lambda>_.
    bindIO (insert_shares intentId (elements ''encryptedShares'' body)) (\<lambda>_.
    if no_token userId then returnIO ()
    else logActivity userId ''mpc.intent.submit'' [(''entity_type'', JStr ''mpc_intent''), (''entity_id'', JStr intentId)])))"

definition post_mpc_intents :: "'w Api \<Rightarrow> Request \<Rightarrow> ('w, reply) api" where
  "post_mpc_intents A rq = (let body = JObj (body_members rq); intentId = first_of body [''intentId'', ''intent_id''] JNull in
    if json_falsy (Some intentId) then coded 400 ''intentId required''
    else bindIO (optionalUser A rq) (\<lambda>userId.
      bindIO (catchIO (bindIO (onOut (ap_fetch A ''POST'' (mpcUrl (ap_env A) @ ''/v1/mpc/intents'') None (Some (JObj [(''intent'', body)])))) (\<lambda>resp.
          bindIO (liftIO (hr_json resp)) (\<lambda>j. returnIO (if response_ok resp then Inr j else Inl (502, j)))))
        (\<lambda>_. returnIO (Inl (503, JObj [(''error'', JStr ''MPC committee unreachable'')])))) (\<lambda>answer.
      case answer of
        Inl r \<Rightarrow> returnIO r
      | Inr j \<Rightarrow> bindIO (onStore (store_mpc_intent (js_string intentId) userId body (routed_session j))) (\<lambda>_. returnIO (200, j)))))"

definition get_mpc_intent :: "Request \<Rightarrow> ('w, reply) api" where
  "get_mpc_intent rq =
    bindIO (onStore (sql_select ''mpc_intents'' (is_text ''intent_id'' (rq_params rq ''intent_id'')))) (\<lambda>rows.
    case rows of [] \<Rightarrow> coded 404 ''intent not found'' | r # _ \<Rightarrow> returnIO (200, JObj (star ''mpc_intents'' r)))"

section \<open>Anchors\<close>

definition proxyAnchor :: "'w Api \<Rightarrow> string \<Rightarrow> string \<Rightarrow> json option \<Rightarrow> ('w, reply) api" where
  "proxyAnchor A path verb body = (let base = env_or (ap_env A) ''ANCHOR_API_BASE'' [] in
    if base = [] then coded 501 ''no anchor adapter configured (set ANCHOR_API_BASE)''
    else bindIO (onOut (ap_fetch A verb (base @ path) (map_option (\<lambda>k. ''Bearer '' @ k) (nonempty_env (ap_env A) ''ANCHOR_API_KEY'')) body)) (\<lambda>resp.
      bindIO (liftIO (hr_json resp)) (\<lambda>j. returnIO (nat (hr_status resp), j))))"

definition text_or_default :: "string \<Rightarrow> string \<Rightarrow> json \<Rightarrow> json" where
  "text_or_default k d b = JStr (js_string (nullish_or (json_get k b) (JStr d)))"

text \<open>Both inserts name a table that \<open>insertGeneric\<close> refuses; the error is caught and dropped.\<close>

definition post_anchor_quotes :: "'w Api \<Rightarrow> Request \<Rightarrow> ('w, reply) api" where
  "post_anchor_quotes A rq =
    bindIO (authedUser A rq) (\<lambda>userId. let body = JObj (body_members rq) in
    bindIO (onOut (ap_randomUUID A)) (\<lambda>quoteId.
    bindIO (proxyAnchor A ''/quotes'' ''POST'' (Some (JObj (spread (body_members rq) [(''client_id'', JStr userId)])))) (\<lambda>(c, answer).
    bindIO (if c < 300 then catchIO (onStore (insertGeneric ''anchor_quotes'' [(''quote_id'', JStr quoteId), (''user_id'', JStr userId), (''asset'', text_or_default ''asset'' [] body),
        (''amount_7dp'', text_or_default ''amount7dp'' ''0'' body), (''destination_currency'', text_or_default ''destination_currency'' [] body),
        (''destination_country'', text_or_default ''destination_country'' [] body), (''anchor_quote_id'', nullish_or (json_get ''id'' answer) JNull),
        (''status'', JStr ''quoted''), (''raw'', answer)])) (\<lambda>_. returnIO ()) else returnIO ()) (\<lambda>_. returnIO (c, answer)))))"

definition post_anchor_payouts :: "'w Api \<Rightarrow> Request \<Rightarrow> ('w, reply) api" where
  "post_anchor_payouts A rq =
    bindIO (authedUser A rq) (\<lambda>userId. let body = JObj (body_members rq) in
    bindIO (onOut (ap_randomUUID A)) (\<lambda>payoutId.
    bindIO (proxyAnchor A ''/transactions'' ''POST'' (Some (JObj (spread (body_members rq) [(''client_id'', JStr userId)])))) (\<lambda>(c, answer).
    bindIO (if c < 300 then catchIO (onStore (insertGeneric ''anchor_payouts'' [(''payout_id'', JStr payoutId), (''user_id'', JStr userId), (''quote_id'', text_or_default ''quote_id'' [] body),
        (''settlement_id'', text_or_default ''settlement_id'' [] body), (''anchor_transaction_id'', nullish_or (json_get ''id'' answer) JNull),
        (''status'', JStr ''pending''), (''raw'', answer)])) (\<lambda>_. returnIO ()) else returnIO ()) (\<lambda>_.
    returnIO (c, JObj (spread [(''payout_id'', JStr payoutId)] (members answer)))))))"

text \<open>Reading a payout asks \<open>getById\<close> for a table that it refuses: the route throws.\<close>

definition with_payout :: "'w Api \<Rightarrow> string \<Rightarrow> (Row \<Rightarrow> ('w, reply) api) \<Rightarrow> ('w, reply) api" where
  "with_payout A payoutId f =
    bindIO (onStore (getById ''anchor_payouts'' ''payout_id'' payoutId)) (\<lambda>row. case row of None \<Rightarrow> coded 404 ''payout not found'' | Some r \<Rightarrow> f r)"

definition get_anchor_payout :: "'w Api \<Rightarrow> Request \<Rightarrow> ('w, reply) api" where
  "get_anchor_payout A rq =
    bindIO (authedUser A rq) (\<lambda>_. with_payout A (rq_params rq ''payout_id'') (\<lambda>r.
      if json_falsy (Some (row_get ''anchor_transaction_id'' r)) then returnIO (200, JObj r)
      else proxyAnchor A (''/transactions/'' @ js_string (row_get ''anchor_transaction_id'' r)) ''GET'' None))"

definition post_compliance_package :: "'w Api \<Rightarrow> Request \<Rightarrow> ('w, reply) api" where
  "post_compliance_package A rq =
    bindIO (authedUser A rq) (\<lambda>_. let body = JObj (body_members rq) in
    with_payout A (js_string (nullish_or (json_get ''payout_id'' body) (JStr []))) (\<lambda>r.
      if json_falsy (Some (row_get ''anchor_transaction_id'' r)) then coded 400 ''payout has no anchor transaction''
      else proxyAnchor A (''/transactions/'' @ js_string (row_get ''anchor_transaction_id'' r) @ ''/kyc_documents'') ''POST''
        (Some (JObj (opt_entry ''encrypted_package'' (json_get ''encrypted_package_hex'' body))))))"

end
