(* ===== verification/Api_Server.thy ===== *)
theory Api_Server
  imports Api_Rfq
begin

text \<open>
  The server as a whole: the table of routes of \<open>registerRoutes\<close>, the steps it can take, and what holds in every
  state it reaches.  The facts of the single statements come from the locale \<open>store_invariant\<close>, whose two
  interpretations carry over to all routes at once.
\<close>

section \<open>The routes\<close>

definition routes :: "'w Api \<Rightarrow> 'w ViewLib \<Rightarrow> (string \<times> (Request \<Rightarrow> ('w, reply) api)) list" where
  "routes A V =
   [(''GET /health'', \<lambda>_. get_health), (''GET /v1/config'', \<lambda>_. get_config), (''GET /v1/balances/testnet'', \<lambda>_. get_balances), (''POST /v1/setup/validate'', \<lambda>_. post_setup_validate),
    (''GET /v1/contracts'', \<lambda>_. get_contracts A), (''GET /v1/health/full'', \<lambda>_. get_health_full A), (''POST /v1/auth/nonce'', post_auth_nonce A),
    (''POST /v1/auth/evm/verify'', verifyHandler A ''EVM''), (''POST /v1/auth/stellar/verify'', verifyHandler A ''STELLAR''),
    (''GET /v1/auth/session'', get_auth_session A), (''POST /v1/auth/logout'', post_auth_logout A), (''GET /v1/me'', get_me A), (''PATCH /v1/me'', patch_me A),
    (''GET /v1/me/wallets'', get_me_wallets A), (''POST /v1/me/wallets/sync-privy'', post_wallets_sync_privy A), (''POST /v1/me/wallets'', post_me_wallets A),
    (''DELETE /v1/me/wallets/:wallet_id'', delete_me_wallet A), (''GET /v1/me/deposits'', get_me_rows A ''deposits'' ''cctp_deposits''),
    (''GET /v1/me/notes'', get_me_rows A ''notes'' ''note_commitments''), (''GET /v1/me/withdrawals'', get_me_rows A ''withdrawals'' ''withdrawals''),
    (''GET /v1/me/rfq'', get_me_rows A ''settlements'' ''settlements''), (''GET /v1/me/cctp-exits'', get_me_rows A ''exits'' ''cctp_exits''),
    (''GET /v1/me/note-backups'', get_me_rows A ''backups'' ''encrypted_note_backups''), (''POST /v1/deposits/prepare'', post_deposits_prepare A),
    (''POST /v1/deposits/:deposit_id/burn-submitted'', post_burn_submitted A), (''GET /v1/deposits/:deposit_id'', get_row ''cctp_deposits'' ''deposit_id'' ''deposit_id''),
    (''POST /v1/deposits/:deposit_id/process'', depositStep ''CCTP_INBOUND''), (''POST /v1/deposits/:deposit_id/submit-burn'', depositStep ''CCTP_INBOUND_BURN''),
    (''POST /v1/deposits/:deposit_id/fetch-attestation'', depositStep ''CCTP_FETCH_ATTESTATION''), (''POST /v1/deposits/:deposit_id/mint-forward'', depositStep ''STELLAR_MINT_FORWARD''),
    (''POST /v1/deposits/:deposit_id/register-note'', depositStep ''REGISTER_NOTE''), (''GET /v1/notes/:commitment/status'', get_row ''note_commitments'' ''commitment'' ''commitment''),
    (''POST /v1/notes/commitment'', post_note_commitment A), (''POST /v1/notes/encrypted-backup'', post_encrypted_backup A), (''POST /v1/notes/recover'', post_notes_recover A (vl_toISOString V)),
    (''POST /v1/note-vaults'', post_note_vaults A), (''GET /v1/note-vaults'', get_note_vaults A), (''GET /v1/note-vaults/:vault_id'', get_note_vault A),
    (''PUT /v1/note-vaults/:vault_id'', put_note_vault A), (''POST /v1/note-vaults/:vault_id/verify-backup'', post_verify_backup A),
    (''POST /v1/note-vaults/:vault_id/mark-restored'', post_mark_restored A), (''POST /v1/note-vaults/:vault_id/wrappers'', post_vault_wrappers A),
    (''DELETE /v1/note-vaults/:vault_id/wrappers/:wrapper_id'', delete_vault_wrapper A), (''POST /v1/proofs/:kind/request'', post_proof_request A),
    (''GET /v1/proofs/:proof_job_id'', get_proof A), (''GET /v1/jobs/:job_id'', get_job_route A), (''POST /v1/withdrawals/prepare'', post_withdrawals_prepare A),
    (''POST /v1/withdrawals/submit'', post_withdrawals_submit A), (''GET /v1/withdrawals/:withdrawal_id'', get_row ''withdrawals'' ''withdrawal_id'' ''withdrawal_id''),
    (''POST /v1/intents'', post_intents A), (''GET /v1/intents/:intent_hash'', get_row ''intents'' ''intent_hash'' ''intent_hash''),
    (''GET /v1/intents/:intent_hash/quotes'', get_intent_quotes), (''POST /v1/intents/:intent_hash/request-quotes'', post_request_quotes A),
    (''POST /v1/solver/quotes'', post_solver_quotes A), (''POST /v1/quotes/:quote_id/accept'', post_quote_accept A), (''POST /v1/quotes/:quote_id/lock'', post_quote_lock A),
    (''POST /v1/fills'', post_fills A), (''POST /v1/fills/:fill_id/execute'', post_fill_execute), (''POST /v1/rfq/settle'', post_rfq_settle A),
    (''GET /v1/settlements/:settlement_id'', get_row ''settlements'' ''settlement_id'' ''settlement_id''), (''POST /v1/reports/view-key'', post_view_key A V),
    (''GET /v1/reports/view-key/:report_id'', get_view_key A), (''POST /v1/cctp/outbound/prepare'', post_outbound_prepare A),
    (''POST /v1/cctp/outbound/submit'', post_outbound_submit A), (''POST /v1/cctp/outbound/:exit_id/fetch-attestation'', outboundStep A ''CCTP_OUTBOUND_ATTESTATION''),
    (''POST /v1/cctp/outbound/:exit_id/complete-mint'', outboundStep A ''CCTP_OUTBOUND_MINT''), (''GET /v1/cctp/outbound/:exit_id'', get_row ''cctp_exits'' ''exit_id'' ''exit_id''),
    (''POST /v1/withdrawals/build-xdr'', post_build_xdr A V), (''GET /v1/activity'', get_activity A), (''GET /v1/activity/stream'', get_activity_stream A), (''GET /v1/mpc/committee'', \<lambda>_. proxy_committee A ''GET'' ''/v1/mpc/committee'' None ''MPC_COMMITTEE_URL not reachable''),
    (''POST /v1/mpc/intents'', post_mpc_intents A), (''GET /v1/mpc/intents/:intent_id'', get_mpc_intent), (''GET /v1/mpc/sessions/:session_id'', get_mpc_session A),
    (''POST /v1/mpc/sessions/:session_id/match'', post_mpc_match A), (''GET /v1/mpc/batches'', \<lambda>_. proxy_committee A ''GET'' ''/v1/mpc/batches'' None ''MPC committee unreachable''),
    (''POST /v1/mpc/batches/verify'', \<lambda>rq. proxy_committee A ''POST'' ''/v1/mpc/verify'' (rq_body rq) ''MPC committee unreachable''),
    (''GET /v1/anchors/discovery'', \<lambda>_. proxyAnchor A ''/info'' ''GET'' None), (''POST /v1/anchors/quotes'', post_anchor_quotes A),
    (''POST /v1/anchors/payouts'', post_anchor_payouts A), (''GET /v1/anchors/payouts/:payout_id'', get_anchor_payout A),
    (''POST /v1/anchors/compliance-package'', post_compliance_package A)]"

text \<open>A step of the server's database: a request, the root auditor recording a finding, a worker changing the queue,
  time passing, or the outside world changing.\<close>

inductive api_step :: "'w Api \<Rightarrow> 'w ViewLib \<Rightarrow> Store \<times> 'w \<Rightarrow> Store \<times> 'w \<Rightarrow> bool" for A V where
  request: "(path, h) \<in> set (routes A V) \<Longrightarrow> served (h rq) s = (r, s') \<Longrightarrow> api_step A V s s'"
| audit: "api_step A V (db, w) (snd (sql_insert ''root_audit_findings'' row Fail db), w)"
| worker: "api_step A V (db, w) (db\<lparr>st_jobs := q\<rparr>, w)"
| clock: "api_step A V (db, w) (db\<lparr>st_now := t\<rparr>, w)"
| outside: "api_step A V (db, w) (db, w')"

inductive api_reach :: "'w Api \<Rightarrow> 'w ViewLib \<Rightarrow> Store \<times> 'w \<Rightarrow> Store \<times> 'w \<Rightarrow> bool" for A V s where
  start: "api_reach A V s s"
| step: "api_reach A V s t \<Longrightarrow> api_step A V t u \<Longrightarrow> api_reach A V s u"

section \<open>What every route keeps\<close>

abbreviation lifted :: "(Store \<Rightarrow> bool) \<Rightarrow> Store \<times> 'w \<Rightarrow> bool" where
  "lifted I \<equiv> \<lambda>s. I (fst s)"

lemma keeps_onStore [keeps_intro]: "keeps I m \<Longrightarrow> keeps (lifted I) (onStore m)"
  by (auto simp: keeps_def onStore_def split: prod.splits)

lemma keeps_onOut [keeps_intro]: "keeps (lifted I) (onOut m)"
  by (auto simp: keeps_def onOut_def split: prod.splits)

lemma keeps_prod [keeps_intro]: "(\<And>a b. keeps I (f a b)) \<Longrightarrow> keeps I (case p of (a, b) \<Rightarrow> f a b)"
  by (cases p) simp

lemma keeps_sum [keeps_intro]: "(\<And>a. keeps I (f a)) \<Longrightarrow> (\<And>b. keeps I (g b)) \<Longrightarrow> keeps I (case p of Inl a \<Rightarrow> f a | Inr b \<Rightarrow> g b)"
  by (cases p) simp_all

lemma keeps_json: "keeps I a \<Longrightarrow> (\<And>x. keeps I (b x)) \<Longrightarrow> (\<And>x. keeps I (c x)) \<Longrightarrow> (\<And>x. keeps I (d x)) \<Longrightarrow> (\<And>x. keeps I (e x)) \<Longrightarrow> (\<And>x. keeps I (f x)) \<Longrightarrow>
    keeps I (case j of JNull \<Rightarrow> a | JBool x \<Rightarrow> b x | JNum x \<Rightarrow> c x | JStr x \<Rightarrow> d x | JArr x \<Rightarrow> e x | JObj x \<Rightarrow> f x)"
  by (cases j) simp_all

lemma keeps_replies [keeps_intro]: "keeps I (reply ms)" "keeps I (coded c m)" "keeps I (fail c m)" "keeps I (unless b c m)"
  by (simp_all add: keeps_basic reply_def coded_def fail_def unless_def)

lemma keeps_parse [keeps_intro]: "keeps I (parse_with A z j)"
  by (auto simp: parse_with_def intro: keeps_intro split: option.splits)

lemma keeps_pure_store [keeps_intro]: "keeps I (\<lambda>db. (Inr (f db), db))"
  by (simp add: keeps_def)

context store_invariant
begin

lemma auth_keeps: "keeps (lifted I) (requireUser A rq)" "keeps (lifted I) (optionalUser A rq)" "keeps (lifted I) (newSessionToken A)" "keeps (lifted I) (requirePrivyUser A rq)"
    "keeps (lifted I) (optionalPrivyUser A rq)"
  unfolding requireUser_def optionalUser_def newSessionToken_def requirePrivyUser_def optionalPrivyUser_def
  by (intro keeps_intro store_keeps)+

lemma authed_keeps: "keeps (lifted I) (authedUser A rq)" "keeps (lifted I) (authedUserOptional A rq)"
  unfolding authedUser_def authedUserOptional_def by (intro keeps_intro auth_keeps)+

lemma helper_keeps: "keeps (lifted I) (idem A rq)" "keeps (lifted I) (activity u ev d)" "keeps (lifted I) assertRootHealthy" "keeps (lifted I) (randomNonce A)"
    "keeps (lifted I) (moved e i s)" "keeps (lifted I) (queued_reply j)" "keeps (lifted I) (requireOwned x t c u i)" "keeps (lifted I) (proxyAnchor A p v b)"
  unfolding idem_def activity_def assertRootHealthy_def randomNonce_def moved_def queued_reply_def requireOwned_def proxyAnchor_def
  by (intro keeps_intro store_keeps)+

lemmas route_keeps = auth_keeps authed_keeps helper_keeps store_keeps

lemma static_routes: "keeps (lifted I) get_config" "keeps (lifted I) get_balances" "keeps (lifted I) post_setup_validate"
  unfolding get_config_def get_balances_def post_setup_validate_def by (intro keeps_intro)+

lemma note_commitment_keeps: "keeps (lifted I) (post_note_commitment A rq)"
  unfolding post_note_commitment_def by (intro keeps_intro keeps_json)

lemma identity_routes: "keeps (lifted I) get_health" "keeps (lifted I) (get_health_full A)" "keeps (lifted I) (get_contracts A)" "keeps (lifted I) (post_auth_nonce A rq)" "keeps (lifted I) (verifyHandler A wt rq)"
    "keeps (lifted I) (get_auth_session A rq)" "keeps (lifted I) (post_auth_logout A rq)" "keeps (lifted I) (get_me A rq)" "keeps (lifted I) (patch_me A rq)"
    "keeps (lifted I) (get_me_wallets A rq)" "keeps (lifted I) (post_wallets_sync_privy A rq)" "keeps (lifted I) (post_me_wallets A rq)" "keeps (lifted I) (delete_me_wallet A rq)"
    "keeps (lifted I) (get_me_rows A k t rq)"
  unfolding get_health_def get_health_full_def get_contracts_def post_auth_nonce_def verifyHandler_def get_auth_session_def post_auth_logout_def get_me_def patch_me_def get_me_wallets_def
    post_wallets_sync_privy_def post_me_wallets_def delete_me_wallet_def get_me_rows_def
  by (intro keeps_intro route_keeps)+

lemma add_wrappers_keeps: "keeps I (add_wrappers u v ws)"
  by (induction ws) (auto intro!: keeps_intro store_keeps)

lemma vault_routes: "keeps (lifted I) (post_deposits_prepare A rq)" "keeps (lifted I) (post_burn_submitted A rq)" "keeps (lifted I) (get_row t c p rq)" "keeps (lifted I) (depositStep ty rq)"
    "keeps (lifted I) (post_encrypted_backup A rq)" "keeps (lifted I) (post_notes_recover A date rq)" "keeps (lifted I) (post_note_vaults A rq)" "keeps (lifted I) (get_note_vaults A rq)"
    "keeps (lifted I) (get_note_vault A rq)" "keeps (lifted I) (put_note_vault A rq)" "keeps (lifted I) (post_verify_backup A rq)" "keeps (lifted I) (post_mark_restored A rq)"
    "keeps (lifted I) (post_vault_wrappers A rq)" "keeps (lifted I) (delete_vault_wrapper A rq)"
  unfolding post_deposits_prepare_def post_burn_submitted_def get_row_def depositStep_def post_encrypted_backup_def post_notes_recover_def post_note_vaults_def get_note_vaults_def
    get_note_vault_def put_note_vault_def post_verify_backup_def post_mark_restored_def post_vault_wrappers_def delete_vault_wrapper_def
  by (intro keeps_intro route_keeps add_wrappers_keeps)+

lemma insert_shares_keeps: "keeps I (insert_shares i ss)"
  by (induction ss) (auto intro!: keeps_intro insert_other)

lemma mpc_store_keeps: "keeps I (ensure_session sid)" "keeps I (upsert_mpc_intent row)" "keeps I (store_routed h u b sid)" "keeps I (store_mpc_intent i uo b sid)" "keeps I (mpc_matched h)"
proof -
  have base: "keeps I (ensure_session sid)" "keeps I (upsert_mpc_intent row)" for sid row
    unfolding ensure_session_def upsert_mpc_intent_def by (intro keeps_intro insert_other; simp)+
  then show "keeps I (ensure_session sid)" "keeps I (upsert_mpc_intent row)" by auto
  have "keeps I (sql_update ''intents'' cond [(''mpc_session_id'', sid)])" for cond by (rule update) simp
  then show "keeps I (store_routed h u b sid)" unfolding store_routed_def by (intro keeps_intro base insert_shares_keeps store_keeps)
  show "keeps I (store_mpc_intent i uo b sid)" unfolding store_mpc_intent_def by (intro keeps_intro base insert_shares_keeps store_keeps)
  show "keeps I (mpc_matched h)" unfolding mpc_matched_def by (intro keeps_intro)
qed

lemma rfq_routes: "keeps (lifted I) (get_proof A rq)" "keeps (lifted I) (get_job_route A rq)" "keeps (lifted I) (post_withdrawals_prepare A rq)" "keeps (lifted I) (post_withdrawals_submit A rq)"
    "keeps (lifted I) (post_intents A rq)" "keeps (lifted I) (get_intent_quotes rq)" "keeps (lifted I) (post_request_quotes A rq)" "keeps (lifted I) (post_solver_quotes A rq)"
    "keeps (lifted I) (post_quote_accept A rq)" "keeps (lifted I) (post_quote_lock A rq)" "keeps (lifted I) (post_fills A rq)" "keeps (lifted I) (post_fill_execute rq)"
  unfolding get_proof_def get_job_route_def post_withdrawals_prepare_def createWithdrawal_def post_withdrawals_submit_def post_intents_def route_to_committee_def get_intent_quotes_def
    post_request_quotes_def requireOwnedIntent_def post_solver_quotes_def post_quote_accept_def post_quote_lock_def post_fills_def post_fill_execute_def
  by (intro keeps_intro route_keeps mpc_store_keeps; simp)+

lemma post_proof_request_keeps: "keeps (lifted I) (post_proof_request A rq)"
  unfolding post_proof_request_def by (intro keeps_intro route_keeps) (simp add: is_text_def row_get_def)

lemma check_lifecycle_keeps: "keeps (lifted I) (check_lifecycle u b lc)"
  unfolding check_lifecycle_def by (intro keeps_intro)

lemma attachment_keeps: "keeps (lifted I) (attachment_of A V r b)"
  unfolding attachment_of_def by (intro keeps_intro)

lemma other_routes: "keeps (lifted I) (post_rfq_settle A rq)" "keeps (lifted I) (post_view_key A V rq)" "keeps (lifted I) (get_view_key A rq)" "keeps (lifted I) (post_outbound_prepare A rq)"
    "keeps (lifted I) (post_outbound_submit A rq)" "keeps (lifted I) (outboundStep A ty rq)" "keeps (lifted I) (get_activity A rq)" "keeps (lifted I) (get_activity_stream A rq)"
    "keeps (lifted I) (proxy_committee A v p b m)" "keeps (lifted I) (get_mpc_session A rq)" "keeps (lifted I) (post_mpc_match A rq)" "keeps (lifted I) (post_mpc_intents A rq)"
    "keeps (lifted I) (get_mpc_intent rq)" "keeps (lifted I) (post_anchor_quotes A rq)" "keeps (lifted I) (post_anchor_payouts A rq)" "keeps (lifted I) (get_anchor_payout A rq)"
    "keeps (lifted I) (post_compliance_package A rq)" "keeps (lifted I) (post_build_xdr A V rq)"
  unfolding post_rfq_settle_def rfq_settle_as_def post_view_key_def get_view_key_def post_outbound_prepare_def post_outbound_submit_def outboundStep_def get_activity_def get_activity_stream_def
    proxy_committee_def get_mpc_session_def post_mpc_match_def post_mpc_intents_def get_mpc_intent_def post_anchor_quotes_def post_anchor_payouts_def get_anchor_payout_def
    post_compliance_package_def post_build_xdr_def requireOwnedExit_def with_payout_def
  by (intro keeps_intro route_keeps mpc_store_keeps check_lifecycle_keeps attachment_keeps; simp)+

lemma route_step:
  assumes "(path, h) \<in> set (routes A V)"
  shows "keeps (lifted I) (h rq)"
proof -
  have "list_all (\<lambda>(_, h). keeps (lifted I) (h rq)) (routes A V)"
    unfolding routes_def by (simp add: static_routes note_commitment_keeps identity_routes vault_routes rfq_routes post_proof_request_keeps other_routes helper_keeps)
  then show ?thesis using assms by (auto simp: list_all_iff)
qed

lemma served_keeps: "keeps (lifted I) h \<Longrightarrow> I (fst s) \<Longrightarrow> served h s = (r, s') \<Longrightarrow> I (fst s')"
proof -
  assume h: "keeps (lifted I) h" and s: "I (fst s)" and run: "served h s = (r, s')"
  have "I (fst (snd (h s)))" using h s unfolding keeps_def by blast
  then show ?thesis using run by (auto simp: served_def split: prod.splits sum.splits)
qed

lemma step_keeps: "api_step A V s s' \<Longrightarrow> I (fst s) \<Longrightarrow> I (fst s')"
proof (induction rule: api_step.induct)
  case (request path h rq s r s')
  then show ?case using served_keeps [OF route_step] by blast
next
  case (audit db w row)
  then show ?case using insert_other [of "''root_audit_findings''" Fail row] by (simp add: keeps_def)
qed (auto intro: jobs clock)

lemma reach_keeps: "api_reach A V s s' \<Longrightarrow> I (fst s) \<Longrightarrow> I (fst s')"
  by (induction rule: api_reach.induct) (auto intro: step_keeps)

end

section \<open>Properties of the reachable states\<close>


definition empty_store :: Store where
  "empty_store = \<lparr>st_tables = (\<lambda>_. []), st_now = 0, st_uuid = nat_to_radix 10, st_drawn = 0, st_jobs = \<lparr>jd_jobs = [], jd_events = []\<rparr>\<rparr>"

lemma empty_store_good: "store_wf empty_store" "proofs_queued empty_store"
  by (simp_all add: store_wf_def empty_store_def keys_wf_def proofs_queued_def)

text \<open>Computations that only read, and computations that throw and change nothing.\<close>

abbreviation reads :: "('s, 'a) io \<Rightarrow> bool" where
  "reads m \<equiv> \<forall>s0. keeps (\<lambda>s. s = s0) m"

definition throws :: "('s, 'a) io \<Rightarrow> 's \<Rightarrow> bool" where
  "throws m s \<longleftrightarrow> (\<exists>e. m s = (Inl e, s))"

lemma reads_iff: "reads m \<longleftrightarrow> (\<forall>s. snd (m s) = s)"
  by (auto simp: keeps_def)

lemma reads_snd: "reads m \<Longrightarrow> snd (m s) = s"
  by (simp only: reads_iff)

lemma throws_bind: "reads m \<Longrightarrow> (\<And>x. fst (m s) = Inr x \<Longrightarrow> throws (f x) s) \<Longrightarrow> throws (bindIO m f) s"
  using reads_snd [of m s] by (cases "m s"; cases "fst (m s)") (auto simp: throws_def bindIO_def)

lemma throws_let: "throws (f x) s \<Longrightarrow> throws (let y = x in f y) s"
  by simp

lemma reads_onStore: "reads m \<Longrightarrow> reads (onStore m)"
  unfolding reads_iff by (auto simp: onStore_def split: prod.splits) (metis snd_conv)+

lemma reads_store: "reads (getById t c i)" "reads (rfqLifecycle h q)" "reads (isNullifierSpent n)" "reads criticalRootMismatchCount"
  unfolding getById_def rfqLifecycle_def isNullifierSpent_def criticalRootMismatchCount_def by (intro allI keeps_intro)+

lemma reads_bind: "reads m \<Longrightarrow> (\<And>x. reads (f x)) \<Longrightarrow> reads (bindIO m f)"
  by (intro allI keeps_bind) simp_all

lemma reads_parse: "reads (parse_with A z j)"
  by (intro allI keeps_parse)

lemma reads_check_lifecycle: "reads (check_lifecycle u b lc)"
  unfolding check_lifecycle_def by (intro allI keeps_intro)

lemma reads_assertRootHealthy: "reads assertRootHealthy"
  unfolding assertRootHealthy_def by (intro reads_bind reads_onStore reads_store) (intro allI keeps_intro)

lemmas reads_routes = reads_assertRootHealthy reads_parse reads_check_lifecycle

lemma row_get_columns: "row_get c (columns_of cs r) = (if c \<in> set cs then row_get c r else JNull)"
  by (induction cs) (auto simp: columns_of_def row_get_def)

lemma star_proof_jobs: "is_text ''status'' v (star ''proof_jobs'' r) \<longleftrightarrow> is_text ''status'' v r"
  by (simp add: is_text_def star_def schema_simps row_get_columns table_defs)

lemma proof_never_ready:
  assumes "proofs_queued db" "fst (onStore (getById ''proof_jobs'' ''proof_job_id'' i) (db, w)) = Inr pr"
  shows "\<not> (case pr of Some r \<Rightarrow> is_text ''status'' ''ready'' r | None \<Rightarrow> False)"
proof (cases pr)
  case (Some r)
  let ?hits = "filter (is_text ''proof_job_id'' i) (st_tables db ''proof_jobs'')"
  have "pr = map_option (star ''proof_jobs'') (first_row ?hits)"
    using assms(2) by (simp add: onStore_def getById_def readable_tables_def bindIO_def sql_select_def returnIO_def)
  then obtain r0 rest where r: "r = star ''proof_jobs'' r0" "?hits = r0 # rest"
    using Some by (auto simp: first_row_def split: list.splits)
  have "r0 \<in> set ?hits" unfolding r(2) by simp
  then show ?thesis using Some r(1) assms(1) by (simp add: star_proof_jobs proofs_queued_def) (auto simp: is_text_def)
qed simp

lemma settle_as_throws: "proofs_queued (fst s) \<Longrightarrow> throws (rfq_settle_as A rq u) s"
  unfolding rfq_settle_as_def
  by (cases s, rule throws_bind [OF reads_routes(1)], rule throws_bind [OF reads_routes(2)], intro throws_let, rule throws_bind [OF reads_onStore [OF reads_store(2)]],
      rule throws_bind [OF reads_routes(3)], rule throws_bind [OF reads_onStore [OF reads_store(1)]])
    (simp add: proof_never_ready unless_def fail_def throws_def)

lemma other_table: "t \<noteq> u \<Longrightarrow> keeps (\<lambda>db. st_tables db u = rows) (sql_insert t row oc)" "t \<noteq> u \<Longrightarrow> keeps (\<lambda>db. st_tables db u = rows) (sql_update t cond sets)"
  by (auto simp: keeps_def sql_insert_def sql_update_def Let_def split: option.splits on_conflict.splits)

lemma authedUser_other:
  assumes "u \<notin> {''users'', ''user_profiles''}"
  shows "keeps (lifted (\<lambda>db. st_tables db u = rows)) (authedUser A rq)"
proof -
  have other: "''users'' \<noteq> u" "''user_profiles'' \<noteq> u" using assms by auto
  have "keeps (\<lambda>db. st_tables db u = rows) (upsertUserByPrivyId p em am)" "keeps (\<lambda>db. st_tables db u = rows) (userIdForSession h)" for p em am h
    unfolding upsertUserByPrivyId_def touch_user_def userIdForSession_def by (intro keeps_intro other_table other)+
  then show ?thesis unfolding authedUser_def requirePrivyUser_def requireUser_def by (intro keeps_intro)
qed

text \<open>C31. A request for settlement is never granted.  Proof jobs are created as queued and no statement of the program
  updates that table, so in every state reached from one whose proof jobs are queued (an empty table, say)
  \<open>POST /v1/rfq/settle\<close> ends with an error, whatever the request, and the settlements stay as they are.\<close>
theorem rfq_settle_never_granted:
  assumes "proofs_queued (fst s)" "api_reach A V s s'"
  shows "(\<exists>e. fst (post_rfq_settle A rq s') = Inl e) \<and> st_tables (fst (snd (post_rfq_settle A rq s'))) ''settlements'' = st_tables (fst s') ''settlements''"
proof -
  obtain r s1 where Pair: "authedUser A rq s' = (r, s1)" by (cases "authedUser A rq s'") auto
  have "proofs_queued (fst s')" by (rule queued.reach_keeps [OF assms(2,1)])
  then have q: "proofs_queued (fst s1)" using queued.authed_keeps(1) [of A rq] Pair by (metis keeps_def snd_conv)
  have "keeps (lifted (\<lambda>db. st_tables db ''settlements'' = st_tables (fst s') ''settlements'')) (authedUser A rq)" by (rule authedUser_other) simp
  then have rows: "st_tables (fst s1) ''settlements'' = st_tables (fst s') ''settlements''" using Pair unfolding keeps_def by (metis snd_conv)
  show ?thesis
  proof (cases r)
    case (Inr u)
    obtain e where "rfq_settle_as A rq u s1 = (Inl e, s1)" using settle_as_throws [OF q, of A rq u] by (auto simp: throws_def)
    then show ?thesis using Pair Inr rows by (simp add: post_rfq_settle_def bindIO_def)
  qed (simp add: Pair rows post_rfq_settle_def bindIO_def)
qed

section \<open>A root mismatch stops every spend\<close>

text \<open>The tables a spend writes to, with the queue: what a refused spend leaves alone.\<close>

definition spend_tables :: "string list" where
  "spend_tables = [''cctp_deposits'', ''withdrawals'', ''settlements'', ''cctp_exits'', ''nullifier_spends'']"

definition unspent :: "Store \<Rightarrow> Store \<Rightarrow> bool" where
  "unspent db0 db \<longleftrightarrow> st_jobs db = st_jobs db0 \<and> (\<forall>t \<in> set spend_tables. st_tables db t = st_tables db0 t)"

lemma unspent_simps [simp]:
  "t \<notin> set spend_tables \<Longrightarrow> unspent db0 (set_rows t rows db) = unspent db0 db"
  "unspent db0 (db\<lparr>st_drawn := n\<rparr>) = unspent db0 db"
  by (auto simp: unspent_def set_rows_def)

lemma unspent_insert: "t \<notin> set spend_tables \<Longrightarrow> keeps (unspent db0) (sql_insert t row oc)"
  by (auto simp: keeps_def sql_insert_def Let_def split: option.splits on_conflict.splits)

lemma unspent_update: "t \<notin> set spend_tables \<Longrightarrow> keeps (unspent db0) (sql_update t cond sets)"
  by (auto simp: keeps_def sql_update_def Let_def split: option.splits)

lemma unspent_users: "keeps (unspent db0) (upsertUserByPrivyId p em am)" "keeps (unspent db0) (userIdForSession h)"
  unfolding upsertUserByPrivyId_def touch_user_def userIdForSession_def by (intro keeps_intro unspent_insert unspent_update; simp add: spend_tables_def)+

lemma unspent_auth: "keeps (lifted (unspent db0)) (requirePrivyUser A rq)" "keeps (lifted (unspent db0)) (authedUser A rq)"
  unfolding authedUser_def requirePrivyUser_def requireUser_def by (intro keeps_intro unspent_users)+

lemma unspent_reads: "reads m \<Longrightarrow> keeps (lifted (unspent db0)) m"
  unfolding reads_iff keeps_def by simp

text \<open>A computation that throws wherever \<open>I\<close> holds, without a spend.\<close>

definition refuses :: "(Store \<Rightarrow> bool) \<Rightarrow> ('w, 'a) api \<Rightarrow> bool" where
  "refuses I m \<longleftrightarrow> (\<forall>s. I (fst s) \<longrightarrow> (\<exists>e. fst (m s) = Inl e) \<and> unspent (fst s) (fst (snd (m s))))"

lemma unspent_refl [simp]: "unspent db db"
  by (simp add: unspent_def)

lemma unspent_trans: "unspent a b \<Longrightarrow> unspent b c \<Longrightarrow> unspent a c"
  by (simp add: unspent_def)

lemma refuses_first: "refuses I m \<Longrightarrow> refuses I (bindIO m f)"
  unfolding refuses_def bindIO_def by (fastforce split: prod.splits sum.splits)

lemma refuses_then:
  fixes m :: "('w, 'a) api"
  assumes m: "keeps (lifted I) m" "\<And>db0. keeps (lifted (unspent db0)) m" and f: "\<And>x. refuses I (f x)"
  shows "refuses I (bindIO m f)"
  unfolding refuses_def
proof (intro allI impI)
  fix s :: "Store \<times> 'w"
  assume s: "I (fst s)"
  obtain r s1 where run: "m s = (r, s1)" by (cases "m s")
  have s1: "I (fst s1)" "unspent (fst s) (fst s1)" using m(1) m(2) [of "fst s"] s run unfolding keeps_def by (metis snd_conv, metis snd_conv unspent_refl)
  show "(\<exists>e. fst (bindIO m f s) = Inl e) \<and> unspent (fst s) (fst (snd (bindIO m f s)))"
  proof (cases r)
    case (Inr x)
    have "(\<exists>e. fst (f x s1) = Inl e) \<and> unspent (fst s1) (fst (snd (f x s1)))" using f [of x] s1(1) unfolding refuses_def by blast
    then show ?thesis using run Inr unspent_trans [OF s1(2)] by (simp add: bindIO_def)
  qed (use run s1 in \<open>simp add: bindIO_def\<close>)
qed

lemma refuses_let: "refuses I (f x) \<Longrightarrow> refuses I (let y = x in f y)"
  by simp

lemma root_refuses: "is_text ''code'' ''ROOT_MISMATCH_CRITICAL'' r \<Longrightarrow> refuses (finding_kept r) assertRootHealthy"
proof -
  assume r: "is_text ''code'' ''ROOT_MISMATCH_CRITICAL'' r"
  have "length (filter (is_text ''code'' ''ROOT_MISMATCH_CRITICAL'') (st_tables db ''root_audit_findings'')) > 0" if "finding_kept r db" for db
    using that r by (auto simp: finding_kept_def filter_empty_conv)
  then show ?thesis
    by (auto simp: refuses_def assertRootHealthy_def criticalRootMismatchCount_def onStore_def sql_select_def bindIO_def returnIO_def fail_def throwIO_def split: prod.splits)
qed

text \<open>The routes that prepare or submit a spend.\<close>

definition spends :: "'w Api \<Rightarrow> (Request \<Rightarrow> ('w, reply) api) list" where
  "spends A = [post_deposits_prepare A, post_withdrawals_prepare A, post_withdrawals_submit A, post_rfq_settle A, post_outbound_prepare A, post_outbound_submit A]"

lemma prepare_reads: "reads (userOwnsWallet u a ch)" "reads (userOwnsVault u v)" "reads (vaultDepositReady u v)"
  unfolding userOwnsWallet_def userOwnsVault_def vaultDepositReady_def by (intro allI keeps_intro)+

lemma unspent_routes: "keeps (lifted (unspent db0)) (idem A rq)" "keeps (lifted (unspent db0)) (onStore (userOwnsWallet u a ch))" "keeps (lifted (unspent db0)) (onStore (userOwnsVault u v))"
    "keeps (lifted (unspent db0)) (onStore (vaultDepositReady u v))"
  unfolding idem_def by (intro keeps_intro unspent_reads reads_onStore prepare_reads)+

lemma spends_refused:
  assumes "is_text ''code'' ''ROOT_MISMATCH_CRITICAL'' r" "h \<in> set (spends A)"
  shows "refuses (finding_kept r) (h rq)"
proof -
  note root = refuses_first [OF root_refuses [OF assms(1)]]
  note auth = refuses_then [OF kept.authed_keeps(1) unspent_auth(2)]
  have "refuses (finding_kept r) (post_deposits_prepare A rq)" unfolding post_deposits_prepare_def case_prod_beta
    by (rule refuses_then [OF kept.auth_keeps(4) unspent_auth(1)], (rule refuses_then, intro keeps_intro kept.route_keeps, intro keeps_intro unspent_routes)+, rule root)
  moreover have "refuses (finding_kept r) (post_rfq_settle A rq)" unfolding post_rfq_settle_def rfq_settle_as_def by (intro auth root)
  ultimately show ?thesis using assms(2) unfolding spends_def post_withdrawals_prepare_def post_withdrawals_submit_def post_outbound_prepare_def post_outbound_submit_def
    by (auto intro: auth root)
qed


section \<open>Witnesses\<close>

text \<open>A server with wallet login, a clock that stands still and libraries simple enough to compute with.\<close>

definition demo_api :: "unit Api" where
  "demo_api = \<lparr>ap_env = (\<lambda>k. if k = ''ENABLE_LEGACY_WALLET_AUTH'' then Some ''true'' else None), ap_parse = (\<lambda>_ j. j), ap_lib = plain_lib, ap_strkey = demo_StrKey, ap_poseidon = sum_poseidon,
    ap_getAddress = Inr, ap_verifyMessage = (\<lambda>_ s. Inr s), ap_verifyEd25519 = (\<lambda>_ _ _. Inr True), ap_verificationKey = (\<lambda>_. returnIO (\<lambda>_ _. True)), ap_now = returnIO 0,
    ap_randomBytes = (\<lambda>n. returnIO (replicate n 7)), ap_randomUUID = returnIO ''u'', ap_fetch = (\<lambda>_ _ _ _. throwIO (Js_Error ''offline''))\<rparr>"

definition demo_view :: "unit ViewLib" where
  "demo_view = \<lparr>vl_nacl = plain_nacl, vl_keyPair = returnIO \<lparr>kp_publicKey = [1], kp_secretKey = [1]\<rparr>, vl_toISOString = bigint_to_string, vl_withdrawXdr = (\<lambda>_ _ _ _. returnIO [])\<rparr>"

definition demo_request :: "json \<Rightarrow> Request" where
  "demo_request b = \<lparr>rq_headers = (\<lambda>_. None), rq_params = (\<lambda>_. []), rq_body = Some b\<rparr>"

definition one_row :: "string \<Rightarrow> Row \<Rightarrow> Store" where
  "one_row t r = empty_store\<lparr>st_tables := (\<lambda>u. if u = t then [r] else [])\<rparr>"

definition nonce_body :: json where
  "nonce_body = JObj [(''wallet_type'', JStr ''EVM''), (''address'', JStr ''0xA'')]"

definition after_nonce :: "Store \<times> unit" where
  "after_nonce = snd (served (post_auth_nonce demo_api (demo_request nonce_body)) (empty_store, ()))"

lemma after_nonce_reached: "api_reach demo_api demo_view (empty_store, ()) after_nonce"
proof (rule api_reach.step [OF api_reach.start], rule api_step.request)
  show "(''POST /v1/auth/nonce'', post_auth_nonce demo_api) \<in> set (routes demo_api demo_view)" by (simp add: routes_def)
  show "served (post_auth_nonce demo_api (demo_request nonce_body)) (empty_store, ()) = (fst (served (post_auth_nonce demo_api (demo_request nonce_body)) (empty_store, ())), after_nonce)"
    by (simp add: after_nonce_def)
qed


theorem rfq_settle_never_granted_witness:
  "\<exists>e. fst (post_rfq_settle demo_api (demo_request nonce_body) (one_row ''proof_jobs'' [(''status'', JStr ''queued'')], ())) = Inl e"
proof -
  let ?s = "(one_row ''proof_jobs'' [(''status'', JStr ''queued'')], ())"
  have "proofs_queued (fst ?s)" by (simp add: proofs_queued_def one_row_def is_text_def row_get_def)
  then show ?thesis using rfq_settle_never_granted [of ?s demo_api demo_view ?s, OF _ api_reach.start] by blast
qed


end
