(* ===== verification/Api_Security.thy ===== *)
theory Api_Security
  imports Api_Server Relayer
begin

text \<open>
  What the routes promise their users: a login needs a live nonce and a signature over its message, a prepared
  deposit passed every gate and the burn it describes is the one the relayer accepts, a disclosure report holds
  only rows of its user, and where one user's requests can and cannot reach another's vault.
\<close>

section \<open>Runs that succeed\<close>

lemma keeps_run: "keeps I m \<Longrightarrow> m s = (r, s') \<Longrightarrow> I s \<Longrightarrow> I s'"
  unfolding keeps_def by (metis snd_conv)

lemma onStore_run: "onStore m (db, w) = (Inr x, s') \<longleftrightarrow> (\<exists>db'. m db = (Inr x, db') \<and> s' = (db', w))"
  by (auto simp: onStore_def split: prod.splits)

lemma onOut_run: "onOut m (db, w) = (Inr x, s') \<longleftrightarrow> (\<exists>w'. m w = (Inr x, w') \<and> s' = (db, w'))"
  by (auto simp: onOut_def split: prod.splits)

lemma plain_runs:
  "returnIO x s = (Inr y, s') \<longleftrightarrow> y = x \<and> s' = s" "throwIO e s \<noteq> (Inr y, s')" "liftIO res s = (Inr y, s') \<longleftrightarrow> res = Inr y \<and> s' = s"
  "fail c msg t \<noteq> (Inr z, t')" "unless b c msg t = (Inr u, t') \<longleftrightarrow> b \<and> t' = t"
  "parse_with A zs j t = (Inr v, t') \<longleftrightarrow> ap_parse A zs j = Some v \<and> t' = t"
  "coded c msg t = (Inr rep, t') \<longleftrightarrow> rep = (c, JObj [(''error'', JStr msg)]) \<and> t' = t" "reply ms t = (Inr rep, t') \<longleftrightarrow> rep = (200, JObj ms) \<and> t' = t"
  by (auto simp: returnIO_def throwIO_def liftIO_def fail_def unless_def parse_with_def coded_def reply_def split: option.splits)

lemma bind_runE: "bindIO m f s = (Inr y, s') \<Longrightarrow> (\<And>x s1. m s = (Inr x, s1) \<Longrightarrow> f x s1 = (Inr y, s') \<Longrightarrow> thesis) \<Longrightarrow> thesis"
  by (auto simp: bindIO_Inr_iff)

lemmas runs = bindIO_Inr_iff onStore_run onOut_run plain_runs

section \<open>Login\<close>

lemma consumeNonce_run:
  assumes "consumeNonce wt a n db = (Inr (Some m), db')"
  obtains row where "row \<in> set (st_tables db ''auth_nonces'')" "live_nonce wt a n (st_now db) row" "row_get ''message'' row = JStr m"
    "\<forall>r \<in> set (st_tables db' ''auth_nonces''). is_text ''id'' (id_of (Some row)) r \<longrightarrow> row_get ''consumed_at'' r = JNum (st_now db)"
proof -
  let ?live = "filter (live_nonce wt a n (st_now db)) (st_tables db ''auth_nonces'')"
  obtain row rest where rows: "newest_first ?live = row # rest"
    using assms by (cases "newest_first ?live") (auto simp: consumeNonce_def nowIO_def sql_select_def runs bindIO_def returnIO_def)
  obtain k where upd: "sql_update ''auth_nonces'' (is_text ''id'' (id_of (Some row))) [(''consumed_at'', JNum (st_now db))] db = (Inr k, db')"
    and msg: "row_get ''message'' row = JStr m"
    using assms rows by (auto simp: consumeNonce_def nowIO_def sql_select_def runs split: json.splits)
  have "set (newest_first ?live) = set ?live" by (simp add: newest_first_def)
  then have row: "row \<in> set ?live" using rows by (metis list.set_intros(1))
  have new: "st_tables db' ''auth_nonces'' = map (\<lambda>r. if is_text ''id'' (id_of (Some row)) r then assign [(''consumed_at'', JNum (st_now db))] r else r) (st_tables db ''auth_nonces'')"
    using upd by (auto simp: sql_update_def schema_simps Let_def split: if_splits)
  have "row_get ''consumed_at'' r = JNum (st_now db)" if r: "r \<in> set (st_tables db' ''auth_nonces'')" "is_text ''id'' (id_of (Some row)) r" for r
  proof -
    obtain r0 where r0: "r = (if is_text ''id'' (id_of (Some row)) r0 then assign [(''consumed_at'', JNum (st_now db))] r0 else r0)" using r(1) unfolding new set_map by blast
    then have "r = assign [(''consumed_at'', JNum (st_now db))] r0" using r(2) by presburger
    moreover have "row_get ''consumed_at'' (assign [(''consumed_at'', v)] r0) = v" for v by (subst row_get_assign) (simp add: assign_def row_get_def)
    ultimately show ?thesis by metis
  qed
  then show thesis using that [OF _ _ msg] row by auto
qed

lemma login_keeps_nonces: "keeps (\<lambda>db. st_tables db ''auth_nonces'' = rows) (upsertUserByWallet wt c a)"
    "keeps (\<lambda>db. st_tables db ''auth_nonces'' = rows) (createSession_store u h e)" "keeps (\<lambda>db. st_tables db ''auth_nonces'' = rows) (logActivity uo ev d)"
  unfolding upsertUserByWallet_def touch_user_def createSession_store_def logActivity_def by (intro keeps_intro other_table; simp)+

lemma activity_other: "t \<noteq> ''user_activity'' \<Longrightarrow> keeps (\<lambda>db. st_tables db t = rows) (logActivity uo ev d)"
  unfolding logActivity_def by (intro keeps_intro other_table) simp

lemma session_created:
  assumes "createSession_store u h e db = (Inr x, db')"
  shows "\<exists>r \<in> set (st_tables db' ''user_sessions''). is_text ''user_id'' u r \<and> is_text ''session_hash'' h r \<and> row_get ''expires_at'' r = JNum e"
  using assms by (auto simp: createSession_store_def runs sql_insert_def schema_simps Let_def is_text_def row_get_def table_defs split: if_splits)

text \<open>C25. A login needs a live nonce and a signature over its message.  When a wallet login succeeds, the database held an
  unconsumed and unexpired nonce for the wallet's type and address, the signature verifies for that address over
  the very message stored with the nonce, the nonce is consumed afterwards, and the token that is handed out is
  the one whose hash is stored as a session of that user, for seven days.\<close>
theorem login_sound:
  assumes "verifyHandler A wt rq (db, w) = (Inr (200, resp), (db', w'))"
  shows "\<exists>body address row m userId token now.
    ap_parse A authVerifySchema (rq_body rq) = Some body \<and> normalizeAddress A wt (text_of ''address'' body) = Inr address \<and>
    row \<in> set (st_tables db ''auth_nonces'') \<and> live_nonce wt address (text_of ''nonce'' body) (st_now db) row \<and> row_get ''message'' row = JStr m \<and> m \<noteq> [] \<and>
    verifyWalletSignature A wt address m (text_of ''signature'' body) \<and>
    (\<forall>r \<in> set (st_tables db' ''auth_nonces''). is_text ''id'' (id_of (Some row)) r \<longrightarrow> row_get ''consumed_at'' r = JNum (st_now db)) \<and>
    resp = JObj [(''user_id'', JStr userId), (''session_token'', JStr token), (''wallet_type'', JStr wt), (''address'', JStr address)] \<and>
    (\<exists>r \<in> set (st_tables db' ''user_sessions''). is_text ''user_id'' userId r \<and> is_text ''session_hash'' (sha256_text (ap_lib A) token) r \<and>
      row_get ''expires_at'' r = JNum (now + 7 * 24 * 3600 * 1000))"
proof -
  obtain body address m db1 userId token now db2 db3 x y where b: "ap_parse A authVerifySchema (rq_body rq) = Some body" "normalizeAddress A wt (text_of ''address'' body) = Inr address"
    and nonce: "consumeNonce wt address (text_of ''nonce'' body) db = (Inr (Some m), db1)" "m \<noteq> []" "verifyWalletSignature A wt address m (text_of ''signature'' body)"
    and run: "upsertUserByWallet wt (chain_for wt) address db1 = (Inr userId, db2)"
      "createSession_store userId (sha256_text (ap_lib A) token) (now + SESSION_TTL_MS) db2 = (Inr x, db3)"
      "logActivity (Some userId) ''auth.login'' [(''entity_type'', JStr ''wallet''), (''entity_id'', JStr address), (''metadata'', JObj [(''walletType'', JStr wt)])] db3 = (Inr y, db')"
    and resp: "resp = JObj [(''user_id'', JStr userId), (''session_token'', JStr token), (''wallet_type'', JStr wt), (''address'', JStr address)]"
    using assms unfolding verifyHandler_def newSessionToken_def activity_def by (auto elim!: bind_runE simp: onStore_run onOut_run plain_runs split: option.splits if_splits) (metis (no_types))
  obtain row where row: "row \<in> set (st_tables db ''auth_nonces'')" "live_nonce wt address (text_of ''nonce'' body) (st_now db) row" "row_get ''message'' row = JStr m"
    and used: "\<forall>r \<in> set (st_tables db1 ''auth_nonces''). is_text ''id'' (id_of (Some row)) r \<longrightarrow> row_get ''consumed_at'' r = JNum (st_now db)"
    by (rule consumeNonce_run [OF nonce(1)])
  have nonces: "st_tables db' ''auth_nonces'' = st_tables db1 ''auth_nonces''"
    by (rule keeps_run [OF login_keeps_nonces(3) run(3)], rule keeps_run [OF login_keeps_nonces(2) run(2)], rule keeps_run [OF login_keeps_nonces(1) run(1)], rule refl)
  have sessions: "st_tables db' ''user_sessions'' = st_tables db3 ''user_sessions''"
    by (rule keeps_run [OF activity_other run(3)]) simp_all
  show ?thesis using b nonce(2,3) row used nonces sessions resp session_created [OF run(2)] by (intro exI conjI) (auto simp: SESSION_TTL_MS_def)
qed

definition login_body :: json where
  "login_body = JObj [(''address'', JStr ''0xA''), (''nonce'', JStr ''u''), (''signature'', JStr ''0xA'')]"

lemma demo_login: "case verifyHandler demo_api ''EVM'' (demo_request login_body) after_nonce of (Inr (c, _), _) \<Rightarrow> c = 200 | _ \<Rightarrow> False"
  by code_simp

theorem login_sound_witness:
  "\<exists>row \<in> set (st_tables (fst after_nonce) ''auth_nonces''). live_nonce ''EVM'' ''0xA'' ''u'' (st_now (fst after_nonce)) row"
proof -
  obtain db w where s: "after_nonce = (db, w)" by (cases after_nonce)
  obtain resp db' w' where "verifyHandler demo_api ''EVM'' (demo_request login_body) (db, w) = (Inr (200, resp), (db', w'))"
    using demo_login unfolding s by (auto split: prod.splits sum.splits)
  from login_sound [OF this] show ?thesis
    by (auto simp: s demo_api_def demo_request_def login_body_def normalizeAddress_def text_of_def member_def json_get_def)
qed

section \<open>Deposits\<close>

definition depositId_of :: "'w Api \<Rightarrow> string \<Rightarrow> json \<Rightarrow> string" where
  "depositId_of A key body = deterministicId (ap_lib A) ''udep'' [key, text_of ''commitment'' body]"

definition usdc_of :: "env \<Rightarrow> string" where "usdc_of e = env_default e ''ARB_SEPOLIA_USDC_ADDRESS'' arbitrumSepoliaUsdc"
definition messenger_of :: "env \<Rightarrow> string" where "messenger_of e = env_default e ''ARB_SEPOLIA_CCTP_TOKEN_MESSENGER'' arbitrumSepoliaTokenMessenger"
definition forwarder_of :: "env \<Rightarrow> string" where "forwarder_of e = env_default e ''STELLAR_CCTP_FORWARDER_CONTRACT'' stellarCctpForwarder"
definition pool_of :: "env \<Rightarrow> string" where "pool_of e = env_default e ''SHIELDED_POOL_CONTRACT'' []"

lemma prepare_run:
  assumes "post_deposits_prepare A rq s = (Inr resp, s')"
  obtains userId did body key amount6 s1 s2 s3 s4 s5 s6 s7 ready mint hook where
    "requirePrivyUser A rq s = (Inr (userId, did), s1)" "ap_parse A userDepositPrepareSchema (rq_body rq) = Some body" "idem A rq s1 = (Inr key, s2)"
    "BigInt (text_of ''amount_usdc_6dp'' body) = Inr amount6" "0 < amount6"
    "onStore (userOwnsWallet userId (text_of ''source_wallet_address'' body) None) s2 = (Inr True, s3)"
    "onStore (userOwnsVault userId (text_of ''vault_id'' body)) s3 = (Inr True, s4)"
    "onStore (vaultDepositReady userId (text_of ''vault_id'' body)) s4 = (Inr (Some ready), s5)" "dr_ready ready" "assertRootHealthy s5 = (Inr (), s6)"
    "stellarContractToBytes32 (ap_strkey A) (forwarder_of (ap_env A)) = Inr mint" "encodeStellarForwardHook (ap_strkey A) (pool_of (ap_env A)) = Inr hook"
    "onStore (createUserDeposit (prepared_deposit body (depositId_of A key body) key userId (usdc_of (ap_env A)) amount6)) s6 = (Inr (), s7)"
    "activity userId ''deposit.prepare'' [(''entity_type'', JStr ''deposit''), (''entity_id'', JStr (depositId_of A key body))] s7 = (Inr (), s')"
    "resp = (200, JObj (prepare_reply (depositId_of A key body) (usdc_of (ap_env A)) (messenger_of (ap_env A)) amount6 mint hook (pool_of (ap_env A))))"
proof -
  note defs = depositId_of_def usdc_of_def messenger_of_def forwarder_of_def pool_of_def
  show thesis
    using assms unfolding post_deposits_prepare_def Let_def case_prod_beta defs [symmetric]
    by (elim bind_runE) (auto simp: plain_runs split: option.splits intro!: that)
qed

lemma requirePrivyUser_other: "u \<notin> {''users'', ''user_profiles''} \<Longrightarrow> keeps (lifted (\<lambda>db. st_tables db u = rows)) (requirePrivyUser A rq)"
proof -
  assume u: "u \<notin> {''users'', ''user_profiles''}"
  have other: "''users'' \<noteq> u" "''user_profiles'' \<noteq> u" using u by auto
  have "keeps (\<lambda>db. st_tables db u = rows) (upsertUserByPrivyId p em am)" for p em am
    unfolding upsertUserByPrivyId_def touch_user_def by (intro keeps_intro other_table other)
  then show ?thesis unfolding requirePrivyUser_def by (intro keeps_intro)
qed

lemma reads_run: "reads m \<Longrightarrow> m s = (r, s') \<Longrightarrow> s' = s"
  using reads_snd [of m s] by simp

lemma reads_idem: "reads (idem A rq)"
  unfolding idem_def by (intro allI keeps_intro)

lemma rows_found: "onStore (bindIO (sql_select t cond) (\<lambda>rows. returnIO (rows \<noteq> []))) s = (Inr True, s') \<Longrightarrow> \<exists>r \<in> set (st_tables (fst s) t). cond r"
  by (cases s) (auto simp: onStore_run sql_select_def bindIO_def returnIO_def onStore_def filter_empty_conv)

lemma wallet_found:
  assumes "onStore (userOwnsWallet u a None) s = (Inr True, s')"
  shows "\<exists>r \<in> set (st_tables (fst s) ''user_wallets''). is_text ''user_id'' u r \<and> (\<exists>b. row_get ''address'' r = JStr b \<and> lower b = lower a)"
proof -
  obtain r where r: "r \<in> set (st_tables (fst s) ''user_wallets'')" "is_text ''user_id'' u r" "case row_get ''address'' r of JStr b \<Rightarrow> lower b = lower a | _ \<Rightarrow> False"
    using rows_found [OF assms [unfolded userOwnsWallet_def]] by blast
  then show ?thesis by (cases "row_get ''address'' r") auto
qed

lemma vault_ready_found:
  assumes "onStore (vaultDepositReady u v) s = (Inr (Some ready), s')" "dr_ready ready"
  shows "\<exists>r \<in> set (st_tables (fst s) ''note_vaults''). own_vault u v r \<and> is_text ''backup_status'' ''verified'' r \<and>
    (is_text ''recovery_policy_status'' ''sufficient'' r \<or> is_text ''recovery_policy_status'' ''strong'' r)"
proof -
  let ?hits = "filter (own_vault u v) (st_tables (fst s) ''note_vaults'')"
  obtain r rest where r: "?hits = r # rest" "ready = deposit_ready r"
    using assms(1) by (cases s) (auto simp: vaultDepositReady_def onStore_def sql_select_def bindIO_def returnIO_def first_row_def split: list.splits)
  then have "r \<in> set ?hits" by simp
  then show ?thesis using assms(2) r(2) by (auto simp: deposit_ready_def)
qed

lemma healthy_no_finding: "assertRootHealthy s = (Inr (), s') \<Longrightarrow> \<forall>r \<in> set (st_tables (fst s) ''root_audit_findings''). \<not> is_text ''code'' ''ROOT_MISMATCH_CRITICAL'' r"
proof (rule ccontr)
  assume run: "assertRootHealthy s = (Inr (), s')" and "\<not> (\<forall>r \<in> set (st_tables (fst s) ''root_audit_findings''). \<not> is_text ''code'' ''ROOT_MISMATCH_CRITICAL'' r)"
  then obtain r where r: "r \<in> set (st_tables (fst s) ''root_audit_findings'')" "is_text ''code'' ''ROOT_MISMATCH_CRITICAL'' r" by blast
  then have "\<exists>e. fst (assertRootHealthy s) = Inl e" using root_refuses [OF r(2)] unfolding refuses_def finding_kept_def by blast
  then show False using run by simp
qed

definition stored_deposit :: "Store \<Rightarrow> UserDeposit \<Rightarrow> Row" where
  "stored_deposit db d = add_defaults db (tb_defaults cctp_deposits_table) (deposit_row d)"

lemma is_text_stored: "is_text c v (deposit_row d) \<Longrightarrow> is_text c v (stored_deposit db d)"
  unfolding stored_deposit_def by (rule is_text_defaults)

lemma deposit_stored:
  assumes "createUserDeposit d db = (Inr x, db')"
  shows "(\<exists>r \<in> set (st_tables db' ''cctp_deposits''). is_text ''deposit_id'' (ud_depositId d) r) \<and>
    ((\<forall>r \<in> set (st_tables db ''cctp_deposits''). \<not> is_text ''deposit_id'' (ud_depositId d) r) \<longrightarrow>
      st_tables db' ''cctp_deposits'' = st_tables db ''cctp_deposits'' @ [stored_deposit db d])"
proof -
  have id: "is_text ''deposit_id'' (ud_depositId d) (stored_deposit db d)" by (rule is_text_stored) (simp add: deposit_row_def is_text_def row_get_def)
  have taken: "key_taken rows (stored_deposit db d) [''deposit_id''] \<longleftrightarrow> (\<exists>r \<in> set rows. is_text ''deposit_id'' (ud_depositId d) r)" for rows
    using id by (simp add: key_taken_def list_ex_iff same_key_def is_text_def) metis
  show ?thesis using assms id
    by (auto simp: createUserDeposit_def runs sql_insert_def schema_simps Let_def stored_deposit_def [symmetric] taken split: if_splits)
qed


lemma bind_ok: "m s = (Inr x, s1) \<Longrightarrow> bindIO m f s = f x s1"
  by (simp add: bindIO_def)

lemma bind_read: "reads m \<Longrightarrow> fst (m s) = Inr x \<Longrightarrow> bindIO m f s = f x s"
  using reads_snd [of m s] by (cases "m s") (simp add: bindIO_def)

text \<open>Behind the gates the route answers.\<close>

lemma prepare_answers:
  assumes "requirePrivyUser A rq s = (Inr (u, did), s1)" "ap_parse A userDepositPrepareSchema (rq_body rq) = Some body" "fst (idem A rq s1) = Inr key"
    "text_of ''source_chain'' body = ''arbitrum-sepolia''" "BigInt (text_of ''amount_usdc_6dp'' body) = Inr amount6" "0 < amount6"
    "fst (onStore (userOwnsWallet u (text_of ''source_wallet_address'' body) None) s1) = Inr True"
    "fst (onStore (userOwnsVault u (text_of ''vault_id'' body)) s1) = Inr True"
    "fst (onStore (vaultDepositReady u (text_of ''vault_id'' body)) s1) = Inr (Some ready)" "dr_ready ready" "fst (assertRootHealthy s1) = Inr ()"
    "stellarContractToBytes32 (ap_strkey A) (forwarder_of (ap_env A)) = Inr mint" "encodeStellarForwardHook (ap_strkey A) (pool_of (ap_env A)) = Inr hook"
    "onStore (createUserDeposit (prepared_deposit body (depositId_of A key body) key u (usdc_of (ap_env A)) amount6)) s1 = (Inr (), s2)"
    "activity u ''deposit.prepare'' [(''entity_type'', JStr ''deposit''), (''entity_id'', JStr (depositId_of A key body))] s2 = (Inr (), s3)"
  shows "post_deposits_prepare A rq s =
    (Inr (200, JObj (prepare_reply (depositId_of A key body) (usdc_of (ap_env A)) (messenger_of (ap_env A)) amount6 mint hook (pool_of (ap_env A)))), s3)"
proof -
  note defs = depositId_of_def usdc_of_def messenger_of_def forwarder_of_def pool_of_def
  note gates = assms(3) [THEN bind_read [OF reads_idem]] assms(7) [THEN bind_read [OF reads_onStore [OF prepare_reads(1)]]]
    assms(8) [THEN bind_read [OF reads_onStore [OF prepare_reads(2)]]] assms(9) [THEN bind_read [OF reads_onStore [OF prepare_reads(3)]]] assms(11) [THEN bind_read [OF reads_assertRootHealthy]]
  have pure: "bindIO (liftIO (Inr x)) f t = f x t" "bindIO (unless True c msg) g t = g () t" "ap_parse A zs j = Some v \<Longrightarrow> bindIO (parse_with A zs j) h t = h v t"
    for x f t c msg g zs j v h by (simp_all add: bindIO_def liftIO_def unless_def parse_with_def returnIO_def)
  show ?thesis unfolding post_deposits_prepare_def Let_def defs [symmetric]
    by (simp add: bind_ok [of "requirePrivyUser A rq" s, OF assms(1)] assms(2,4-6,10,12,13) gates pure bind_ok [of "onStore _" s1, OF assms(14)] bind_ok [of "activity _ _ _" s2, OF assms(15)] reply_def returnIO_def)
qed

definition deposit_api :: "unit Api" where
  "deposit_api = demo_api\<lparr>ap_env := (\<lambda>k. if k = ''SHIELDED_POOL_CONTRACT'' then Some ''CPOOL'' else if k = ''STELLAR_CCTP_FORWARDER_CONTRACT'' then Some ''CFWD'' else None)\<rparr>"

definition privy_request :: "json \<Rightarrow> Request" where
  "privy_request b = \<lparr>rq_headers = (\<lambda>h. if h = ''authorization'' then Some ''Bearer eyJhbGciOiJFUzI1NiJ9.eyJpc3MiOiJwcml2eS5pbyIsInN1YiI6ImQifQ.AA''
      else if h = ''idempotency-key'' then Some ''k1'' else None), rq_params = (\<lambda>_. []), rq_body = Some b\<rparr>"

definition deposit_body :: json where
  "deposit_body = JObj [(''amount_usdc_6dp'', JStr ''2''), (''source_chain'', JStr ''arbitrum-sepolia''), (''source_wallet_address'', JStr ''0xAB''),
    (''vault_id'', JStr ''v1''), (''commitment'', JStr ''c1''), (''encrypted_note_payload_hash'', JStr ''h1''), (''policy_id'', JStr ''p1'')]"

definition deposit_store :: Store where
  "deposit_store = empty_store\<lparr>st_tables := (\<lambda>t.
    if t = ''users'' then [[(''id'', JStr ''u1''), (''privy_user_id'', JStr ''d''), (''created_at'', JNum 0), (''testnet_only'', JBool True), (''updated_at'', JNum 0)]]
    else if t = ''user_wallets'' then [[(''user_id'', JStr ''u1''), (''address'', JStr ''0xab'')]]
    else if t = ''note_vaults'' then [[(''user_id'', JStr ''u1''), (''vault_id'', JStr ''v1''), (''backup_status'', JStr ''verified''), (''recovery_policy_status'', JStr ''strong'')]]
    else [])\<rparr>"

definition deposit_user :: "Store \<times> unit" where
  "deposit_user = (snd (upsertUserByPrivyId ''d'' None None deposit_store), ())"

definition deposit_made :: "unit result \<times> Store \<times> unit" where
  "deposit_made = onStore (createUserDeposit (prepared_deposit deposit_body (depositId_of deposit_api ''k1'' deposit_body) ''k1'' ''u1'' (usdc_of (ap_env deposit_api)) 2)) deposit_user"

lemma deposit_token:
  "extractPrivyAccessToken (privy_request deposit_body) = Inr (Some ''eyJhbGciOiJFUzI1NiJ9.eyJpc3MiOiJwcml2eS5pbyIsInN1YiI6ImQifQ.AA'')"
  "case verifyPrivyAccessToken deposit_api ''eyJhbGciOiJFUzI1NiJ9.eyJpc3MiOiJwcml2eS5pbyIsInN1YiI6ImQifQ.AA'' () of (Inr c, _) \<Rightarrow> pc_userId c = ''d'' | _ \<Rightarrow> False"
  "fst (upsertUserByPrivyId ''d'' None None deposit_store) = Inr ''u1''"
  by code_simp+

lemma deposit_user_run: "requirePrivyUser deposit_api (privy_request deposit_body) (deposit_store, ()) = (Inr (''u1'', ''d''), deposit_user)"
  using deposit_token(2,3) unfolding requirePrivyUser_def deposit_user_def deposit_token(1)
  by (cases "upsertUserByPrivyId ''d'' None None deposit_store")
    (auto simp: bindIO_def liftIO_def returnIO_def no_token_def catchIO_def onOut_def onStore_def split: prod.splits sum.splits)

lemma deposit_steps:
  "fst (idem deposit_api (privy_request deposit_body) deposit_user) = Inr ''k1''"
  "fst (onStore (userOwnsWallet ''u1'' ''0xAB'' None) deposit_user) = Inr True" "fst (onStore (userOwnsVault ''u1'' ''v1'') deposit_user) = Inr True"
  "case fst (onStore (vaultDepositReady ''u1'' ''v1'') deposit_user) of Inr (Some r) \<Rightarrow> dr_ready r | _ \<Rightarrow> False"
  "fst (assertRootHealthy deposit_user) = Inr ()" "fst deposit_made = Inr ()"
  "fst (activity ''u1'' ''deposit.prepare'' [(''entity_type'', JStr ''deposit''), (''entity_id'', JStr (depositId_of deposit_api ''k1'' deposit_body))] (snd deposit_made)) = Inr ()"
  by code_simp+

lemma deposit_route:
  "\<exists>mint. stellarContractToBytes32 (ap_strkey deposit_api) (forwarder_of (ap_env deposit_api)) = Inr mint"
  "\<exists>hook. encodeStellarForwardHook (ap_strkey deposit_api) (pool_of (ap_env deposit_api)) = Inr hook"
  by (simp_all add: stellarContractToBytes32_def encodeStellarForwardHook_def forwarder_of_def pool_of_def env_default_def nonempty_env_def deposit_api_def demo_api_def demo_StrKey_def
      starts_with_def utf8_encode_def utf8_char_def Let_def)

lemma demo_deposit: "\<exists>resp s'. post_deposits_prepare deposit_api (privy_request deposit_body) (deposit_store, ()) = (Inr resp, s')"
proof -
  obtain mint hook where route: "stellarContractToBytes32 (ap_strkey deposit_api) (forwarder_of (ap_env deposit_api)) = Inr mint"
      "encodeStellarForwardHook (ap_strkey deposit_api) (pool_of (ap_env deposit_api)) = Inr hook" using deposit_route by blast
  obtain ready where ready: "fst (onStore (vaultDepositReady ''u1'' ''v1'') deposit_user) = Inr (Some ready)" "dr_ready ready"
    using deposit_steps(4) by (auto split: sum.splits option.splits)
  obtain s2 where made: "deposit_made = (Inr (), s2)" using deposit_steps(6) by (metis prod.collapse)
  obtain s3 where log: "activity ''u1'' ''deposit.prepare'' [(''entity_type'', JStr ''deposit''), (''entity_id'', JStr (depositId_of deposit_api ''k1'' deposit_body))] s2 = (Inr (), s3)"
    using deposit_steps(7) unfolding made by (metis prod.collapse snd_conv)
  have fields: "ap_parse deposit_api userDepositPrepareSchema (rq_body (privy_request deposit_body)) = Some deposit_body" "text_of ''source_chain'' deposit_body = ''arbitrum-sepolia''"
      "text_of ''source_wallet_address'' deposit_body = ''0xAB''" "text_of ''vault_id'' deposit_body = ''v1''"
    by (simp_all add: deposit_api_def demo_api_def privy_request_def deposit_body_def text_of_def member_def json_get_def)
  have "BigInt (text_of ''amount_usdc_6dp'' deposit_body) = Inr 2" by code_simp
  from prepare_answers [OF deposit_user_run fields(1) deposit_steps(1) fields(2) this _ deposit_steps(2,3) [folded fields(3,4)] ready(1) [folded fields(4)] ready(2) deposit_steps(5) route
      made [unfolded deposit_made_def] log]
  show ?thesis by (metis zero_less_numeral)
qed


section \<open>From the prepared deposit to the validated burn\<close>

text \<open>The call the reply describes, with a fee and a finality threshold of the wallet's choice.\<close>

definition burn_call :: "int \<Rightarrow> string \<Rightarrow> string \<Rightarrow> string \<Rightarrow> int \<Rightarrow> int \<Rightarrow> BurnCall" where
  "burn_call amount6 mint usdc hook fee threshold =
    \<lparr>bc_amount = amount6, bc_destinationDomain = stellarDomain, bc_mintRecipient = mint, bc_burnToken = usdc, bc_destinationCaller = mint, bc_maxFee = fee,
     bc_minFinalityThreshold = threshold, bc_hookData = hook\<rparr>"

lemma env_default_or: "\<forall>k. e k \<noteq> Some [] \<Longrightarrow> env_default e k d = env_or e k d"
  by (auto simp: env_default_def env_or_def nonempty_env_def split: option.splits)

lemma burn_payload_fields:
  fixes body b :: json and i key user usdc :: string and db :: Store and amount6 :: int
  defines "p \<equiv> burn_payload i b (stored_deposit db (prepared_deposit body i key user usdc amount6))"
  assumes "member ''burn_tx_hash'' b = JStr h" "member ''source_wallet_address'' b = JStr a"
  shows "pay p ''expected_amount6'' = bigint_to_string amount6" "pay_true p ''expected_max_fee6'' = False" "pay p ''burn_tx_hash'' = h"
    "pay p ''source_wallet_address'' = a" "finality_of p = Some FINALITY_THRESHOLD_CONFIRMED"
  using assms by (simp_all add: burn_payload_def stored_deposit_def prepared_deposit_def deposit_row_def table_defs row_get_def pay_def pay_true_def finality_of_def
      json_get_def js_string_opt_def json_falsy_def)

text \<open>The validation of such a burn, for any fee and threshold.\<close>

lemma burn_validation:
  fixes A :: "'a Api" and R :: "'w RelayerWorld" and fee threshold :: int
  assumes env: "rw_env R = ap_env A" "\<forall>k. ap_env A k \<noteq> Some []" "rw_strkey R = ap_strkey A"
    and route: "stellarContractToBytes32 (ap_strkey A) (forwarder_of (ap_env A)) = Inr mint" "encodeStellarForwardHook (ap_strkey A) (pool_of (ap_env A)) = Inr hook"
    and submitted: "member ''burn_tx_hash'' b = JStr h" "member ''source_wallet_address'' b = JStr a"
    and chain: "rw_getTransaction R h w = (Inr (Some tx), w1)" "rw_getReceiptStatus R h w1 = (Inr (Some 1), w2)"
    and tx: "lower (tx_from tx) = lower a" "tx_to tx = Some (messenger_of (ap_env A))"
      "rw_parseTransaction R (tx_data tx) = Inr (Some (burn_call amount6 mint (usdc_of (ap_env A)) hook fee threshold))"
  shows "(\<exists>v. fst (validate_user_burn R (pool_of (ap_env A))
      (burn_payload i b (stored_deposit db (prepared_deposit body i key user (usdc_of (ap_env A)) amount6))) w) = Inr v) \<longleftrightarrow> threshold = 1000"
proof -
  note fields = burn_payload_fields [OF submitted, of i db body key user "usdc_of (ap_env A)" amount6]
  note same = forwarder_of_def pool_of_def usdc_of_def messenger_of_def env_default_or [OF env(2)]
  show ?thesis
    using route chain tx unfolding validate_user_burn_def fields
    by (auto simp: bindIO_def liftIO_def optR_def validateInboundBurnTx_def env(1,3) same burn_call_def expected_finality_def FINALITY_THRESHOLD_CONFIRMED_def bindR_def guardR_def)
qed


definition deposit_mint :: string where "deposit_mint = ''0x'' @ hex_encode (utf8_encode ''CFWD'')"
definition deposit_hook :: string where "deposit_hook = (case encodeStellarForwardHook demo_StrKey ''CPOOL'' of Inr h \<Rightarrow> h | Inl _ \<Rightarrow> [])"

definition burn_world :: "int \<Rightarrow> int RelayerWorld" where
  "burn_world threshold = demo_relayer\<lparr>rw_env := ap_env deposit_api, rw_strkey := ap_strkey deposit_api,
    rw_getTransaction := (\<lambda>_ w. (Inr (Some \<lparr>tx_from = ''0xab'', tx_to = Some (messenger_of (ap_env deposit_api)), tx_data = ''0x''\<rparr>), w)),
    rw_getReceiptStatus := (\<lambda>_ w. (Inr (Some 1), w)),
    rw_parseTransaction := (\<lambda>_. Inr (Some (burn_call 2 deposit_mint (usdc_of (ap_env deposit_api)) deposit_hook 2 threshold)))\<rparr>"

definition burn_body :: json where "burn_body = JObj [(''burn_tx_hash'', JStr ''0x1''), (''source_wallet_address'', JStr ''0xAB'')]"

definition burn_job :: json where
  "burn_job = burn_payload ''i'' burn_body (stored_deposit deposit_store (prepared_deposit deposit_body ''i'' ''k1'' ''u1'' (usdc_of (ap_env deposit_api)) 2))"


section \<open>Disclosure\<close>

lemma owned_settlements: "getOwnedSettlements u ids db = (Inr ss, db') \<Longrightarrow> db' = db \<and> (\<forall>s \<in> set ss. \<exists>r \<in> set (st_tables db ''settlements''). is_text ''user_id'' u r \<and>
    row_get ''nullifier'' s = row_get ''nullifier'' r)"
  by (auto simp: getOwnedSettlements_def owned_among_def sql_select_def bindIO_def returnIO_def columns_of_def row_get_def split: if_splits) blast

lemma owned_commitments: "getOwnedNoteCommitments u ids db = (Inr cs, db') \<Longrightarrow> db' = db \<and> (\<forall>c \<in> set cs. \<exists>r \<in> set (st_tables db ''note_commitments''). is_text ''user_id'' u r \<and>
    is_text ''commitment'' (js_string (row_get ''commitment'' c)) r)"
  by (auto simp: getOwnedNoteCommitments_def owned_among_def sql_select_def bindIO_def returnIO_def columns_of_def row_get_def is_text_def list_ex_iff split: if_splits) blast

lemma signed_report: "signViewKeyReport L r i secret now = Inr rep \<Longrightarrow> \<exists>pk sign. rl_fromSecret L secret = Inr (pk, sign) \<and>
    vr_noteCommitments rep = vr_noteCommitments r \<and> vr_disclosedNullifiers rep = vr_disclosedNullifiers r \<and> vr_amountsDisclosed rep = vr_amountsDisclosed r \<and>
    ((\<forall>m. verify pk m (sign m)) \<longrightarrow> verifyViewKeyReport L verify rep)"
  by (auto simp: signViewKeyReport_def verifyViewKeyReport_def canonicalReportPayload_def ViewKeyReportInput.defs bindR_def split: sum.splits)

text \<open>C29. A disclosure report discloses what its user owns, and only amounts that were asked for.  When
  \<open>POST /v1/reports/view-key\<close> answers with a report, every note commitment and every nullifier in it comes from a
  row of the authenticated user, amounts are in it exactly when the body asks for them, and the report carries a
  signature that verifies under the key it names.\<close>
theorem report_discloses_own:
  assumes run: "post_view_key A V rq (db, w) = (Inr (200, resp), (db', w'))"
    and sound: "\<forall>secret pk sign m. rl_fromSecret (ap_lib A) secret = Inr (pk, sign) \<longrightarrow> verify pk m (sign m)"
  shows "\<exists>userId s1 body rep attachment.
    authedUser A rq (db, w) = (Inr userId, s1) \<and> ap_parse A viewKeyReportSchema (rq_body rq) = Some body \<and>
    resp = JObj [(''report'', report_json rep), (''encrypted_attachment'', attachment)] \<and>
    (\<forall>c \<in> set (vr_noteCommitments rep). \<exists>r \<in> set (st_tables db ''note_commitments''). is_text ''user_id'' userId r \<and> is_text ''commitment'' c r) \<and>
    (\<forall>n \<in> set (vr_disclosedNullifiers rep). \<exists>r \<in> set (st_tables db ''settlements''). is_text ''user_id'' userId r \<and> js_string (row_get ''nullifier'' r) = n) \<and>
    (vr_amountsDisclosed rep \<noteq> None \<longleftrightarrow> member ''disclose_amounts'' body = JBool True) \<and>
    verifyViewKeyReport (ap_lib A) verify rep"
proof -
  obtain userId s1 body secret s2 s3 settlements commitments anchors reportId now rep attachment where
    auth: "authedUser A rq (db, w) = (Inr userId, s1)" and body: "ap_parse A viewKeyReportSchema (rq_body rq) = Some body"
    and ss: "onStore (getOwnedSettlements userId (text_list ''settlement_ids'' body)) s1 = (Inr settlements, s2)"
    and cs: "onStore (getOwnedNoteCommitments userId (text_list ''note_commitments'' body)) s2 = (Inr commitments, s3)"
    and sign: "signViewKeyReport (ap_lib A) (report_input userId body settlements commitments anchors) reportId secret (vl_toISOString V now) = Inr rep"
    and resp: "resp = JObj [(''report'', report_json rep), (''encrypted_attachment'', attachment)]"
    using run unfolding post_view_key_def
    by (cases "nonempty_env (ap_env A) ''LUMIXPROTOCOL_VIEW_SIGNING_SECRET''") (auto simp: plain_runs elim!: bind_runE intro!: that)
  obtain db1 w1 where s1: "s1 = (db1, w1)" by (cases s1)
  have own: "s2 = s1" "\<forall>s \<in> set settlements. \<exists>r \<in> set (st_tables db1 ''settlements''). is_text ''user_id'' userId r \<and> row_get ''nullifier'' s = row_get ''nullifier'' r"
    using ss owned_settlements unfolding s1 onStore_run by blast+
  have kept: "\<forall>c \<in> set commitments. \<exists>r \<in> set (st_tables db1 ''note_commitments''). is_text ''user_id'' userId r \<and> is_text ''commitment'' (js_string (row_get ''commitment'' c)) r"
    using cs owned_commitments unfolding own(1) s1 onStore_run by blast
  have same: "st_tables db1 t = st_tables db t" if "t \<notin> {''users'', ''user_profiles''}" for t
    using keeps_run [OF authedUser_other [OF that] auth] by (simp add: s1)
  from signed_report [OF sign, of verify] sound have signed: "vr_noteCommitments rep = map (\<lambda>c. js_string (row_get ''commitment'' c)) commitments"
      "set (vr_disclosedNullifiers rep) \<subseteq> (\<lambda>s. js_string (row_get ''nullifier'' s)) ` set settlements"
      "vr_amountsDisclosed rep \<noteq> None \<longleftrightarrow> member ''disclose_amounts'' body = JBool True" "verifyViewKeyReport (ap_lib A) verify rep"
    by (auto simp: report_input_def split: if_splits)
  have "\<forall>n \<in> set (vr_disclosedNullifiers rep). \<exists>r \<in> set (st_tables db ''settlements''). is_text ''user_id'' userId r \<and> js_string (row_get ''nullifier'' r) = n"
    using signed(2) own(2) same [of "''settlements''"] by fastforce
  moreover have "\<forall>c \<in> set (vr_noteCommitments rep). \<exists>r \<in> set (st_tables db ''note_commitments''). is_text ''user_id'' userId r \<and> is_text ''commitment'' c r"
    using signed(1) kept same [of "''note_commitments''"] by fastforce
  ultimately show ?thesis using auth body resp signed(3,4) by blast
qed

definition report_api :: "unit Api" where
  "report_api = demo_api\<lparr>ap_env := (\<lambda>k. if k = ''ENABLE_LEGACY_WALLET_AUTH'' then Some ''true'' else if k = ''LUMIXPROTOCOL_VIEW_SIGNING_SECRET'' then Some ''s'' else None)\<rparr>"

definition report_request :: Request where
  "report_request = \<lparr>rq_headers = (\<lambda>h. if h = ''authorization'' then Some ''Bearer t'' else None), rq_params = (\<lambda>_. []),
    rq_body = Some (JObj [(''note_commitments'', JArr [JStr ''c1'', JStr ''c2'']), (''disclose_amounts'', JBool False)])\<rparr>"

definition report_store :: Store where
  "report_store = empty_store\<lparr>st_tables := (\<lambda>t.
    if t = ''users'' then [[(''id'', JStr ''u1''), (''created_at'', JNum 0), (''testnet_only'', JBool True), (''updated_at'', JNum 0)]]
    else if t = ''user_sessions'' then [[(''user_id'', JStr ''u1''), (''session_hash'', JStr (sha256_text plain_lib ''t'')), (''expires_at'', JNum 9)]]
    else if t = ''note_commitments'' then [[(''user_id'', JStr ''u1''), (''commitment'', JStr ''c1'')], [(''user_id'', JStr ''u2''), (''commitment'', JStr ''c2'')]]
    else [])\<rparr>"

lemma demo_report: "case post_view_key report_api demo_view report_request (report_store, ()) of (Inr (c, _), _) \<Rightarrow> c = 200 | _ \<Rightarrow> False"
  by code_simp

theorem report_discloses_own_witness:
  "\<exists>rep. (\<forall>c \<in> set (vr_noteCommitments (rep :: SignedViewKeyReport)). c = ''c1'') \<and> verifyViewKeyReport plain_lib (\<lambda>_ m s. s = m) rep"
proof -
  obtain resp db' w' where run: "post_view_key report_api demo_view report_request (report_store, ()) = (Inr (200, resp), (db', w'))"
    using demo_report by (auto split: prod.splits sum.splits)
  have lib: "ap_lib report_api = plain_lib" by (simp add: report_api_def demo_api_def)
  obtain userId s1 rep where auth: "authedUser report_api report_request (report_store, ()) = (Inr userId, s1)"
    and own: "\<forall>c \<in> set (vr_noteCommitments rep). \<exists>r \<in> set (st_tables report_store ''note_commitments''). is_text ''user_id'' userId r \<and> is_text ''commitment'' c r"
    and ok: "verifyViewKeyReport plain_lib (\<lambda>_ m s. s = m) rep"
    using report_discloses_own [OF run, of "\<lambda>_ m s. s = m"] unfolding lib by (auto simp: plain_lib_def)
  have "fst (authedUser report_api report_request (report_store, ())) = Inr ''u1''" by code_simp
  then show ?thesis using auth own ok by (auto simp: report_store_def is_text_def row_get_def)
qed

end
