(* ===== verification/Sdk_Api.thy ===== *)
theory Sdk_Api
  imports Sdk Api_Security
begin

text \<open>
  The client library and the API together: the server's router, the client's \<open>fetch\<close> answered by it, and what a
  client then gets.
\<close>

section \<open>The router\<close>

text \<open>A route's key is the method and the pattern; a segment that starts with a colon matches any segment and names
  a parameter.  No two routes of one method match the same path.\<close>

fun match_segments :: "string list \<Rightarrow> string list \<Rightarrow> (string \<times> string) list option" where
  "match_segments [] [] = Some []"
| "match_segments (p # ps) (s # ss) =
    (if p \<noteq> [] \<and> hd p = CHR '':'' then map_option ((#) (tl p, s)) (match_segments ps ss)
     else if p = s then match_segments ps ss else None)"
| "match_segments _ _ = None"

definition match_route :: "string \<Rightarrow> string \<Rightarrow> string \<Rightarrow> (string \<times> string) list option" where
  "match_route key verb path =
    (case js_split CHR '' '' key of [v, pat] \<Rightarrow> if v = verb then match_segments (js_split CHR ''/'' pat) (js_split CHR ''/'' path) else None | _ \<Rightarrow> None)"

primrec find_route :: "(string \<times> 'h) list \<Rightarrow> string \<Rightarrow> string \<Rightarrow> ('h \<times> (string \<times> string) list) option" where
  "find_route [] verb path = None"
| "find_route (r # rs) verb path = (case match_route (fst r) verb path of Some ps \<Rightarrow> Some (snd r, ps) | None \<Rightarrow> find_route rs verb path)"

text \<open>A request as the routes see it: header names in lower case.\<close>

definition request_of :: "(string \<times> string) list \<Rightarrow> (string \<times> string) list \<Rightarrow> json option \<Rightarrow> Request" where
  "request_of headers params body =
    \<lparr>rq_headers = map_of (map (\<lambda>(k, v). (lower k, v)) headers), rq_params = (\<lambda>k. case map_of params k of Some v \<Rightarrow> v | None \<Rightarrow> []), rq_body = body\<rparr>"

definition dispatch :: "'w Api \<Rightarrow> 'w ViewLib \<Rightarrow> string \<Rightarrow> string \<Rightarrow> (string \<times> string) list \<Rightarrow> json option \<Rightarrow> Store \<times> 'w \<Rightarrow> reply \<times> (Store \<times> 'w)" where
  "dispatch A V verb path headers body s =
    (case find_route (routes A V) verb path of
       Some (h, params) \<Rightarrow> served (h (request_of headers params body)) s
     | None \<Rightarrow> ((404, JObj [(''error'', JStr ''Not Found'')]), s))"

text \<open>A client's world whose \<open>fetch\<close> reaches the server under \<open>base\<close>.\<close>

definition over_api :: "'w Api \<Rightarrow> 'w ViewLib \<Rightarrow> string \<Rightarrow> (Store \<times> 'w) SdkWorld \<Rightarrow> (Store \<times> 'w) SdkWorld" where
  "over_api A V base T = T\<lparr>sd_fetch := (\<lambda>verb url headers body s.
    if starts_with url base
    then case dispatch A V verb (drop (length base) url) headers body s of
      ((c, j), s') \<Rightarrow> (Inr \<lparr>hr_status = int c, hr_text = stringify j, hr_json = Inr j\<rparr>, s')
    else (Inl (Type_Error ''fetch failed''), s))\<rparr>"

section \<open>Requests that fail\<close>

definition error_status :: "js_error \<Rightarrow> bool" where
  "error_status e \<longleftrightarrow> 400 \<le> fst (error_reply e)"

text \<open>What throws, throws an error status; what rejects, always throws.\<close>

definition polite :: "('s, 'a) io \<Rightarrow> bool" where
  "polite m \<longleftrightarrow> (\<forall>s e s'. m s = (Inl e, s') \<longrightarrow> error_status e)"

definition rejects :: "('s, 'a) io \<Rightarrow> bool" where
  "rejects m \<longleftrightarrow> (\<forall>s. \<exists>e s'. m s = (Inl e, s') \<and> error_status e)"

named_theorems polite_intro

lemma error_status_simps [simp]: "error_status (Js_Error m)" "error_status (Type_Error m)" "error_status (Status_Error c m) \<longleftrightarrow> 400 \<le> c"
  "error_status (Range_Error m)" "error_status (Syntax_Error m)" "error_status (sql_error t m)"
  by (simp_all add: error_status_def sql_error_def)

lemma polite_basic [polite_intro]: "polite (returnIO x)" "400 \<le> c \<Longrightarrow> polite (fail c m)" "polite nowIO" "polite (sql_select t cond)"
  by (simp_all add: polite_def returnIO_def fail_def throwIO_def nowIO_def sql_select_def)

lemma polite_bind [polite_intro]: "polite m \<Longrightarrow> (\<And>x. polite (f x)) \<Longrightarrow> polite (bindIO m f)"
  by (fastforce simp: polite_def bindIO_def split: prod.splits sum.splits)

lemma polite_catch [polite_intro]: "(\<And>e. polite (h e)) \<Longrightarrow> polite (catchIO m h)"
  by (fastforce simp: polite_def catchIO_def split: prod.splits sum.splits)

lemma polite_if [polite_intro]: "polite m \<Longrightarrow> polite m' \<Longrightarrow> polite (if b then m else m')"
  by simp

lemma polite_option [polite_intro]: "polite n \<Longrightarrow> (\<And>x. polite (f x)) \<Longrightarrow> polite (case y of None \<Rightarrow> n | Some x \<Rightarrow> f x)"
  by (cases y) simp_all

lemma polite_list [polite_intro]: "polite n \<Longrightarrow> (\<And>x xs. polite (f x xs)) \<Longrightarrow> polite (case ys of [] \<Rightarrow> n | x # xs \<Rightarrow> f x xs)"
  by (cases ys) simp_all

lemma polite_prod [polite_intro]: "(\<And>a b. polite (f a b)) \<Longrightarrow> polite (case p of (a, b) \<Rightarrow> f a b)"
  by (cases p) simp

lemma polite_onStore [polite_intro]: "polite m \<Longrightarrow> polite (onStore m)"
  by (fastforce simp: polite_def onStore_def split: prod.splits)

lemma polite_insert [polite_intro]: "polite (sql_insert t row oc)"
  by (auto simp: polite_def sql_insert_def Let_def split: option.splits on_conflict.splits if_splits)

lemma polite_update [polite_intro]: "polite (sql_update t cond sets)"
  by (auto simp: polite_def sql_update_def Let_def split: option.splits if_splits)

lemma polite_cookie: "find_cookie name ps = Inl e \<Longrightarrow> error_status e"
  by (induction name ps rule: find_cookie.induct) (auto simp: decodeURIComponent_def bindR_def split: list.splits if_splits option.splits sum.splits)

lemma polite_token [polite_intro]: "polite (liftIO (read_token name rq))"
  using polite_cookie by (auto simp: polite_def liftIO_def read_token_def split: option.splits if_splits)

lemma polite_authedUser: "polite (authedUser A rq)"
  unfolding authedUser_def requirePrivyUser_def requireUser_def readSessionToken_def extractPrivyAccessToken_def upsertUserByPrivyId_def touch_user_def userIdForSession_def
  by (intro polite_intro; simp)

lemma polite_parse: "polite (parse_with A z j)"
  by (auto simp: polite_def parse_with_def returnIO_def fail_def throwIO_def split: option.splits)

lemma rejects_then: "polite m \<Longrightarrow> (\<And>x. rejects (f x)) \<Longrightarrow> rejects (bindIO m f)"
  unfolding rejects_def polite_def bindIO_def by (auto split: prod.splits sum.splits)

lemma rejects_first: "rejects m \<Longrightarrow> rejects (bindIO m f)"
  unfolding rejects_def
proof
  fix s
  assume "\<forall>s. \<exists>e s'. m s = (Inl e, s') \<and> error_status e"
  then obtain e s' where "m s = (Inl e, s')" "error_status e" by blast
  then show "\<exists>e s'. bindIO m f s = (Inl e, s') \<and> error_status e" by (simp add: bindIO_def)
qed

text \<open>Documented behaviour of zod: an object without a required member does not parse.\<close>

definition zod_required :: "'w Api \<Rightarrow> bool" where
  "zod_required A \<longleftrightarrow> (\<forall>fs j v k z. ap_parse A (Z_object fs) (Some j) = Some v \<and> (k, Required, z) \<in> set fs \<longrightarrow> json_get k j \<noteq> None)"

lemma parse_rejects: "zod_required A \<Longrightarrow> (k, Required, z) \<in> set fs \<Longrightarrow> json_get k j = None \<Longrightarrow> rejects (parse_with A (Z_object fs) (Some j))"
proof -
  assume "zod_required A" "(k, Required, z) \<in> set fs" "json_get k j = None"
  then have "ap_parse A (Z_object fs) (Some j) = None" unfolding zod_required_def by (metis not_None_eq)
  then show ?thesis by (simp add: rejects_def parse_with_def fail_def throwIO_def)
qed

lemma post_intents_rejects: "zod_required A \<Longrightarrow> rq_headers rq ''idempotency-key'' = None \<Longrightarrow> rejects (post_intents A rq)"
  unfolding post_intents_def idem_def idempotencyHeader_def
  by (rule rejects_then [OF polite_authedUser], rule rejects_then [OF polite_parse], rule rejects_first, rule rejects_first)
    (auto intro!: parse_rejects simp: json_get_def)

lemma post_quote_accept_rejects: "zod_required A \<Longrightarrow> rq_body rq = Some (JObj []) \<Longrightarrow> rejects (post_quote_accept A rq)"
  unfolding post_quote_accept_def quoteAcceptanceSchema_def
  by (rule rejects_then [OF polite_authedUser], rule rejects_first) (auto intro!: parse_rejects simp: json_get_def)

lemma served_rejects: "rejects h \<Longrightarrow> \<exists>c j s'. served h s = ((c, j), s') \<and> 400 \<le> c"
proof -
  assume "rejects h"
  then obtain e s' where "h s = (Inl e, s')" "error_status e" unfolding rejects_def by blast
  then show ?thesis by (cases "error_reply e") (simp add: served_def error_status_def)
qed

lemma sdk_post_fails:
  assumes "\<exists>c j s'. dispatch A V ''POST'' path (sdk_headers \<lparr>ic_apiBase = base, ic_authToken = tok\<rparr>) (Some body) s = ((c, j), s') \<and> 400 \<le> c"
  shows "\<exists>e. fst (sdk_post (over_api A V base T) \<lparr>ic_apiBase = base, ic_authToken = tok\<rparr> path body s) = Inl e"
proof -
  from assms obtain c j s' where d: "dispatch A V ''POST'' path (sdk_headers \<lparr>ic_apiBase = base, ic_authToken = tok\<rparr>) (Some body) s = ((c, j), s')" "400 \<le> c" by blast
  then show ?thesis by (simp add: sdk_post_def over_api_def bindIO_def starts_with_def http_ok_def throwIO_def)
qed

lemma route_intents: "find_route (routes A V) ''POST'' ''/v1/intents'' = Some (post_intents A, [])"
  by (simp add: routes_def match_route_def)

lemma route_accept: "CHR ''/'' \<notin> set q \<Longrightarrow> find_route (routes A V) ''POST'' (''/v1/quotes/'' @ q @ ''/accept'') = Some (post_quote_accept A, [(''quote_id'', q)])"
  by (simp add: routes_def match_route_def js_split_append [of _ q "''accept''", simplified])

lemma sdk_sends_no_key: "rq_headers (request_of (sdk_headers c) ps b) ''idempotency-key'' = None"
proof -
  have "lower ''Content-Type'' = ''content-type''" "lower ''Authorization'' = ''authorization''" by code_simp+
  then show ?thesis by (auto simp: request_of_def sdk_headers_def split: option.splits)
qed


definition checked_api :: "unit Api" where
  "checked_api = demo_api\<lparr>ap_parse := (\<lambda>z j. case j of Some v \<Rightarrow> if conforms z v then Some v else None | None \<Rightarrow> None)\<rparr>"

lemma checked_api_required: "zod_required checked_api"
  unfolding zod_required_def
proof (intro allI impI)
  fix fs j v k z
  assume "ap_parse checked_api (Z_object fs) (Some j) = Some v \<and> (k, Required, z) \<in> set fs"
  then have ok: "conforms (Z_object fs) j" and k: "(k, Required, z) \<in> set fs" by (auto simp: checked_api_def split: if_splits)
  from ok obtain ms where "j = JObj ms" by (cases j) simp_all
  with ok k show "json_get k j \<noteq> None" by (cases "json_get k j") (auto simp: list_all_iff dest!: bspec [OF _ k])
qed

definition demo_client_world :: "(Store \<times> unit) SdkWorld" where
  "demo_client_world = \<lparr>sd_fetch = (\<lambda>_ _ _ _. throwIO (Js_Error ''offline'')), sd_now = returnIO 0, sd_delay = (\<lambda>_. returnIO ()), sd_randomBytes = (\<lambda>n. returnIO (replicate n 7)),
    sd_keyPair = returnIO \<lparr>kp_publicKey = [1], kp_secretKey = [1]\<rparr>, sd_sha256 = (\<lambda>b. b), sd_nacl = plain_nacl\<rparr>"


end
