(* ===== verification/Web_Client.thy ===== *)
theory Web_Client
  imports Sdk_Api
begin

text \<open>
  The libraries behind the two web applications: the wallets of a Privy user (\<open>frontend/lib/privy-wallets.ts\<close>), the
  readiness of a vault (\<open>frontend/lib/vault-hooks.ts\<close>), the HTTP client (\<open>frontend/lib/api.ts\<close>, \<open>token.ts\<close>), the live
  feed of pool events (\<open>frontend/lib/stellar-events.ts\<close>), the withdrawal signed in Freighter
  (\<open>frontend/lib/freighter-withdraw.ts\<close>), and of \<open>apps/web\<close> the wallet functions (\<open>src/lib/stellar-wallet.ts\<close>,
  \<open>stellar-sdk.ts\<close>), the encrypted cache (\<open>src/lib/vault-store.ts\<close>) and the wallet hook
  (\<open>src/hooks/use-stellar-wallet.ts\<close>) as a machine whose callbacks interleave.  Freighter, Horizon, the RPC node, \<open>fetch\<close>
  and IndexedDB are parameters or state; the pages that render are not modelled.
\<close>

section \<open>The wallets of a Privy user\<close>

record PrivyLinkedAccount =
  pl_type :: "string option"
  pl_address :: "string option"
  pl_chainType :: "string option"
  pl_walletClientType :: "string option"
  pl_walletClient :: "string option"
  pl_id :: "string option"

record SyncWalletInput =
  sw_wallet_type :: string
  sw_wallet_source :: string
  sw_chain :: string
  sw_address :: string
  sw_privy_wallet_id :: "string option"

definition sync_wallet :: "PrivyLinkedAccount \<Rightarrow> SyncWalletInput option" where
  "sync_wallet a =
    (if pl_type a \<noteq> Some ''wallet'' then None
     else case pl_address a of
       None \<Rightarrow> None
     | Some address \<Rightarrow>
         if address = [] then None
         else let isEvm = (opt_or (pl_chainType a) ''ethereum'' = ''ethereum'');
                  client = (case pl_walletClientType a of Some c \<Rightarrow> Some c | None \<Rightarrow> pl_walletClient a)
              in Some \<lparr>sw_wallet_type = (if isEvm then ''EVM'' else ''STELLAR''), sw_wallet_source = (if client = Some ''privy'' then ''privy_embedded'' else ''external''),
                   sw_chain = (if isEvm then ''arbitrum-sepolia'' else ''stellar-testnet''), sw_address = address, sw_privy_wallet_id = pl_id a\<rparr>)"

definition wallet_key :: "SyncWalletInput \<Rightarrow> string" where
  "wallet_key w = sw_wallet_type w @ '':'' @ lower (sw_address w)"

fun unseen :: "string list \<Rightarrow> SyncWalletInput list \<Rightarrow> SyncWalletInput list" where
  "unseen seen [] = []"
| "unseen seen (w # ws) = (if wallet_key w \<in> set seen then unseen seen ws else w # unseen (wallet_key w # seen) ws)"

text \<open>No user, or a user without the list of accounts, has no wallets.\<close>

definition walletsFromPrivyUser :: "PrivyLinkedAccount list option option \<Rightarrow> SyncWalletInput list" where
  "walletsFromPrivyUser user = (case user of Some (Some accounts) \<Rightarrow> unseen [] (List.map_filter sync_wallet accounts) | _ \<Rightarrow> [])"

lemma unseen_keys: "distinct (map wallet_key (unseen seen ws)) \<and> wallet_key ` set (unseen seen ws) = wallet_key ` set ws - set seen \<and> set (unseen seen ws) \<subseteq> set ws"
  by (induction seen ws rule: unseen.induct) auto

text \<open>The list sent to the API names every wallet account of the user once.\<close>

theorem privy_wallets_exact:
  fixes accounts :: "PrivyLinkedAccount list"
  defines "ws \<equiv> walletsFromPrivyUser (Some (Some accounts))"
  shows "distinct (map wallet_key ws) \<and> (\<forall>w \<in> set ws. \<exists>a \<in> set accounts. sync_wallet a = Some w) \<and>
    (\<forall>a \<in> set accounts. \<forall>w. sync_wallet a = Some w \<longrightarrow> (\<exists>w' \<in> set ws. wallet_key w' = wallet_key w))"
proof -
  let ?all = "List.map_filter sync_wallet accounts"
  have all: "set ?all = {w. \<exists>a \<in> set accounts. sync_wallet a = Some w}" by (induction accounts) (auto simp: List.map_filter_simps split: option.splits)
  have ws: "ws = unseen [] ?all" by (simp add: ws_def walletsFromPrivyUser_def)
  have keys: "wallet_key ` set ws = wallet_key ` set ?all" "set ws \<subseteq> set ?all" "distinct (map wallet_key ws)" using unseen_keys [of "[]" ?all] by (auto simp: ws)
  have "\<exists>w' \<in> set ws. wallet_key w' = wallet_key w" if "a \<in> set accounts" "sync_wallet a = Some w" for a w
  proof -
    have "wallet_key w \<in> wallet_key ` set ?all" using that all by blast
    then show ?thesis by (metis imageE keys(1))
  qed
  then show ?thesis using keys(2,3) all by blast
qed

section \<open>The readiness of a vault\<close>

record VaultSummary =
  vs_vault_id :: string
  vs_backup_status :: string
  vs_recovery_policy_status :: string

definition isDepositReady :: "VaultSummary option \<Rightarrow> bool" where
  "isDepositReady v = (case v of None \<Rightarrow> False
     | Some s \<Rightarrow> vs_backup_status s = ''verified'' \<and> (vs_recovery_policy_status s = ''sufficient'' \<or> vs_recovery_policy_status s = ''strong''))"

text \<open>A row of \<open>GET /v1/note-vaults\<close> as the page reads it.\<close>

definition text_column :: "string \<Rightarrow> Row \<Rightarrow> string" where
  "text_column c r = (case row_get c r of JStr s \<Rightarrow> s | _ \<Rightarrow> [])"

definition vault_summary :: "Row \<Rightarrow> VaultSummary" where
  "vault_summary r = \<lparr>vs_vault_id = text_column ''vault_id'' r, vs_backup_status = text_column ''backup_status'' r, vs_recovery_policy_status = text_column ''recovery_policy_status'' r\<rparr>"

lemma text_column_is: "s \<noteq> [] \<Longrightarrow> text_column c r = s \<longleftrightarrow> is_text c s r"
  by (auto simp: text_column_def is_text_def split: json.splits)

lemma same_vault:
  assumes "store_wf db" "r \<in> set (st_tables db ''note_vaults'')" "r' \<in> set (st_tables db ''note_vaults'')" "is_text ''vault_id'' i r" "is_text ''vault_id'' i r'"
  shows "r' = r"
proof -
  let ?rows = "st_tables db ''note_vaults''"
  have "sorted_wrt (\<lambda>r r'. \<not> same_key [''vault_id''] r r') ?rows"
    using assms(1) unfolding store_wf_def keys_wf_def by (auto simp: schema_simps table_defs)
  moreover have "same_key [''vault_id''] x y" if "x \<in> {r, r'}" "y \<in> {r, r'}" for x y using that assms(4,5) by (auto simp: same_key_def is_text_def)
  moreover obtain m n where "m < length ?rows" "n < length ?rows" "?rows ! m = r" "?rows ! n = r'" using assms(2,3) by (metis in_set_conv_nth)
  ultimately show ?thesis by (metis (no_types, lifting) insert_iff linorder_neqE_nat sorted_wrt_nth_less)
qed

text \<open>C28. The page and the API agree on when a vault may receive deposits.  For every vault of the user's list, in any
  well-formed database, the page offers the deposit exactly when the gate of \<open>POST /v1/deposits/prepare\<close> lets it
  pass.\<close>
theorem ready_gates_agree:
  assumes wf: "store_wf db" and list: "listNoteVaults u db = (Inr vs, db')" and v: "v \<in> set vs" and i: "row_get ''vault_id'' v = JStr i"
  shows "\<exists>ready. vaultDepositReady u i db = (Inr (Some ready), db) \<and> (dr_ready ready \<longleftrightarrow> isDepositReady (Some (vault_summary v)))"
proof -
  let ?cs = "[''vault_id'', ''backup_status'', ''recovery_policy_status'', ''last_backup_verified_at'', ''last_restored_at'', ''created_at'', ''updated_at'']"
  let ?rows = "st_tables db ''note_vaults''"
  obtain r where r: "r \<in> set ?rows" "is_text ''user_id'' u r" "v = columns_of ?cs r"
    using list v by (auto simp: listNoteVaults_def sql_select_def bindIO_def returnIO_def newest_first_def)
  have same: "row_get c v = row_get c r" if "c \<in> set ?cs" for c
    using that unfolding r(3) by (auto simp: columns_of_def row_get_def)
  then have id: "is_text ''vault_id'' i r" using i by (simp add: is_text_def)
  have "r \<in> set (filter (own_vault u i) ?rows)" using r id by simp
  then obtain r' rest where hit: "filter (own_vault u i) ?rows = r' # rest" by (cases "filter (own_vault u i) ?rows") auto
  then have "r' \<in> set (filter (own_vault u i) ?rows)" by simp
  then have "r' \<in> set ?rows" "is_text ''vault_id'' i r'" by auto
  then have "r' = r" using same_vault [OF wf r(1) _ id] by blast
  then have "vaultDepositReady u i db = (Inr (Some (deposit_ready r)), db)"
    using hit by (simp add: vaultDepositReady_def sql_select_def bindIO_def returnIO_def first_row_def)
  moreover have "dr_ready (deposit_ready r) \<longleftrightarrow> isDepositReady (Some (vault_summary v))"
    by (simp add: deposit_ready_def isDepositReady_def vault_summary_def text_column_is is_text_def same)
  ultimately show ?thesis by blast
qed

definition vault_rows :: Store where
  "vault_rows = empty_store\<lparr>st_tables := (\<lambda>t.
    if t = ''users'' then [[(''id'', JStr ''u1''), (''created_at'', JNum 0), (''testnet_only'', JBool True), (''updated_at'', JNum 0)]]
    else if t = ''note_vaults'' then [[(''id'', JStr ''n1''), (''user_id'', JStr ''u1''), (''privy_user_id'', JStr ''d''), (''vault_id'', JStr ''v1''), (''envelope'', JObj []), (''ciphertext'', JStr ''c''),
      (''aad'', JObj []), (''created_at'', JNum 0), (''updated_at'', JNum 0), (''backup_status'', JStr ''verified''), (''recovery_policy_status'', JStr ''strong'')]]
    else [])\<rparr>"

lemma vault_rows_wf: "store_wf vault_rows"
  by (auto simp: store_wf_def vault_rows_def row_wf_def keys_wf_def nulls_ok_def refs_ok_def schema_simps table_defs row_get_def split: if_splits)

theorem ready_gates_agree_witness: "\<exists>ready. vaultDepositReady ''u1'' ''v1'' vault_rows = (Inr (Some ready), vault_rows) \<and> dr_ready ready"
proof -
  obtain v where v: "listNoteVaults ''u1'' vault_rows = (Inr [v], vault_rows)" "row_get ''vault_id'' v = JStr ''v1''" "isDepositReady (Some (vault_summary v))"
    by (simp add: listNoteVaults_def sql_select_def bindIO_def returnIO_def newest_first_def vault_rows_def is_text_def row_get_def columns_of_def isDepositReady_def vault_summary_def text_column_def)
  then show ?thesis using ready_gates_agree [OF vault_rows_wf v(1) _ v(2)] by simp
qed

section \<open>The HTTP client\<close>

text \<open>\<open>getAccessToken\<close>: no getter, or one that throws, means no token.\<close>

definition getAccessToken :: "('w, string option) io option \<Rightarrow> ('w, string option) io" where
  "getAccessToken getter = (case getter of None \<Rightarrow> returnIO None | Some g \<Rightarrow> catchIO g (\<lambda>_. returnIO None))"

definition newIdempotencyKey :: "string \<Rightarrow> string" where
  "newIdempotencyKey uuid = filter (\<lambda>c. c \<noteq> CHR ''-'') uuid"

record ApiOpts =
  ao_method :: string
  ao_body :: "json option"
  ao_idempotencyKey :: "string option"
  ao_auth :: bool

text \<open>What a failed request throws is an object, not an \<open>Error\<close>.\<close>

record ApiError =
  ae_status :: int
  ae_error :: json
  ae_details :: "json option"

definition safeJson :: "string \<Rightarrow> json" where
  "safeJson t = (case json_parse t of Inr j \<Rightarrow> j | Inl _ \<Rightarrow> JStr t)"

definition web_headers :: "string option \<Rightarrow> ApiOpts \<Rightarrow> (string \<times> string) list" where
  "web_headers token o' =
    (if ao_body o' \<noteq> None then [(''content-type'', ''application/json'')] else []) @
    (case token of Some t \<Rightarrow> if t = [] then [] else [(''authorization'', ''Bearer '' @ t)] | None \<Rightarrow> []) @
    (case ao_idempotencyKey o' of Some k \<Rightarrow> if k = [] then [] else [(''idempotency-key'', k)] | None \<Rightarrow> [])"

definition api_req :: "('w, 'z) SdkWorld_scheme \<Rightarrow> (int \<Rightarrow> string) \<Rightarrow> ('w, string option) io option \<Rightarrow> string \<Rightarrow> string \<Rightarrow> ApiOpts \<Rightarrow> ('w, ApiError + json) io" where
  "api_req S statusText getter base path o' =
    bindIO (if ao_auth o' then getAccessToken getter else returnIO None) (\<lambda>token.
    bindIO (sd_fetch S (ao_method o') (base @ path) (web_headers token o') (ao_body o')) (\<lambda>res.
    let data = (if hr_text res = [] then JNull else safeJson (hr_text res)) in
    returnIO (if \<not> http_ok res
      then Inl \<lparr>ae_status = hr_status res, ae_error = nullish_or (json_get ''error'' data) (JStr (statusText (hr_status res))), ae_details = json_get ''details'' data\<rparr>
      else Inr data)))"

definition api_get :: "('w, 'z) SdkWorld_scheme \<Rightarrow> (int \<Rightarrow> string) \<Rightarrow> ('w, string option) io option \<Rightarrow> string \<Rightarrow> string \<Rightarrow> bool \<Rightarrow> ('w, ApiError + json) io" where
  "api_get S st getter base path auth = api_req S st getter base path \<lparr>ao_method = ''GET'', ao_body = None, ao_idempotencyKey = None, ao_auth = auth\<rparr>"

definition api_post :: "('w, 'z) SdkWorld_scheme \<Rightarrow> (int \<Rightarrow> string) \<Rightarrow> ('w, string option) io option \<Rightarrow> string \<Rightarrow> string \<Rightarrow> json option \<Rightarrow> string option \<Rightarrow> ('w, ApiError + json) io" where
  "api_post S st getter base path body key = api_req S st getter base path \<lparr>ao_method = ''POST'', ao_body = body, ao_idempotencyKey = key, ao_auth = True\<rparr>"

text \<open>What the web client posts under an idempotency key, the routes read it back.\<close>

lemma web_post_arrives:
  "k \<noteq> [] \<Longrightarrow> rq_headers (request_of (web_headers token \<lparr>ao_method = ''POST'', ao_body = body, ao_idempotencyKey = Some k, ao_auth = True\<rparr>) ps body) ''idempotency-key'' = Some k"
  "t \<noteq> [] \<Longrightarrow> rq_headers (request_of (web_headers (Some t) o') ps body) ''authorization'' = Some (''Bearer '' @ t)"
  by (auto simp: request_of_def web_headers_def lower_def lower_char_def split: option.splits)

section \<open>The feed of pool events\<close>

definition event_id :: "json \<Rightarrow> string option" where
  "event_id e = (case json_get ''id'' e of Some (JStr i) \<Rightarrow> if i = [] then None else Some i | _ \<Rightarrow> None)"

definition event_query :: "int \<Rightarrow> string \<Rightarrow> int option \<Rightarrow> json" where
  "event_query now contract startLedger = JObj [(''jsonrpc'', JStr ''2.0''), (''id'', JNum now), (''method'', JStr ''getEvents''), (''params'', JObj (
    (case startLedger of Some l \<Rightarrow> if l = 0 then [] else [(''startLedger'', JNum l)] | None \<Rightarrow> []) @
    [(''filters'', JArr [JObj [(''type'', JStr ''contract''), (''contractIds'', JArr [JStr contract])]]), (''pagination'', JObj [(''limit'', JNum 100)])]))]"

definition event_answer :: "json \<Rightarrow> (json list \<times> int option) result" where
  "event_answer payload =
    (if \<not> json_falsy (json_get ''error'' payload)
     then Inl (Js_Error (case json_get ''error'' payload of Some e \<Rightarrow> js_string (nullish_or (json_get ''message'' e) (JStr ''Soroban event query failed'')) | None \<Rightarrow> []))
     else let result = (case json_get ''result'' payload of Some r \<Rightarrow> r | None \<Rightarrow> JNull) in
       Inr (case json_get ''events'' result of Some (JArr es) \<Rightarrow> es | _ \<Rightarrow> [], case json_get ''latestLedger'' result of Some (JNum l) \<Rightarrow> Some l | _ \<Rightarrow> None))"

definition getEvents_rpc :: "(json \<Rightarrow> ('w, HttpResponse) io) \<Rightarrow> ('w, int) io \<Rightarrow> string option \<Rightarrow> int option \<Rightarrow> ('w, json list \<times> int option) io" where
  "getEvents_rpc post now contract startLedger =
    (case contract of
       None \<Rightarrow> returnIO ([], None)
     | Some c \<Rightarrow>
         if c = [] then returnIO ([], None)
         else bindIO now (\<lambda>t. bindIO (post (event_query t c startLedger)) (\<lambda>response.
           if \<not> http_ok response then throwIO (Js_Error (''Soroban RPC returned HTTP '' @ bigint_to_string (hr_status response)))
           else bindIO (liftIO (hr_json response)) (\<lambda>payload. liftIO (event_answer payload)))))"

text \<open>An event without an id stays; of those with the same id the first one does.\<close>

fun dedup_events :: "string list \<Rightarrow> json list \<Rightarrow> json list" where
  "dedup_events seen [] = []"
| "dedup_events seen (e # es) =
    (case event_id e of
       None \<Rightarrow> e # dedup_events seen es
     | Some i \<Rightarrow> if i \<in> set seen then dedup_events seen es else e # dedup_events (i # seen) es)"

datatype feed_status = Feed_Connecting | Feed_Live | Feed_Reconnecting | Feed_Disabled

record Feed =
  fd_events :: "json list"
  fd_status :: feed_status
  fd_cursor :: "int option"
  fd_backoff :: int
  fd_disposed :: bool

text \<open>One poll with its answer.  The next one is due after \<open>fd_backoff\<close> milliseconds, unless the feed was disposed.\<close>

definition feed_poll :: "int \<Rightarrow> (json list \<times> int option) result \<Rightarrow> Feed \<Rightarrow> Feed" where
  "feed_poll intervalMs answer f =
    (case answer of
       Inr (es, latest) \<Rightarrow>
         if fd_disposed f then f
         else f\<lparr>fd_events := take 50 (dedup_events [] (es @ fd_events f)),
           fd_cursor := (case latest of Some l \<Rightarrow> if l = 0 then fd_cursor f else Some (l + 1) | None \<Rightarrow> fd_cursor f),
           fd_status := Feed_Live, fd_backoff := intervalMs\<rparr>
     | Inl _ \<Rightarrow> f\<lparr>fd_status := (if fd_disposed f then fd_status f else Feed_Reconnecting), fd_backoff := min (fd_backoff f * 2) 30000\<rparr>)"

definition new_feed :: "string option \<Rightarrow> int \<Rightarrow> Feed" where
  "new_feed contract intervalMs = \<lparr>fd_events = [], fd_status = (case contract of Some (c # cs) \<Rightarrow> Feed_Connecting | _ \<Rightarrow> Feed_Disabled), fd_cursor = None,
    fd_backoff = intervalMs, fd_disposed = False\<rparr>"

definition feed_ok :: "int \<Rightarrow> Feed \<Rightarrow> bool" where
  "feed_ok intervalMs f \<longleftrightarrow> length (fd_events f) \<le> 50 \<and> distinct (List.map_filter event_id (fd_events f)) \<and> 0 < fd_backoff f \<and> fd_backoff f \<le> max intervalMs 30000"

lemma map_filter_take: "\<exists>n. List.map_filter g (take k xs) = take n (List.map_filter g xs)"
proof -
  have "List.map_filter g xs = List.map_filter g (take k xs) @ List.map_filter g (drop k xs)"
    by (metis append_take_drop_id filter_append map_append map_filter_def)
  then show ?thesis by (metis append_eq_conv_conj)
qed

lemma dedup_distinct: "distinct (List.map_filter event_id (dedup_events seen es)) \<and> set (List.map_filter event_id (dedup_events seen es)) \<inter> set seen = {}"
  by (induction seen es rule: dedup_events.induct) (auto simp: List.map_filter_simps split: option.splits)

lemma feed_poll_ok: "0 < intervalMs \<Longrightarrow> feed_ok intervalMs f \<Longrightarrow> feed_ok intervalMs (feed_poll intervalMs answer f)"
proof (cases answer)
  case (Inr r)
  assume "0 < intervalMs" "feed_ok intervalMs f"
  moreover obtain n where "List.map_filter event_id (take 50 (dedup_events [] (fst r @ fd_events f))) = take n (List.map_filter event_id (dedup_events [] (fst r @ fd_events f)))"
    using map_filter_take by blast
  ultimately show ?thesis using Inr dedup_distinct [of "[]" "fst r @ fd_events f"] by (cases r) (auto simp: feed_poll_def feed_ok_def)
qed (auto simp: feed_poll_def feed_ok_def)

text \<open>Whatever the RPC node answers and however often it fails, the feed shows at most fifty events, none twice, and
  the pause between polls stays positive and bounded.\<close>

theorem feed_bounded:
  assumes "0 < intervalMs"
  shows "feed_ok intervalMs (fold (feed_poll intervalMs) answers (new_feed contract intervalMs))"
proof -
  have "feed_ok intervalMs (new_feed contract intervalMs)" using assms by (simp add: feed_ok_def new_feed_def List.map_filter_simps)
  then show ?thesis using assms by (induction answers arbitrary: contract rule: rev_induct) (simp_all add: feed_poll_ok)
qed

section \<open>Withdrawing with Freighter\<close>

definition TESTNET_PASSPHRASE :: string where "TESTNET_PASSPHRASE = ''Test SDF Network ; September 2015''"

text \<open>\<open>toUpperCase\<close>; the two letters of Latin-1 whose capital is not one character of it stay as they are.\<close>

definition upper_char :: "char \<Rightarrow> char" where
  "upper_char c = (let k = (of_char c :: nat) in
     if (97 \<le> k \<and> k \<le> 122) \<or> (224 \<le> k \<and> k \<le> 254 \<and> k \<noteq> 247) then char_of (k - 32) else c)"

definition upper :: "string \<Rightarrow> string" where
  "upper s = map upper_char s"

text \<open>An answer of the extension: its value, empty when absent, and its error.  With a number of milliseconds the call
  is raced against a timer, and \<open>None\<close> means that the timer won.  The node and the transaction builder of the Stellar
  library come with them.\<close>

record FreighterReply =
  fa_value :: string
  fa_error :: "string option"

record ('w) WithdrawWorld =
  ww_requestAccess :: "int \<Rightarrow> ('w, FreighterReply option) io"
  ww_getAddressWithin :: "int \<Rightarrow> ('w, FreighterReply option) io"
  ww_getNetworkDetails :: "int \<Rightarrow> ('w, string option) io"
  ww_getAddress :: "('w, FreighterReply) io"
  ww_signTransaction :: "string \<Rightarrow> string \<Rightarrow> string \<Rightarrow> ('w, FreighterReply) io"
  ww_buildWithdraw :: "string \<Rightarrow> string \<Rightarrow> bytes \<Rightarrow> bytes \<Rightarrow> ('w, string) io"
  ww_prepareTransaction :: "string \<Rightarrow> ('w, string) io"
  ww_fromXDR :: "string \<Rightarrow> string result"
  ww_sendTransaction :: "string \<Rightarrow> ('w, SendResult) io"
  ww_getTransaction :: "string \<Rightarrow> ('w, string) io"
  ww_sleep :: "int \<Rightarrow> ('w, unit) io"
  ww_onStatus :: "string \<Rightarrow> ('w, unit) io"

text \<open>The text of the message continues with advice for the user.\<close>

definition withTimeout :: "string \<Rightarrow> ('w, 'a option) io \<Rightarrow> ('w, 'a) io" where
  "withTimeout label call = bindIO call (\<lambda>r. case r of Some x \<Rightarrow> returnIO x | None \<Rightarrow> throwIO (Js_Error (''Freighter timed out ('' @ label @ '')'')))"

definition connectFreighter :: "'w WithdrawWorld \<Rightarrow> ('w, string) io" where
  "connectFreighter W =
    bindIO (withTimeout ''requestAccess'' (ww_requestAccess W 20000)) (\<lambda>access.
    case fa_error access of
      Some e \<Rightarrow> throwIO (Js_Error e)
    | None \<Rightarrow>
        bindIO (if fa_value access \<noteq> [] then returnIO (fa_value access)
                else bindIO (withTimeout ''getAddress'' (ww_getAddressWithin W 8000)) (\<lambda>r. returnIO (fa_value r))) (\<lambda>addr.
        if addr = [] then throwIO (Js_Error ''Freighter is locked - open it, unlock, and retry'')
        else bindIO (withTimeout ''getNetworkDetails'' (ww_getNetworkDetails W 8000)) (\<lambda>passphrase.
          if passphrase \<noteq> TESTNET_PASSPHRASE then throwIO (Js_Error ''Switch Freighter to the Testnet network'') else returnIO addr)))"

fun confirm_withdraw :: "'w WithdrawWorld \<Rightarrow> string \<Rightarrow> nat \<Rightarrow> ('w, string) io" where
  "confirm_withdraw W h 0 = throwIO (Js_Error (''withdraw tx not confirmed in time: '' @ h))"
| "confirm_withdraw W h (Suc n) =
    bindIO (ww_sleep W 2000) (\<lambda>_. bindIO (ww_getTransaction W h) (\<lambda>status.
    if status = ''SUCCESS'' then returnIO h
    else if status = ''FAILED'' then throwIO (Js_Error (''withdraw tx failed on-chain: '' @ h))
    else confirm_withdraw W h n))"

definition sent_json :: "SendResult \<Rightarrow> json" where
  "sent_json r = (if snd_errorResult r \<noteq> JNull then snd_errorResult r else JObj [(''status'', JStr (snd_status r)), (''hash'', JStr (snd_hash r))])"

definition freighterWithdraw :: "'w WithdrawWorld \<Rightarrow> string \<Rightarrow> string \<Rightarrow> string \<Rightarrow> string \<Rightarrow> ('w, string) io" where
  "freighterWithdraw W pool recipient proofHex publicHex =
    bindIO (ww_getAddress W) (\<lambda>r. let active = fa_value r in
    if active = [] then throwIO (Js_Error ''connect Freighter first'')
    else if upper active \<noteq> upper recipient
    then throwIO (Js_Error (''Freighter is on '' @ take 6 active @ ''...; switch to the withdraw account '' @ take 6 recipient @ ''... (GD23...)''))
    else
      bindIO (ww_onStatus W ''building withdraw transaction'') (\<lambda>_.
      bindIO (ww_buildWithdraw W pool recipient (hex_decode (strip0x proofHex)) (hex_decode (strip0x publicHex))) (\<lambda>tx.
      bindIO (ww_onStatus W ''simulating (footprint + auth)'') (\<lambda>_.
      bindIO (ww_prepareTransaction W tx) (\<lambda>prepared.
      bindIO (ww_onStatus W ''awaiting your signature in Freighter'') (\<lambda>_.
      bindIO (ww_signTransaction W prepared TESTNET_PASSPHRASE recipient) (\<lambda>sig.
      case fa_error sig of
        Some e \<Rightarrow> throwIO (Js_Error e)
      | None \<Rightarrow>
          bindIO (liftIO (ww_fromXDR W (fa_value sig))) (\<lambda>signedTx.
          bindIO (ww_onStatus W ''submitting to Stellar'') (\<lambda>_.
          bindIO (ww_sendTransaction W signedTx) (\<lambda>sent.
          if snd_status sent = ''ERROR'' then throwIO (Js_Error (''submit failed: '' @ stringify (sent_json sent)))
          else confirm_withdraw W (snd_hash sent) 30))))))))))"

lemma confirm_run: "confirm_withdraw W h n w = (Inr x, w') \<Longrightarrow> x = h \<and> (\<exists>v. ww_getTransaction W h v = (Inr ''SUCCESS'', w'))"
  by (induction n arbitrary: w) (auto simp: bindIO_Inr_iff split: if_splits)

text \<open>A withdrawal that the page reports as done is on the ledger.  When the function returns a hash, the active
  account of the extension is the recipient, the extension signed the prepared transaction for that account, the node
  took the signed transaction under this hash without an error, and the node's last word on it was success.\<close>
theorem freighterWithdraw_confirmed:
  assumes "freighterWithdraw W pool recipient proofHex publicHex w = (Inr h, w')"
  shows "\<exists>r w1 u1 tx u2 u3 prepared u4 w2 sig w3 signedTx w4 sent w5 w6.
    ww_getAddress W w = (Inr r, w1) \<and> fa_value r \<noteq> [] \<and> upper (fa_value r) = upper recipient \<and>
    ww_buildWithdraw W pool recipient (hex_decode (strip0x proofHex)) (hex_decode (strip0x publicHex)) u1 = (Inr tx, u2) \<and> ww_prepareTransaction W tx u3 = (Inr prepared, u4) \<and>
    ww_signTransaction W prepared TESTNET_PASSPHRASE recipient w2 = (Inr sig, w3) \<and> fa_error sig = None \<and>
    ww_fromXDR W (fa_value sig) = Inr signedTx \<and> ww_sendTransaction W signedTx w4 = (Inr sent, w5) \<and> snd_status sent \<noteq> ''ERROR'' \<and> snd_hash sent = h \<and>
    ww_getTransaction W h w6 = (Inr ''SUCCESS'', w')"
proof -
  obtain r w1 u1 tx u2 u3 prepared u4 w2 sig w3 signedTx w4 sent w5 where
    run: "ww_getAddress W w = (Inr r, w1)" "fa_value r \<noteq> []" "upper (fa_value r) = upper recipient"
      "ww_buildWithdraw W pool recipient (hex_decode (strip0x proofHex)) (hex_decode (strip0x publicHex)) u1 = (Inr tx, u2)" "ww_prepareTransaction W tx u3 = (Inr prepared, u4)"
      "ww_signTransaction W prepared TESTNET_PASSPHRASE recipient w2 = (Inr sig, w3)" "fa_error sig = None" "ww_fromXDR W (fa_value sig) = Inr signedTx"
      "ww_sendTransaction W signedTx w4 = (Inr sent, w5)" "snd_status sent \<noteq> ''ERROR''" and confirm: "confirm_withdraw W (snd_hash sent) 30 w5 = (Inr h, w')"
    using assms unfolding freighterWithdraw_def Let_def by (auto elim!: bind_runE simp: plain_runs dest!: sym [of "Inr _"] split: if_splits option.splits)
  show ?thesis using run confirm_run [OF confirm] by blast
qed

section \<open>The wallet of the web application\<close>

record ('w) WalletWorld =
  wf_isAllowed :: "('w, bool \<times> string option) io"
  wf_getAddress :: "('w, FreighterReply) io"
  wf_requestAccess :: "('w, FreighterReply) io"
  wf_signTransaction :: "string \<Rightarrow> string \<Rightarrow> ('w, FreighterReply) io"
  wf_account :: "string \<Rightarrow> ('w, HttpResponse) io"
  wf_buildPayment :: "string \<Rightarrow> string \<Rightarrow> string \<Rightarrow> ('w, string) io"
  wf_submit :: "string \<Rightarrow> ('w, string) io"

definition connectWallet :: "'w WalletWorld \<Rightarrow> ('w, string) io" where
  "connectWallet W =
    bindIO (wf_isAllowed W) (\<lambda>(allowed, err).
    case err of
      Some e \<Rightarrow> throwIO (Js_Error e)
    | None \<Rightarrow> bindIO (if allowed then wf_getAddress W else wf_requestAccess W) (\<lambda>r.
        case fa_error r of
          Some e \<Rightarrow> throwIO (Js_Error e)
        | None \<Rightarrow> if fa_value r = [] then throwIO (Js_Error ''Freighter did not return a wallet address'') else returnIO (fa_value r)))"

definition getWalletAddress :: "'w WalletWorld \<Rightarrow> ('w, string option) io" where
  "getWalletAddress W =
    catchIO (bindIO (wf_isAllowed W) (\<lambda>(allowed, err).
      if err \<noteq> None \<or> \<not> allowed then returnIO None
      else bindIO (wf_getAddress W) (\<lambda>r. returnIO (if fa_error r \<noteq> None \<or> fa_value r = [] then None else Some (fa_value r)))))
    (\<lambda>_. returnIO None)"

definition signTx :: "'w WalletWorld \<Rightarrow> string \<Rightarrow> ('w, string) io" where
  "signTx W xdr = bindIO (wf_signTransaction W xdr TESTNET_PASSPHRASE) (\<lambda>r. case fa_error r of Some e \<Rightarrow> throwIO (Js_Error e) | None \<Rightarrow> returnIO (fa_value r))"

definition native_balance :: "json \<Rightarrow> string" where
  "native_balance account = (case json_get ''balances'' account of
     Some (JArr bs) \<Rightarrow> (case find (\<lambda>b. json_get ''asset_type'' b = Some (JStr ''native'')) bs of
       Some b \<Rightarrow> (case json_get ''balance'' b of Some (JStr s) \<Rightarrow> s | _ \<Rightarrow> ''0'') | None \<Rightarrow> ''0'')
   | _ \<Rightarrow> ''0'')"

definition fetchXlmBalance :: "'w WalletWorld \<Rightarrow> string \<Rightarrow> ('w, string) io" where
  "fetchXlmBalance W address =
    bindIO (wf_account W address) (\<lambda>response.
    if hr_status response = 404 then returnIO ''0''
    else if \<not> http_ok response then throwIO (Js_Error (''Horizon balance request failed ('' @ bigint_to_string (hr_status response) @ '')''))
    else bindIO (liftIO (hr_json response)) (\<lambda>account. returnIO (native_balance account)))"

record WalletState =
  wl_address :: "string option"
  wl_balance :: "string option"
  wl_isConnected :: bool
  wl_isLoading :: bool
  wl_error :: "string option"

definition no_wallet :: WalletState where
  "no_wallet = \<lparr>wl_address = None, wl_balance = None, wl_isConnected = False, wl_isLoading = False, wl_error = None\<rparr>"

definition wallet_started :: "WalletState \<Rightarrow> WalletState" where
  "wallet_started s = s\<lparr>wl_isLoading := True, wl_error := None\<rparr>"

definition wallet_failed :: "string \<Rightarrow> WalletState \<Rightarrow> WalletState" where
  "wallet_failed message s = s\<lparr>wl_isLoading := False, wl_error := Some message\<rparr>"

definition connect_attempt :: "'w WalletWorld \<Rightarrow> ('w, string \<times> string) io" where
  "connect_attempt W = bindIO (connectWallet W) (\<lambda>address. bindIO (fetchXlmBalance W address) (\<lambda>balance. returnIO (address, balance)))"

definition send_attempt :: "'w WalletWorld \<Rightarrow> string \<Rightarrow> string \<Rightarrow> string \<Rightarrow> ('w, string) io" where
  "send_attempt W from to amount = bindIO (wf_buildPayment W from to amount) (\<lambda>xdr. bindIO (signTx W xdr) (wf_submit W))"

definition restore_attempt :: "'w WalletWorld \<Rightarrow> ('w, (string \<times> string) option) io" where
  "restore_attempt W = bindIO (getWalletAddress W) (\<lambda>a. case a of
     None \<Rightarrow> returnIO None | Some address \<Rightarrow> bindIO (fetchXlmBalance W address) (\<lambda>balance. returnIO (Some (address, balance))))"

text \<open>The asynchronous calls that are under way; their callbacks close over the address they started with.\<close>

datatype wallet_task = Connecting | Refreshing string | Sending string string string | Restoring

record WalletHook =
  wh_state :: WalletState
  wh_tasks :: "wallet_task list"
  wh_active :: bool

definition hook_start :: WalletHook where
  "hook_start = \<lparr>wh_state = no_wallet, wh_tasks = [Restoring], wh_active = True\<rparr>"

abbreviation begin_task :: "wallet_task \<Rightarrow> WalletHook \<Rightarrow> WalletHook" where
  "begin_task t h \<equiv> h\<lparr>wh_state := wallet_started (wh_state h), wh_tasks := t # wh_tasks h\<rparr>"

abbreviation end_task :: "wallet_task \<Rightarrow> (WalletState \<Rightarrow> WalletState) \<Rightarrow> WalletHook \<Rightarrow> WalletHook" where
  "end_task t f h \<equiv> h\<lparr>wh_state := f (wh_state h), wh_tasks := remove1 t (wh_tasks h)\<rparr>"

inductive wallet_step :: "'w WalletWorld \<Rightarrow> WalletHook \<Rightarrow> WalletHook \<Rightarrow> bool" for W where
  connect: "wallet_step W h (begin_task Connecting h)"
| connect_ok: "Connecting \<in> set (wh_tasks h) \<Longrightarrow> connect_attempt W w = (Inr (a, b), w') \<Longrightarrow>
    wallet_step W h (end_task Connecting (\<lambda>_. \<lparr>wl_address = Some a, wl_balance = Some b, wl_isConnected = True, wl_isLoading = False, wl_error = None\<rparr>) h)"
| connect_error: "Connecting \<in> set (wh_tasks h) \<Longrightarrow> connect_attempt W w = (Inl e, w') \<Longrightarrow> wallet_step W h (end_task Connecting (wallet_failed (err_message e)) h)"
| disconnect: "wallet_step W h (h\<lparr>wh_state := no_wallet\<rparr>)"
| refresh: "wl_address (wh_state h) = Some a \<Longrightarrow> wallet_step W h (begin_task (Refreshing a) h)"
| refresh_ok: "Refreshing a \<in> set (wh_tasks h) \<Longrightarrow> fetchXlmBalance W a w = (Inr b, w') \<Longrightarrow> wallet_step W h (end_task (Refreshing a) (\<lambda>s. s\<lparr>wl_balance := Some b, wl_isLoading := False\<rparr>) h)"
| refresh_error: "Refreshing a \<in> set (wh_tasks h) \<Longrightarrow> fetchXlmBalance W a w = (Inl e, w') \<Longrightarrow> wallet_step W h (end_task (Refreshing a) (wallet_failed (err_message e)) h)"
| send: "wl_address (wh_state h) = Some a \<Longrightarrow> wallet_step W h (begin_task (Sending a to amount) h)"
| send_ok: "Sending a to amount \<in> set (wh_tasks h) \<Longrightarrow> send_attempt W a to amount w = (Inr x, w') \<Longrightarrow> wallet_step W h (end_task (Sending a to amount) (\<lambda>s. s\<lparr>wl_isLoading := False\<rparr>) h)"
| send_error: "Sending a to amount \<in> set (wh_tasks h) \<Longrightarrow> send_attempt W a to amount w = (Inl e, w') \<Longrightarrow> wallet_step W h (end_task (Sending a to amount) (wallet_failed (err_message e)) h)"
| restored: "Restoring \<in> set (wh_tasks h) \<Longrightarrow> restore_attempt W w = (Inr (Some (a, b)), w') \<Longrightarrow> wh_active h \<Longrightarrow>
    wallet_step W h (end_task Restoring (\<lambda>s. s\<lparr>wl_address := Some a, wl_balance := Some b, wl_isConnected := True\<rparr>) h)"
| restored_none: "Restoring \<in> set (wh_tasks h) \<Longrightarrow> restore_attempt W w = (Inr r, w') \<Longrightarrow> r = None \<or> \<not> wh_active h \<Longrightarrow> wallet_step W h (end_task Restoring (\<lambda>s. s) h)"
| restore_error: "Restoring \<in> set (wh_tasks h) \<Longrightarrow> restore_attempt W w = (Inl e, w') \<Longrightarrow>
    wallet_step W h (end_task Restoring (\<lambda>s. if wh_active h then s\<lparr>wl_error := Some (err_message e)\<rparr> else s) h)"
| unmount: "wallet_step W h (h\<lparr>wh_active := False\<rparr>)"

inductive wallet_reach :: "'w WalletWorld \<Rightarrow> WalletHook \<Rightarrow> bool" for W where
  start: "wallet_reach W hook_start"
| step: "wallet_reach W h \<Longrightarrow> wallet_step W h h' \<Longrightarrow> wallet_reach W h'"

inductive_cases wallet_stepE: "wallet_step W h h'"

lemma attempts_address:
  "connect_attempt W w = (Inr (a, b), w') \<Longrightarrow> a \<noteq> []" "restore_attempt W w = (Inr (Some (a, b)), w') \<Longrightarrow> a \<noteq> []"
  by (auto simp: connect_attempt_def connectWallet_def restore_attempt_def getWalletAddress_def bindIO_def catchIO_def returnIO_def throwIO_def split: prod.splits sum.splits option.splits if_splits)

definition wallet_ok :: "WalletState \<Rightarrow> bool" where
  "wallet_ok s \<longleftrightarrow> (wl_isConnected s \<longleftrightarrow> wl_address s \<noteq> None) \<and> (wl_isConnected s \<longrightarrow> wl_balance s \<noteq> None) \<and> wl_address s \<noteq> Some []"

lemma wallet_step_ok: "wallet_step W h h' \<Longrightarrow> wallet_ok (wh_state h) \<Longrightarrow> wallet_ok (wh_state h')"
  by (cases rule: wallet_step.cases) (auto simp: wallet_ok_def wallet_started_def wallet_failed_def no_wallet_def dest: attempts_address split: if_splits)

text \<open>The wallet of the page is consistent under every interleaving of its callbacks: in every reachable state the
  page is connected exactly when it has an address, then it also shows a balance, and the address is never empty.\<close>
theorem wallet_hook_consistent:
  assumes "wallet_reach W h"
  shows "(wl_isConnected (wh_state h) \<longleftrightarrow> wl_address (wh_state h) \<noteq> None) \<and> (wl_isConnected (wh_state h) \<longrightarrow> wl_balance (wh_state h) \<noteq> None) \<and> wl_address (wh_state h) \<noteq> Some []"
proof -
  from assms have "wallet_ok (wh_state h)"
  proof induction
    case start
    show ?case by (simp add: hook_start_def no_wallet_def wallet_ok_def)
  next
    case (step h h')
    then show ?case by (blast intro: wallet_step_ok)
  qed
  then show ?thesis by (simp add: wallet_ok_def)
qed

text \<open>Disconnecting does not stop a connection under way: its callback connects the page again.\<close>

theorem disconnect_undone:
  assumes "connect_attempt W w = (Inr (a, b), w')"
  shows "\<exists>h1 h2. wallet_reach W h1 \<and> wl_isLoading (wh_state h1) \<and> wallet_step W h1 h2 \<and> \<not> wl_isConnected (wh_state h2) \<and>
    (\<exists>h3. wallet_step W h2 h3 \<and> wl_isConnected (wh_state h3) \<and> wl_address (wh_state h3) = Some a)"
proof -
  let ?h1 = "begin_task Connecting hook_start"
  let ?h2 = "?h1\<lparr>wh_state := no_wallet\<rparr>"
  have "wallet_reach W ?h1" by (rule wallet_reach.step [OF wallet_reach.start wallet_step.connect])
  moreover have "wl_isLoading (wh_state ?h1)" by (simp add: wallet_started_def)
  moreover have "wallet_step W ?h1 ?h2" by (rule wallet_step.disconnect)
  moreover have "wallet_step W ?h2 (end_task Connecting (\<lambda>_. \<lparr>wl_address = Some a, wl_balance = Some b, wl_isConnected = True, wl_isLoading = False, wl_error = None\<rparr>) ?h2)"
    by (rule wallet_step.connect_ok [OF _ assms]) simp
  ultimately show ?thesis by (intro exI [of _ ?h1] exI [of _ ?h2]) (auto simp: no_wallet_def)
qed

section \<open>The cache of encrypted envelopes\<close>

text \<open>The decrypted vault in memory and the object store of IndexedDB, whose key is the envelope's \<open>vault_id\<close>; storing an
  envelope without a text for a key throws.\<close>

record VaultCache =
  vc_memory :: "json option"
  vc_store :: "string \<rightharpoonup> json"

definition setMemoryVault :: "json option \<Rightarrow> VaultCache \<Rightarrow> VaultCache" where
  "setMemoryVault v c = c\<lparr>vc_memory := v\<rparr>"

definition cacheEnvelope :: "json \<Rightarrow> (VaultCache, unit) io" where
  "cacheEnvelope env c = (case json_get ''vault_id'' env of
     Some (JStr i) \<Rightarrow> (Inr (), c\<lparr>vc_store := (vc_store c)(i \<mapsto> env)\<rparr>)
   | _ \<Rightarrow> (Inl (Js_Error ''DataError''), c))"

definition loadCachedEnvelope :: "string \<Rightarrow> VaultCache \<Rightarrow> json option" where
  "loadCachedEnvelope vaultId c = vc_store c vaultId"

definition clearLocalCache :: "VaultCache \<Rightarrow> VaultCache" where
  "clearLocalCache c = c\<lparr>vc_memory := None, vc_store := Map.empty\<rparr>"

text \<open>The cache keeps a vault readable and nothing else.  An envelope that was created for a vault and cached is
  found again under the vault's id and opens under its master key to that vault, the plaintext gate accepts it, and
  clearing the cache leaves neither an envelope nor a vault in memory.\<close>
theorem cached_vault_opens:
  assumes "createVaultEnvelope W iv vault key user origin ws = Inr env" "aead_correct W" "nv_vault_id vault \<noteq> []" "user \<noteq> []"
    "\<forall>w \<in> set ws. \<not> mentions (set PLAINTEXT_FORBIDDEN) (vw_metadata w)"
  shows "\<exists>c'. cacheEnvelope env c = (Inr (), c') \<and> vc_memory c' = vc_memory c \<and>
    (\<exists>e. loadCachedEnvelope (nv_vault_id vault) c' = Some e \<and> validateVaultEnvelope e = Inr () \<and> decryptEnvelope W e key = Inr (vault_json vault)) \<and>
    vc_memory (clearLocalCache c') = None \<and> (\<forall>i. loadCachedEnvelope i (clearLocalCache c') = None)"
proof -
  have "json_get ''vault_id'' env = Some (JStr (nv_vault_id vault))"
    using assms(1) by (auto simp: createVaultEnvelope_def Let_def bindR_Inr_iff json_get_def split: prod.splits)
  then show ?thesis using validate_created(1,2) [OF assms] by (simp add: cacheEnvelope_def loadCachedEnvelope_def clearLocalCache_def)
qed

end
