(* ===== verification/Stellar_Accounts.thy ===== *)
theory Stellar_Accounts
  imports Cctp
begin

text \<open>
  The account helpers of \<open>packages/stellar-utils/src/index.ts\<close>: new wallets, the faucet of the test network, the existence
  of an account and trustlines.  The Stellar library and Horizon are the fields of one record; an error of Horizon is
  told from other errors by the response it carries.  \<open>sorobanInvoke\<close> of the same file is in \<open>Service_Io\<close>.
\<close>

section \<open>Percent encoding\<close>

text \<open>\<open>encodeURIComponent\<close>\<close>

definition uri_plain :: "char \<Rightarrow> bool" where
  "uri_plain c \<longleftrightarrow> (let k = (of_char c :: nat) in (48 \<le> k \<and> k \<le> 57) \<or> (65 \<le> k \<and> k \<le> 90) \<or> (97 \<le> k \<and> k \<le> 122)) \<or> c \<in> set ''-_.!~*()'' \<or> (of_char c :: nat) = 39"

definition percent :: "byte \<Rightarrow> string" where
  "percent b = CHR ''%'' # map (\<lambda>c. if (97 :: nat) \<le> of_char c then char_of (of_char c - 32 :: nat) else c) (hex_encode [b])"

definition encodeURIComponent :: "string \<Rightarrow> string" where
  "encodeURIComponent s = concat (map (\<lambda>c. if uri_plain c then [c] else concat (map percent (utf8_encode [c]))) s)"

section \<open>Accounts\<close>

record StellarWallet =
  sw_role :: string
  sw_publicKey :: string
  sw_secret :: string

datatype horizon_error = Horizon_Response js_error | Other_Error js_error

record ('w) Horizon =
  hz_randomKeypair :: "('w, string \<times> string) io"
  hz_fetch :: "string \<Rightarrow> ('w, HttpResponse) io"
  hz_loadAccount :: "string \<Rightarrow> string \<Rightarrow> 'w \<Rightarrow> (horizon_error + json) \<times> 'w"
  hz_fromSecret :: "string \<Rightarrow> string result"
  hz_changeTrust :: "json \<Rightarrow> string \<Rightarrow> string \<Rightarrow> string \<Rightarrow> string result"
  hz_submit :: "string \<Rightarrow> string \<Rightarrow> ('w, string) io"

definition friendbotUrl :: string where "friendbotUrl = ''https://friendbot.stellar.org''"
definition horizonUrl :: string where "horizonUrl = ''https://horizon-testnet.stellar.org''"

definition generateStellarWallet :: "'w Horizon \<Rightarrow> string \<Rightarrow> ('w, StellarWallet) io" where
  "generateStellarWallet H role = bindIO (hz_randomKeypair H) (\<lambda>(pk, secret). returnIO \<lparr>sw_role = role, sw_publicKey = pk, sw_secret = secret\<rparr>)"

definition fundWithFriendbot :: "'w Horizon \<Rightarrow> string \<Rightarrow> ('w, unit) io" where
  "fundWithFriendbot H publicKey =
    bindIO (hz_fetch H (friendbotUrl @ ''?addr='' @ encodeURIComponent publicKey)) (\<lambda>response.
    if 200 \<le> hr_status response \<and> hr_status response < 300 then returnIO ()
    else throwIO (Js_Error (''Friendbot failed for '' @ publicKey @ '': '' @ bigint_to_string (hr_status response) @ '' '' @ hr_text response)))"

definition error_of :: "horizon_error \<Rightarrow> js_error" where
  "error_of e = (case e of Horizon_Response x \<Rightarrow> x | Other_Error x \<Rightarrow> x)"

definition loadAccount :: "'w Horizon \<Rightarrow> string \<Rightarrow> string \<Rightarrow> ('w, json) io" where
  "loadAccount H url publicKey w = (case hz_loadAccount H url publicKey w of (Inr a, w') \<Rightarrow> (Inr a, w') | (Inl e, w') \<Rightarrow> (Inl (error_of e), w'))"

definition accountExists :: "'w Horizon \<Rightarrow> string \<Rightarrow> string \<Rightarrow> ('w, bool) io" where
  "accountExists H url publicKey w =
    (case hz_loadAccount H url publicKey w of
       (Inr _, w') \<Rightarrow> (Inr True, w')
     | (Inl (Horizon_Response _), w') \<Rightarrow> (Inr False, w')
     | (Inl (Other_Error e), w') \<Rightarrow> (Inl e, w'))"

definition bytesToCliHex :: "string \<Rightarrow> string" where
  "bytesToCliHex hex = (if starts_with hex ''0x'' then drop 2 hex else hex)"

text \<open>\<open>hz_changeTrust\<close> builds the transaction for an account, a code and an issuer and signs it with the secret.\<close>

definition createTrustline :: "'w Horizon \<Rightarrow> string \<Rightarrow> string \<Rightarrow> string \<Rightarrow> string \<Rightarrow> ('w, string) io" where
  "createTrustline H secret issuer code url =
    bindIO (liftIO (hz_fromSecret H secret)) (\<lambda>publicKey.
    bindIO (loadAccount H url publicKey) (\<lambda>account.
    bindIO (liftIO (hz_changeTrust H account code issuer secret)) (\<lambda>tx. hz_submit H url tx)))"

text \<open>An account exists exactly when it can be loaded, and no other account's absence is reported for an outage: an error
  without a response is passed on.  A trustline is never made for an account that does not exist.\<close>

lemma accountExists_exact:
  "accountExists H url pk w = (Inr True, w') \<longleftrightarrow> (\<exists>a. hz_loadAccount H url pk w = (Inr a, w'))"
  "accountExists H url pk w = (Inl e, w') \<longleftrightarrow> hz_loadAccount H url pk w = (Inl (Other_Error e), w')"
  by (auto simp: accountExists_def split: prod.splits sum.splits horizon_error.splits)

lemma trustline_needs_account:
  assumes "hz_fromSecret H secret = Inr pk" "accountExists H url pk w = (Inr False, w')"
  shows "\<exists>e. createTrustline H secret issuer code url w = (Inl e, w')"
  using assms by (auto simp: createTrustline_def loadAccount_def accountExists_def bindIO_def split: prod.splits sum.splits horizon_error.splits)

lemma friendbot_key: "list_all uri_plain s \<Longrightarrow> encodeURIComponent s = s"
  by (induction s) (simp_all add: encodeURIComponent_def)

end
