(* ===== verification/Spec2Isabelle.thy ===== *)
theory Spec2Isabelle
  imports Mpc_Server Mpc_Keys Relayer Prover Note_Vault Rfq Root_Auditor Web_Client Stellar_Accounts
begin

text \<open>
  LumixProtocol: the services and client libraries of a privacy-preserving settlement protocol between Arbitrum and
  Stellar.  A user burns USDC on Arbitrum, a relayer carries the transfer to a shielded pool on Stellar as a note, the
  user's intents to trade are split into shares for a committee that matches them without any node seeing an amount,
  matches are signed by the committee and settled on chain with zero-knowledge proofs, and notes live in vaults that
  are encrypted on the client.  This development models the TypeScript sources under \<open>packages/\<close>, \<open>apps/\<close> and the
  libraries of the two web applications, and proves what makes them correct.

  \<^bold>\<open>How a program becomes a theory.\<close>  A type or class is a \<open>record\<close>, a union or enumeration a \<open>datatype\<close>, a \<open>bigint\<close> or a
  number an \<open>int\<close>, a byte an \<open>8 word\<close>, a string a list of Latin-1 characters.  A function that may throw returns
  \<open>'a result\<close>, a sum with the error on the left; an \<open>async\<close> function is a computation \<open>('w, 'a) io\<close> over a state
  \<open>'w\<close> of the world, and \<open>bindIO\<close>, \<open>catchIO\<close> and \<open>throwIO\<close> are \<open>await\<close>, \<open>catch\<close> and \<open>throw\<close>.  A database is a record
  of tables and an SQL statement a function on it, with its unique keys, references, defaults and conflict clauses.
  What is not under \<open>src/\<close> is a parameter: tweetnacl, SHA-256, AES-GCM, WebCrypto, Poseidon, snarkjs and the circuit
  tools, zod, ethers, the Stellar library, the command line, the chains, clocks, random bytes (lists of draws) and
  other services (\<open>fetch\<close>).  Laws of such a parameter are hypotheses with a name (\<open>box_correct\<close>, \<open>sign_correct\<close>,
  \<open>aead_correct\<close>, \<open>clocked\<close>), and every property that has one has a witness with a concrete instance.

  \<^bold>\<open>Foundations.\<close>  \<open>Prelude\<close>: errors and results, radix and decimal text, hexadecimal, UTF-8, stable sorting, and the locale
  \<open>codec\<close> (decoding what was encoded gives it back, so encoding is injective), interpreted for hexadecimal, UTF-8 and
  decimal text here, for JSON in \<open>Json\<close>, for shares in \<open>Shamir\<close> and for base 64 in \<open>Note_Vault\<close>.  \<open>Json\<close>: values,
  \<open>JSON.stringify\<close>, and a parser with fuel from the length of the text, with the round trip.  \<open>Service_Io\<close>: the io
  computations, environments, and \<open>packages/stellar-utils\<close> (\<open>sorobanInvoke\<close> returns only with a transaction hash and
  never prints the secret); \<open>Stellar_Accounts\<close> has the rest of that package.

  \<^bold>\<open>The committee.\<close>  \<open>Shamir\<close> (\<open>packages/mpc-crypto/src/shamir.ts\<close>): the extended Euclidean loop terminates and inverts,
  rejection sampling is exactly uniform, any threshold of shares reconstructs the secret, and fewer say nothing about
  it.  \<open>Committee\<close> (\<open>committee.ts\<close>, \<open>types.ts\<close>): share encryption, the batch hash, signatures and the two-thirds quorum,
  with two verified batches sharing a third of the signers.  \<open>Matching\<close> and \<open>Mpc_Session\<close>
  (\<open>apps/mpc-committee/src/coordinator.ts\<close>, \<open>state.ts\<close>, \<open>remote-coordinator.ts\<close>, \<open>node-server.ts\<close>): netting and priced
  matching (no intent twice, opposite pairs, minimum amounts, maximality), the session store, and the rounds; the locale
  \<open>matching_round\<close> is their contract (an accepted round is signed, matches the reconstructed amounts and keeps no
  plaintext share), interpreted for the local and the remote coordinator and, in \<open>Mpc_Server\<close>, for the two servers.
  \<open>Mpc_Keys\<close> (\<open>keys.ts\<close>): keys stored encrypted survive a restart.  \<open>Settlement\<close> (\<open>persist.ts\<close>, \<open>settler.ts\<close>): every match
  of a stored batch becomes one relayer job.  \<open>Mpc_Server\<close> (\<open>server.ts\<close>, \<open>coordinator-server.ts\<close>): every route and the
  timer as steps of an \<open>inductive\<close> relation with an invariant of the session store.

  \<^bold>\<open>Jobs and chains.\<close>  \<open>Job_Queue\<close> (\<open>packages/queue\<close>): the table of jobs, its operations and its invariant over all
  reachable queues.  \<open>Worker\<close>: the locale \<open>worker\<close>, one turn of a worker over the queue, interpreted for the relayer and
  the prover.  \<open>Cctp\<close> (\<open>packages/cctp-utils\<close>, \<open>packages/cctp\<close>): routes, units, the validation of a burn, polling for the
  attestation (152 polls suffice for its twenty minutes at eight seconds each, given a clock that advances by the
  sleeps), and the inbound transfers.  \<open>Relayer\<close> (\<open>apps/relayer\<close>, \<open>packages/stellar-actions\<close>): every job type; a match
  is settled only with a quorum, note data, a proof and a transaction hash.  \<open>Proving\<close> (\<open>packages/proving\<close>,
  \<open>packages/assets\<close>) and \<open>Prover\<close> (\<open>apps/prover\<close>): witnesses, proofs and their local verification; compliance witnesses
  exist only for allowed and never for denied labels.  \<open>Root_Auditor\<close> (\<open>apps/root-auditor\<close>): the audit of the
  pool's root, reading at most fifty pages of events as the code does.

  \<^bold>\<open>Users, vaults and quotes.\<close>  \<open>Note_Vault\<close> (\<open>packages/note-vault\<close>): envelopes, the locale \<open>key_wrap\<close> of the recovery
  methods with its four interpretations, the gates against plaintext, and a recovery policy, ordered as a \<open>linorder\<close>, that further
  recovery methods never lower; \<open>Note_Crypto\<close> (\<open>packages/note-crypto\<close>): commitments
  bind their notes.  \<open>Rfq\<close> (\<open>packages/rfq\<close>, \<open>apps/solver\<close>): hashes bind intents, quotes and swap terms, and the solver's
  quotes.

  \<^bold>\<open>The API\<close> (\<open>apps/api\<close>, \<open>packages/auth-privy\<close>, \<open>db/migrations\<close>).  \<open>Api_Store\<close>: the tables with their columns, keys and
  references, every method of \<open>Store\<close>, and the locale \<open>store_invariant\<close> of predicates that statements keep, interpreted for
  well-formedness (\<open>wf\<close>), for proof jobs that stay queued (\<open>queued\<close>) and for findings that stay (\<open>kept\<close>).  \<open>Api_Auth\<close>:
  schemas, wallet login, sessions, Privy tokens.  \<open>Api_Routes\<close> and \<open>Api_Rfq\<close>: every route.  \<open>Api_Server\<close>: requests,
  findings of the auditor, workers and the clock as steps; in every reachable state the tables are well-formed, a
  critical finding blocks every spend, and no settlement request is granted.  \<open>Api_Security\<close>: what a login needs, the
  gates before a deposit, that the relayer accepts the burn a deposit was prepared for, and what a disclosure report
  discloses.

  \<^bold>\<open>Clients.\<close>  \<open>Sdk\<close> (\<open>packages/sdk\<close>): shares, routes, notes, wallets and the API client; its polling loops end within
  timeout divided by interval plus two rounds.  \<open>Sdk_Api\<close>: a router and the client's \<open>fetch\<close> answered by the API, and
  what the client then gets.  \<open>Web_Client\<close> (\<open>frontend/lib\<close>, \<open>apps/web/src\<close>): wallet lists, the readiness test that agrees
  with the API's gate, the event feed, the withdrawal signed in Freighter, and the wallet hook as a machine whose
  callbacks interleave.  This theory adds the paths from a client's route to the
  relayer and from a client's amount to a signed batch.

  \<^bold>\<open>Bounds and fuel.\<close>  Committees have at most 255 nodes where reconstruction is claimed: the differences of the share
  indices must be invertible modulo the prime, which is checked for all numbers up to 255 without a certificate of
  primality.  Fuel appears in the JSON parser (twice the length of the text and one, more
  than the nesting any text of that length can have), in
  the attestation poll and the client's trackers (proved to be enough under a clock that advances), in the confirmation
  loops with the code's own counts, and in the list of draws of rejection sampling, where a split returns once enough
  draws are accepted.  The settler's loop takes the list of times at which it wakes up.

  \<^bold>\<open>Not modelled.\<close>  React pages and interface components, adapters that only pass calls on to the browser, the end-to-end
  drivers of \<open>apps/cli\<close>, build and deployment scripts and tests: rendering, input and output, or calls of what is modelled.
  The Soroban contracts (Rust) and the circuits (Circom) are other languages; the services meet them as parameters.
  Starting servers, opening connections, logging, cross-origin headers and cookies of replies are left out of the
  routes.  Text outside Latin-1 and floating-point numbers are left out, as are the formats zod checks beyond those the
  routes rely on.
\<close>

section \<open>From a client's route to the relayer\<close>

text \<open>A deposit route of the client library is accepted by the relayer exactly when it is a fast one: the burn job of a
  prepared deposit expects the confirmed threshold, and a route at standard finality carries the finalized one.\<close>

lemma route_fields:
  assumes "buildDepositRoute K p = Inr r"
  shows "stellarContractToBytes32 K stellarCctpForwarder = Inr (dr_mintRecipient r)" "encodeStellarForwardHook K (dp_pool p) = Inr (dr_hookData r)"
    "dr_amount r = dp_amount6 p" "dr_tokenMessenger r = arbitrumSepoliaTokenMessenger" "dr_burnToken r = arbitrumSepoliaUsdc"
    "dr_minFinalityThreshold r = 1000 \<longleftrightarrow> opt_or (dp_fast p) True"
  using assms by (auto simp: buildDepositRoute_def bindR_Inr_iff Let_def split: if_splits)

theorem client_route_accepted:
  fixes A :: "'a Api" and R :: "'w RelayerWorld"
  assumes route: "buildDepositRoute (ap_strkey A) p = Inr r"
    and env: "rw_env R = ap_env A" "\<forall>k. ap_env A k \<noteq> Some []" "rw_strkey R = ap_strkey A"
      "ap_env A ''STELLAR_CCTP_FORWARDER_CONTRACT'' = None" "ap_env A ''ARB_SEPOLIA_USDC_ADDRESS'' = None" "ap_env A ''ARB_SEPOLIA_CCTP_TOKEN_MESSENGER'' = None"
      "dp_pool p = pool_of (ap_env A)"
    and submitted: "member ''burn_tx_hash'' b = JStr h" "member ''source_wallet_address'' b = JStr a"
    and chain: "rw_getTransaction R h w = (Inr (Some tx), w1)" "rw_getReceiptStatus R h w1 = (Inr (Some 1), w2)"
    and tx: "lower (tx_from tx) = lower a" "tx_to tx = Some (dr_tokenMessenger r)"
      "rw_parseTransaction R (tx_data tx) = Inr (Some (burn_call (dr_amount r) (dr_mintRecipient r) (dr_burnToken r) (dr_hookData r) (dr_maxFee r) (dr_minFinalityThreshold r)))"
  shows "(\<exists>v. fst (validate_user_burn R (dp_pool p)
      (burn_payload i b (stored_deposit db (prepared_deposit body i key user (dr_burnToken r) (dp_amount6 p)))) w) = Inr v) \<longleftrightarrow> opt_or (dp_fast p) True"
proof -
  note fields = route_fields [OF route]
  have same: "forwarder_of (ap_env A) = stellarCctpForwarder" "usdc_of (ap_env A) = dr_burnToken r" "messenger_of (ap_env A) = dr_tokenMessenger r"
    using env(4-6) by (simp_all add: forwarder_of_def usdc_of_def messenger_of_def env_default_def nonempty_env_def fields)
  show ?thesis
    using burn_validation [OF env(1-3) fields(1) [folded same(1)] fields(2) [unfolded env(7)] submitted chain tx(1) tx(2) [folded same(3)] tx(3) [unfolded fields(3), folded same(2)]]
    unfolding same(2) env(7) fields(6) .
qed

section \<open>From a client's amount to a signed batch\<close>

text \<open>The shares of the client library deliver the amount, as the committee's own split does.\<close>

lemma client_delivers:
  assumes "length ephs = length kps" "draws \<noteq> []"
    and "\<And>k. k < length kps \<Longrightarrow> box_correct N (fst (ephs ! k)) (ck_encryptionKeyPair (kps ! k)) (snd (ephs ! k))"
    and split: "splitAndEncryptAmount N draws ephs amount (map nodePublicInfo kps) 2 = Inr (mi_encryptedShares m)"
  shows "delivers N kps m (amount mod P)"
proof -
  define cs where "cs = modp amount # map sdk_randomFieldElement (take 1 draws)"
  have raw: "sdk_shamirSplit draws amount 2 (length kps) = sharesOf cs (length kps)" by (simp add: sdk_shamirSplit_def cs_def)
  obtain shares where "splitAndEncryptAmount N draws ephs amount (map nodePublicInfo kps) 2 = Inr shares" "length shares = length kps"
    and each: "\<And>i. i < length kps \<Longrightarrow> es_nodeId (shares ! i) = ck_nodeId (kps ! i) \<and>
      decryptShare N (shares ! i) (kp_secretKey (ck_encryptionKeyPair (kps ! i))) = Inr (encodeShare (sharesOf cs (length kps) ! i))"
    using encrypt_all_shares [where raw = "sharesOf cs (length kps)", OF assms(1) length_sharesOf assms(3)] unfolding sdk_split_same raw length_sharesOf by blast
  then have shares: "mi_encryptedShares m = shares" "length shares = length kps" using split by simp_all
  have "map es_nodeId shares = map ck_nodeId kps" using each shares(2) by (intro nth_equalityI) simp_all
  moreover have "evalShare cs 0 = amount mod P" by (simp add: evalShare_peval cs_def)
  ultimately show ?thesis
    unfolding delivers_def shares(1) using each by (intro conjI exI [of _ cs]) (simp_all add: cs_def del: sharesOf_nth)
qed

text \<open>C13. End to end.  At least two intents with distinct ids reach an empty committee of two to 255 nodes, each amount
  split and encrypted for the nodes either by the client library or by the committee's own code.  Then the matching
  round of their session succeeds, nets exactly the submitted amounts (modulo the field prime), and its batch passes
  the committee's verification.\<close>
theorem client_intents_matched_and_signed:
  assumes nodes: "distinct (map ck_nodeId kps)" "2 \<le> length kps" "length kps \<le> 255"
      "distinct (map (\<lambda>kp. ni_signingPubkey (nodePublicInfo kp)) kps)"
    and sign: "\<And>kp. kp \<in> set kps \<Longrightarrow> sign_correct N (ck_signingKeyPair kp)"
    and intents: "2 \<le> length tms" "distinct (map (mi_intentId \<circ> snd) tms)"
    and shares: "\<And>m. m \<in> snd ` set tms \<Longrightarrow> \<exists>draws ephs. length ephs = length kps \<and> draws \<noteq> [] \<and>
        (\<forall>k < length kps. box_correct N (fst (ephs ! k)) (ck_encryptionKeyPair (kps ! k)) (snd (ephs ! k))) \<and>
        (splitAndEncryptAmount N draws ephs (amount (mi_intentId m)) (map nodePublicInfo kps) 2 = Inr (mi_encryptedShares m) \<or>
         splitAmountForCommittee N draws ephs (bigint_to_string (amount (mi_intentId m))) (map nodePublicInfo kps) 2 = Some (Inr (mi_encryptedShares m)))"
  shows "\<exists>s b s'. getSession (''session-'' @ bigint_to_string (fst (hd tms))) (submit_all tms) = Some s \<and>
    runMatchingRound N batchId kps s = (Inr (Round_Ok b), s') \<and>
    sb_matches b = matchIntents (map (\<lambda>(t, m). \<lparr>rc_intentId = mi_intentId m, rc_amount7dp = amount (mi_intentId m) mod P,
      rc_inputAsset = mi_inputAsset m, rc_outputAsset = mi_outputAsset m\<rparr>) tms) \<and>
    verifySignedBatch N b (map nodePublicInfo kps) = Inr True"
proof (rule delivered_round_ok [OF nodes sign intents])
  fix m assume "m \<in> snd ` set tms"
  from shares [OF this] show "delivers N kps m (amount (mi_intentId m) mod P)"
    using client_delivers [of _ kps _ N "amount (mi_intentId m)" m]
      split_delivers [OF nodes(2) BigInt_bigint_to_string, of _ N _ "amount (mi_intentId m)" m] by blast
qed

definition client_ephs :: "(KeyPair \<times> bytes) list" where
  "client_ephs = replicate 3 (\<lparr>kp_publicKey = [1], kp_secretKey = [1]\<rparr>, [])"

definition client_intent :: "string \<Rightarrow> int \<Rightarrow> string \<Rightarrow> string \<Rightarrow> MpcIntent" where
  "client_intent i a inA outA = (demo_intent i ''7'' inA outA)\<lparr>mi_encryptedShares := projr (splitAndEncryptAmount plain_nacl [replicate 32 7] client_ephs a (map nodePublicInfo demo_kps) 2)\<rparr>"

definition client_submission :: "(int \<times> MpcIntent) list" where
  "client_submission = [(1, client_intent ''a'' 10 ''USDC'' ''EURC''), (2, client_intent ''b'' 7 ''EURC'' ''USDC'')]"

theorem client_intents_matched_and_signed_witness:
  "\<exists>s b s'. getSession ''session-1'' (submit_all client_submission) = Some s \<and> runMatchingRound plain_nacl ''b1'' demo_kps s = (Inr (Round_Ok b), s') \<and>
    verifySignedBatch plain_nacl b (map nodePublicInfo demo_kps) = Inr True"
proof -
  let ?amount = "\<lambda>i. if i = ''a'' then 10 else 7 :: int"
  have box: "box_correct plain_nacl (fst (client_ephs ! k)) (ck_encryptionKeyPair (demo_kps ! k)) (snd (client_ephs ! k))" if "k < length demo_kps" for k
    using that by (simp add: client_ephs_def)
  have len: "length client_ephs = length demo_kps" by (simp add: client_ephs_def)
  have split: "\<exists>shares. splitAndEncryptAmount plain_nacl [replicate 32 7] client_ephs a (map nodePublicInfo demo_kps) 2 = Inr shares" for a
    using encrypt_all_shares [where raw = "sdk_shamirSplit [replicate 32 7] a 2 (length demo_kps)", OF len _ box] unfolding sdk_split_same
    by (simp add: sdk_shamirSplit_def) blast
  have "\<exists>draws ephs. length ephs = length demo_kps \<and> draws \<noteq> [] \<and>
      (\<forall>k < length demo_kps. box_correct plain_nacl (fst (ephs ! k)) (ck_encryptionKeyPair (demo_kps ! k)) (snd (ephs ! k))) \<and>
      (splitAndEncryptAmount plain_nacl draws ephs (?amount (mi_intentId m)) (map nodePublicInfo demo_kps) 2 = Inr (mi_encryptedShares m) \<or>
       splitAmountForCommittee plain_nacl draws ephs (bigint_to_string (?amount (mi_intentId m))) (map nodePublicInfo demo_kps) 2 = Some (Inr (mi_encryptedShares m)))"
    if "m \<in> snd ` set client_submission" for m
  proof (intro exI [of _ "[replicate 32 7]"] exI [of _ client_ephs] conjI disjI1 allI impI)
    show "splitAndEncryptAmount plain_nacl [replicate 32 7] client_ephs (?amount (mi_intentId m)) (map nodePublicInfo demo_kps) 2 = Inr (mi_encryptedShares m)"
      using that split [of 10] split [of 7] by (auto simp: client_submission_def client_intent_def demo_intent_def)
  qed (simp_all add: len box)
  moreover have "''session-'' @ bigint_to_string (fst (hd client_submission)) = ''session-1''" by (simp add: client_submission_def) code_simp
  moreover have "distinct (map (mi_intentId \<circ> snd) client_submission)" by (simp add: client_submission_def client_intent_def demo_intent_def)
  ultimately show ?thesis
    using client_intents_matched_and_signed [OF demo_nodes(1) _ _ demo_nodes(2) demo_kps_sign, of client_submission ?amount "''b1''"]
    by (simp add: client_submission_def) blast
qed

end
